(* ===== verification/Prelude.thy ===== *)
theory Prelude
  imports Main "HOL-Library.List_Lexorder" "HOL-Library.Char_ord"
begin

text \<open>
  Shared vocabulary of the development: the collections of rewrite rules that the component
  theories add to, computations that may raise (a sum whose left side is the exception), the
  loops over lists that stop at the first exception, and generic facts on lists.  Python text is
  the type \<^typ>\<open>string\<close>: a list of characters with code points 0 to 255.
\<close>

named_theorems res_simps \<open>unfolding rules for computations that may raise\<close>
named_theorems dict_simps \<open>lookups and updates of Python dictionaries\<close>
named_theorems inv_intros \<open>preservation lemmas of the components' invariants\<close>

section \<open>Computations that may raise\<close>

type_synonym ('e, 'a) res = "'e + 'a"

abbreviation Raise :: "'e \<Rightarrow> ('e, 'a) res" where
  "Raise \<equiv> Inl"

abbreviation Ret :: "'a \<Rightarrow> ('e, 'a) res" where
  "Ret \<equiv> Inr"

definition rbind :: "('e, 'a) res \<Rightarrow> ('a \<Rightarrow> ('e, 'b) res) \<Rightarrow> ('e, 'b) res" where
  "rbind m f = (case m of Inl e \<Rightarrow> Inl e | Inr x \<Rightarrow> f x)"

text \<open>\<open>ensure b e\<close> is the statement \<^verbatim>\<open>if not b: raise e\<close>.\<close>

definition ensure :: "bool \<Rightarrow> 'e \<Rightarrow> ('e, unit) res" where
  "ensure b e = (if b then Inr () else Inl e)"

text \<open>A step that returns a value of its own after an effect that may raise.\<close>

definition returning :: "('e, unit) res \<times> 's \<Rightarrow> 'a \<Rightarrow> ('e, 'a) res \<times> 's" where
  "returning w x = (map_sum id (\<lambda>_. x) (fst w), snd w)"

lemma snd_returning [simp]: "snd (returning w x) = snd w"
  by (simp add: returning_def)

lemma fst_returning_Inr [simp]: "fst (returning w x) = Inr y \<longleftrightarrow> fst w = Inr () \<and> y = x"
  by (cases "fst w") (auto simp: returning_def)

lemma fst_returning_Inl [simp]: "fst (returning w x) = Inl e \<longleftrightarrow> fst w = Inl e"
  by (cases "fst w") (auto simp: returning_def)

fun mapM :: "('a \<Rightarrow> ('e, 'b) res) \<Rightarrow> 'a list \<Rightarrow> ('e, 'b list) res" where
  "mapM f [] = Inr []"
| "mapM f (x # xs) = rbind (f x) (\<lambda>y. rbind (mapM f xs) (\<lambda>ys. Inr (y # ys)))"

fun foldM :: "('s \<Rightarrow> 'a \<Rightarrow> ('e, 's) res) \<Rightarrow> 's \<Rightarrow> 'a list \<Rightarrow> ('e, 's) res" where
  "foldM f s [] = Inr s"
| "foldM f s (x # xs) = rbind (f s x) (\<lambda>s'. foldM f s' xs)"

lemma rbind_Inl [simp]: "rbind (Inl e) f = Inl e"
  by (simp add: rbind_def)

lemma rbind_Inr [simp]: "rbind (Inr x) f = f x"
  by (simp add: rbind_def)

lemma rbind_eq_Inr [res_simps]: "rbind m f = Inr y \<longleftrightarrow> (\<exists>x. m = Inr x \<and> f x = Inr y)"
  by (cases m) auto

lemma rbind_eq_Inl [res_simps]:
  "rbind m f = Inl e \<longleftrightarrow> m = Inl e \<or> (\<exists>x. m = Inr x \<and> f x = Inl e)"
  by (cases m) auto

lemma ensure_eq_Inr [simp]: "ensure b e = Inr u \<longleftrightarrow> b"
  by (simp add: ensure_def)

lemma ensure_eq_Inl [simp]: "ensure b e = Inl e' \<longleftrightarrow> \<not> b \<and> e' = e"
  by (auto simp: ensure_def)

lemma ensure_True [simp]: "ensure True e = Inr ()"
  by (simp add: ensure_def)

lemma ensure_False [simp]: "ensure False e = Inl e"
  by (simp add: ensure_def)

lemma mapM_Inr_length: "mapM f xs = Inr ys \<Longrightarrow> length ys = length xs"
  by (induction xs arbitrary: ys) (auto simp: res_simps)

lemma mapM_Inr_list_all2:
  "mapM f xs = Inr ys \<longleftrightarrow> list_all2 (\<lambda>x y. f x = Inr y) xs ys"
  by (induction xs arbitrary: ys) (auto simp: res_simps list_all2_Cons1)

lemma mapM_Inr_set: "mapM f xs = Inr ys \<Longrightarrow> y \<in> set ys \<Longrightarrow> \<exists>x\<in>set xs. f x = Inr y"
  by (induction xs arbitrary: ys) (auto simp: res_simps)

lemma mapM_map: "mapM f (map g xs) = mapM (\<lambda>x. f (g x)) xs"
  by (induction xs) auto

lemma mapM_cong: "(\<And>x. x \<in> set xs \<Longrightarrow> f x = g x) \<Longrightarrow> mapM f xs = mapM g xs"
  by (induction xs) auto

lemma mapM_Ret [simp]: "mapM (\<lambda>x. Inr (f x)) xs = Inr (map f xs)"
  by (induction xs) auto

lemma foldM_append: "foldM f s (xs @ ys) = rbind (foldM f s xs) (\<lambda>s'. foldM f s' ys)"
proof (induction xs arbitrary: s)
  case (Cons x xs)
  then show ?case by (cases "f s x") auto
qed simp

lemma foldM_invariant:
  assumes "foldM f s xs = Inr t" and "P s"
    and "\<And>s x s'. x \<in> set xs \<Longrightarrow> P s \<Longrightarrow> f s x = Inr s' \<Longrightarrow> P s'"
  shows "P t"
  using assms
proof (induction xs arbitrary: s)
  case (Cons x xs)
  then show ?case by (auto simp: res_simps)
qed simp

section \<open>Lists\<close>

text \<open>\<open>first_index p xs\<close> is the position of the first element that satisfies \<open>p\<close>.\<close>

fun first_index :: "('a \<Rightarrow> bool) \<Rightarrow> 'a list \<Rightarrow> nat option" where
  "first_index p [] = None"
| "first_index p (x # xs) = (if p x then Some 0 else map_option Suc (first_index p xs))"

lemma first_index_None: "first_index p xs = None \<longleftrightarrow> (\<forall>x\<in>set xs. \<not> p x)"
  by (induction xs) auto

lemma first_index_Some:
  "first_index p xs = Some i \<Longrightarrow> i < length xs \<and> p (xs ! i) \<and> (\<forall>j<i. \<not> p (xs ! j))"
  by (induction xs arbitrary: i) (auto simp: less_Suc_eq_0_disj split: if_splits)

text \<open>\<open>index_from n xs\<close> is Python's \<^verbatim>\<open>enumerate(xs, n)\<close>.\<close>

fun index_from :: "nat \<Rightarrow> 'a list \<Rightarrow> (nat \<times> 'a) list" where
  "index_from n [] = []"
| "index_from n (x # xs) = (n, x) # index_from (Suc n) xs"

lemma index_from_zip: "index_from n xs = zip [n..<n + length xs] xs"
proof (induction xs arbitrary: n)
  case (Cons x xs)
  then show ?case by (simp add: upt_conv_Cons del: upt_Suc)
qed simp

lemma length_index_from [simp]: "length (index_from n xs) = length xs"
  by (induction xs arbitrary: n) auto

lemma map_snd_index_from [simp]: "map snd (index_from n xs) = xs"
  by (induction xs arbitrary: n) auto

lemma index_from_nth: "i < length xs \<Longrightarrow> index_from n xs ! i = (n + i, xs ! i)"
  by (induction xs arbitrary: n i) (auto simp: nth_Cons' split: nat.splits)

lemma in_set_index_from:
  "(i, x) \<in> set (index_from n xs) \<longleftrightarrow> n \<le> i \<and> i < n + length xs \<and> xs ! (i - n) = x"
proof (induction xs arbitrary: n)
  case (Cons y ys)
  show ?case
  proof (cases "i = n")
    case False
    then show ?thesis
      by (auto simp: Cons.IH nth_Cons' Suc_diff_le le_Suc_eq)
  qed (use Cons.IH in auto)
qed simp

lemma index_from_append:
  "index_from n (xs @ ys) = index_from n xs @ index_from (n + length xs) ys"
  by (induction xs arbitrary: n) auto

text \<open>Python's \<^verbatim>\<open>sorted(set(xs))\<close>.\<close>

definition sorted_set :: "'a::linorder list \<Rightarrow> 'a list" where
  "sorted_set xs = sort (remdups xs)"

lemma set_sorted_set [simp]: "set (sorted_set xs) = set xs"
  by (simp add: sorted_set_def)

lemma sort_key_Nil_iff [simp]: "sort_key f xs = [] \<longleftrightarrow> xs = []"
  by (metis length_0_conv length_sort)

lemma sorted_set_Nil_iff [simp]: "sorted_set xs = [] \<longleftrightarrow> xs = []"
  by (simp add: sorted_set_def)

lemma sorted_sorted_set [simp]: "sorted (sorted_set xs)"
  by (simp add: sorted_set_def)

lemma distinct_sorted_set [simp]: "distinct (sorted_set xs)"
  by (simp add: sorted_set_def)

lemma concat_eq_Nil: "concat xss = [] \<longleftrightarrow> (\<forall>xs\<in>set xss. xs = [])"
  by (induction xss) auto

text \<open>One error message if a condition holds, none otherwise.\<close>

definition err_if :: "bool \<Rightarrow> string \<Rightarrow> string list" where
  "err_if b m = (if b then [m] else [])"

lemma err_if_Nil [simp]: "err_if b m = [] \<longleftrightarrow> \<not> b"
  by (simp add: err_if_def)

lemma err_if_False [simp]: "err_if False m = []"
  by (simp add: err_if_def)

lemma err_if_True [simp]: "err_if True m = [m]"
  by (simp add: err_if_def)

lemma in_set_err_if [simp]: "x \<in> set (err_if b m) \<longleftrightarrow> b \<and> x = m"
  by (auto simp: err_if_def)

end
