(* ===== verification/PyText.thy ===== *)
theory PyText
  imports Prelude
begin

text \<open>
  The text operations of Python that the modelled code uses, on strings whose code points lie
  between 0 and 255: stripping white space, case folding, joining and splitting, decimal
  printing, the parts of a POSIX path and the ISO-8601 instants of \<^verbatim>\<open>datetime\<close>.
\<close>

abbreviation code :: "char \<Rightarrow> nat" where
  "code \<equiv> of_char"

text \<open>\<^verbatim>\<open>str.isspace\<close> on one character, and \<^verbatim>\<open>str.strip\<close>.\<close>

definition is_space :: "char \<Rightarrow> bool" where
  "is_space c \<longleftrightarrow> (9 \<le> code c \<and> code c \<le> 13) \<or> (28 \<le> code c \<and> code c \<le> 32)
     \<or> code c = 133 \<or> code c = 160"

definition py_strip :: "string \<Rightarrow> string" where
  "py_strip s = rev (dropWhile is_space (rev (dropWhile is_space s)))"

definition lower_char :: "char \<Rightarrow> char" where
  "lower_char c =
     (if (65 \<le> code c \<and> code c \<le> 90) \<or> (192 \<le> code c \<and> code c \<le> 222 \<and> code c \<noteq> 215)
      then char_of (code c + 32) else c)"

definition py_lower :: "string \<Rightarrow> string" where
  "py_lower s = map lower_char s"

text \<open>\<^verbatim>\<open>s.replace("_", "-")\<close>.\<close>

definition dashed :: "string \<Rightarrow> string" where
  "dashed s = map (\<lambda>c. if c = CHR ''_'' then CHR ''-'' else c) s"

fun py_join :: "string \<Rightarrow> string list \<Rightarrow> string" where
  "py_join sep [] = []"
| "py_join sep [x] = x"
| "py_join sep (x # y # zs) = x @ sep @ py_join sep (y # zs)"

text \<open>\<^verbatim>\<open>s.split(c)\<close> for a one-character separator.\<close>

fun split_on :: "char \<Rightarrow> string \<Rightarrow> string list" where
  "split_on c [] = [[]]"
| "split_on c (x # xs) =
     (if x = c then [] # split_on c xs
      else (case split_on c xs of [] \<Rightarrow> [[x]] | y # ys \<Rightarrow> (x # y) # ys))"

lemma split_on_nonempty [simp]: "split_on c s \<noteq> []"
  by (induction s) (auto split: list.splits)

lemma split_on_no_sep: "p \<in> set (split_on c s) \<Longrightarrow> c \<notin> set p"
  by (induction s arbitrary: p) (auto split: list.splits if_splits)

section \<open>Decimal numbers\<close>

fun str_of_nat :: "nat \<Rightarrow> string" where
  "str_of_nat n =
     (if n < 10 then [char_of (48 + n)] else str_of_nat (n div 10) @ [char_of (48 + n mod 10)])"

declare str_of_nat.simps [simp del]

definition str_of_int :: "int \<Rightarrow> string" where
  "str_of_int i = (if i < 0 then CHR ''-'' # str_of_nat (nat (- i)) else str_of_nat (nat i))"

definition is_digit :: "char \<Rightarrow> bool" where
  "is_digit c \<longleftrightarrow> 48 \<le> code c \<and> code c \<le> 57"

definition digit_value :: "char \<Rightarrow> nat" where
  "digit_value c = code c - 48"

definition nat_of_digits :: "string \<Rightarrow> nat" where
  "nat_of_digits s = foldl (\<lambda>n c. 10 * n + digit_value c) 0 s"

lemma nat_of_digits_snoc: "nat_of_digits (s @ [c]) = 10 * nat_of_digits s + digit_value c"
  by (simp add: nat_of_digits_def)

lemma digit_char: "d < 10 \<Longrightarrow> is_digit (char_of (48 + d)) \<and> digit_value (char_of (48 + d)) = d"
  by (simp add: is_digit_def digit_value_def)

lemma str_of_nat_digits: "\<forall>c\<in>set (str_of_nat n). is_digit c"
proof (induction n rule: str_of_nat.induct)
  case (1 n)
  then show ?case
    by (cases "n < 10") (simp_all add: str_of_nat.simps [of n] digit_char)
qed

text \<open>Printing a number in decimal and reading the digits back.\<close>

lemma nat_of_digits_str_of_nat [simp]: "nat_of_digits (str_of_nat n) = n"
proof (induction n rule: str_of_nat.induct)
  case (1 n)
  show ?case
  proof (cases "n < 10")
    case True
    then show ?thesis
      by (simp add: str_of_nat.simps [of n] nat_of_digits_def digit_char)
  next
    case False
    with 1 show ?thesis
      by (simp add: str_of_nat.simps [of n] nat_of_digits_snoc digit_char)
  qed
qed

lemma str_of_nat_nonempty [simp]: "str_of_nat n \<noteq> []"
  by (subst str_of_nat.simps) simp

lemma str_of_nat_inject [simp]: "str_of_nat m = str_of_nat n \<longleftrightarrow> m = n"
  by (metis nat_of_digits_str_of_nat)

text \<open>Exactly \<open>k\<close> decimal digits, leading zeros kept.\<close>

fun pad_digits :: "nat \<Rightarrow> nat \<Rightarrow> string" where
  "pad_digits 0 n = []"
| "pad_digits (Suc k) n = pad_digits k (n div 10) @ [char_of (48 + n mod 10)]"

lemma length_pad_digits [simp]: "length (pad_digits k n) = k"
  by (induction k arbitrary: n) auto

lemma pad_digits_digits: "c \<in> set (pad_digits k n) \<Longrightarrow> is_digit c"
  by (induction k arbitrary: n) (auto simp: digit_char)

lemma nat_of_digits_pad: "n < 10 ^ k \<Longrightarrow> nat_of_digits (pad_digits k n) = n"
proof (induction k arbitrary: n)
  case (Suc k)
  then have "n div 10 < 10 ^ k" by auto
  with Suc.IH show ?case by (simp add: nat_of_digits_snoc digit_char)
qed (simp add: nat_of_digits_def)

section \<open>Hexadecimal digests\<close>

definition is_hex_char :: "char \<Rightarrow> bool" where
  "is_hex_char c \<longleftrightarrow> is_digit c \<or> (97 \<le> code c \<and> code c \<le> 102)"

text \<open>A lowercase SHA-256 digest: 64 characters of \<^verbatim>\<open>0123456789abcdef\<close>.\<close>

definition hex64 :: "string \<Rightarrow> bool" where
  "hex64 s \<longleftrightarrow> length s = 64 \<and> list_all is_hex_char s"

section \<open>POSIX paths\<close>

text \<open>
  \<^verbatim>\<open>PurePosixPath(s).parts\<close>: the components between slashes without the empty ones
  and the single dots, after a root part if the path is absolute (two leading slashes, and not
  three, make a root of their own).
\<close>

definition path_components :: "string \<Rightarrow> string list" where
  "path_components s = filter (\<lambda>p. p \<noteq> [] \<and> p \<noteq> ''.'') (split_on CHR ''/'' s)"

definition path_root :: "string \<Rightarrow> string" where
  "path_root s =
     (if take 2 s = ''//'' \<and> take 3 s \<noteq> ''///'' then ''//''
      else if take 1 s = ''/'' then ''/'' else [])"

definition path_parts :: "string \<Rightarrow> string list" where
  "path_parts s = (if path_root s = [] then [] else [path_root s]) @ path_components s"

definition path_is_absolute :: "string \<Rightarrow> bool" where
  "path_is_absolute s \<longleftrightarrow> path_root s \<noteq> []"

text \<open>\<^verbatim>\<open>PurePosixPath(s).as_posix()\<close>; the empty path prints as a dot.\<close>

definition path_as_posix :: "string \<Rightarrow> string" where
  "path_as_posix s =
     (if path_root s = [] \<and> path_components s = [] then ''.''
      else path_root s @ py_join ''/'' (path_components s))"

section \<open>Instants\<close>

text \<open>
  Instants are microseconds since 1970-01-01T00:00Z.  Civil dates follow the proleptic
  Gregorian calendar of \<^verbatim>\<open>datetime\<close>, with years 1 to 9999.
\<close>

definition is_leap :: "int \<Rightarrow> bool" where
  "is_leap y \<longleftrightarrow> 4 dvd y \<and> (\<not> 100 dvd y \<or> 400 dvd y)"

definition days_in_month :: "int \<Rightarrow> int \<Rightarrow> int" where
  "days_in_month y m =
     (if m = 2 then (if is_leap y then 29 else 28)
      else if m \<in> {4, 6, 9, 11} then 30 else 31)"

definition days_before_year :: "int \<Rightarrow> int" where
  "days_before_year y = 365 * (y - 1) + (y - 1) div 4 - (y - 1) div 100 + (y - 1) div 400"

definition days_before_month :: "int \<Rightarrow> int \<Rightarrow> int" where
  "days_before_month y m = sum_list (map (days_in_month y) [1..m - 1])"

text \<open>\<^verbatim>\<open>date.toordinal\<close>, counted from 1970-01-01.\<close>

definition epoch_day :: "int \<Rightarrow> int \<Rightarrow> int \<Rightarrow> int" where
  "epoch_day y m d = days_before_year y + days_before_month y m + d - 719163"

definition valid_date :: "int \<Rightarrow> int \<Rightarrow> int \<Rightarrow> bool" where
  "valid_date y m d \<longleftrightarrow> 1 \<le> y \<and> y \<le> 9999 \<and> 1 \<le> m \<and> m \<le> 12 \<and> 1 \<le> d \<and> d \<le> days_in_month y m"

definition int_of_digits :: "string \<Rightarrow> int option" where
  "int_of_digits s = (if s \<noteq> [] \<and> list_all is_digit s then Some (int (nat_of_digits s)) else None)"

text \<open>The offset of an instant in seconds: \<^verbatim>\<open>Z\<close>, \<^verbatim>\<open>+HH:MM\<close> or \<^verbatim>\<open>-HH:MM\<close>.\<close>

definition parse_offset :: "string \<Rightarrow> int option" where
  "parse_offset s =
     (if s = ''Z'' then Some 0
      else if length s = 6 \<and> (s ! 0 = CHR ''+'' \<or> s ! 0 = CHR ''-'') \<and> s ! 3 = CHR '':'' then
        (case (int_of_digits (take 2 (drop 1 s)), int_of_digits (drop 4 s)) of
           (Some h, Some mi) \<Rightarrow>
             (if h < 24 \<and> mi < 60
              then Some ((if s ! 0 = CHR ''-'' then -1 else 1) * (3600 * h + 60 * mi)) else None)
         | _ \<Rightarrow> None)
      else None)"

text \<open>
  \<^verbatim>\<open>datetime.fromisoformat\<close> on timezone-aware instants in the extended format with
  seconds, \<^verbatim>\<open>YYYY-MM-DDTHH:MM:SS\<close>, then optionally a dot and three or six digits,
  then the offset.  Other spellings the library accepts are not instants here.
\<close>

definition split_fraction :: "string \<Rightarrow> (int \<times> string) option" where
  "split_fraction s =
     (if take 1 s = ''.'' then
        (let ds = takeWhile is_digit (drop 1 s); rest = drop (Suc (length ds)) s
         in if length ds = 3 then Some (1000 * int (nat_of_digits ds), rest)
            else if length ds = 6 then Some (int (nat_of_digits ds), rest) else None)
      else Some (0, s))"

definition parse_instant :: "string \<Rightarrow> int option" where
  "parse_instant s =
     (if length s < 20 \<or> s ! 4 \<noteq> CHR ''-'' \<or> s ! 7 \<noteq> CHR ''-'' \<or> s ! 10 \<noteq> CHR ''T''
        \<or> s ! 13 \<noteq> CHR '':'' \<or> s ! 16 \<noteq> CHR '':'' then None
      else
        (case (int_of_digits (take 4 s), int_of_digits (take 2 (drop 5 s)),
               int_of_digits (take 2 (drop 8 s)), int_of_digits (take 2 (drop 11 s)),
               int_of_digits (take 2 (drop 14 s)), int_of_digits (take 2 (drop 17 s)),
               split_fraction (drop 19 s)) of
           (Some y, Some mo, Some d, Some h, Some mi, Some sec, Some (us, rest)) \<Rightarrow>
             (if valid_date y mo d \<and> h < 24 \<and> mi < 60 \<and> sec < 60 then
                (case parse_offset rest of
                   None \<Rightarrow> None
                 | Some off \<Rightarrow>
                     Some (1000000 * (86400 * epoch_day y mo d + 3600 * h + 60 * mi + sec - off) + us))
              else None)
         | _ \<Rightarrow> None))"

text \<open>
  \<^verbatim>\<open>date.fromordinal\<close>: the 400-year, 100-year, 4-year and one-year cycles of the
  calendar, then the month by counting days.
\<close>

fun month_day :: "nat \<Rightarrow> int \<Rightarrow> int \<Rightarrow> int \<Rightarrow> int \<times> int" where
  "month_day 0 y m n = (m, n + 1)"
| "month_day (Suc k) y m n =
     (if n < days_in_month y m then (m, n + 1) else month_day k y (m + 1) (n - days_in_month y m))"

definition civil_of_day :: "int \<Rightarrow> int \<times> int \<times> int" where
  "civil_of_day day =
     (let n = day + 719162; n400 = n div 146097; r400 = n mod 146097;
          n100 = r400 div 36524; r100 = r400 mod 36524;
          n4 = r100 div 1461; r4 = r100 mod 1461; n1 = r4 div 365; r1 = r4 mod 365;
          y = 400 * n400 + 100 * n100 + 4 * n4 + n1 + 1
      in if n1 = 4 \<or> n100 = 4 then (y - 1, 12, 31)
         else (case month_day 11 y 1 r1 of (m, d) \<Rightarrow> (y, m, d)))"

text \<open>\<^verbatim>\<open>isoformat(timespec="milliseconds")\<close> in UTC with a final \<^verbatim>\<open>Z\<close>.\<close>

definition format_instant :: "int \<Rightarrow> string" where
  "format_instant t =
     (let ms = t div 1000; day = ms div 86400000; r = ms mod 86400000
      in case civil_of_day day of (y, m, d) \<Rightarrow>
           pad_digits 4 (nat y) @ ''-'' @ pad_digits 2 (nat m) @ ''-'' @ pad_digits 2 (nat d)
           @ ''T'' @ pad_digits 2 (nat (r div 3600000))
           @ '':'' @ pad_digits 2 (nat (r div 60000 mod 60))
           @ '':'' @ pad_digits 2 (nat (r div 1000 mod 60))
           @ ''.'' @ pad_digits 3 (nat (r mod 1000)) @ ''Z'')"

text \<open>\<^verbatim>\<open>pattern in text\<close>, \<^verbatim>\<open>text.startswith(pattern)\<close> and
  \<^verbatim>\<open>text.removeprefix(pattern)\<close>.\<close>

fun contains_text :: "string \<Rightarrow> string \<Rightarrow> bool" where
  "contains_text pattern [] = (pattern = [])"
| "contains_text pattern (c # cs) = (take (length pattern) (c # cs) = pattern \<or> contains_text pattern cs)"

definition starts_with :: "string \<Rightarrow> string \<Rightarrow> bool" where
  "starts_with pattern s = (take (length pattern) s = pattern)"

definition remove_prefix :: "string \<Rightarrow> string \<Rightarrow> string" where
  "remove_prefix pattern s = (if starts_with pattern s then drop (length pattern) s else s)"

lemma starts_with_append [simp]: "starts_with p (p @ s)"
  by (simp add: starts_with_def)

lemma remove_prefix_append [simp]: "remove_prefix p (p @ s) = s"
  by (simp add: remove_prefix_def)

lemma strip_strip [simp]: "py_strip (py_strip s) = py_strip s"
proof -
  have drop: "dropWhile is_space (dropWhile is_space t) = dropWhile is_space t" for t
    by (induction t) auto
  have keep: "dropWhile is_space (rev (dropWhile is_space (rev t))) = rev (dropWhile is_space (rev t))"
    if "dropWhile is_space t = t" for t
  proof (cases "rev (dropWhile is_space (rev t))")
    case (Cons c cs)
    have "rev t = takeWhile is_space (rev t) @ dropWhile is_space (rev t)" by simp
    then have "t = rev (dropWhile is_space (rev t)) @ rev (takeWhile is_space (rev t))"
      by (metis rev_append rev_rev_ident)
    then have "t \<noteq> [] \<and> hd t = c" by (metis Cons append_Cons list.sel(1) list.distinct(1))
    then have "\<not> is_space c" using that by (metis dropWhile_eq_self_iff)
    then show ?thesis using Cons by simp
  next
    case Nil
    then show ?thesis by (simp only: dropWhile.simps)
  qed
  show ?thesis
    unfolding py_strip_def by (simp add: drop keep)
qed

text \<open>One instant evaluated, for the examples of the component theories.\<close>

definition example_instant :: string where
  "example_instant = ''2026-01-02T03:04:05.006Z''"

lemma parse_instant_example: "parse_instant example_instant = Some 1767323045006000"
  by code_simp

lemma format_instant_example: "format_instant 1767323045006000 = example_instant"
  by code_simp

end
