(* ===== verification/PyFloat.thy ===== *)
theory PyFloat
  imports PyText Complex_Main
begin

text \<open>
  Python's \<^verbatim>\<open>float\<close>: IEEE-754 double precision with round-half-even, a finite value
  being the rational number it stands for (the two zeros are one value here).  The theory gives
  the rounding function, its text form (\<^verbatim>\<open>float.__repr__\<close>, the shortest decimal that
  rounds back) and the 28-digit decimals of the \<^verbatim>\<open>decimal\<close> module.
\<close>

datatype pyfloat = FFin rat | FInf bool | FNan

section \<open>Rounding\<close>

definition round_half_even :: "rat \<Rightarrow> int" where
  "round_half_even q =
     (let f = \<lfloor>q\<rfloor>; r = q - of_int f
      in if r < 1 / 2 then f else if 1 / 2 < r then f + 1 else if even f then f else f + 1)"

lemma round_half_even_int [simp]: "round_half_even (of_int i) = i"
  by (simp add: round_half_even_def Let_def)

lemma round_half_even_mono: "p \<le> q \<Longrightarrow> round_half_even p \<le> round_half_even q"
proof -
  assume le: "p \<le> q"
  then have fl: "\<lfloor>p\<rfloor> \<le> \<lfloor>q\<rfloor>" by (rule floor_mono)
  have up: "round_half_even p \<le> \<lfloor>p\<rfloor> + 1" for p :: rat
    by (simp add: round_half_even_def Let_def)
  have low: "\<lfloor>q\<rfloor> \<le> round_half_even q" for q :: rat
    by (simp add: round_half_even_def Let_def)
  show ?thesis
  proof (cases "\<lfloor>p\<rfloor> = \<lfloor>q\<rfloor>")
    case True
    with le show ?thesis by (auto simp: round_half_even_def Let_def)
  next
    case False
    with fl up [of p] low [of q] show ?thesis by linarith
  qed
qed

text \<open>The greatest \<open>e\<close> with \<open>b ^ e \<le> n\<close>, for \<open>2 \<le> b\<close> and \<open>0 < n\<close>.\<close>

function ilog :: "nat \<Rightarrow> nat \<Rightarrow> nat" where
  "ilog b n = (if b < 2 \<or> n < b then 0 else Suc (ilog b (n div b)))"
  by pat_completeness auto
termination
  by (relation "measure snd") auto

declare ilog.simps [simp del]

definition rat_pow :: "rat \<Rightarrow> int \<Rightarrow> rat" where
  "rat_pow b e = (if 0 \<le> e then b ^ nat e else 1 / b ^ nat (- e))"

text \<open>The exponent of a positive rational: \<open>b ^ e \<le> q < b ^ (e + 1)\<close>.\<close>

definition rat_exponent :: "nat \<Rightarrow> rat \<Rightarrow> int" where
  "rat_exponent b q =
     (case quotient_of q of (p, d) \<Rightarrow>
        let e = int (ilog b (nat p)) - int (ilog b (nat d))
        in if rat_pow (of_nat b) e \<le> q then e else e - 1)"

text \<open>The double nearest to a rational, ties to even; subnormal below \<open>2 ^ (-1022)\<close>.\<close>

definition round_magnitude :: "rat \<Rightarrow> rat" where
  "round_magnitude q =
     (if q = 0 then 0
      else let e = max (rat_exponent 2 q - 52) (- 1074)
           in of_int (round_half_even (q / rat_pow 2 e)) * rat_pow 2 e)"

definition to_double :: "rat \<Rightarrow> pyfloat" where
  "to_double q =
     (let m = round_magnitude \<bar>q\<bar>
      in if 2 ^ 1024 \<le> m then FInf (q < 0) else FFin (if q < 0 then - m else m))"

lemma to_double_0 [simp]: "to_double 0 = FFin 0"
  by (simp add: to_double_def round_magnitude_def)

text \<open>\<^verbatim>\<open>float(i)\<close> of an integer raises \<^verbatim>\<open>OverflowError\<close> beyond the largest double.\<close>

definition float_of_int :: "int \<Rightarrow> rat option" where
  "float_of_int i = (case to_double (of_int i) of FFin q \<Rightarrow> Some q | _ \<Rightarrow> None)"

definition is_double :: "rat \<Rightarrow> bool" where
  "is_double q \<longleftrightarrow> to_double q = FFin q"

section \<open>Text of a float\<close>

text \<open>
  The shortest decimal digits that round back: a pair of the digits as a number and the place of
  the decimal point.  Seventeen digits always suffice.
\<close>

fun shortest_from :: "nat \<Rightarrow> nat \<Rightarrow> rat \<Rightarrow> int \<Rightarrow> nat \<times> int" where
  "shortest_from 0 n q k = (nat (round_half_even (q / rat_pow 10 (k - int n))), k)"
| "shortest_from (Suc fuel) n q k =
     (let m = round_half_even (q / rat_pow 10 (k - int n))
      in if round_magnitude (of_int m * rat_pow 10 (k - int n)) = q then (nat m, k + (if m = 10 ^ n then 1 else 0))
         else shortest_from fuel (Suc n) q k)"

definition shortest_digits :: "rat \<Rightarrow> string \<times> int" where
  "shortest_digits q =
     (case shortest_from 16 1 q (rat_exponent 10 q + 1) of (m, k) \<Rightarrow>
        (rev (dropWhile (\<lambda>c. c = CHR ''0'') (rev (str_of_nat m))), k))"

definition repr_positive :: "rat \<Rightarrow> string" where
  "repr_positive q =
     (case shortest_digits q of (ds, k) \<Rightarrow>
        if - 4 < k \<and> k \<le> 16 then
          (if k \<le> 0 then ''0.'' @ replicate (nat (- k)) CHR ''0'' @ ds
           else if int (length ds) \<le> k then ds @ replicate (nat k - length ds) CHR ''0'' @ ''.0''
           else take (nat k) ds @ ''.'' @ drop (nat k) ds)
        else
          take 1 ds @ (if length ds = 1 then [] else ''.'' @ drop 1 ds) @ ''e''
          @ (if k - 1 < 0 then ''-'' else ''+'')
          @ (if \<bar>k - 1\<bar> < 10 then ''0'' else []) @ str_of_nat (nat \<bar>k - 1\<bar>))"

fun float_repr :: "pyfloat \<Rightarrow> string" where
  "float_repr (FFin q) =
     (if q = 0 then ''0.0'' else if q < 0 then CHR ''-'' # repr_positive (- q) else repr_positive q)"
| "float_repr (FInf neg) = (if neg then ''-inf'' else ''inf'')"
| "float_repr FNan = ''nan''"

section \<open>Comparisons and arithmetic\<close>

text \<open>\<^verbatim>\<open>x < y\<close> and \<^verbatim>\<open>x <= y\<close> on floats: any comparison with a NaN is false.\<close>

fun float_le :: "pyfloat \<Rightarrow> pyfloat \<Rightarrow> bool" where
  "float_le (FFin p) (FFin q) = (p \<le> q)"
| "float_le FNan _ = False"
| "float_le _ FNan = False"
| "float_le (FInf neg) (FInf neg') = (neg \<or> \<not> neg')"
| "float_le (FInf neg) (FFin _) = neg"
| "float_le (FFin _) (FInf neg) = (\<not> neg)"

definition float_is_finite :: "pyfloat \<Rightarrow> bool" where
  "float_is_finite x = (case x of FFin _ \<Rightarrow> True | _ \<Rightarrow> False)"

definition finite_value :: "pyfloat \<Rightarrow> rat" where
  "finite_value x = (case x of FFin q \<Rightarrow> q | _ \<Rightarrow> 0)"

lemma finite_value_FFin [simp]: "finite_value (FFin q) = q"
  by (simp add: finite_value_def)

text \<open>Truncation towards zero: \<^verbatim>\<open>int(x)\<close> of a finite float.\<close>

definition truncate :: "rat \<Rightarrow> int" where
  "truncate q = (if q < 0 then \<lceil>q\<rceil> else \<lfloor>q\<rfloor>)"

text \<open>Addition rounds to the nearest double; opposite infinities give a NaN.\<close>

fun float_add :: "pyfloat \<Rightarrow> pyfloat \<Rightarrow> pyfloat" where
  "float_add (FFin p) (FFin q) = to_double (p + q)"
| "float_add FNan _ = FNan"
| "float_add _ FNan = FNan"
| "float_add (FInf a) (FInf b) = (if a = b then FInf a else FNan)"
| "float_add (FInf a) (FFin _) = FInf a"
| "float_add (FFin _) (FInf b) = FInf b"

section \<open>Decimals\<close>

text \<open>
  \<^verbatim>\<open>Decimal\<close> values are finite decimals; sums and products are rounded to 28 significant
  digits, half to even, as the default context of the module does.
\<close>

definition decimal_round :: "rat \<Rightarrow> rat" where
  "decimal_round q =
     (if q = 0 then 0
      else let e = rat_exponent 10 \<bar>q\<bar> - 27
           in of_int (round_half_even (q / rat_pow 10 e)) * rat_pow 10 e)"

definition decimal_of_float :: "rat \<Rightarrow> rat" where
  "decimal_of_float q =
     (if q = 0 then 0
      else case shortest_digits \<bar>q\<bar> of (ds, k) \<Rightarrow>
        (if q < 0 then - 1 else 1) * of_nat (nat_of_digits ds) * rat_pow 10 (k - int (length ds)))"

text \<open>
  Rounding to 28 digits leaves integers below \<open>10 ^ 28\<close> alone, keeps the sign, and is monotone.
\<close>

lemma ilog_spec: "2 \<le> b \<Longrightarrow> 0 < n \<Longrightarrow> b ^ ilog b n \<le> n \<and> n < b ^ Suc (ilog b n)"
proof (induction b n rule: ilog.induct)
  case (1 b n)
  show ?case
  proof (cases "n < b")
    case True
    then show ?thesis using 1 by (subst (1 2) ilog.simps) auto
  next
    case False
    then have "0 < n div b" using 1(2) by (simp add: div_greater_zero_iff)
    with 1 False have IH: "b ^ ilog b (n div b) \<le> n div b" "n div b < b * b ^ ilog b (n div b)" by auto
    have step: "ilog b n = Suc (ilog b (n div b))" using False 1(2) by (subst ilog.simps) auto
    have "b * b ^ ilog b (n div b) \<le> n"
      using IH(1) 1(2) by (metis less_eq_div_iff_mult_less_eq mult.commute not_gr_zero not_numeral_le_zero)
    moreover have "n < b * (b * b ^ ilog b (n div b))"
      using IH(2) 1(2) by (metis div_less_iff_less_mult mult.commute not_gr_zero not_numeral_le_zero)
    ultimately show ?thesis by (simp add: step)
  qed
qed

lemma rat_pow_power_int: "rat_pow b e = b powi e"
  by (simp add: rat_pow_def power_int_def divide_inverse power_inverse)

lemma rat_exponent_spec:
  assumes "2 \<le> b" and "0 < q"
  shows "rat_pow (of_nat b) (rat_exponent b q) \<le> q \<and> q < rat_pow (of_nat b) (rat_exponent b q + 1)"
proof -
  obtain p d where pd: "quotient_of q = (p, d)" by (metis surj_pair)
  have d: "0 < d" and q: "q = of_int p / of_int d" using quotient_of_denom_pos [OF pd] quotient_of_div [OF pd] by simp_all
  have p: "0 < p" using assms(2) d by (simp add: q zero_less_divide_iff)
  let ?a = "ilog b (nat p)" and ?c = "ilog b (nat d)" and ?B = "of_nat b :: rat"
  have B: "1 < ?B" using assms(1) by simp
  have a: "b ^ ?a \<le> nat p" "nat p < b ^ Suc ?a" and c: "b ^ ?c \<le> nat d" "nat d < b ^ Suc ?c"
    using ilog_spec [OF assms(1)] p d by simp_all
  have P: "?B ^ ?a \<le> of_int p" "of_int p < ?B ^ Suc ?a"
    using a p by (metis of_nat_le_iff of_nat_power of_nat_nat less_imp_le, metis of_nat_less_iff of_nat_power of_nat_nat less_imp_le)
  have D: "?B ^ ?c \<le> of_int d" "of_int d < ?B ^ Suc ?c"
    using c d by (metis of_nat_le_iff of_nat_power of_nat_nat less_imp_le, metis of_nat_less_iff of_nat_power of_nat_nat less_imp_le)
  have pos: "0 < ?B ^ k" for k using B by simp
  let ?e = "int ?a - int ?c"
  have pw: "?B powi (int m - int n) = ?B ^ m / ?B ^ n" for m n
    using B by (simp add: power_int_diff)
  have lower: "?B powi (?e - 1) < q"
  proof -
    have "?B powi (?e - 1) = ?B ^ ?a / ?B ^ Suc ?c" using pw [of ?a "Suc ?c"] by (simp add: algebra_simps)
    also have "\<dots> < of_int p / of_int d"
      using P(1) D(2) d pos [of ?a] pos [of "Suc ?c"]
      by (intro frac_less2) (auto intro: order.strict_trans2)
    finally show ?thesis by (simp add: q)
  qed
  have upper: "q < ?B powi (?e + 1)"
  proof -
    have "of_int p / of_int d < ?B ^ Suc ?a / ?B ^ ?c"
      using P(2) D(1) d p pos [of ?c] by (intro frac_less) auto
    also have "\<dots> = ?B powi (?e + 1)" using pw [of "Suc ?a" ?c] by (simp add: algebra_simps)
    finally show ?thesis by (simp add: q)
  qed
  show ?thesis
    using lower upper by (auto simp: rat_exponent_def pd Let_def rat_pow_power_int)
qed

lemma decimal_round_int: "\<bar>i\<bar> < 10 ^ 28 \<Longrightarrow> decimal_round (of_int i) = of_int i"
proof (cases "i = 0")
  case False
  assume lt: "\<bar>i\<bar> < 10 ^ 28"
  let ?q = "\<bar>of_int i :: rat\<bar>" and ?x = "rat_exponent 10 \<bar>of_int i :: rat\<bar>"
  have pos: "0 < ?q" using False by simp
  note spec = rat_exponent_spec [OF _ pos, of 10]
  have "10 powi ?x \<le> ?q" using spec by (simp add: rat_pow_power_int)
  also have "?q < 10 powi 28"
  proof -
    have "(of_int \<bar>i\<bar> :: rat) < of_int (10 ^ 28)" using lt by (simp only: of_int_less_iff)
    then show ?thesis by simp
  qed
  finally have "?x < 28"
    by (meson linorder_not_le one_le_numeral power_int_increasing)
  then have neg: "?x - 27 \<le> 0" by simp
  have k: "rat_pow 10 (?x - 27) = 1 / 10 ^ nat (27 - ?x)"
    using neg by (auto simp: rat_pow_def)
  have "of_int i / rat_pow 10 (?x - 27) = of_int (i * 10 ^ nat (27 - ?x))"
    by (simp add: k)
  then have "round_half_even (of_int i / rat_pow 10 (?x - 27)) = i * 10 ^ nat (27 - ?x)"
    by (simp only: round_half_even_int)
  then show ?thesis
    using False by (simp add: decimal_round_def Let_def k del: of_int_mult) simp
qed (simp add: decimal_round_def)

lemma decimal_round_bounds:
  assumes "0 < q"
  shows "rat_pow 10 (rat_exponent 10 q) \<le> decimal_round q \<and> decimal_round q \<le> rat_pow 10 (rat_exponent 10 q + 1)"
proof -
  let ?x = "rat_exponent 10 q"
  have spec: "10 powi ?x \<le> q" "q < 10 powi (?x + 1)"
    using rat_exponent_spec [OF _ assms, of 10] by (simp_all add: rat_pow_power_int)
  let ?u = "10 powi (?x - 27) :: rat"
  have u: "0 < ?u" by simp
  have split: "10 powi ?x = of_int (10 ^ 27) * ?u" "10 powi (?x + 1) = of_int (10 ^ 28) * ?u"
    using power_int_add [of "10 :: rat" 27 "?x - 27"] power_int_add [of "10 :: rat" 28 "?x - 27"] by (simp_all add: add.commute)
  have "of_int (10 ^ 27) \<le> q / ?u" "q / ?u \<le> of_int (10 ^ 28)"
    using spec u unfolding split by (simp_all add: field_simps)
  then have "10 ^ 27 \<le> round_half_even (q / ?u)" "round_half_even (q / ?u) \<le> 10 ^ 28"
    using round_half_even_mono round_half_even_int by metis+
  then have "of_int (10 ^ 27) \<le> (of_int (round_half_even (q / ?u)) :: rat)"
    "(of_int (round_half_even (q / ?u)) :: rat) \<le> of_int (10 ^ 28)"
    by (simp_all only: of_int_le_iff)
  moreover have "decimal_round q = of_int (round_half_even (q / ?u)) * ?u"
    using assms by (simp add: decimal_round_def Let_def rat_pow_power_int)
  ultimately show ?thesis
    unfolding rat_pow_power_int split using u by (simp only: mult_right_mono less_imp_le)
qed

lemma decimal_round_nonneg_iff: "0 \<le> decimal_round q \<longleftrightarrow> 0 \<le> q"
proof (cases "q < 0")
  case True
  then have pos: "0 < - q" by simp
  let ?x = "rat_exponent 10 (- q)"
  let ?u = "10 powi (?x - 27) :: rat"
  have u: "0 < ?u" by simp
  have "10 powi ?x \<le> - q" using rat_exponent_spec [OF _ pos, of 10] by (simp_all add: rat_pow_power_int)
  also have "10 powi ?x = of_int (10 ^ 27) * ?u"
    using power_int_add [of "10 :: rat" 27 "?x - 27"] by simp
  finally have "q / ?u \<le> of_int (- (10 ^ 27))" using u by (simp add: field_simps)
  then have "round_half_even (q / ?u) \<le> - (10 ^ 27)"
    using round_half_even_mono round_half_even_int by metis
  then have "round_half_even (q / ?u) < 0" by simp
  then have "decimal_round q < 0"
    using True u by (simp add: decimal_round_def Let_def rat_pow_power_int mult_neg_pos)
  then show ?thesis using True by simp
next
  case False
  have "0 \<le> decimal_round q"
  proof (cases "q = 0")
    case nonzero: False
    then have "rat_pow 10 (rat_exponent 10 q) \<le> decimal_round q" using decimal_round_bounds [of q] False by simp
    moreover have "0 < rat_pow 10 (rat_exponent 10 q)" by (simp add: rat_pow_power_int)
    ultimately show ?thesis by linarith
  qed (simp add: decimal_round_def)
  then show ?thesis using False by simp
qed

lemma decimal_round_mono:
  assumes "0 \<le> p" and "p \<le> q"
  shows "decimal_round p \<le> decimal_round q"
proof (cases "p = 0")
  case True
  then show ?thesis using assms decimal_round_nonneg_iff [of q] by (simp add: decimal_round_def)
next
  case False
  then have pos: "0 < p" "0 < q" using assms by simp_all
  let ?x = "rat_exponent 10 p" and ?y = "rat_exponent 10 q"
  have "(10 :: rat) powi ?x < 10 powi (?y + 1)"
    using rat_exponent_spec [OF _ pos(1), of 10] rat_exponent_spec [OF _ pos(2), of 10] assms(2)
    by (simp add: rat_pow_power_int)
  then have le: "?x \<le> ?y"
    by (metis linorder_not_less one_le_numeral power_int_increasing zless_add1_eq less_le_not_le order_less_imp_not_less)
  show ?thesis
  proof (cases "?x = ?y")
    case True
    have "p / 10 powi (?y - 27) \<le> q / 10 powi (?y - 27)" using assms(2) by (simp add: divide_right_mono)
    then have "round_half_even (p / 10 powi (?y - 27)) \<le> round_half_even (q / 10 powi (?y - 27))"
      by (rule round_half_even_mono)
    then show ?thesis
      using pos True by (simp add: decimal_round_def Let_def rat_pow_power_int)
  next
    case False
    then have "(10 :: rat) powi (?x + 1) \<le> 10 powi ?y" using le by (intro power_int_increasing) auto
    then show ?thesis
      using decimal_round_bounds [OF pos(1)] decimal_round_bounds [OF pos(2)] by (simp add: rat_pow_power_int)
  qed
qed

end
