(* ===== verification/PyValue.thy ===== *)
theory PyValue
  imports PyFloat
begin

text \<open>
  The values that the modelled code passes around: what \<^verbatim>\<open>json.loads\<close> can return, with
  dictionaries as association lists in insertion order.  The theory gives the dictionary
  operations, the type tests, Python's structural equality (which identifies \<^verbatim>\<open>True\<close> with
  \<^verbatim>\<open>1\<close> and \<^verbatim>\<open>1\<close> with \<^verbatim>\<open>1.0\<close> and ignores the order of keys) and truth value.
\<close>

datatype pyval =
    PNone
  | PBool bool
  | PInt int
  | PFloat pyfloat
  | PStr string
  | PList "pyval list"
  | PDict "(string \<times> pyval) list"

type_synonym pydict = "(string \<times> pyval) list"

section \<open>Dictionaries\<close>

text \<open>\<open>dget d k\<close> is \<^verbatim>\<open>d.get(k)\<close>; \<open>dget_or d k v\<close> is \<^verbatim>\<open>d.get(k, v)\<close>.\<close>

definition dget_or :: "pydict \<Rightarrow> string \<Rightarrow> pyval \<Rightarrow> pyval" where
  "dget_or d k v = (case map_of d k of None \<Rightarrow> v | Some x \<Rightarrow> x)"

definition dget :: "pydict \<Rightarrow> string \<Rightarrow> pyval" where
  "dget d k = dget_or d k PNone"

definition has_key :: "pydict \<Rightarrow> string \<Rightarrow> bool" where
  "has_key d k \<longleftrightarrow> k \<in> fst ` set d"

text \<open>\<^verbatim>\<open>d[k] = v\<close>: an existing key keeps its place, a new one goes to the end.\<close>

fun dset :: "pydict \<Rightarrow> string \<Rightarrow> pyval \<Rightarrow> pydict" where
  "dset [] k v = [(k, v)]"
| "dset ((k', v') # d) k v = (if k' = k then (k', v) # d else (k', v') # dset d k v)"

text \<open>\<^verbatim>\<open>d.pop(k, None)\<close> and \<^verbatim>\<open>{**d, **e}\<close>.\<close>

definition dpop :: "pydict \<Rightarrow> string \<Rightarrow> pydict" where
  "dpop d k = filter (\<lambda>(k', _). k' \<noteq> k) d"

definition dmerge :: "pydict \<Rightarrow> pydict \<Rightarrow> pydict" where
  "dmerge d e = foldl (\<lambda>acc (k, v). dset acc k v) d e"

definition dkeys :: "pydict \<Rightarrow> string list" where
  "dkeys d = map fst d"

definition wf_dict :: "pydict \<Rightarrow> bool" where
  "wf_dict d \<longleftrightarrow> distinct (dkeys d)"

lemma dget_Nil [simp]: "dget [] k = PNone"
  by (simp add: dget_def dget_or_def)

lemma dget_Cons [simp]: "dget ((k', v) # d) k = (if k = k' then v else dget d k)"
  by (simp add: dget_def dget_or_def)

lemma dget_or_Nil [simp]: "dget_or [] k v = v"
  by (simp add: dget_or_def)

lemma dget_or_Cons [simp]: "dget_or ((k', x) # d) k v = (if k = k' then x else dget_or d k v)"
  by (simp add: dget_or_def)

lemma dget_dset [simp]: "dget (dset d k v) k' = (if k' = k then v else dget d k')"
  by (induction d) auto

lemma dget_dpop [simp]: "dget (dpop d k) k' = (if k' = k then PNone else dget d k')"
  by (induction d) (auto simp: dpop_def)

lemma dkeys_Cons [simp]: "dkeys ((k, v) # d) = k # dkeys d"
  by (simp add: dkeys_def)

lemma dkeys_Nil [simp]: "dkeys [] = []"
  by (simp add: dkeys_def)

lemma set_dkeys_dset [simp]: "set (dkeys (dset d k v)) = insert k (set (dkeys d))"
  by (induction d) (auto split: if_splits)

lemma set_dkeys_dpop [simp]: "set (dkeys (dpop d k)) = set (dkeys d) - {k}"
  by (auto simp: dkeys_def dpop_def)

lemma dkeys_dset_in: "k \<in> set (dkeys d) \<Longrightarrow> dkeys (dset d k v) = dkeys d"
  by (induction d) auto

lemma wf_dict_dset [simp]: "wf_dict d \<Longrightarrow> wf_dict (dset d k v)"
  unfolding wf_dict_def
  by (induction d) auto

lemma wf_dict_dpop [simp]: "wf_dict d \<Longrightarrow> wf_dict (dpop d k)"
  unfolding wf_dict_def dpop_def dkeys_def
  by (induction d) auto

lemma wf_dict_dmerge [simp]: "wf_dict d \<Longrightarrow> wf_dict (dmerge d e)"
  unfolding dmerge_def
  by (induction e arbitrary: d) auto

lemma dmerge_Nil [simp]: "dmerge d [] = d"
  by (simp add: dmerge_def)

lemma dmerge_Cons [simp]: "dmerge d ((k, v) # e) = dmerge (dset d k v) e"
  by (simp add: dmerge_def)

lemma dset_dpop: "wf_dict d \<Longrightarrow> map_of (dset (dpop d k) k v) = (map_of d)(k \<mapsto> v)"
proof -
  have dset: "map_of (dset d k v) = (map_of d)(k \<mapsto> v)" for d
    by (induction d) auto
  have dpop: "map_of (dpop d k) = (map_of d)(k := None)"
    by (induction d) (auto simp: dpop_def)
  show ?thesis by (simp add: dset dpop)
qed

lemma has_key_iff: "has_key d k \<longleftrightarrow> k \<in> set (dkeys d)"
  by (simp add: has_key_def dkeys_def)

lemma dget_not_None_has_key: "dget d k \<noteq> PNone \<Longrightarrow> k \<in> set (dkeys d)"
  by (induction d) (auto split: if_splits)

lemma in_dkeys_iff_map_of: "k \<in> set (dkeys d) \<longleftrightarrow> map_of d k \<noteq> None"
  by (simp add: dkeys_def map_of_eq_None_iff)

lemma dpop_absent: "k \<notin> set (dkeys d) \<Longrightarrow> dpop d k = d"
  unfolding dpop_def dkeys_def
  by (intro filter_True) (auto simp: image_iff)

lemma dpop_dset [simp]: "dpop (dset d k v) k = dpop d k"
  by (induction d) (auto simp: dpop_def)

lemma dpop_dpop [simp]: "dpop (dpop d k) k = dpop d k"
  by (simp add: dpop_def)

lemma dpop_append: "dpop (d @ e) k = dpop d k @ dpop e k"
  by (simp add: dpop_def)

section \<open>Values\<close>

definition is_dict :: "pyval \<Rightarrow> bool" where
  "is_dict v = (case v of PDict _ \<Rightarrow> True | _ \<Rightarrow> False)"

definition is_list :: "pyval \<Rightarrow> bool" where
  "is_list v = (case v of PList _ \<Rightarrow> True | _ \<Rightarrow> False)"

definition is_str :: "pyval \<Rightarrow> bool" where
  "is_str v = (case v of PStr _ \<Rightarrow> True | _ \<Rightarrow> False)"

definition is_bool :: "pyval \<Rightarrow> bool" where
  "is_bool v = (case v of PBool _ \<Rightarrow> True | _ \<Rightarrow> False)"

text \<open>\<^verbatim>\<open>isinstance(v, int) and not isinstance(v, bool) and v >= minimum\<close>.\<close>

definition is_int_ge :: "int \<Rightarrow> pyval \<Rightarrow> bool" where
  "is_int_ge m v = (case v of PInt i \<Rightarrow> m \<le> i | _ \<Rightarrow> False)"

definition is_int :: "pyval \<Rightarrow> bool" where
  "is_int v = (case v of PInt _ \<Rightarrow> True | _ \<Rightarrow> False)"

text \<open>The contents of a value of the expected kind, and a neutral one otherwise.\<close>

definition the_dict :: "pyval \<Rightarrow> pydict" where
  "the_dict v = (case v of PDict d \<Rightarrow> d | _ \<Rightarrow> [])"

definition the_list :: "pyval \<Rightarrow> pyval list" where
  "the_list v = (case v of PList xs \<Rightarrow> xs | _ \<Rightarrow> [])"

definition the_str :: "pyval \<Rightarrow> string" where
  "the_str v = (case v of PStr s \<Rightarrow> s | _ \<Rightarrow> [])"

definition the_int :: "pyval \<Rightarrow> int" where
  "the_int v = (case v of PInt i \<Rightarrow> i | _ \<Rightarrow> 0)"

lemmas value_tests =
  is_dict_def is_list_def is_str_def is_bool_def is_int_def is_int_ge_def

lemma is_dict_iff: "is_dict v \<longleftrightarrow> (\<exists>d. v = PDict d)"
  by (cases v) (auto simp: is_dict_def)

lemma is_list_iff: "is_list v \<longleftrightarrow> (\<exists>xs. v = PList xs)"
  by (cases v) (auto simp: is_list_def)

lemma is_str_iff: "is_str v \<longleftrightarrow> (\<exists>s. v = PStr s)"
  by (cases v) (auto simp: is_str_def)

lemma is_bool_iff: "is_bool v \<longleftrightarrow> (\<exists>b. v = PBool b)"
  by (cases v) (auto simp: is_bool_def)

lemma is_int_iff: "is_int v \<longleftrightarrow> (\<exists>i. v = PInt i)"
  by (cases v) (auto simp: is_int_def)

lemma is_int_ge_iff: "is_int_ge m v \<longleftrightarrow> (\<exists>i. v = PInt i \<and> m \<le> i)"
  by (cases v) (auto simp: is_int_ge_def)

lemma value_test_simps [simp]:
  "\<not> is_dict PNone" "\<not> is_dict (PBool b)" "\<not> is_dict (PInt i)" "\<not> is_dict (PFloat x)" "\<not> is_dict (PStr s)" "\<not> is_dict (PList xs)" "is_dict (PDict d)"
  "\<not> is_list PNone" "\<not> is_list (PBool b)" "\<not> is_list (PInt i)" "\<not> is_list (PFloat x)" "\<not> is_list (PStr s)" "is_list (PList xs)" "\<not> is_list (PDict d)"
  "\<not> is_str PNone" "\<not> is_str (PBool b)" "\<not> is_str (PInt i)" "\<not> is_str (PFloat x)" "is_str (PStr s)" "\<not> is_str (PList xs)" "\<not> is_str (PDict d)"
  "\<not> is_bool PNone" "is_bool (PBool b)" "\<not> is_bool (PInt i)" "\<not> is_bool (PFloat x)" "\<not> is_bool (PStr s)" "\<not> is_bool (PList xs)" "\<not> is_bool (PDict d)"
  "\<not> is_int PNone" "\<not> is_int (PBool b)" "is_int (PInt i)" "\<not> is_int (PFloat x)" "\<not> is_int (PStr s)" "\<not> is_int (PList xs)" "\<not> is_int (PDict d)"
  "is_int_ge m (PInt i) = (m \<le> i)" "\<not> is_int_ge m PNone" "\<not> is_int_ge m (PBool b)" "\<not> is_int_ge m (PFloat x)" "\<not> is_int_ge m (PStr s)" "\<not> is_int_ge m (PList xs)" "\<not> is_int_ge m (PDict d)"
  by (simp_all add: value_tests)

lemma the_simps [simp]:
  "the_dict PNone = []" "the_dict (PBool b) = []" "the_dict (PInt i) = []" "the_dict (PFloat x) = []" "the_dict (PStr s) = []" "the_dict (PList xs) = []" "the_dict (PDict d) = d"
  "the_list PNone = []" "the_list (PBool b) = []" "the_list (PInt i) = []" "the_list (PFloat x) = []" "the_list (PStr s) = []" "the_list (PList xs) = xs" "the_list (PDict d) = []"
  "the_str PNone = []" "the_str (PBool b) = []" "the_str (PInt i) = []" "the_str (PFloat x) = []" "the_str (PStr s) = s" "the_str (PList xs) = []" "the_str (PDict d) = []"
  "the_int PNone = 0" "the_int (PBool b) = 0" "the_int (PInt i) = i" "the_int (PFloat x) = 0" "the_int (PStr s) = 0" "the_int (PList xs) = 0" "the_int (PDict d) = 0"
  by (simp_all add: the_dict_def the_list_def the_str_def the_int_def)

text \<open>\<^verbatim>\<open>isinstance(v, str) and bool(v.strip())\<close>.\<close>

definition nonempty_text :: "pyval \<Rightarrow> bool" where
  "nonempty_text v = (case v of PStr s \<Rightarrow> py_strip s \<noteq> [] | _ \<Rightarrow> False)"

lemma nonempty_text_iff: "nonempty_text v \<longleftrightarrow> (\<exists>s. v = PStr s \<and> py_strip s \<noteq> [])"
  by (cases v) (auto simp: nonempty_text_def)

text \<open>A lowercase hexadecimal digest of 64 characters.\<close>

definition is_sha256 :: "pyval \<Rightarrow> bool" where
  "is_sha256 v = (case v of PStr s \<Rightarrow> hex64 s | _ \<Rightarrow> False)"

lemma is_sha256_iff: "is_sha256 v \<longleftrightarrow> (\<exists>s. v = PStr s \<and> hex64 s)"
  by (cases v) (auto simp: is_sha256_def)

lemma is_sha256_simps [simp]: "is_sha256 (PStr s) = hex64 s" "\<not> is_sha256 PNone"
  by (simp_all add: is_sha256_def)

text \<open>
  Python's equality: both sides brought to a form in which booleans and integral floats are
  integers and the keys of dictionaries are sorted.  (A NaN is equal to itself here, as it is
  inside containers that hold the same object.)
\<close>

lemma size_in_dict [termination_simp]: "(k, v) \<in> set d \<Longrightarrow> size v < Suc (size_list (size_prod (\<lambda>_. 0) size) d)"
  by (induction d) auto

definition norm_float :: "pyfloat \<Rightarrow> pyval" where
  "norm_float x = (case x of FFin q \<Rightarrow> if of_int \<lfloor>q\<rfloor> = q then PInt \<lfloor>q\<rfloor> else PFloat x | _ \<Rightarrow> PFloat x)"

fun py_norm :: "pyval \<Rightarrow> pyval" where
  "py_norm (PBool b) = PInt (if b then 1 else 0)"
| "py_norm (PFloat x) = norm_float x"
| "py_norm (PList xs) = PList (map py_norm xs)"
| "py_norm (PDict d) = PDict (sort_key fst (map (\<lambda>(k, v). (k, py_norm v)) d))"
| "py_norm v = v"

definition py_eq :: "pyval \<Rightarrow> pyval \<Rightarrow> bool" where
  "py_eq v w \<longleftrightarrow> py_norm v = py_norm w"

lemma py_eq_refl [simp]: "py_eq v v"
  by (simp add: py_eq_def)

lemma py_eq_sym: "py_eq v w \<Longrightarrow> py_eq w v"
  by (simp add: py_eq_def)

lemma py_eq_trans: "py_eq u v \<Longrightarrow> py_eq v w \<Longrightarrow> py_eq u w"
  by (simp add: py_eq_def)

lemma norm_float_cases: "(\<exists>i. norm_float x = PInt i) \<or> norm_float x = PFloat x"
  by (cases x) (simp_all add: norm_float_def)

lemma norm_float_not [simp]:
  "norm_float x \<noteq> PStr s" "norm_float x \<noteq> PNone" "norm_float x \<noteq> PList xs" "norm_float x \<noteq> PDict d"
  "PStr s \<noteq> norm_float x" "PNone \<noteq> norm_float x" "PList xs \<noteq> norm_float x" "PDict d \<noteq> norm_float x"
  using norm_float_cases [of x] by auto

text \<open>Strings, absent values and integers compare as themselves.\<close>

lemma py_eq_str [simp]: "py_eq v (PStr s) \<longleftrightarrow> v = PStr s" "py_eq (PStr s) v \<longleftrightarrow> v = PStr s"
  by (cases v; auto simp: py_eq_def)+

lemma py_eq_none [simp]: "py_eq v PNone \<longleftrightarrow> v = PNone" "py_eq PNone v \<longleftrightarrow> v = PNone"
  by (cases v; auto simp: py_eq_def)+

lemma py_eq_int [simp]: "py_eq (PInt i) (PInt j) \<longleftrightarrow> i = j"
  by (simp add: py_eq_def)

lemma py_eq_int_is_int: "is_int v \<Longrightarrow> py_eq v (PInt i) \<longleftrightarrow> v = PInt i"
  by (auto simp: is_int_iff)

lemma py_eq_list:
  "py_eq (PList xs) (PList ys) \<longleftrightarrow> length xs = length ys \<and> list_all2 py_eq xs ys"
  by (auto simp: py_eq_def list_all2_conv_all_nth list_eq_iff_nth_eq)

text \<open>Equal dictionaries have equal values under every key.\<close>

lemma map_of_filter: "map_of xs k = (case filter (\<lambda>p. fst p = k) xs of [] \<Rightarrow> None | p # _ \<Rightarrow> Some (snd p))"
  by (induction xs) auto

lemma map_of_sort_key: "map_of (sort_key fst xs) k = map_of xs k"
  by (simp add: map_of_filter sort_key_stable)

lemma map_of_py_norm: "map_of (map (\<lambda>(k, v). (k, py_norm v)) d) k = map_option py_norm (map_of d k)"
  by (induction d) auto

lemma py_eq_dict_map_of:
  assumes "py_eq (PDict d) (PDict e)"
  shows "map_option py_norm (map_of d k) = map_option py_norm (map_of e k)"
proof -
  have "sort_key fst (map (\<lambda>(k, v). (k, py_norm v)) d) = sort_key fst (map (\<lambda>(k, v). (k, py_norm v)) e)"
    using assms by (simp add: py_eq_def)
  then have "map_of (map (\<lambda>(k, v). (k, py_norm v)) d) k = map_of (map (\<lambda>(k, v). (k, py_norm v)) e) k"
    by (metis map_of_sort_key)
  then show ?thesis by (simp only: map_of_py_norm)
qed

lemma py_eq_dict_dget: "py_eq (PDict d) (PDict e) \<Longrightarrow> py_eq (dget d k) (dget e k)"
  using py_eq_dict_map_of [of d e k]
  by (auto simp: dget_def dget_or_def py_eq_def split: option.splits)

lemma py_eq_dict_keys: "py_eq (PDict d) (PDict e) \<Longrightarrow> set (dkeys d) = set (dkeys e)"
  using py_eq_dict_map_of [of d e]
  by (metis (no_types, lifting) in_dkeys_iff_map_of option.map_disc_iff set_eqI)

lemma py_eq_dictD: "py_eq v (PDict e) \<Longrightarrow> \<exists>d. v = PDict d"
  by (cases v) (auto simp: py_eq_def)

text \<open>\<^verbatim>\<open>v in (x, y, ...)\<close> for a collection of strings.\<close>

definition in_strs :: "pyval \<Rightarrow> string list \<Rightarrow> bool" where
  "in_strs v xs = (case v of PStr s \<Rightarrow> s \<in> set xs | _ \<Rightarrow> False)"

lemma in_strs_simps [simp]: "in_strs (PStr s) xs = (s \<in> set xs)" "\<not> in_strs PNone xs"
  by (simp_all add: in_strs_def)

lemma in_strs_iff: "in_strs v xs \<longleftrightarrow> (\<exists>s\<in>set xs. v = PStr s)"
  by (cases v) (auto simp: in_strs_def)

text \<open>Truth value: \<^verbatim>\<open>bool(v)\<close>.\<close>

definition py_truth :: "pyval \<Rightarrow> bool" where
  "py_truth v = (case v of PNone \<Rightarrow> False | PBool b \<Rightarrow> b | PInt i \<Rightarrow> i \<noteq> 0 | PFloat x \<Rightarrow> x \<noteq> FFin 0
     | PStr s \<Rightarrow> s \<noteq> [] | PList xs \<Rightarrow> xs \<noteq> [] | PDict d \<Rightarrow> d \<noteq> [])"

lemma py_truth_simps [simp]:
  "\<not> py_truth PNone" "py_truth (PBool b) = b" "py_truth (PInt i) = (i \<noteq> 0)"
  "py_truth (PStr s) = (s \<noteq> [])" "py_truth (PList xs) = (xs \<noteq> [])" "py_truth (PDict d) = (d \<noteq> [])"
  by (simp_all add: py_truth_def)

text \<open>
  \<^verbatim>\<open>v + w\<close> of two numbers, where booleans count as integers; \<open>None\<close> for any other
  operands, and for an integer too large to become a float.
\<close>

definition as_int :: "pyval \<Rightarrow> int option" where
  "as_int v = (case v of PInt i \<Rightarrow> Some i | PBool b \<Rightarrow> Some (if b then 1 else 0) | _ \<Rightarrow> None)"

definition as_float :: "pyval \<Rightarrow> pyfloat option" where
  "as_float v = (case v of PFloat x \<Rightarrow> Some x
     | _ \<Rightarrow> (case as_int v of None \<Rightarrow> None | Some i \<Rightarrow> map_option FFin (float_of_int i)))"

definition py_add :: "pyval \<Rightarrow> pyval \<Rightarrow> pyval option" where
  "py_add v w =
     (case (as_int v, as_int w) of
        (Some i, Some j) \<Rightarrow> Some (PInt (i + j))
      | _ \<Rightarrow> (case (as_float v, as_float w) of (Some x, Some y) \<Rightarrow> Some (PFloat (float_add x y)) | _ \<Rightarrow> None))"

lemma py_add_ints [simp]: "py_add (PInt i) (PInt j) = Some (PInt (i + j))"
  by (simp add: py_add_def as_int_def)

text \<open>Optional values, as Python's \<^verbatim>\<open>x | None\<close>.\<close>

definition opt_str :: "string option \<Rightarrow> pyval" where
  "opt_str o' = (case o' of None \<Rightarrow> PNone | Some s \<Rightarrow> PStr s)"

lemma opt_str_simps [simp]: "opt_str None = PNone" "opt_str (Some s) = PStr s"
  by (simp_all add: opt_str_def)

lemma opt_str_inject [simp]: "opt_str a = opt_str b \<longleftrightarrow> a = b"
  by (cases a; cases b) simp_all

text \<open>Every dictionary inside a value has distinct keys, as any Python value has.\<close>

fun wf_value :: "pyval \<Rightarrow> bool" where
  "wf_value (PList xs) = (\<forall>v\<in>set xs. wf_value v)"
| "wf_value (PDict d) = (wf_dict d \<and> (\<forall>(k, v)\<in>set d. wf_value v))"
| "wf_value _ = True"

end
