(* ===== verification/Sha256.thy ===== *)
theory Sha256
  imports PyText "HOL-Library.Word"
begin

unbundle bit_operations_syntax

text \<open>
  \<^verbatim>\<open>hashlib.sha256(data).hexdigest()\<close> as FIPS 180-4 states it, on words of 32 bits with
  their wrap-around addition; its constants are written in decimal.  The components use nothing of it beyond the shape of a digest,
  64 lowercase hexadecimal characters, which is proved here.
\<close>

type_synonym u32 = "32 word"

definition sha_constants :: "u32 list" where
  "sha_constants =
    [1116352408, 1899447441, 3049323471, 3921009573, 961987163, 1508970993, 2453635748, 2870763221,
     3624381080, 310598401, 607225278, 1426881987, 1925078388, 2162078206, 2614888103, 3248222580,
     3835390401, 4022224774, 264347078, 604807628, 770255983, 1249150122, 1555081692, 1996064986,
     2554220882, 2821834349, 2952996808, 3210313671, 3336571891, 3584528711, 113926993, 338241895,
     666307205, 773529912, 1294757372, 1396182291, 1695183700, 1986661051, 2177026350, 2456956037,
     2730485921, 2820302411, 3259730800, 3345764771, 3516065817, 3600352804, 4094571909, 275423344,
     430227734, 506948616, 659060556, 883997877, 958139571, 1322822218, 1537002063, 1747873779,
     1955562222, 2024104815, 2227730452, 2361852424, 2428436474, 2756734187, 3204031479, 3329325298]"

definition rotr :: "nat \<Rightarrow> u32 \<Rightarrow> u32" where
  "rotr n w = (drop_bit n w) OR (push_bit (32 - n) w)"

definition sha_small0 :: "u32 \<Rightarrow> u32" where
  "sha_small0 w = rotr 7 w XOR rotr 18 w XOR drop_bit 3 w"

definition sha_small1 :: "u32 \<Rightarrow> u32" where
  "sha_small1 w = rotr 17 w XOR rotr 19 w XOR drop_bit 10 w"

text \<open>The message schedule: sixteen words extended to sixty-four.\<close>

fun sha_extend :: "nat \<Rightarrow> u32 list \<Rightarrow> u32 list" where
  "sha_extend 0 ws = ws"
| "sha_extend (Suc k) ws =
     (let n = length ws
      in sha_extend k (ws @ [sha_small1 (ws ! (n - 2)) + ws ! (n - 7)
                             + sha_small0 (ws ! (n - 15)) + ws ! (n - 16)]))"

record sha_state =
  sha_a :: u32
  sha_b :: u32
  sha_c :: u32
  sha_d :: u32
  sha_e :: u32
  sha_f :: u32
  sha_g :: u32
  sha_h :: u32

definition sha_initial :: sha_state where
  "sha_initial = \<lparr>sha_a = 1779033703, sha_b = 3144134277, sha_c = 1013904242, sha_d = 2773480762,
     sha_e = 1359893119, sha_f = 2600822924, sha_g = 528734635, sha_h = 1541459225\<rparr>"

definition sha_round :: "sha_state \<Rightarrow> u32 \<times> u32 \<Rightarrow> sha_state" where
  "sha_round s kw =
     (let s1 = rotr 6 (sha_e s) XOR rotr 11 (sha_e s) XOR rotr 25 (sha_e s);
          ch = (sha_e s AND sha_f s) XOR (NOT (sha_e s) AND sha_g s);
          t1 = sha_h s + s1 + ch + fst kw + snd kw;
          s0 = rotr 2 (sha_a s) XOR rotr 13 (sha_a s) XOR rotr 22 (sha_a s);
          maj = (sha_a s AND sha_b s) XOR (sha_a s AND sha_c s) XOR (sha_b s AND sha_c s)
      in \<lparr>sha_a = t1 + (s0 + maj), sha_b = sha_a s, sha_c = sha_b s, sha_d = sha_c s,
          sha_e = sha_d s + t1, sha_f = sha_e s, sha_g = sha_f s, sha_h = sha_g s\<rparr>)"

definition sha_block :: "sha_state \<Rightarrow> u32 list \<Rightarrow> sha_state" where
  "sha_block s ws =
     (let t = foldl sha_round s (zip sha_constants (sha_extend 48 ws))
      in \<lparr>sha_a = sha_a s + sha_a t, sha_b = sha_b s + sha_b t, sha_c = sha_c s + sha_c t,
          sha_d = sha_d s + sha_d t, sha_e = sha_e s + sha_e t, sha_f = sha_f s + sha_f t,
          sha_g = sha_g s + sha_g t, sha_h = sha_h s + sha_h t\<rparr>)"

fun big_endian :: "nat \<Rightarrow> nat \<Rightarrow> nat list" where
  "big_endian 0 n = []"
| "big_endian (Suc k) n = big_endian k (n div 256) @ [n mod 256]"

definition sha_pad :: "nat list \<Rightarrow> nat list" where
  "sha_pad bytes =
     bytes @ [128] @ replicate ((119 - length bytes mod 64) mod 64) 0 @ big_endian 8 (8 * length bytes)"

fun words_of_bytes :: "nat list \<Rightarrow> u32 list" where
  "words_of_bytes (a # b # c # d # bs) =
     of_nat (((a * 256 + b) * 256 + c) * 256 + d) # words_of_bytes bs"
| "words_of_bytes _ = []"

text \<open>Sixteen words make a block; the fuel is the number of words, more than the blocks there are.\<close>

fun sha_blocks :: "nat \<Rightarrow> sha_state \<Rightarrow> u32 list \<Rightarrow> sha_state" where
  "sha_blocks 0 s ws = s"
| "sha_blocks (Suc k) s ws =
     (if length ws < 16 then s else sha_blocks k (sha_block s (take 16 ws)) (drop 16 ws))"

definition hex_digit :: "nat \<Rightarrow> char" where
  "hex_digit n = (if n < 10 then char_of (48 + n) else char_of (87 + n))"

fun hex_digits :: "nat \<Rightarrow> nat \<Rightarrow> string" where
  "hex_digits 0 n = []"
| "hex_digits (Suc k) n = hex_digits k (n div 16) @ [hex_digit (n mod 16)]"

definition sha256_hex :: "nat list \<Rightarrow> string" where
  "sha256_hex bytes =
     (let ws = words_of_bytes (sha_pad bytes); s = sha_blocks (length ws) sha_initial ws
      in concat (map (\<lambda>w. hex_digits 8 (unat w))
           [sha_a s, sha_b s, sha_c s, sha_d s, sha_e s, sha_f s, sha_g s, sha_h s]))"

lemma length_hex_digits [simp]: "length (hex_digits k n) = k"
  by (induction k arbitrary: n) auto

lemma is_hex_char_hex_digit: "n < 16 \<Longrightarrow> is_hex_char (hex_digit n)"
  by (auto simp: hex_digit_def is_hex_char_def is_digit_def)

lemma hex_digits_hex: "list_all is_hex_char (hex_digits k n)"
  by (induction k arbitrary: n) (auto simp: is_hex_char_hex_digit)

text \<open>Every digest has the shape that the validators ask for.\<close>

lemma hex64_sha256_hex [simp]: "hex64 (sha256_hex bytes)"
  by (simp add: hex64_def sha256_hex_def Let_def hex_digits_hex)

end
