(* ===== verification/CanonJson.thy ===== *)
theory CanonJson
  imports PyValue Sha256 "HOL-Library.Multiset"
begin

text \<open>
  \<^verbatim>\<open>json.dumps(value, sort_keys=True, separators=(",", ":"))\<close> with and without
  \<^verbatim>\<open>ensure_ascii\<close>, and the SHA-256 digest of that text, which every artifact of the
  program is bound by; the text does not depend on the order in which keys were inserted.
\<close>

section \<open>Text of a value\<close>

definition hex4 :: "nat \<Rightarrow> string" where
  "hex4 n = hex_digits 4 n"

definition short_escape :: "char \<Rightarrow> string option" where
  "short_escape c =
     (if code c = 34 then Some [CHR 0x5C, CHR 0x22] else if code c = 92 then Some [CHR 0x5C, CHR 0x5C]
      else if code c = 10 then Some [CHR 0x5C, CHR ''n''] else if code c = 13 then Some [CHR 0x5C, CHR ''r'']
      else if code c = 9 then Some [CHR 0x5C, CHR ''t''] else if code c = 12 then Some [CHR 0x5C, CHR ''f'']
      else if code c = 8 then Some [CHR 0x5C, CHR ''b''] else None)"

text \<open>With \<^verbatim>\<open>ensure_ascii\<close> everything outside the printable ASCII range is escaped, without it the controls only.\<close>

definition json_char :: "bool \<Rightarrow> char \<Rightarrow> string" where
  "json_char ascii c =
     (case short_escape c of Some e \<Rightarrow> e
      | None \<Rightarrow> if code c < 32 \<or> (ascii \<and> 126 < code c) then [CHR 0x5C, CHR ''u''] @ hex4 (code c) else [c])"

definition json_str :: "bool \<Rightarrow> string \<Rightarrow> string" where
  "json_str ascii s = [CHR 0x22] @ concat (map (json_char ascii) s) @ [CHR 0x22]"

definition json_float :: "pyfloat \<Rightarrow> string" where
  "json_float x = (case x of FFin q \<Rightarrow> float_repr x
     | FInf neg \<Rightarrow> if neg then ''-Infinity'' else ''Infinity'' | FNan \<Rightarrow> ''NaN'')"

fun json_text :: "bool \<Rightarrow> pyval \<Rightarrow> string" where
  "json_text a PNone = ''null''"
| "json_text a (PBool b) = (if b then ''true'' else ''false'')"
| "json_text a (PInt i) = str_of_int i"
| "json_text a (PFloat x) = json_float x"
| "json_text a (PStr s) = json_str a s"
| "json_text a (PList xs) = ''['' @ py_join '','' (map (json_text a) xs) @ '']''"
| "json_text a (PDict d) =
     ''{'' @ py_join '','' (map (\<lambda>(k, t). json_str a k @ '':'' @ t)
        (sort_key fst (map (\<lambda>(k, v). (k, json_text a v)) d))) @ ''}''"

text \<open>A value that \<^verbatim>\<open>json.dumps(..., allow_nan=False)\<close> accepts.\<close>

fun finite_json :: "pyval \<Rightarrow> bool" where
  "finite_json (PFloat x) = (case x of FFin _ \<Rightarrow> True | _ \<Rightarrow> False)"
| "finite_json (PList xs) = (\<forall>v\<in>set xs. finite_json v)"
| "finite_json (PDict d) = (\<forall>(k, v)\<in>set d. finite_json v)"
| "finite_json _ = True"

text \<open>Encoding to UTF-8, for code points below 256.\<close>

definition utf8 :: "string \<Rightarrow> nat list" where
  "utf8 s = concat (map (\<lambda>c. if code c < 128 then [code c] else [192 + code c div 64, 128 + code c mod 64]) s)"

section \<open>Digests\<close>

text \<open>\<^verbatim>\<open>canonical_sha256\<close> of the pool contracts and their many siblings.\<close>

definition canonical_sha256 :: "pyval \<Rightarrow> string" where
  "canonical_sha256 v = sha256_hex (utf8 (json_text True v))"

definition text_sha256 :: "string \<Rightarrow> string" where
  "text_sha256 s = sha256_hex (utf8 s)"

lemma hex64_canonical [simp]: "hex64 (canonical_sha256 v)"
  by (simp add: canonical_sha256_def)

lemma hex64_text_sha256 [simp]: "hex64 (text_sha256 s)"
  by (simp add: text_sha256_def)

lemma strip_hex: "list_all is_hex_char s \<Longrightarrow> py_strip s = s"
proof -
  assume hex: "list_all is_hex_char s"
  have not_space: "\<not> is_space c" if "is_hex_char c" for c
    using that by (auto simp: is_hex_char_def is_digit_def is_space_def)
  have keep: "dropWhile is_space t = t" if "list_all is_hex_char t" for t
    using that not_space by (cases t) auto
  from hex have "list_all is_hex_char (rev s)" by simp
  with hex show ?thesis by (simp add: py_strip_def keep)
qed

lemma nonempty_hex64: "hex64 s \<Longrightarrow> nonempty_text (PStr s)"
  by (auto simp: hex64_def nonempty_text_def strip_hex)

text \<open>The text, and with it the digest, does not depend on the order of a dictionary's keys.\<close>

lemma sorted_map_unique:
  assumes "distinct (map fst xs)" and "distinct (map fst ys)" and "set xs = set ys"
  shows "sort_key fst xs = sort_key fst (ys :: ('a::linorder \<times> 'b) list)"
proof -
  have "distinct xs" "distinct ys"
    using assms(1,2) by (simp_all add: distinct_map)
  with assms(3) have "mset xs = mset ys"
    by (simp add: set_eq_iff_mset_eq_distinct)
  moreover have "inj_on fst (set xs)"
    using assms(1) by (simp add: distinct_map)
  ultimately show ?thesis by (rule sort_key_eq_sort_key)
qed

lemma set_eq_of_map_of_eq:
  assumes "distinct (map fst xs)" and "distinct (map fst ys)" and "map_of xs = map_of ys"
  shows "set xs = set ys"
  using assms by (metis map_of_inject_set)

lemma json_text_key_order:
  assumes "wf_dict d" and "wf_dict e" and "map_of d = map_of e"
  shows "json_text a (PDict d) = json_text a (PDict e)"
proof -
  let ?f = "\<lambda>(k, v). (k, json_text a v)"
  have fst_f: "map fst (map ?f xs) = dkeys xs" for xs
    by (simp add: dkeys_def case_prod_unfold)
  have "set d = set e"
    using assms by (intro set_eq_of_map_of_eq) (simp_all add: wf_dict_def dkeys_def)
  then have "sort_key fst (map ?f d) = sort_key fst (map ?f e)"
    using assms(1,2) by (intro sorted_map_unique) (simp_all add: fst_f wf_dict_def del: map_map)
  then show ?thesis by (simp only: json_text.simps)
qed

end
