(* ===== verification/PoolContracts.thy ===== *)
theory PoolContracts
  imports CanonJson
begin

text \<open>
  \<^verbatim>\<open>scripts/cwo_core/native_pool_contracts.py\<close>: sealing an artifact with the digest of
  its other fields, the field validators shared by the artifact families, the lease validator
  and the completion-evidence policy.  A validator returns the list of its error codes in the
  order the code appends them; an empty list means the artifact is accepted.  Where the code
  tests membership of a value in a set, a list or dictionary there would raise
  \<^verbatim>\<open>TypeError\<close> in Python; here such a value is not a member.
\<close>

section \<open>Sealing\<close>

definition artifact_sha256 :: "pydict \<Rightarrow> string \<Rightarrow> string" where
  "artifact_sha256 value hash_field = canonical_sha256 (PDict (filter (\<lambda>(key, _). key \<noteq> hash_field) value))"

definition seal_artifact :: "pydict \<Rightarrow> string \<Rightarrow> pydict" where
  "seal_artifact value hash_field =
     (let sealed = dpop value hash_field
      in dset sealed hash_field (PStr (canonical_sha256 (PDict sealed))))"

lemma artifact_sha256_dpop: "artifact_sha256 value f = canonical_sha256 (PDict (dpop value f))"
  by (simp add: artifact_sha256_def dpop_def)

lemma dset_append_new: "k \<notin> set (dkeys d) \<Longrightarrow> dset d k v = d @ [(k, v)]"
  by (induction d) auto

lemma seal_artifact_eq:
  "seal_artifact d f = dpop d f @ [(f, PStr (canonical_sha256 (PDict (dpop d f))))]"
  by (simp add: seal_artifact_def Let_def dset_append_new)

lemma dget_seal [simp]:
  "dget (seal_artifact d f) k = (if k = f then PStr (canonical_sha256 (PDict (dpop d f))) else dget d k)"
  by (simp add: seal_artifact_def Let_def)

lemma dpop_seal [simp]: "dpop (seal_artifact d f) f = dpop d f"
  by (simp add: seal_artifact_def Let_def)

lemma artifact_sha256_seal [simp]:
  "artifact_sha256 (seal_artifact d f) f = canonical_sha256 (PDict (dpop d f))"
  by (simp add: artifact_sha256_dpop)

lemma set_dkeys_seal [simp]: "set (dkeys (seal_artifact d f)) = insert f (set (dkeys d))"
  by (auto simp: seal_artifact_def Let_def)

lemma wf_dict_seal [simp]: "wf_dict d \<Longrightarrow> wf_dict (seal_artifact d f)"
  by (simp add: seal_artifact_def Let_def)

section \<open>Shared field validators\<close>

definition missing_fields :: "string list \<Rightarrow> pydict \<Rightarrow> string list" where
  "missing_fields names d = sort (filter (\<lambda>f. f \<notin> set (dkeys d)) names)"

definition unknown_fields :: "string list \<Rightarrow> pydict \<Rightarrow> string list" where
  "unknown_fields names d = sort (filter (\<lambda>k. k \<notin> set names) (dkeys d))"

definition field_errors :: "string list \<Rightarrow> string \<Rightarrow> pydict \<Rightarrow> string list" where
  "field_errors names prefix d =
     err_if (missing_fields names d \<noteq> []) (prefix @ ''-missing-fields:'' @ py_join '','' (missing_fields names d))
     @ err_if (unknown_fields names d \<noteq> []) (prefix @ ''-unknown-fields:'' @ py_join '','' (unknown_fields names d))"

text \<open>\<^verbatim>\<open>_strict\<close>, followed by the checks on the mapping it returns.\<close>

definition strict :: "pyval \<Rightarrow> string list \<Rightarrow> string \<Rightarrow> (pydict \<Rightarrow> string list) \<Rightarrow> string list" where
  "strict value names prefix checks =
     (case value of PDict d \<Rightarrow> field_errors names prefix d @ checks d
      | _ \<Rightarrow> [prefix @ ''-must-be-object''])"

definition validate_header :: "pydict \<Rightarrow> string \<Rightarrow> string \<Rightarrow> string \<Rightarrow> int \<Rightarrow> string list" where
  "validate_header value type_field expected_type expected_schema expected_version =
     err_if (dget value type_field \<noteq> PStr expected_type) ''invalid-artifact-type''
     @ err_if (\<not> is_int_ge 0 (dget value ''version'') \<or> dget value ''version'' \<noteq> PInt expected_version)
         ''invalid-version''
     @ err_if (dget value ''schema'' \<noteq> PStr expected_schema) ''invalid-schema''"

definition validate_hash :: "pydict \<Rightarrow> string \<Rightarrow> string list" where
  "validate_hash value hash_field =
     (if \<not> is_sha256 (dget value hash_field) then [''invalid-'' @ dashed hash_field]
      else err_if (dget value hash_field \<noteq> PStr (artifact_sha256 value hash_field))
             (dashed hash_field @ ''-mismatch''))"

definition validate_replay :: "pydict \<Rightarrow> string \<Rightarrow> string list option \<Rightarrow> string list" where
  "validate_replay value hash_field seen_hashes =
     (case seen_hashes of None \<Rightarrow> []
      | Some seen \<Rightarrow> err_if (in_strs (dget value hash_field) seen) ''replay-detected'')"

definition OWNER_FIELDS :: "string list" where
  "OWNER_FIELDS = [''pid'', ''start_ticks'', ''boot_id_sha256'']"

definition validate_owner :: "pyval \<Rightarrow> string \<Rightarrow> string list" where
  "validate_owner value prefix = strict value OWNER_FIELDS prefix (\<lambda>owner.
     err_if (\<not> is_int_ge 1 (dget owner ''pid'')) (''invalid-'' @ prefix @ ''-pid'')
     @ err_if (\<not> is_int_ge 1 (dget owner ''start_ticks'')) (''invalid-'' @ prefix @ ''-start-ticks'')
     @ err_if (\<not> is_sha256 (dget owner ''boot_id_sha256'')) (''invalid-'' @ prefix @ ''-boot-id-sha256''))"

definition IDENTITY_FIELDS :: "string list" where
  "IDENTITY_FIELDS =
     [''canonical_path_sha256'', ''git_common_dir_sha256'', ''device'', ''inode'', ''baseline_sha256'']"

definition validate_identity :: "pyval \<Rightarrow> string \<Rightarrow> string list" where
  "validate_identity value prefix = strict value IDENTITY_FIELDS prefix (\<lambda>identity.
     concat (map (\<lambda>field. err_if (\<not> is_sha256 (dget identity field)) (''invalid-'' @ prefix @ ''-'' @ dashed field))
       [''canonical_path_sha256'', ''git_common_dir_sha256'', ''baseline_sha256''])
     @ concat (map (\<lambda>field. err_if (\<not> is_int_ge 0 (dget identity field)) (''invalid-'' @ prefix @ ''-'' @ field))
       [''device'', ''inode'']))"

lemma field_errors_Nil_iff: "field_errors names prefix d = [] \<longleftrightarrow> set names = set (dkeys d)"
  by (auto simp: field_errors_def missing_fields_def unknown_fields_def filter_empty_conv)

lemma strict_Nil_iff [simp]:
  "strict v names prefix checks = [] \<longleftrightarrow>
     (\<exists>d. v = PDict d \<and> set names = set (dkeys d) \<and> checks d = [])"
  by (cases v) (simp_all add: strict_def field_errors_Nil_iff)

lemma strict_PDict: "strict (PDict d) names prefix checks = field_errors names prefix d @ checks d"
  by (simp add: strict_def)

lemma validate_header_Nil_iff [simp]:
  "validate_header d tf t s n = [] \<longleftrightarrow>
     dget d tf = PStr t \<and> 0 \<le> n \<and> dget d ''version'' = PInt n \<and> dget d ''schema'' = PStr s"
  by (auto simp: validate_header_def)

lemma validate_hash_Nil_iff [simp]:
  "validate_hash d f = [] \<longleftrightarrow> dget d f = PStr (canonical_sha256 (PDict (dpop d f)))"
  by (auto simp: validate_hash_def artifact_sha256_dpop)

lemma validate_replay_None [simp]: "validate_replay d f None = []"
  by (simp add: validate_replay_def)

section \<open>Relative paths\<close>

text \<open>One item of the list: its error, or the path it contributes.\<close>

definition relative_path_item :: "string \<Rightarrow> nat \<Rightarrow> pyval \<Rightarrow> string + string" where
  "relative_path_item prefix index item =
     (let place = prefix @ ''['' @ str_of_nat index @ '']'' in
      if \<not> nonempty_text item then Inl (''invalid-'' @ place)
      else let path = the_str item in
        if path_is_absolute path \<or> path = ''.'' \<or> path = ''..''
           \<or> (\<exists>part\<in>set (path_parts path). part = [] \<or> part = ''.'' \<or> part = ''..'')
        then Inl (''unsafe-'' @ place)
        else if path_as_posix path \<noteq> path then Inl (''noncanonical-'' @ place)
        else Inr path)"

definition parts_overlap :: "string list \<Rightarrow> string list \<Rightarrow> bool" where
  "parts_overlap left right \<longleftrightarrow>
     left = take (length left) right \<or> right = take (length right) left"

fun overlap_errors :: "string \<Rightarrow> string list \<Rightarrow> string list" where
  "overlap_errors prefix [] = []"
| "overlap_errors prefix (left # rest) =
     concat (map (\<lambda>right. err_if (parts_overlap (path_parts left) (path_parts right))
                    (''overlapping-'' @ prefix @ '':'' @ left @ '':'' @ right)) rest)
     @ overlap_errors prefix rest"

definition validate_relative_paths :: "pyval \<Rightarrow> string \<Rightarrow> bool \<Rightarrow> string list" where
  "validate_relative_paths value prefix allow_empty =
     (case value of
        PList items \<Rightarrow>
          (let checked = map (\<lambda>(i, item). relative_path_item prefix i item) (index_from 0 items);
               paths = concat (map (case_sum (\<lambda>_. []) (\<lambda>p. [p])) checked)
           in err_if (\<not> allow_empty \<and> items = []) (prefix @ ''-must-not-be-empty'')
              @ concat (map (case_sum (\<lambda>e. [e]) (\<lambda>_. [])) checked)
              @ err_if (\<not> distinct paths) (''duplicate-'' @ prefix)
              @ overlap_errors prefix paths)
      | _ \<Rightarrow> [prefix @ ''-must-be-array''])"

section \<open>Leases\<close>

definition LEASE_FIELDS :: "string list" where
  "LEASE_FIELDS =
     [''lease_type'', ''version'', ''schema'', ''lease_id'', ''pool_id'', ''child_id'', ''pool_epoch'',
      ''integration_root_identity'', ''worktree_identity'', ''target_paths'', ''owner'',
      ''lifecycle_state'', ''acquired_at'', ''updated_at'', ''terminal_evidence_sha256'',
      ''release_reason'', ''lease_sha256'']"

definition LEASE_TYPE :: string where
  "LEASE_TYPE = ''cwo-native-supervision-lease''"

definition LEASE_SCHEMA :: string where
  "LEASE_SCHEMA = ''schemas/native-supervision-lease.schema.json''"

definition datetime_of :: "pyval \<Rightarrow> int option" where
  "datetime_of value = (case value of PStr s \<Rightarrow> parse_instant s | _ \<Rightarrow> None)"

definition LIFECYCLE_STATES :: "string list" where
  "LIFECYCLE_STATES = [''acquired'', ''held'', ''release-pending'', ''released'', ''orphaned-active'']"

text \<open>The child of a contract with a given id: the first mapping among \<^verbatim>\<open>children\<close> that has it.\<close>

definition contract_child :: "pydict \<Rightarrow> pyval \<Rightarrow> pydict option" where
  "contract_child contract child_id =
     map_option the_dict (find (\<lambda>item. is_dict item \<and> py_eq (dget (the_dict item) ''child_id'') child_id)
       (the_list (dget contract ''children'')))"

definition lease_contract_errors :: "pydict \<Rightarrow> pydict \<Rightarrow> string list" where
  "lease_contract_errors lease contract =
     concat (map (\<lambda>field. err_if (\<not> py_eq (dget lease field) (dget contract field))
                    (''lease-'' @ dashed field @ ''-mismatch'')) [''pool_id'', ''pool_epoch''])
     @ (case contract_child contract (dget lease ''child_id'') of
          None \<Rightarrow> [''lease-child-unknown'']
        | Some child \<Rightarrow>
            err_if (\<not> py_eq (dget lease ''lease_id'') (dget child ''lease_id'')) ''lease-id-mismatch''
            @ err_if (\<not> py_eq (dget lease ''worktree_identity'') (dget child ''worktree_identity''))
                ''lease-worktree-identity-mismatch''
            @ err_if (\<not> py_eq (dget lease ''target_paths'') (dget child ''integration_target_paths''))
                ''lease-target-paths-mismatch''
            @ err_if (\<not> py_eq (dget lease ''integration_root_identity'')
                       (dget (the_dict (dget contract ''topology'')) ''integration_root_identity''))
                ''lease-integration-root-identity-mismatch''
            @ err_if (\<not> py_eq (dget lease ''owner'') (dget contract ''owner'')) ''lease-owner-mismatch'')"

definition lease_time_errors :: "pydict \<Rightarrow> string list" where
  "lease_time_errors lease =
     (let acquired = datetime_of (dget lease ''acquired_at''); updated = datetime_of (dget lease ''updated_at'')
      in err_if (acquired = None) ''invalid-acquired-at''
         @ err_if (updated = None) ''invalid-updated-at''
         @ (case (acquired, updated) of
              (Some a, Some u) \<Rightarrow> err_if (u < a) ''lease-time-regression''
            | _ \<Rightarrow> []))"

definition lease_terminal_errors :: "pydict \<Rightarrow> string list" where
  "lease_terminal_errors lease =
     (let lifecycle = dget lease ''lifecycle_state'';
          terminal_hash = dget lease ''terminal_evidence_sha256''; reason = dget lease ''release_reason''
      in if in_strs lifecycle [''released'', ''release-pending''] then
           err_if (\<not> is_sha256 terminal_hash) (the_str lifecycle @ ''-lease-terminal-evidence-required'')
           @ err_if (\<not> nonempty_text reason) (the_str lifecycle @ ''-lease-reason-required'')
         else
           err_if (terminal_hash \<noteq> PNone) ''nonterminal-lease-terminal-evidence-forbidden''
           @ err_if (reason \<noteq> PNone) ''nonterminal-lease-release-reason-forbidden'')"

definition validate_lease :: "pydict option \<Rightarrow> string list option \<Rightarrow> pyval \<Rightarrow> string list" where
  "validate_lease contract seen_hashes value = strict value LEASE_FIELDS ''lease'' (\<lambda>lease.
     validate_header lease ''lease_type'' LEASE_TYPE LEASE_SCHEMA 1
     @ concat (map (\<lambda>field. err_if (\<not> nonempty_text (dget lease field)) (''invalid-'' @ dashed field))
         [''lease_id'', ''pool_id'', ''child_id'', ''pool_epoch''])
     @ validate_identity (dget lease ''integration_root_identity'') ''integration-root''
     @ validate_identity (dget lease ''worktree_identity'') ''worktree''
     @ validate_relative_paths (dget lease ''target_paths'') ''target-paths'' True
     @ validate_owner (dget lease ''owner'') ''owner''
     @ err_if (\<not> in_strs (dget lease ''lifecycle_state'') LIFECYCLE_STATES) ''invalid-lifecycle-state''
     @ lease_time_errors lease
     @ lease_terminal_errors lease
     @ (case contract of None \<Rightarrow> [] | Some c \<Rightarrow> lease_contract_errors lease c)
     @ validate_hash lease ''lease_sha256''
     @ validate_replay lease ''lease_sha256'' seen_hashes)"

text \<open>What acceptance says of the fields that the registry works with.\<close>

lemma valid_lease_facts:
  assumes "validate_lease None None (PDict lease) = []"
  shows "nonempty_text (dget lease ''lease_id'')"
    and "nonempty_text (dget lease ''pool_id'')"
    and "in_strs (dget lease ''lifecycle_state'') LIFECYCLE_STATES"
    and "set (dkeys lease) = set LEASE_FIELDS"
    and "lease_terminal_errors lease = []"
    and "is_list (dget lease ''target_paths'')"
    and "is_dict (dget lease ''worktree_identity'')"
    and "is_dict (dget lease ''integration_root_identity'')"
  using assms
  by (auto simp: validate_lease_def validate_relative_paths_def validate_identity_def is_list_iff
      split: pyval.splits)

end
