(* ===== verification/ExclusiveHolders.thy ===== *)
theory ExclusiveHolders
  imports Prelude
begin

text \<open>
  The contract between a registry of holders and its clients: which entries are active, when two
  entries compete for the same resource, and when an entry still makes the claim of an older one.
  The lemmas keep a list of entries free of competing active ones under the operations that a
  registry performs on its list.
\<close>

definition pairwise_free :: "('l \<Rightarrow> bool) \<Rightarrow> ('l \<Rightarrow> 'l \<Rightarrow> bool) \<Rightarrow> 'l list \<Rightarrow> bool" where
  "pairwise_free active conflict entries =
     sorted_wrt (\<lambda>a b. active a \<and> active b \<longrightarrow> \<not> conflict a b) entries"

locale exclusive_holders =
  fixes active :: "'l \<Rightarrow> bool"
    and conflict :: "'l \<Rightarrow> 'l \<Rightarrow> bool"
    and same_claim :: "'l \<Rightarrow> 'l \<Rightarrow> bool"
  assumes conflict_sym: "conflict a b \<Longrightarrow> conflict b a"
    and same_claim_refl: "same_claim a a"
    and conflict_claim: "same_claim a a' \<Longrightarrow> same_claim b b' \<Longrightarrow> conflict a' b' \<Longrightarrow> conflict a b"
begin

lemma free_Nil: "pairwise_free active conflict []"
  by (simp add: pairwise_free_def)

lemma free_snoc:
  assumes "pairwise_free active conflict entries"
    and "\<And>e. e \<in> set entries \<Longrightarrow> active e \<Longrightarrow> \<not> conflict e x"
  shows "pairwise_free active conflict (entries @ [x])"
  using assms by (auto simp: pairwise_free_def sorted_wrt_append)

lemma free_filter:
  "pairwise_free active conflict entries \<Longrightarrow> pairwise_free active conflict (filter p entries)"
  by (simp add: pairwise_free_def sorted_wrt_filter)

text \<open>An entry may be replaced by one with the same claim that is active only if the old one was.\<close>

lemma free_replace:
  assumes "list_all2 (\<lambda>a b. same_claim a b \<and> (active b \<longrightarrow> active a)) entries entries'"
    and "pairwise_free active conflict entries"
  shows "pairwise_free active conflict entries'"
  unfolding pairwise_free_def sorted_wrt_iff_nth_less
proof (intro allI impI notI)
  fix i j assume ij: "i < j" "j < length entries'"
    and act: "active (entries' ! i) \<and> active (entries' ! j)"
    and con: "conflict (entries' ! i) (entries' ! j)"
  note nth = list_all2_nthD2 [OF assms(1)]
  from ij nth [of i] nth [of j] act have
      claims: "same_claim (entries ! i) (entries' ! i)" "same_claim (entries ! j) (entries' ! j)"
    and acts: "active (entries ! i)" "active (entries ! j)"
    by auto
  from claims con have "conflict (entries ! i) (entries ! j)" by (rule conflict_claim)
  moreover have "j < length entries" using ij assms(1) by (simp add: list_all2_lengthD)
  ultimately show False
    using assms(2) acts ij(1) by (auto simp: pairwise_free_def sorted_wrt_iff_nth_less)
qed

lemma free_update:
  assumes "pairwise_free active conflict entries" and "i < length entries"
    and "same_claim (entries ! i) x" and "active x \<Longrightarrow> active (entries ! i)"
  shows "pairwise_free active conflict (entries[i := x])"
proof (rule free_replace [OF _ assms(1)])
  show "list_all2 (\<lambda>a b. same_claim a b \<and> (active b \<longrightarrow> active a)) entries (entries[i := x])"
    using assms(2-4) by (auto simp: list_all2_conv_all_nth nth_list_update same_claim_refl)
qed

text \<open>Any two different places that hold active entries do not compete.\<close>

lemma free_distinct:
  assumes "pairwise_free active conflict entries" and "i < length entries" and "j < length entries"
    and "i \<noteq> j" and "active (entries ! i)" and "active (entries ! j)"
  shows "\<not> conflict (entries ! i) (entries ! j)"
proof (cases "i < j")
  case True
  with assms show ?thesis by (auto simp: pairwise_free_def sorted_wrt_iff_nth_less)
next
  case False
  with assms have "\<not> conflict (entries ! j) (entries ! i)"
    by (auto simp: pairwise_free_def sorted_wrt_iff_nth_less)
  then show ?thesis using conflict_sym by blast
qed

end

end
