(* ===== verification/PoolLeases.thy ===== *)
theory PoolLeases
  imports PoolContracts ExclusiveHolders
begin

text \<open>
  \<^verbatim>\<open>scripts/cwo_core/native_pool_leases.py\<close>: the process-locked registry of worktree
  leases.  A store is the registry file; every operation runs under the lock, so it is one step
  from a store to a store with a result or an exception.  The environment of a call gives what
  the code reads from outside: the clock, the liveness of an owner process, the outcome of the
  write, and the two validators of pool contracts and pool states, which live in the part of
  \<^verbatim>\<open>native_pool_contracts.py\<close> that is not modelled yet.
\<close>

section \<open>Data\<close>

datatype lease_error =
    PoolLeaseError string
  | PoolLeaseCollision string string
  | PoolLeaseTransitionError string string string
  | OSError

datatype clock_reading =
    ClockText string
  | ClockInstant int
  | ClockNaive
  | ClockOther

datatype write_outcome = WriteOk | WriteFailsBefore | WriteFailsAfter

text \<open>
  The registry file: absent, a symbolic link to an existing file, bytes that are not JSON, or a
  JSON value.
\<close>

datatype registry_file = Absent | SymbolicLink | Unreadable | Stored pyval

record lease_store =
  registry :: registry_file
  lock_is_symlink :: bool

record lease_env =
  owner_alive :: "pyval \<Rightarrow> bool"
  clock :: clock_reading
  write_result :: write_outcome
  restore_fails :: bool
  contract_errors :: "pyval \<Rightarrow> string list"
  state_errors :: "pyval \<Rightarrow> string list"

definition ACTIVE_LEASE_STATES :: "string list" where
  "ACTIVE_LEASE_STATES = [''acquired'', ''held'', ''release-pending'', ''orphaned-active'']"

definition LEASE_TRANSITIONS :: "string \<Rightarrow> string list" where
  "LEASE_TRANSITIONS s =
     (if s = ''acquired'' then [''held'', ''release-pending'', ''released'']
      else if s = ''held'' then [''release-pending'', ''released'']
      else if s = ''release-pending'' then [''released'']
      else if s = ''orphaned-active'' then [''release-pending'', ''released'']
      else [])"

definition IDEMPOTENT_LEASE_STATES :: "string list" where
  "IDEMPOTENT_LEASE_STATES = [''release-pending'', ''released'']"

definition ORPHAN_RECLASSIFICATION_STATES :: "string list" where
  "ORPHAN_RECLASSIFICATION_STATES = [''acquired'', ''held'']"

definition iso :: "clock_reading \<Rightarrow> (lease_error, string) res" where
  "iso value =
     (case value of
        ClockText s \<Rightarrow>
          (case parse_instant s of
             Some t \<Rightarrow> Inr (format_instant t)
           | None \<Rightarrow> Inl (PoolLeaseError
               (if parse_instant (s @ ''Z'') \<noteq> None then ''lease-time-must-be-timezone-aware''
                else ''invalid-lease-time'')))
      | ClockInstant t \<Rightarrow> Inr (format_instant t)
      | ClockNaive \<Rightarrow> Inl (PoolLeaseError ''lease-time-must-be-timezone-aware'')
      | ClockOther \<Rightarrow> Inl (PoolLeaseError ''invalid-lease-time''))"

definition identity_key :: "pyval \<Rightarrow> (lease_error, string) res" where
  "identity_key value =
     (case value of
        PDict d \<Rightarrow> Inr (canonical_sha256 (PDict (map (\<lambda>field. (field, dget d field))
          [''canonical_path_sha256'', ''git_common_dir_sha256'', ''device'', ''inode''])))
      | _ \<Rightarrow> Inl (PoolLeaseError ''lease-identity-invalid''))"

definition paths_overlap :: "pyval \<Rightarrow> pyval \<Rightarrow> bool" where
  "paths_overlap first second \<longleftrightarrow>
     (\<exists>left\<in>set (the_list first). \<exists>right\<in>set (the_list second).
        parts_overlap (path_parts (the_str left)) (path_parts (the_str right)))"

text \<open>Shorthands for the fields of a lease.\<close>

abbreviation lease_id :: "pydict \<Rightarrow> string" where
  "lease_id lease \<equiv> the_str (dget lease ''lease_id'')"

abbreviation lifecycle :: "pydict \<Rightarrow> string" where
  "lifecycle lease \<equiv> the_str (dget lease ''lifecycle_state'')"

abbreviation active_lease :: "pydict \<Rightarrow> bool" where
  "active_lease lease \<equiv> lifecycle lease \<in> set ACTIVE_LEASE_STATES"

abbreviation valid_lease :: "pydict \<Rightarrow> bool" where
  "valid_lease lease \<equiv> validate_lease None None (PDict lease) = []"

section \<open>Reading and writing the registry\<close>

definition REGISTRY_TYPE :: string where
  "REGISTRY_TYPE = ''cwo-native-supervision-lease-registry''"

definition REGISTRY_FIELDS :: "string list" where
  "REGISTRY_FIELDS = [''registry_type'', ''version'', ''leases'', ''registry_sha256'']"

definition registry_hash :: "pydict \<Rightarrow> string" where
  "registry_hash value = canonical_sha256 (PDict (filter (\<lambda>(key, _). key \<noteq> ''registry_sha256'') value))"

definition seal_registry :: "pydict list \<Rightarrow> pyval" where
  "seal_registry leases =
     (let value = [(''registry_type'', PStr REGISTRY_TYPE), (''version'', PInt 1),
                   (''leases'', PList (map PDict leases))]
      in PDict (dset value ''registry_sha256'' (PStr (canonical_sha256 (PDict value)))))"

definition locked :: "lease_store \<Rightarrow> (lease_error, unit) res" where
  "locked st =
     (if registry st = SymbolicLink then Inl (PoolLeaseError ''lease-registry-path-is-symlink'')
      else if lock_is_symlink st then Inl (PoolLeaseError ''lease-registry-lock-is-symlink'')
      else Inr ())"

text \<open>The loop of \<^verbatim>\<open>_load_unlocked\<close> over the stored leases, with the ids seen so far.\<close>

definition load_lease ::
    "string list \<times> pydict list \<Rightarrow> pyval \<Rightarrow> (lease_error, string list \<times> pydict list) res" where
  "load_lease acc lease =
     (case acc of (ids, result) \<Rightarrow>
        rbind (ensure (validate_lease None None lease = [])
                 (PoolLeaseError (''lease-registry-artifact-invalid:'' @ py_join '';'' (validate_lease None None lease))))
          (\<lambda>_. let entry = the_dict lease in
             rbind (ensure (lease_id entry \<notin> set ids) (PoolLeaseError ''lease-registry-duplicate-lease-id''))
               (\<lambda>_. Inr (lease_id entry # ids, result @ [entry]))))"

definition load_unlocked :: "lease_store \<Rightarrow> (lease_error, pydict list) res" where
  "load_unlocked st =
     (case registry st of
        Absent \<Rightarrow> Inr []
      | SymbolicLink \<Rightarrow> Inl (PoolLeaseError ''lease-registry-path-is-symlink'')
      | Unreadable \<Rightarrow> Inl (PoolLeaseError ''lease-registry-unreadable'')
      | Stored value \<Rightarrow>
          rbind (ensure (is_dict value \<and> set (dkeys (the_dict value)) = set REGISTRY_FIELDS)
                   (PoolLeaseError ''lease-registry-fields-invalid'')) (\<lambda>_.
          let d = the_dict value in
          rbind (ensure (dget d ''registry_type'' = PStr REGISTRY_TYPE \<and> py_eq (dget d ''version'') (PInt 1))
                   (PoolLeaseError ''lease-registry-header-invalid'')) (\<lambda>_.
          rbind (ensure (dget d ''registry_sha256'' = PStr (registry_hash d))
                   (PoolLeaseError ''lease-registry-sha256-mismatch'')) (\<lambda>_.
          rbind (ensure (is_list (dget d ''leases'')) (PoolLeaseError ''lease-registry-leases-invalid'')) (\<lambda>_.
          rbind (foldM load_lease ([], []) (the_list (dget d ''leases''))) (\<lambda>(ids, result).
          Inr result))))))"

text \<open>
  \<^verbatim>\<open>write_private_artifact\<close>: the file is replaced atomically; an operating-system error
  leaves the old file, or the new one when only the final change of mode failed.
\<close>

definition write_unlocked :: "lease_env \<Rightarrow> pydict list \<Rightarrow> lease_store \<Rightarrow> (lease_error, unit) res \<times> lease_store" where
  "write_unlocked env leases st =
     (case write_result env of
        WriteOk \<Rightarrow> (Inr (), st\<lparr>registry := Stored (seal_registry leases)\<rparr>)
      | WriteFailsBefore \<Rightarrow> (Inl OSError, st)
      | WriteFailsAfter \<Rightarrow> (Inl OSError, st\<lparr>registry := Stored (seal_registry leases)\<rparr>))"

definition restore_bytes_unlocked ::
    "lease_env \<Rightarrow> registry_file \<Rightarrow> lease_store \<Rightarrow> (lease_error, unit) res \<times> lease_store" where
  "restore_bytes_unlocked env previous st =
     (if restore_fails env then (Inl OSError, st) else (Inr (), st\<lparr>registry := previous\<rparr>))"

text \<open>The write of the two multi-lease operations: a failed one restores the previous bytes.\<close>

definition write_or_restore ::
    "lease_env \<Rightarrow> pydict list \<Rightarrow> lease_store \<Rightarrow> (lease_error, unit) res \<times> lease_store" where
  "write_or_restore env leases st =
     (let previous = registry st in
      case write_unlocked env leases st of
        (Inr _, st1) \<Rightarrow> (Inr (), st1)
      | (Inl _, st1) \<Rightarrow>
          (case restore_bytes_unlocked env previous st1 of
             (Inl _, st2) \<Rightarrow> (Inl (PoolLeaseError ''lease-registry-rollback-failed''), st2)
           | (Inr _, st2) \<Rightarrow> (Inl (PoolLeaseError ''lease-registry-write-failed''), st2)))"

section \<open>Lifecycle transitions\<close>

text \<open>The sealed artifact of a moved lease: the current one with four fields replaced.\<close>

definition moved_lease :: "pydict \<Rightarrow> string \<Rightarrow> string \<Rightarrow> pyval \<Rightarrow> pyval \<Rightarrow> pydict" where
  "moved_lease current lifecycle_state stamp terminal_evidence_sha256 release_reason = seal_artifact
     (dmerge current
       [(''lifecycle_state'', PStr lifecycle_state), (''updated_at'', PStr stamp),
        (''terminal_evidence_sha256'', terminal_evidence_sha256),
        (''release_reason'', release_reason)]) ''lease_sha256''"

definition prepare_transition ::
    "lease_env \<Rightarrow> pydict \<Rightarrow> string \<Rightarrow> pyval \<Rightarrow> pyval \<Rightarrow> bool \<Rightarrow> string option \<Rightarrow> string
       \<Rightarrow> (lease_error, pydict \<times> bool) res" where
  "prepare_transition env current lifecycle_state terminal_evidence_sha256 release_reason
       allow_orphan_reclassification updated_at invalid_artifact_code =
     (let current_state = lifecycle current in
      if current_state = lifecycle_state \<and> current_state \<in> set IDEMPOTENT_LEASE_STATES
      then Inr (current, False)
      else
        let requested_transition = lifecycle_state \<in> set (LEASE_TRANSITIONS current_state);
            orphan_reclassification = allow_orphan_reclassification
              \<and> lifecycle_state = ''orphaned-active''
              \<and> current_state \<in> set ORPHAN_RECLASSIFICATION_STATES
        in rbind (ensure (requested_transition \<or> orphan_reclassification)
                    (PoolLeaseTransitionError (lease_id current) current_state lifecycle_state)) (\<lambda>_.
           rbind (case updated_at of Some t \<Rightarrow> Inr t | None \<Rightarrow> iso (clock env)) (\<lambda>stamp.
           let updated = moved_lease current lifecycle_state stamp terminal_evidence_sha256 release_reason;
               errors = validate_lease None None (PDict updated)
           in rbind (ensure (errors = []) (PoolLeaseError (invalid_artifact_code @ '':'' @ py_join '';'' errors)))
                (\<lambda>_. Inr (updated, True)))))"

definition transition ::
    "lease_env \<Rightarrow> string \<Rightarrow> string \<Rightarrow> pyval \<Rightarrow> pyval \<Rightarrow> lease_store
       \<Rightarrow> (lease_error, pydict) res \<times> lease_store" where
  "transition env wanted lifecycle_state terminal_evidence_sha256 release_reason st =
     (case rbind (locked st) (\<lambda>_. load_unlocked st) of
        Inl e \<Rightarrow> (Inl e, st)
      | Inr leases \<Rightarrow>
          (case first_index (\<lambda>lease. dget lease ''lease_id'' = PStr wanted) leases of
             None \<Rightarrow> (Inl (PoolLeaseError ''lease-not-found''), st)
           | Some index \<Rightarrow>
               (case prepare_transition env (leases ! index) lifecycle_state terminal_evidence_sha256
                       release_reason False None ''lease-transition-invalid'' of
                  Inl e \<Rightarrow> (Inl e, st)
                | Inr (updated, changed) \<Rightarrow>
                    if \<not> changed then (Inr (leases ! index), st)
                    else returning (write_unlocked env (leases[index := updated]) st) updated)))"

definition hold :: "lease_env \<Rightarrow> string \<Rightarrow> lease_store \<Rightarrow> (lease_error, pydict) res \<times> lease_store" where
  "hold env wanted st = transition env wanted ''held'' PNone PNone st"

definition mark_release_pending ::
    "lease_env \<Rightarrow> string \<Rightarrow> string \<Rightarrow> string \<Rightarrow> lease_store \<Rightarrow> (lease_error, pydict) res \<times> lease_store" where
  "mark_release_pending env wanted terminal_evidence_sha256 reason st =
     transition env wanted ''release-pending'' (PStr terminal_evidence_sha256) (PStr reason) st"

definition release ::
    "lease_env \<Rightarrow> string \<Rightarrow> pydict \<Rightarrow> string \<Rightarrow> lease_store \<Rightarrow> (lease_error, pydict) res \<times> lease_store" where
  "release env wanted terminal_state reason st =
     (let errors = state_errors env (PDict terminal_state) in
      if errors \<noteq> [] then (Inl (PoolLeaseError (''terminal-pool-state-invalid:'' @ py_join '';'' errors)), st)
      else if \<not> in_strs (dget terminal_state ''status'') [''completed'', ''closed'']
      then (Inl (PoolLeaseError ''lease-release-requires-completed-or-closed-pool''), st)
      else transition env wanted ''released'' (dget terminal_state ''state_sha256'') (PStr reason) st)"

definition snapshot :: "lease_store \<Rightarrow> (lease_error, pydict list) res" where
  "snapshot st = rbind (locked st) (\<lambda>_. load_unlocked st)"

section \<open>Acquiring and releasing sets of leases\<close>

text \<open>
  The ids that a call asks for: the children of the contract, or the given ones.  Children of a
  contract carry text ids.
\<close>

definition requested_children :: "pydict \<Rightarrow> pyval list option \<Rightarrow> (lease_error, string list) res" where
  "requested_children contract child_ids =
     (let requested = (case child_ids of
            None \<Rightarrow> map (\<lambda>child. dget (the_dict child) ''child_id'') (the_list (dget contract ''children''))
          | Some ids \<Rightarrow> ids)
      in if requested = [] \<or> (\<exists>c\<in>set requested. \<not> is_str c \<or> the_str c = [])
            \<or> \<not> distinct (map the_str requested)
         then Inl (PoolLeaseError ''lease-child-set-invalid'')
         else Inr (map the_str requested))"

definition new_lease :: "pydict \<Rightarrow> string \<Rightarrow> pydict \<Rightarrow> string \<Rightarrow> pydict" where
  "new_lease contract child_id child now = seal_artifact
     [(''lease_type'', PStr LEASE_TYPE), (''version'', PInt 1), (''schema'', PStr LEASE_SCHEMA),
      (''lease_id'', dget child ''lease_id''), (''pool_id'', dget contract ''pool_id''),
      (''child_id'', PStr child_id), (''pool_epoch'', dget contract ''pool_epoch''),
      (''integration_root_identity'', dget (the_dict (dget contract ''topology'')) ''integration_root_identity''),
      (''worktree_identity'', dget child ''worktree_identity''),
      (''target_paths'', PList (the_list (dget child ''integration_target_paths''))),
      (''owner'', dget contract ''owner''), (''lifecycle_state'', PStr ''acquired''),
      (''acquired_at'', PStr now), (''updated_at'', PStr now),
      (''terminal_evidence_sha256'', PNone), (''release_reason'', PNone)] ''lease_sha256''"

definition requested_lease :: "pydict \<Rightarrow> string \<Rightarrow> string \<Rightarrow> (lease_error, pydict) res" where
  "requested_lease contract now child_id =
     (case contract_child contract (PStr child_id) of
        None \<Rightarrow> Inl (PoolLeaseError ''lease-child-unknown'')
      | Some child \<Rightarrow>
          if child = [] then Inl (PoolLeaseError ''lease-child-unknown'')
          else let lease = new_lease contract child_id child now;
                   errors = validate_lease (Some contract) None (PDict lease)
               in if errors \<noteq> [] then Inl (PoolLeaseError (''lease-invalid:'' @ py_join '';'' errors))
                  else Inr lease)"

text \<open>The first loop under the lock: leases of dead owners become orphaned.\<close>

definition reclassify_orphan :: "lease_env \<Rightarrow> string \<Rightarrow> pydict \<Rightarrow> (lease_error, pydict) res" where
  "reclassify_orphan env now existing =
     (if \<not> active_lease existing then Inr existing
      else if \<not> owner_alive env (dget existing ''owner'')
           \<and> lifecycle existing \<in> set ORPHAN_RECLASSIFICATION_STATES
      then rbind (prepare_transition env existing ''orphaned-active'' PNone PNone True (Some now)
                    ''lease-transition-invalid'')
             (\<lambda>(updated, reclassified). Inr (if reclassified then updated else existing))
      else Inr existing)"

definition read_only_siblings :: "pydict \<Rightarrow> pydict \<Rightarrow> bool" where
  "read_only_siblings existing lease \<longleftrightarrow>
     py_eq (dget existing ''pool_id'') (dget lease ''pool_id'')
     \<and> py_eq (dget existing ''pool_epoch'') (dget lease ''pool_epoch'')
     \<and> \<not> py_truth (dget existing ''target_paths'') \<and> \<not> py_truth (dget lease ''target_paths'')"

text \<open>The body of the collision loops: a requested lease against one lease of the staged registry.\<close>

definition check_collision :: "pydict \<Rightarrow> pydict \<Rightarrow> (lease_error, unit) res" where
  "check_collision lease existing =
     (if py_eq (dget existing ''lease_id'') (dget lease ''lease_id'')
      then Inl (PoolLeaseCollision ''lease-id-already-active'' (the_str (dget lease ''child_id'')))
      else if \<not> active_lease existing then Inr ()
      else
        rbind (identity_key (dget existing ''integration_root_identity'')) (\<lambda>root1.
        rbind (identity_key (dget lease ''integration_root_identity'')) (\<lambda>root2.
        rbind (identity_key (dget existing ''worktree_identity'')) (\<lambda>tree1.
        rbind (identity_key (dget lease ''worktree_identity'')) (\<lambda>tree2.
        if tree1 = tree2 \<and> \<not> read_only_siblings existing lease
        then Inl (PoolLeaseCollision ''worktree-lease-collision'' (the_str (dget lease ''child_id'')))
        else if root1 = root2 \<and> paths_overlap (dget existing ''target_paths'') (dget lease ''target_paths'')
        then Inl (PoolLeaseCollision ''integration-target-lease-collision'' (the_str (dget lease ''child_id'')))
        else Inr ())))))"

definition stage_lease :: "pydict list \<Rightarrow> pydict \<Rightarrow> (lease_error, pydict list) res" where
  "stage_lease staged lease =
     rbind (mapM (check_collision lease) staged) (\<lambda>_. Inr (staged @ [lease]))"

text \<open>What an acquisition writes: the requested leases, and the whole registry with them at the end.\<close>

definition plan_acquire ::
    "lease_env \<Rightarrow> pydict \<Rightarrow> pyval list option \<Rightarrow> lease_store
       \<Rightarrow> (lease_error, pydict list \<times> pydict list) res" where
  "plan_acquire env contract child_ids st =
     rbind (requested_children contract child_ids) (\<lambda>requested.
     rbind (iso (clock env)) (\<lambda>now.
     rbind (mapM (requested_lease contract now) requested) (\<lambda>requested_leases.
     rbind (locked st) (\<lambda>_.
     rbind (load_unlocked st) (\<lambda>stored.
     rbind (mapM (reclassify_orphan env now) stored) (\<lambda>staged.
     rbind (foldM stage_lease staged requested_leases) (\<lambda>final.
     Inr (requested_leases, final))))))))"

definition acquire_many ::
    "lease_env \<Rightarrow> pydict \<Rightarrow> pyval list option \<Rightarrow> lease_store
       \<Rightarrow> (lease_error, pydict list) res \<times> lease_store" where
  "acquire_many env contract child_ids st =
     (let errors = contract_errors env (PDict contract) in
      if errors \<noteq> [] then (Inl (PoolLeaseError (''pool-contract-invalid:'' @ py_join '';'' errors)), st)
      else case plan_acquire env contract child_ids st of
             Inl e \<Rightarrow> (Inl e, st)
           | Inr (requested_leases, final) \<Rightarrow>
               returning (write_or_restore env final st) requested_leases)"

definition acquire ::
    "lease_env \<Rightarrow> pydict \<Rightarrow> string \<Rightarrow> lease_store \<Rightarrow> (lease_error, pydict) res \<times> lease_store" where
  "acquire env contract child_id st =
     (case acquire_many env contract (Some [PStr child_id]) st of
        (Inl e, st1) \<Rightarrow> (Inl e, st1)
      | (Inr leases, st1) \<Rightarrow> (Inr (hd leases), st1))"

text \<open>
  Releasing an uncommitted set compares the stored leases that have the supplied ids with the
  supplied ones, as dictionaries by id.
\<close>

definition lease_map :: "pydict list \<Rightarrow> pydict" where
  "lease_map leases = dmerge [] (map (\<lambda>lease. (lease_id lease, PDict lease)) leases)"

definition release_uncommitted_many ::
    "lease_env \<Rightarrow> pydict \<Rightarrow> pydict list \<Rightarrow> lease_store \<Rightarrow> (lease_error, unit) res \<times> lease_store" where
  "release_uncommitted_many env contract supplied st =
     (let errors = contract_errors env (PDict contract);
          expected = map (\<lambda>child. dget (the_dict child) ''child_id'') (the_list (dget contract ''children''));
          supplied_by_id = lease_map supplied
      in if errors \<noteq> [] then (Inl (PoolLeaseError (''pool-contract-invalid:'' @ py_join '';'' errors)), st)
      else if \<not> py_eq (PList (map (\<lambda>lease. dget lease ''child_id'') supplied)) (PList expected)
      then (Inl (PoolLeaseError ''uncommitted-lease-set-child-mismatch''), st)
      else if (\<exists>lease\<in>set supplied. validate_lease (Some contract) None (PDict lease) \<noteq> []
                 \<or> dget lease ''lifecycle_state'' \<noteq> PStr ''acquired'')
      then (Inl (PoolLeaseError ''uncommitted-lease-set-invalid''), st)
      else if length supplied_by_id \<noteq> length supplied
      then (Inl (PoolLeaseError ''uncommitted-lease-set-duplicate''), st)
      else case rbind (locked st) (\<lambda>_. load_unlocked st) of
        Inl e \<Rightarrow> (Inl e, st)
      | Inr staged \<Rightarrow>
          (let current_by_id =
                 lease_map (filter (\<lambda>lease. lease_id lease \<in> set (dkeys supplied_by_id)) staged)
           in if \<not> py_eq (PDict current_by_id) (PDict supplied_by_id)
              then (Inl (PoolLeaseError ''uncommitted-lease-set-drift''), st)
              else write_or_restore env
                     (filter (\<lambda>lease. lease_id lease \<notin> set (dkeys supplied_by_id)) staged) st))"

section \<open>Cleaning up after dead owners\<close>

text \<open>
  What the code decides for one lease of a dead owner: nothing, or a lifecycle state with its
  evidence and reason.
\<close>

definition cleanup_target :: "lease_env \<Rightarrow> (string \<Rightarrow> pyval option) \<Rightarrow> pydict \<Rightarrow> (string \<times> pyval \<times> pyval) option" where
  "cleanup_target env terminal_states lease =
     (let orphan = (if lifecycle lease \<in> set ORPHAN_RECLASSIFICATION_STATES
                    then Some (''orphaned-active'', PNone, PNone) else None)
      in case terminal_states (the_str (dget lease ''pool_id'')) of
           Some (PDict state) \<Rightarrow>
             (if state_errors env (PDict state) \<noteq> []
                 \<or> \<not> py_eq (dget state ''pool_epoch'') (dget lease ''pool_epoch'') then orphan
              else if in_strs (dget state ''status'') [''completed'', ''closed''] then
                Some (''released'', dget state ''state_sha256'', PStr ''stale-owner-terminal-pool'')
              else if dget state ''status'' = PStr ''control-failed'' then
                Some (''release-pending'', dget state ''state_sha256'', PStr ''manual-containment-required'')
              else orphan)
         | _ \<Rightarrow> orphan)"

definition cleanup_lease ::
    "lease_env \<Rightarrow> (string \<Rightarrow> pyval option) \<Rightarrow> pydict \<Rightarrow> (lease_error, pydict \<times> bool) res" where
  "cleanup_lease env terminal_states lease =
     (if lifecycle lease = ''released'' \<or> owner_alive env (dget lease ''owner'') then Inr (lease, False)
      else case cleanup_target env terminal_states lease of
        None \<Rightarrow> Inr (lease, False)
      | Some (lifecycle_state, terminal_hash, reason) \<Rightarrow>
          rbind (iso (clock env)) (\<lambda>now.
          prepare_transition env lease lifecycle_state terminal_hash reason True (Some now)
            ''stale-lease-transition-invalid''))"

definition cleanup_stale ::
    "lease_env \<Rightarrow> (string \<Rightarrow> pyval option) \<Rightarrow> lease_store \<Rightarrow> (lease_error, pydict list) res \<times> lease_store" where
  "cleanup_stale env terminal_states st =
     (case rbind (locked st) (\<lambda>_. rbind (load_unlocked st) (mapM (cleanup_lease env terminal_states))) of
        Inl e \<Rightarrow> (Inl e, st)
      | Inr outcomes \<Rightarrow>
          (let changed = map fst (filter snd outcomes) in
           if changed = [] then (Inr [], st)
           else returning (write_unlocked env (map fst outcomes) st) changed))"

section \<open>The registry file\<close>

text \<open>What loading accepts, and that loading gives back what was sealed.\<close>

definition well_formed :: "pydict list \<Rightarrow> bool" where
  "well_formed leases \<longleftrightarrow> (\<forall>lease\<in>set leases. valid_lease lease) \<and> distinct (map lease_id leases)"

lemma load_lease_Inr:
  "load_lease (ids, acc) v = Inr (ids', acc') \<longleftrightarrow>
     (\<exists>lease. v = PDict lease \<and> valid_lease lease \<and> lease_id lease \<notin> set ids
        \<and> ids' = lease_id lease # ids \<and> acc' = acc @ [lease])"
proof (cases v)
  case (PDict d)
  then show ?thesis by (auto simp: load_lease_def Let_def res_simps)
qed (auto simp: load_lease_def validate_lease_def strict_def res_simps)

lemma map_PDict_inject [simp]: "map PDict xs = map PDict ys \<longleftrightarrow> xs = ys"
  by (simp add: inj_map_eq_map inj_def)

lemma foldM_load_lease:
  "foldM load_lease (ids, acc) vs = Inr (ids', acc') \<longleftrightarrow>
     (\<exists>leases. vs = map PDict leases \<and> (\<forall>lease\<in>set leases. valid_lease lease)
        \<and> distinct (map lease_id leases) \<and> set ids \<inter> set (map lease_id leases) = {}
        \<and> ids' = rev (map lease_id leases) @ ids \<and> acc' = acc @ leases)"
proof (induction vs arbitrary: ids acc ids' acc')
  case Nil
  then show ?case by auto
next
  case (Cons v vs)
  show ?case (is "?lhs \<longleftrightarrow> ?rhs")
  proof
    assume ?lhs
    then show ?rhs by (fastforce simp: res_simps load_lease_Inr Cons.IH)
  next
    assume ?rhs
    then obtain l ls where "v = PDict l" "vs = map PDict ls" "valid_lease l"
      "\<forall>lease\<in>set ls. valid_lease lease" "distinct (lease_id l # map lease_id ls)"
      "set ids \<inter> insert (lease_id l) (set (map lease_id ls)) = {}"
      "ids' = rev (map lease_id ls) @ lease_id l # ids" "acc' = acc @ l # ls"
      by (auto simp: Cons_eq_map_conv)
    then show ?lhs using Cons.IH by (auto simp: res_simps load_lease_Inr)
  qed
qed

lemma load_unlocked_sound: "load_unlocked st = Inr leases \<Longrightarrow> well_formed leases"
  by (auto simp: load_unlocked_def well_formed_def Let_def res_simps foldM_load_lease
      split: registry_file.splits prod.splits)

lemma load_unlocked_sealed:
  assumes "well_formed leases" and "registry st = Stored (seal_registry leases)"
  shows "load_unlocked st = Inr leases"
proof -
  have "foldM load_lease ([], []) (map PDict leases) = Inr (rev (map lease_id leases), leases)"
    using assms(1) by (simp add: foldM_load_lease well_formed_def)
  then show ?thesis
    using assms(2)
    by (auto simp: load_unlocked_def seal_registry_def registry_hash_def REGISTRY_FIELDS_def)
qed

section \<open>Transitions\<close>

text \<open>The fields by which two leases compete.\<close>

definition CLAIM_FIELDS :: "string list" where
  "CLAIM_FIELDS = [''pool_id'', ''pool_epoch'', ''integration_root_identity'', ''worktree_identity'', ''target_paths'']"

definition same_claim :: "pydict \<Rightarrow> pydict \<Rightarrow> bool" where
  "same_claim a b \<longleftrightarrow> (\<forall>field\<in>set CLAIM_FIELDS. dget a field = dget b field)"

definition lease_conflict :: "pydict \<Rightarrow> pydict \<Rightarrow> bool" where
  "lease_conflict a b \<longleftrightarrow>
     (identity_key (dget a ''worktree_identity'') = identity_key (dget b ''worktree_identity'')
        \<and> \<not> read_only_siblings a b)
     \<or> (identity_key (dget a ''integration_root_identity'') = identity_key (dget b ''integration_root_identity'')
        \<and> paths_overlap (dget a ''target_paths'') (dget b ''target_paths''))"

lemma parts_overlap_sym: "parts_overlap a b \<longleftrightarrow> parts_overlap b a"
  by (auto simp: parts_overlap_def)

lemma lease_conflict_sym: "lease_conflict a b \<Longrightarrow> lease_conflict b a"
  unfolding lease_conflict_def read_only_siblings_def paths_overlap_def
  by (metis parts_overlap_sym py_eq_sym)

interpretation holders: exclusive_holders active_lease lease_conflict same_claim
proof unfold_locales
  fix a a' b b' :: pydict
  assume "same_claim a a'" and "same_claim b b'" and "lease_conflict a' b'"
  then show "lease_conflict a b"
    by (simp add: same_claim_def CLAIM_FIELDS_def lease_conflict_def read_only_siblings_def)
qed (auto simp: same_claim_def intro: lease_conflict_sym)

abbreviation exclusive :: "pydict list \<Rightarrow> bool" where
  "exclusive leases \<equiv> pairwise_free active_lease lease_conflict leases"

text \<open>The steps that a lease may take: by request, or by reclassification of a dead owner's lease.\<close>

definition lifecycle_step :: "bool \<Rightarrow> string \<Rightarrow> string \<Rightarrow> bool" where
  "lifecycle_step orphans s s' \<longleftrightarrow>
     s' \<in> set (LEASE_TRANSITIONS s)
     \<or> (orphans \<and> s' = ''orphaned-active'' \<and> s \<in> set ORPHAN_RECLASSIFICATION_STATES)"

lemma LEASE_TRANSITIONS_from_active: "s' \<in> set (LEASE_TRANSITIONS s) \<Longrightarrow> s \<in> set ACTIVE_LEASE_STATES"
  by (auto simp: LEASE_TRANSITIONS_def ACTIVE_LEASE_STATES_def split: if_splits)

lemma lifecycle_step_active: "lifecycle_step orphans s s' \<Longrightarrow> s \<in> set ACTIVE_LEASE_STATES"
  by (auto simp: lifecycle_step_def ORPHAN_RECLASSIFICATION_STATES_def ACTIVE_LEASE_STATES_def
      dest: LEASE_TRANSITIONS_from_active)

text \<open>A lease that is kept or moved along: valid, with the same id and claim, and not revived.\<close>

definition keeps :: "pydict \<Rightarrow> pydict \<Rightarrow> bool" where
  "keeps current updated \<longleftrightarrow>
     valid_lease updated \<and> same_claim current updated \<and> lease_id updated = lease_id current
     \<and> dget updated ''owner'' = dget current ''owner''
     \<and> (active_lease updated \<longrightarrow> active_lease current)"

lemma keeps_refl: "valid_lease lease \<Longrightarrow> keeps lease lease"
  by (simp add: keeps_def same_claim_def)

lemma moved_lease_fields:
  "same_claim current (moved_lease current target t evidence reason)"
  "lease_id (moved_lease current target t evidence reason) = lease_id current"
  "lifecycle (moved_lease current target t evidence reason) = target"
  "dget (moved_lease current target t evidence reason) ''owner'' = dget current ''owner''"
  by (simp_all add: moved_lease_def same_claim_def CLAIM_FIELDS_def)

lemma prepare_transition_moves:
  assumes "prepare_transition env current target evidence reason orphans stamp code' = Inr (updated, changed)"
    and "\<not> (lifecycle current = target \<and> target \<in> set IDEMPOTENT_LEASE_STATES)"
  shows "changed \<and> valid_lease updated \<and> lifecycle_step orphans (lifecycle current) target
    \<and> (\<exists>t. updated = moved_lease current target t evidence reason)"
  using assms
  apply (simp only: prepare_transition_def Let_def split: if_splits)
   apply (simp_all add: res_simps lifecycle_step_def)
  apply blast
  done

lemma prepare_transition_Inr:
  assumes "prepare_transition env current target evidence reason orphans stamp code' = Inr (updated, changed)"
  shows "(\<not> changed \<and> updated = current \<and> lifecycle current = target \<and> target \<in> set IDEMPOTENT_LEASE_STATES)
    \<or> (changed \<and> lifecycle updated = target \<and> lifecycle_step orphans (lifecycle current) target
        \<and> keeps current updated)"
proof (cases "lifecycle current = target \<and> target \<in> set IDEMPOTENT_LEASE_STATES")
  case True
  with assms show ?thesis by (simp add: prepare_transition_def)
next
  case False
  from prepare_transition_moves [OF assms this] obtain t where ch: "changed" and valid: "valid_lease updated"
    and step: "lifecycle_step orphans (lifecycle current) target"
    and eq: "updated = moved_lease current target t evidence reason"
    by blast
  show ?thesis
    using ch valid step lifecycle_step_active [OF step] moved_lease_fields [of current target t evidence reason]
    unfolding eq by (simp add: keeps_def)
qed

lemma prepare_transition_keeps:
  assumes "prepare_transition env current target evidence reason orphans stamp code' = Inr (updated, changed)"
    and "valid_lease current"
  shows "keeps current updated"
  using prepare_transition_Inr [OF assms(1)] assms(2) by (auto simp: keeps_refl)

text \<open>A registry whose leases are each kept or moved along stays well formed and exclusive.\<close>

lemma keeps_all:
  assumes "list_all2 keeps leases leases'" and "well_formed leases" and "exclusive leases"
  shows "well_formed leases' \<and> exclusive leases'"
proof
  have "map lease_id leases' = map lease_id leases"
    using assms(1) by (auto simp: keeps_def list_all2_conv_all_nth intro!: nth_equalityI)
  moreover have "\<forall>lease\<in>set leases'. valid_lease lease"
    using assms(1) by (auto simp: keeps_def list_all2_conv_all_nth in_set_conv_nth)
  ultimately show "well_formed leases'"
    using assms(2) by (simp add: well_formed_def)
  show "exclusive leases'"
    by (rule holders.free_replace [OF _ assms(3)])
       (use assms(1) in \<open>auto simp: keeps_def elim: list_all2_mono\<close>)
qed

lemma reclassify_orphan_keeps:
  assumes "reclassify_orphan env now lease = Inr lease'" and "valid_lease lease"
  shows "keeps lease lease'"
  using assms
  by (auto simp: reclassify_orphan_def keeps_refl res_simps dest: prepare_transition_keeps split: if_splits)

lemma cleanup_lease_keeps:
  assumes "cleanup_lease env states lease = Inr (lease', ch)" and "valid_lease lease"
  shows "keeps lease lease'"
  using assms
  by (auto simp: cleanup_lease_def keeps_refl res_simps dest: prepare_transition_keeps
      split: if_splits option.splits prod.splits)

section \<open>Acquisition\<close>

lemma validate_lease_contract: "validate_lease (Some contract) None v = [] \<Longrightarrow> validate_lease None None v = []"
  by (auto simp: validate_lease_def)

lemma requested_lease_valid: "requested_lease contract now child_id = Inr lease \<Longrightarrow> valid_lease lease"
  by (auto simp: requested_lease_def Let_def dest: validate_lease_contract split: option.splits if_splits)

lemma check_collision_Inr:
  assumes "check_collision lease existing = Inr u" and "valid_lease existing"
  shows "lease_id existing \<noteq> lease_id lease" and "active_lease existing \<Longrightarrow> \<not> lease_conflict existing lease"
proof -
  from assms(1) have "\<not> py_eq (dget existing ''lease_id'') (dget lease ''lease_id'')"
    by (auto simp: check_collision_def split: if_splits)
  moreover obtain s where "dget existing ''lease_id'' = PStr s" and "py_strip s \<noteq> []"
    using valid_lease_facts(1) [OF assms(2)] by (auto simp: nonempty_text_iff)
  ultimately show "lease_id existing \<noteq> lease_id lease"
    by (cases "dget lease ''lease_id''") (auto simp: the_str_def py_strip_def)
  assume "active_lease existing"
  with assms(1) show "\<not> lease_conflict existing lease"
    by (auto simp: check_collision_def lease_conflict_def res_simps split: if_splits)
qed

lemma stage_lease_Inr:
  "stage_lease staged lease = Inr x \<longleftrightarrow> (\<exists>us. mapM (check_collision lease) staged = Inr us) \<and> x = staged @ [lease]"
  by (auto simp: stage_lease_def res_simps)

lemma stage_lease_keeps:
  assumes "stage_lease staged lease = Inr staged'" and "well_formed staged \<and> exclusive staged"
    and "valid_lease lease"
  shows "well_formed staged' \<and> exclusive staged'"
proof -
  from assms(1) obtain us where us: "mapM (check_collision lease) staged = Inr us"
    and eq: "staged' = staged @ [lease]"
    by (auto simp: stage_lease_Inr)
  have checked: "\<exists>u. check_collision lease e = Inr u" if "e \<in> set staged" for e
    using us that by (auto simp: mapM_Inr_list_all2 list_all2_conv_all_nth in_set_conv_nth)
  have valid: "valid_lease e" if "e \<in> set staged" for e
    using assms(2) that by (simp add: well_formed_def)
  have ids: "lease_id e \<noteq> lease_id lease" and free: "active_lease e \<Longrightarrow> \<not> lease_conflict e lease"
    if "e \<in> set staged" for e
    using check_collision_Inr [OF _ valid [OF that]] checked [OF that] by blast+
  from ids have "lease_id lease \<notin> lease_id ` set staged" by fastforce
  with assms(2,3) have "well_formed staged'"
    by (auto simp: eq well_formed_def)
  moreover have "exclusive staged'"
    unfolding eq using assms(2) free by (intro holders.free_snoc) auto
  ultimately show ?thesis by blast
qed

lemma list_all2_mapM: "mapM f xs = Inr ys \<Longrightarrow> (\<And>x y. x \<in> set xs \<Longrightarrow> f x = Inr y \<Longrightarrow> R x y) \<Longrightarrow> list_all2 R xs ys"
  by (auto simp: mapM_Inr_list_all2 list_all2_conv_all_nth)

text \<open>What is written by an acquisition: a well-formed, exclusive registry that ends in the requested leases.\<close>

lemma staged_registry:
  assumes "well_formed stored" and "exclusive stored"
    and "mapM (reclassify_orphan env now) stored = Inr staged"
    and "mapM (requested_lease contract now) requested = Inr leases"
    and "foldM stage_lease staged leases = Inr final"
  shows "well_formed final \<and> exclusive final"
proof -
  have "list_all2 keeps stored staged"
    using assms(1) by (intro list_all2_mapM [OF assms(3)] reclassify_orphan_keeps) (auto simp: well_formed_def)
  from keeps_all [OF this assms(1,2)] have start: "well_formed staged \<and> exclusive staged" .
  have "valid_lease lease" if "lease \<in> set leases" for lease
    using mapM_Inr_set [OF assms(4) that] requested_lease_valid by blast
  then show ?thesis
    using start stage_lease_keeps
    by (intro foldM_invariant [OF assms(5), where P = "\<lambda>ls. well_formed ls \<and> exclusive ls"]) blast+
qed

lemma foldM_stage_lease: "foldM stage_lease staged leases = Inr final \<Longrightarrow> final = staged @ leases"
proof (induction leases arbitrary: staged)
  case (Cons lease leases)
  then have "foldM stage_lease (staged @ [lease]) leases = Inr final"
    by (auto simp: stage_lease_Inr res_simps)
  from Cons.IH [OF this] show ?case by simp
qed simp

section \<open>Every operation keeps the registry exclusive\<close>

text \<open>A registry that loads, and in which no two active leases compete.\<close>

definition registry_inv :: "lease_store \<Rightarrow> bool" where
  "registry_inv st \<longleftrightarrow> (\<exists>leases. load_unlocked st = Inr leases \<and> exclusive leases)"

lemma registry_inv_sealed:
  "well_formed leases \<Longrightarrow> exclusive leases \<Longrightarrow> registry st = Stored (seal_registry leases) \<Longrightarrow> registry_inv st"
  unfolding registry_inv_def by (blast intro: load_unlocked_sealed)

lemma load_unlocked_cong: "registry st' = registry st \<Longrightarrow> load_unlocked st' = load_unlocked st"
  by (simp add: load_unlocked_def)

lemma registry_inv_cong: "registry st' = registry st \<Longrightarrow> registry_inv st \<Longrightarrow> registry_inv st'"
  by (metis registry_inv_def load_unlocked_cong)

lemma write_unlocked_cases:
  "registry (snd (write_unlocked env leases st)) = registry st
   \<or> registry (snd (write_unlocked env leases st)) = Stored (seal_registry leases)"
  by (cases "write_result env") (simp_all add: write_unlocked_def)

lemma write_or_restore_cases:
  "registry (snd (write_or_restore env leases st)) = registry st
   \<or> registry (snd (write_or_restore env leases st)) = Stored (seal_registry leases)"
  by (cases "write_result env")
     (simp_all add: write_or_restore_def write_unlocked_def restore_bytes_unlocked_def)

lemma write_or_restore_result:
  "fst (write_or_restore env leases st) = Inr u \<Longrightarrow>
     registry (snd (write_or_restore env leases st)) = Stored (seal_registry leases)"
  "fst (write_or_restore env leases st) = Inl e \<Longrightarrow> \<not> restore_fails env \<Longrightarrow>
     registry (snd (write_or_restore env leases st)) = registry st"
  by (cases "write_result env";
      auto simp: write_or_restore_def write_unlocked_def restore_bytes_unlocked_def split: if_splits)+

lemma write_unlocked_inv:
  "well_formed leases \<and> exclusive leases \<Longrightarrow> registry_inv st \<Longrightarrow> registry_inv (snd (write_unlocked env leases st))"
  using write_unlocked_cases registry_inv_sealed registry_inv_cong by blast

lemma write_or_restore_inv:
  "well_formed leases \<and> exclusive leases \<Longrightarrow> registry_inv st \<Longrightarrow> registry_inv (snd (write_or_restore env leases st))"
  using write_or_restore_cases registry_inv_sealed registry_inv_cong by blast

lemma registry_invD: "registry_inv st \<Longrightarrow> load_unlocked st = Inr leases \<Longrightarrow> well_formed leases \<and> exclusive leases"
  by (auto simp: registry_inv_def dest: load_unlocked_sound)

lemma acquire_many_inv [inv_intros]:
  assumes inv: "registry_inv st"
  shows "registry_inv (snd (acquire_many env contract ids st))"
proof -
  have "registry_inv (snd (write_or_restore env final st))"
    if "load_unlocked st = Inr stored" "mapM (reclassify_orphan env now) stored = Inr staged"
      "mapM (requested_lease contract now) requested = Inr leases" "foldM stage_lease staged leases = Inr final"
    for now stored staged requested leases final
    using that registry_invD [OF inv] by (intro write_or_restore_inv inv staged_registry) auto
  then show ?thesis
    using inv by (auto simp: acquire_many_def plan_acquire_def Let_def res_simps split: sum.splits prod.splits)
qed

lemma snd_acquire [simp]:
  "snd (acquire env contract child_id st) = snd (acquire_many env contract (Some [PStr child_id]) st)"
  by (auto simp: acquire_def split: prod.splits sum.splits)

lemma transition_inv [inv_intros]:
  assumes inv: "registry_inv st"
  shows "registry_inv (snd (transition env wanted target evidence reason st))"
proof -
  have "registry_inv (snd (write_unlocked env (leases[i := updated]) st))"
    if load: "load_unlocked st = Inr leases"
      and i: "first_index (\<lambda>lease. dget lease ''lease_id'' = PStr wanted) leases = Some i"
      and prep: "prepare_transition env (leases ! i) target evidence reason False None
                   ''lease-transition-invalid'' = Inr (updated, changed)" for leases i updated changed
  proof -
    have i_len: "i < length leases" using first_index_Some [OF i] by blast
    have ok: "well_formed leases \<and> exclusive leases" by (rule registry_invD [OF inv load])
    then have valid: "valid_lease (leases ! j)" if "j < length leases" for j
      using that by (simp add: well_formed_def)
    have "list_all2 keeps leases (leases[i := updated])"
      using prepare_transition_keeps [OF prep] valid i_len
      by (auto simp: list_all2_conv_all_nth nth_list_update keeps_refl)
    then show ?thesis
      using keeps_all ok by (intro write_unlocked_inv inv) blast
  qed
  then show ?thesis
    using inv by (auto simp: transition_def res_simps split: sum.splits option.splits prod.splits)
qed

lemma well_formed_filter: "well_formed leases \<Longrightarrow> well_formed (filter p leases)"
  by (auto simp: well_formed_def distinct_map_filter)

lemma release_uncommitted_many_inv [inv_intros]:
  assumes inv: "registry_inv st"
  shows "registry_inv (snd (release_uncommitted_many env contract supplied st))"
proof -
  have "registry_inv (snd (write_or_restore env (filter p staged) st))" if "load_unlocked st = Inr staged" for p staged
    using registry_invD [OF inv that]
    by (intro write_or_restore_inv inv conjI well_formed_filter holders.free_filter) auto
  then show ?thesis
    using inv by (auto simp: release_uncommitted_many_def Let_def res_simps split: sum.splits)
qed

lemma cleanup_stale_inv [inv_intros]:
  assumes inv: "registry_inv st"
  shows "registry_inv (snd (cleanup_stale env states st))"
proof -
  have "registry_inv (snd (write_unlocked env (map fst outcomes) st))"
    if "load_unlocked st = Inr leases" "mapM (cleanup_lease env states) leases = Inr outcomes" for leases outcomes
  proof -
    have ok: "well_formed leases \<and> exclusive leases" by (rule registry_invD [OF inv that(1)])
    have "list_all2 (\<lambda>lease outcome. keeps lease (fst outcome)) leases outcomes"
      using ok by (intro list_all2_mapM [OF that(2)]) (auto simp: well_formed_def intro: cleanup_lease_keeps)
    then have "list_all2 keeps leases (map fst outcomes)"
      by (simp add: list_all2_map2)
    then show ?thesis
      using keeps_all ok by (intro write_unlocked_inv inv) blast
  qed
  then show ?thesis
    using inv by (auto simp: cleanup_stale_def Let_def res_simps split: sum.splits prod.splits)
qed

text \<open>One step is one public operation with any arguments, in any environment.\<close>

datatype lease_op =
    Acquire pydict "pyval list option"
  | AcquireOne pydict string
  | ReleaseUncommitted pydict "pydict list"
  | Hold string
  | MarkReleasePending string string string
  | Release string pydict string
  | CleanupStale "string \<Rightarrow> pyval option"

fun run_op :: "lease_env \<Rightarrow> lease_op \<Rightarrow> lease_store \<Rightarrow> lease_store" where
  "run_op env (Acquire contract ids) st = snd (acquire_many env contract ids st)"
| "run_op env (AcquireOne contract child) st = snd (acquire env contract child st)"
| "run_op env (ReleaseUncommitted contract leases) st = snd (release_uncommitted_many env contract leases st)"
| "run_op env (Hold wanted) st = snd (hold env wanted st)"
| "run_op env (MarkReleasePending wanted evidence reason) st = snd (mark_release_pending env wanted evidence reason st)"
| "run_op env (Release wanted state reason) st = snd (release env wanted state reason st)"
| "run_op env (CleanupStale states) st = snd (cleanup_stale env states st)"

inductive lease_reachable :: "lease_store \<Rightarrow> bool" where
  fresh: "registry st = Absent \<Longrightarrow> lease_reachable st"
| step: "lease_reachable st \<Longrightarrow> lease_reachable (run_op env op st)"

lemma run_op_inv: "registry_inv st \<Longrightarrow> registry_inv (run_op env op st)"
  by (cases op)
     (auto simp: hold_def mark_release_pending_def release_def Let_def intro: inv_intros)

lemma fresh_inv: "registry st = Absent \<Longrightarrow> registry_inv st"
  by (simp add: registry_inv_def load_unlocked_def holders.free_Nil)

lemma lease_reachable_inv: "lease_reachable st \<Longrightarrow> registry_inv st"
  by (induction rule: lease_reachable.induct) (simp_all add: fresh_inv run_op_inv)

section \<open>Released leases stay\<close>

lemma write_unlocked_loads:
  "well_formed final \<Longrightarrow> load_unlocked (snd (write_unlocked env final st)) = load_unlocked st
     \<or> load_unlocked (snd (write_unlocked env final st)) = Inr final"
  using write_unlocked_cases [of env final st] by (metis load_unlocked_cong load_unlocked_sealed)

lemma write_or_restore_loads:
  "well_formed final \<Longrightarrow> load_unlocked (snd (write_or_restore env final st)) = load_unlocked st
     \<or> load_unlocked (snd (write_or_restore env final st)) = Inr final"
  using write_or_restore_cases [of env final st] by (metis load_unlocked_cong load_unlocked_sealed)

text \<open>
  \<open>retains P st st'\<close>: the store still loads, and every lease of \<open>st\<close> that satisfies \<open>P\<close> is a
  lease of \<open>st'\<close>, unchanged.
\<close>

definition retains :: "(pydict \<Rightarrow> bool) \<Rightarrow> lease_store \<Rightarrow> lease_store \<Rightarrow> bool" where
  "retains P st st' \<longleftrightarrow>
     (\<forall>leases lease. load_unlocked st = Inr leases \<longrightarrow> lease \<in> set leases \<longrightarrow> P lease \<longrightarrow>
        (\<exists>leases'. load_unlocked st' = Inr leases' \<and> lease \<in> set leases'))"

abbreviation released_lease :: "pydict \<Rightarrow> bool" where
  "released_lease lease \<equiv> lifecycle lease = ''released''"

abbreviation settled :: "lease_env \<Rightarrow> pydict \<Rightarrow> bool" where
  "settled env lease \<equiv> released_lease lease \<or> owner_alive env (dget lease ''owner'')"

lemma retains_refl [simp]: "retains P st st"
  by (auto simp: retains_def)

lemma retains_trans: "retains P a b \<Longrightarrow> retains P b c \<Longrightarrow> retains P a c"
  unfolding retains_def by blast

lemma retains_mono: "retains P st st' \<Longrightarrow> (\<And>lease. Q lease \<Longrightarrow> P lease) \<Longrightarrow> retains Q st st'"
  unfolding retains_def by blast

lemma retains_write:
  assumes "load_unlocked st = Inr leases" and "well_formed final"
    and "\<And>lease. lease \<in> set leases \<Longrightarrow> P lease \<Longrightarrow> lease \<in> set final"
  shows "retains P st (snd (write_unlocked env final st))" and "retains P st (snd (write_or_restore env final st))"
  using assms write_unlocked_loads [OF assms(2), of env st] write_or_restore_loads [OF assms(2), of env st]
  by (auto simp: retains_def)

lemma released_stuck: "\<not> lifecycle_step orphans ''released'' target"
  by (simp add: lifecycle_step_def LEASE_TRANSITIONS_def ORPHAN_RECLASSIFICATION_STATES_def)

lemma released_not_active: "''released'' \<notin> set ACTIVE_LEASE_STATES"
  by (simp add: ACTIVE_LEASE_STATES_def)

lemma prepare_transition_released:
  "prepare_transition env current target evidence reason orphans stamp code' = Inr (updated, changed) \<Longrightarrow>
     lifecycle current = ''released'' \<Longrightarrow> updated = current \<and> \<not> changed"
  using prepare_transition_Inr [of env current target evidence reason orphans stamp code' updated changed]
  by (auto simp: released_stuck)

lemma acquire_many_retains:
  assumes inv: "registry_inv st"
  shows "retains (settled env) st (snd (acquire_many env contract ids st))"
proof -
  have "retains (settled env) st (snd (write_or_restore env final st))"
    if load: "load_unlocked st = Inr stored" and reclassify: "mapM (reclassify_orphan env now) stored = Inr staged"
      and req: "mapM (requested_lease contract now) requested = Inr leases"
      and stage: "foldM stage_lease staged leases = Inr final"
    for now stored staged requested leases final
  proof (rule retains_write(2) [OF load])
    show "well_formed final"
      using staged_registry [OF _ _ reclassify req stage] registry_invD [OF inv load] by blast
    fix lease assume "lease \<in> set stored" and "settled env lease"
    then have "reclassify_orphan env now lease = Inr lease"
      by (auto simp: reclassify_orphan_def released_not_active)
    with \<open>lease \<in> set stored\<close> reclassify have "lease \<in> set staged"
      by (fastforce simp: mapM_Inr_list_all2 list_all2_conv_all_nth in_set_conv_nth)
    then show "lease \<in> set final" using foldM_stage_lease [OF stage] by simp
  qed
  then show ?thesis
    by (auto simp: acquire_many_def plan_acquire_def Let_def res_simps split: sum.splits prod.splits)
qed

lemma transition_retains:
  assumes inv: "registry_inv st"
  shows "retains released_lease st (snd (transition env wanted target evidence reason st))"
proof -
  have "retains released_lease st (snd (write_unlocked env (leases[i := updated]) st))"
    if load: "load_unlocked st = Inr leases"
      and i: "first_index (\<lambda>lease. dget lease ''lease_id'' = PStr wanted) leases = Some i"
      and prep: "prepare_transition env (leases ! i) target evidence reason False None
                   ''lease-transition-invalid'' = Inr (updated, changed)" for leases i updated changed
  proof (rule retains_write(1) [OF load])
    have i_len: "i < length leases" using first_index_Some [OF i] by blast
    have ok: "well_formed leases \<and> exclusive leases" by (rule registry_invD [OF inv load])
    then have "list_all2 keeps leases (leases[i := updated])"
      using prepare_transition_keeps [OF prep] i_len
      by (auto simp: list_all2_conv_all_nth nth_list_update keeps_refl well_formed_def)
    then show "well_formed (leases[i := updated])" using keeps_all ok by blast
    fix lease assume "lease \<in> set leases" and rel: "lifecycle lease = ''released''"
    then obtain j where j: "j < length leases" "leases ! j = lease" by (auto simp: in_set_conv_nth)
    have "leases[i := updated] ! j = lease"
      using prepare_transition_released [OF prep] rel j by (cases "i = j") auto
    then show "lease \<in> set (leases[i := updated])" using j(1) by (metis length_list_update nth_mem)
  qed
  then show ?thesis
    by (auto simp: transition_def res_simps split: sum.splits option.splits prod.splits)
qed

lemma cleanup_stale_retains:
  assumes inv: "registry_inv st"
  shows "retains (settled env) st (snd (cleanup_stale env states st))"
proof -
  have "retains (settled env) st (snd (write_unlocked env (map fst outcomes) st))"
    if load: "load_unlocked st = Inr leases" and cl: "mapM (cleanup_lease env states) leases = Inr outcomes"
    for leases outcomes
  proof (rule retains_write(1) [OF load])
    have ok: "well_formed leases \<and> exclusive leases" by (rule registry_invD [OF inv load])
    have "list_all2 (\<lambda>lease outcome. keeps lease (fst outcome)) leases outcomes"
      using ok by (intro list_all2_mapM [OF cl]) (auto simp: well_formed_def intro: cleanup_lease_keeps)
    then have "list_all2 keeps leases (map fst outcomes)" by (simp add: list_all2_map2)
    then show "well_formed (map fst outcomes)" using keeps_all ok by blast
    fix lease assume mem: "lease \<in> set leases" and "settled env lease"
    then have "cleanup_lease env states lease = Inr (lease, False)" by (auto simp: cleanup_lease_def)
    with mem cl have "(lease, False) \<in> set outcomes"
      by (fastforce simp: mapM_Inr_list_all2 list_all2_conv_all_nth in_set_conv_nth)
    then show "lease \<in> set (map fst outcomes)" by force
  qed
  then show ?thesis
    by (auto simp: cleanup_stale_def Let_def res_simps split: sum.splits prod.splits)
qed

text \<open>The dictionary of leases by id.\<close>

lemma map_of_lease_map:
  "distinct (map lease_id leases) \<Longrightarrow> lease \<in> set leases \<Longrightarrow> dget (lease_map leases) (lease_id lease) = PDict lease"
proof -
  have fold: "dget (dmerge d (map (\<lambda>lease. (lease_id lease, PDict lease)) leases)) k
      = (case find (\<lambda>lease. lease_id lease = k) leases of None \<Rightarrow> dget d k | Some lease \<Rightarrow> PDict lease)"
    if "distinct (map lease_id leases)" for d k leases
    using that
  proof (induction leases arbitrary: d)
    case (Cons l leases)
    have none: "find (\<lambda>lease. lease_id lease = k) leases = None" if "lease_id l = k"
      unfolding find_None_iff using Cons.prems that by (simp add: image_iff) metis
    show ?case
      using Cons.IH [of "dset d (lease_id l) (PDict l)"] Cons.prems none
      by (cases "lease_id l = k") (auto split: option.splits)
  qed simp
  assume dist: "distinct (map lease_id leases)" and mem: "lease \<in> set leases"
  obtain l where l: "find (\<lambda>l. lease_id l = lease_id lease) leases = Some l"
    using mem by (cases "find (\<lambda>l. lease_id l = lease_id lease) leases") (auto simp: find_None_iff)
  then have "l \<in> set leases" "lease_id l = lease_id lease"
    by (auto simp: find_Some_iff)
  then have "l = lease" using dist mem by (auto simp: distinct_map inj_on_def)
  with l show ?thesis by (simp add: lease_map_def fold [OF dist])
qed

lemma dget_lease_map_in: "dget (lease_map leases) k = PDict d \<Longrightarrow> d \<in> set leases"
proof -
  have "dget (dmerge acc (map (\<lambda>lease. (lease_id lease, PDict lease)) leases)) k = PDict d \<Longrightarrow>
      dget acc k = PDict d \<or> d \<in> set leases" for acc
  proof (induction leases arbitrary: acc)
    case (Cons l leases)
    from Cons.IH [of "dset acc (lease_id l) (PDict l)"] Cons.prems show ?case by (auto split: if_splits)
  qed simp
  from this [of "[]"] show "dget (lease_map leases) k = PDict d \<Longrightarrow> d \<in> set leases"
    by (simp add: lease_map_def)
qed

lemma release_uncommitted_many_retains:
  assumes inv: "registry_inv st"
  shows "retains released_lease st (snd (release_uncommitted_many env contract supplied st))"
proof -
  let ?ids = "set (dkeys (lease_map supplied))"
  have "retains released_lease st (snd (write_or_restore env (filter (\<lambda>lease. lease_id lease \<notin> ?ids) staged) st))"
    if load: "load_unlocked st = Inr staged"
      and acquired: "\<forall>lease\<in>set supplied. dget lease ''lifecycle_state'' = PStr ''acquired''"
      and drift: "py_eq (PDict (lease_map (filter (\<lambda>lease. lease_id lease \<in> ?ids) staged))) (PDict (lease_map supplied))"
    for staged
  proof (rule retains_write(2) [OF load])
    have ok: "well_formed staged \<and> exclusive staged" by (rule registry_invD [OF inv load])
    then show "well_formed (filter (\<lambda>lease. lease_id lease \<notin> ?ids) staged)" by (simp add: well_formed_filter)
    fix lease assume mem: "lease \<in> set staged" and rel: "lifecycle lease = ''released''"
    have "lease_id lease \<notin> ?ids"
    proof
      assume "lease_id lease \<in> ?ids"
      moreover have "distinct (map lease_id (filter (\<lambda>lease. lease_id lease \<in> ?ids) staged))"
        using ok by (simp add: well_formed_def distinct_map_filter)
      ultimately have "py_eq (PDict lease) (dget (lease_map supplied) (lease_id lease))"
        using py_eq_dict_dget [OF drift, of "lease_id lease"] mem by (simp add: map_of_lease_map)
      then obtain d where d: "dget (lease_map supplied) (lease_id lease) = PDict d" and eq: "py_eq (PDict lease) (PDict d)"
        using py_eq_dictD py_eq_sym by metis
      from dget_lease_map_in [OF d] acquired have "dget d ''lifecycle_state'' = PStr ''acquired''" by blast
      with py_eq_dict_dget [OF eq, of "''lifecycle_state''"] rel show False by simp
    qed
    with mem show "lease \<in> set (filter (\<lambda>lease. lease_id lease \<notin> ?ids) staged)" by simp
  qed
  then show ?thesis
    by (auto simp: release_uncommitted_many_def Let_def res_simps split: sum.splits)
qed

lemma run_op_retains: "registry_inv st \<Longrightarrow> retains released_lease st (run_op env op st)"
  by (cases op)
     (simp_all add: hold_def mark_release_pending_def release_def Let_def transition_retains
        retains_mono [OF cleanup_stale_retains] release_uncommitted_many_retains retains_mono [OF acquire_many_retains])

text \<open>A run: any sequence of operations, each in its own environment.\<close>

definition run_ops :: "(lease_env \<times> lease_op) list \<Rightarrow> lease_store \<Rightarrow> lease_store" where
  "run_ops steps st = foldl (\<lambda>st (env, op). run_op env op st) st steps"

lemma run_ops_keeps: "registry_inv st \<Longrightarrow> registry_inv (run_ops steps st) \<and> retains released_lease st (run_ops steps st)"
proof (induction steps arbitrary: st)
  case (Cons step steps)
  obtain env op where "step = (env, op)" by (cases step)
  with Cons.IH [of "run_op env op st"] run_op_inv [OF Cons.prems, of env op]
    run_op_retains [OF Cons.prems, of env op]
  show ?case by (auto simp: run_ops_def intro: retains_trans)
qed (simp add: run_ops_def)

end
