(* ===== verification/PoolLeaseProperties.thy ===== *)
theory PoolLeaseProperties
  imports PoolLeases
begin

text \<open>
  The properties of the lease registry, and the concrete registry that their witnesses use: a
  contract with one writing child, an environment in which every owner is alive and every write
  succeeds, and the lease of that child before and after its release.
\<close>

section \<open>A concrete registry\<close>

definition demo_hash :: string where
  "demo_hash = replicate 64 CHR ''a''"

definition demo_tree :: string where
  "demo_tree = replicate 64 CHR ''b''"

definition demo_identity :: "string \<Rightarrow> pyval" where
  "demo_identity h = PDict [(''canonical_path_sha256'', PStr h), (''git_common_dir_sha256'', PStr demo_hash),
     (''device'', PInt 1), (''inode'', PInt 7), (''baseline_sha256'', PStr demo_hash)]"

definition demo_child :: "string \<Rightarrow> string \<Rightarrow> pyval" where
  "demo_child name h = PDict [(''child_id'', PStr name), (''lease_id'', PStr (''lease-'' @ name)),
     (''worktree_identity'', demo_identity h), (''integration_target_paths'', PList [PStr (''out/'' @ name)])]"

definition demo_contract :: pydict where
  "demo_contract =
     [(''pool_id'', PStr ''pool''), (''pool_epoch'', PStr ''1''),
      (''owner'', PDict [(''pid'', PInt 9), (''start_ticks'', PInt 5), (''boot_id_sha256'', PStr demo_hash)]),
      (''topology'', PDict [(''integration_root_identity'', demo_identity demo_hash)]),
      (''children'', PList [demo_child ''w'' (demo_tree)])]"

definition demo_env :: lease_env where
  "demo_env = \<lparr>owner_alive = (\<lambda>_. True), clock = ClockText example_instant,
     write_result = WriteOk, restore_fails = False, contract_errors = (\<lambda>_. []), state_errors = (\<lambda>_. [])\<rparr>"

definition demo_store :: lease_store where
  "demo_store = \<lparr>registry = Absent, lock_is_symlink = False\<rparr>"

lemma hex64_demo_hash: "hex64 demo_hash"
  by (simp add: demo_hash_def hex64_def is_hex_char_def list_all_iff)

lemma demo_iso: "iso (clock demo_env) = Inr example_instant"
  by (simp add: demo_env_def iso_def parse_instant_example format_instant_example)

definition demo_w :: pydict where
  "demo_w = new_lease demo_contract ''w'' (the_dict (demo_child ''w'' (demo_tree))) example_instant"

lemma hex64_demo_tree: "hex64 demo_tree"
  by (simp add: demo_tree_def hex64_def is_hex_char_def list_all_iff)

lemma demo_identity_ok: "hex64 h \<Longrightarrow> validate_identity (demo_identity h) p = []"
  by (auto simp: validate_identity_def demo_identity_def IDENTITY_FIELDS_def hex64_demo_hash)

lemma demo_owner_ok: "validate_owner (dget demo_contract ''owner'') p = []"
  by (auto simp: validate_owner_def demo_contract_def OWNER_FIELDS_def hex64_demo_hash)

lemma demo_parts:
  "validate_relative_paths (PList [PStr ''out/w'']) ''target-paths'' True = []"
  "nonempty_text (PStr ''lease-w'')" "nonempty_text (PStr ''pool'')" "nonempty_text (PStr ''w'')"
  "nonempty_text (PStr ''1'')"
  by (simp_all add: validate_relative_paths_def relative_path_item_def nonempty_text_def py_strip_def
      is_space_def path_is_absolute_def path_parts_def path_root_def path_components_def path_as_posix_def)

lemma dkeys_new_lease: "dkeys (new_lease contract child_id child now) = LEASE_FIELDS"
  by (simp add: new_lease_def seal_artifact_eq dpop_def LEASE_FIELDS_def dkeys_def)

lemma demo_w_valid: "validate_lease (Some demo_contract) None (PDict demo_w) = []"
proof -
  have keys: "set (dkeys demo_w) = set LEASE_FIELDS"
    by (simp add: demo_w_def dkeys_new_lease)
  have hash: "validate_hash demo_w ''lease_sha256'' = []"
    by (simp add: demo_w_def new_lease_def)
  show ?thesis
    unfolding validate_lease_def strict_Nil_iff append_is_Nil_conv
    using hash keys demo_parts parse_instant_example demo_owner_ok
      demo_identity_ok [OF hex64_demo_hash] demo_identity_ok [OF hex64_demo_tree]
    apply (intro exI conjI)
    apply (simp_all add: keys)
    apply (simp_all add: demo_w_def new_lease_def demo_contract_def demo_child_def
     lease_time_errors_def lease_terminal_errors_def LIFECYCLE_STATES_def lease_contract_errors_def contract_child_def datetime_of_def)
    done
qed

lemma demo_acquire:
  "acquire_many demo_env demo_contract (Some [PStr ''w'']) demo_store
     = (Inr [demo_w], demo_store\<lparr>registry := Stored (seal_registry [demo_w])\<rparr>)"
  using demo_w_valid demo_iso
  by (simp add: acquire_many_def plan_acquire_def requested_children_def locked_def load_unlocked_def requested_lease_def
      contract_child_def stage_lease_def returning_def write_or_restore_def write_unlocked_def
      demo_w_def demo_env_def demo_store_def demo_contract_def demo_child_def)

lemma demo_acquire_all: "acquire_many demo_env demo_contract None demo_store
     = (Inr [demo_w], demo_store\<lparr>registry := Stored (seal_registry [demo_w])\<rparr>)"
proof -
  have "requested_children demo_contract None = requested_children demo_contract (Some [PStr ''w''])"
    by (simp add: requested_children_def demo_contract_def demo_child_def)
  then show ?thesis
    using demo_acquire by (simp add: acquire_many_def plan_acquire_def cong: if_cong)
qed

lemma demo_reachable: "lease_reachable (snd (acquire_many demo_env demo_contract (Some [PStr ''w'']) demo_store))"
  using lease_reachable.step [OF lease_reachable.fresh [of demo_store], of demo_env
      "Acquire demo_contract (Some [PStr ''w''])"]
  by (simp add: demo_store_def)

lemma demo_w_loads: "load_unlocked (demo_store\<lparr>registry := Stored (seal_registry [demo_w])\<rparr>) = Inr [demo_w]"
  using demo_w_valid validate_lease_contract
  by (intro load_unlocked_sealed) (auto simp: well_formed_def)

lemma demo_w_fields [simp]: "lifecycle demo_w = ''acquired''" "dget demo_w ''lease_id'' = PStr ''lease-w''"
  by (simp_all add: demo_w_def new_lease_def demo_child_def)

lemma demo_state_ok:
  "contract_errors demo_env v = []" "state_errors demo_env v = []" "write_result demo_env = WriteOk"
  "locked demo_store = Inr ()" "locked (demo_store\<lparr>registry := Stored v\<rparr>) = Inr ()"
  by (simp_all add: demo_env_def demo_store_def locked_def)

text \<open>The lease after its release.\<close>

definition demo_released :: pydict where
  "demo_released = moved_lease demo_w ''released'' example_instant (PStr demo_hash) (PStr ''w'')"

lemma dkeys_moved_lease:
  "{''lifecycle_state'', ''updated_at'', ''terminal_evidence_sha256'', ''release_reason'', ''lease_sha256''}
     \<subseteq> set (dkeys current) \<Longrightarrow> set (dkeys (moved_lease current target t evidence reason)) = set (dkeys current)"
  by (auto simp: moved_lease_def)

lemma demo_acquired_at: "dget demo_w ''acquired_at'' = PStr example_instant"
  by (simp add: demo_w_def new_lease_def)

lemma demo_released_valid: "valid_lease demo_released"
proof -
  have keys: "set (dkeys demo_released) = set LEASE_FIELDS"
    unfolding demo_released_def
    by (subst dkeys_moved_lease) (simp_all add: demo_w_def dkeys_new_lease LEASE_FIELDS_def)
  have hash: "validate_hash demo_released ''lease_sha256'' = []"
    by (simp add: demo_released_def moved_lease_def)
  have fields: "dget demo_released k =
      (if k = ''lifecycle_state'' then PStr ''released'' else if k = ''updated_at'' then PStr example_instant
       else if k = ''terminal_evidence_sha256'' then PStr demo_hash else if k = ''release_reason'' then PStr ''w''
       else dget demo_w k)" if "k \<noteq> ''lease_sha256''" for k
    using that by (simp add: demo_released_def moved_lease_def)
  show ?thesis
    using demo_w_valid [THEN validate_lease_contract] demo_acquired_at hash keys demo_parts parse_instant_example hex64_demo_hash
    unfolding validate_lease_def strict_Nil_iff append_is_Nil_conv pyval.inject
    by (simp add: fields lease_time_errors_def lease_terminal_errors_def LIFECYCLE_STATES_def datetime_of_def)
qed

lemma demo_released_loads:
  "load_unlocked (demo_store\<lparr>registry := Stored (seal_registry [demo_released])\<rparr>) = Inr [demo_released]"
  using demo_released_valid by (intro load_unlocked_sealed) (auto simp: well_formed_def)

section \<open>Properties\<close>

text \<open>C2: in every registry that the operations can produce, the lease ids are unique and no two
  active leases compete for a worktree or for an integration target.\<close>

theorem lease_registry_exclusive:
  assumes "lease_reachable st"
  shows "\<exists>leases. load_unlocked st = Inr leases \<and> distinct (map lease_id leases)
    \<and> (\<forall>i<length leases. \<forall>j<length leases. i \<noteq> j \<and> active_lease (leases ! i) \<and> active_lease (leases ! j)
          \<longrightarrow> \<not> lease_conflict (leases ! i) (leases ! j))"
proof -
  from lease_reachable_inv [OF assms] obtain leases
    where load: "load_unlocked st = Inr leases" and free: "exclusive leases"
    by (auto simp: registry_inv_def)
  moreover have "distinct (map lease_id leases)"
    using load_unlocked_sound [OF load] by (simp add: well_formed_def)
  ultimately show ?thesis
    using holders.free_distinct [OF free] by blast
qed

theorem lease_registry_exclusive_witness:
  "lease_reachable (snd (acquire_many demo_env demo_contract (Some [PStr ''w'']) demo_store)) \<and>
   (\<exists>leases. load_unlocked (snd (acquire_many demo_env demo_contract (Some [PStr ''w'']) demo_store)) = Inr leases
      \<and> distinct (map lease_id leases))"
  using lease_registry_exclusive [OF demo_reachable] demo_reachable by blast

lemma plan_acquire_Inr:
  assumes "plan_acquire env contract ids st = Inr (leases, final)"
  shows "\<exists>requested now stored staged. requested_children contract ids = Inr requested
     \<and> mapM (requested_lease contract now) requested = Inr leases \<and> load_unlocked st = Inr stored
     \<and> mapM (reclassify_orphan env now) stored = Inr staged
     \<and> foldM stage_lease staged leases = Inr final \<and> final = staged @ leases \<and> locked st = Inr ()"
  using assms by (auto simp: plan_acquire_def res_simps dest: foldM_stage_lease) (use foldM_stage_lease in blast)

lemma acquire_many_cases:
  "(\<exists>e. acquire_many env contract ids st = (Inl e, st))
   \<or> (\<exists>leases final. contract_errors env (PDict contract) = [] \<and> plan_acquire env contract ids st = Inr (leases, final)
        \<and> acquire_many env contract ids st = returning (write_or_restore env final st) leases)"
  by (auto simp: acquire_many_def Let_def split: sum.splits prod.splits)

lemma requested_lease_child: "requested_lease contract now child = Inr lease \<Longrightarrow>
    dget lease ''child_id'' = PStr child \<and> dget lease ''lifecycle_state'' = PStr ''acquired''
    \<and> validate_lease (Some contract) None (PDict lease) = []"
  by (auto simp: requested_lease_def new_lease_def Let_def split: option.splits if_splits)

text \<open>C4: acquisition takes all the requested leases or none.  On success the new registry is the old one,
  its leases each kept or moved along, followed by one acquired lease per requested child.  On
  failure the registry file is as before, unless restoring it failed too.\<close>

theorem acquire_all_or_nothing:
  assumes "lease_reachable st" and "acquire_many env contract ids st = (r, st')"
  shows "case r of
      Inl e \<Rightarrow> restore_fails env \<or> registry st' = registry st
    | Inr leases \<Rightarrow> (\<exists>requested stored staged.
        requested_children contract ids = Inr requested
        \<and> map (\<lambda>lease. dget lease ''child_id'') leases = map PStr requested
        \<and> (\<forall>lease\<in>set leases. valid_lease lease \<and> lifecycle lease = ''acquired'')
        \<and> load_unlocked st = Inr stored \<and> list_all2 keeps stored staged
        \<and> load_unlocked st' = Inr (staged @ leases))"
proof (cases "\<exists>e. acquire_many env contract ids st = (Inl e, st)")
  case False
  then obtain leases final where plan: "plan_acquire env contract ids st = Inr (leases, final)"
    and result: "(r, st') = returning (write_or_restore env final st) leases"
    using acquire_many_cases [of env contract ids st] assms(2) by auto
  obtain requested now stored staged where req: "requested_children contract ids = Inr requested"
    and leases: "mapM (requested_lease contract now) requested = Inr leases"
    and load: "load_unlocked st = Inr stored" and reclass: "mapM (reclassify_orphan env now) stored = Inr staged"
    and stage: "foldM stage_lease staged leases = Inr final" and final_eq: "final = staged @ leases"
    using plan_acquire_Inr [OF plan] by blast
  have inv: "well_formed stored \<and> exclusive stored"
    using registry_invD [OF lease_reachable_inv [OF assms(1)] load] .
  have kept: "list_all2 keeps stored staged"
    using inv by (intro list_all2_mapM [OF reclass] reclassify_orphan_keeps) (auto simp: well_formed_def)
  have final: "well_formed final"
    using staged_registry [OF _ _ reclass leases stage] inv by blast
  have children: "map (\<lambda>lease. dget lease ''child_id'') leases = map PStr requested"
    using leases requested_lease_child
    by (auto simp: mapM_Inr_list_all2 list_all2_conv_all_nth intro!: nth_equalityI)
  have each: "\<forall>lease\<in>set leases. valid_lease lease \<and> lifecycle lease = ''acquired''"
    using mapM_Inr_set [OF leases] requested_lease_child requested_lease_valid by fastforce
  have st': "st' = snd (write_or_restore env final st)"
    and r: "r = fst (returning (write_or_restore env final st) leases)"
    by (metis result snd_returning snd_conv, metis result fst_conv)
  show ?thesis
  proof (cases r)
    case (Inl e)
    then have err: "fst (write_or_restore env final st) = Inl e" using r by simp
    show ?thesis using write_or_restore_result(2) [OF err] Inl st' by auto
  next
    case (Inr x)
    then have ok: "fst (write_or_restore env final st) = Inr ()" and x: "x = leases"
      using r by auto
    have "load_unlocked st' = Inr (staged @ leases)"
      using load_unlocked_sealed [OF final] write_or_restore_result(1) [OF ok] st' final_eq by simp
    then show ?thesis using Inr x req children each load kept by auto
  qed
qed (use assms(2) in auto)

theorem acquire_all_or_nothing_witness:
  "\<exists>stored staged. load_unlocked demo_store = Inr stored \<and> list_all2 keeps stored staged
     \<and> load_unlocked (demo_store\<lparr>registry := Stored (seal_registry [demo_w])\<rparr>) = Inr (staged @ [demo_w])"
  using acquire_all_or_nothing [OF lease_reachable.fresh demo_acquire]
  by (auto simp: demo_store_def)

lemma well_formed_index:
  assumes "well_formed leases" and "i < length leases" and "dget (leases ! i) ''lease_id'' = PStr wanted"
  shows "first_index (\<lambda>lease. dget lease ''lease_id'' = PStr wanted) leases = Some i"
proof -
  obtain j where j: "first_index (\<lambda>lease. dget lease ''lease_id'' = PStr wanted) leases = Some j"
    using assms(2,3) by (cases "first_index (\<lambda>lease. dget lease ''lease_id'' = PStr wanted) leases")
      (auto simp: first_index_None)
  from first_index_Some [OF j] have "j < length leases" "lease_id (leases ! j) = lease_id (leases ! i)"
    using assms(3) by auto
  then have "j = i"
    using assms(1,2) by (auto simp: well_formed_def distinct_conv_nth)
  with j show ?thesis by simp
qed

text \<open>C31: the lifecycle of one lease follows the transition table.  A request for the state that the lease
  is in succeeds without a write when that state is release-pending or released; a request outside the
  table is refused with the transition error; a request in the table that yields a valid lease moves
  exactly that lease, with the stamp, the evidence and the reason of the request.  Nothing else in the
  registry changes.\<close>

theorem transition_follows_table:
  assumes "load_unlocked st = Inr leases" and "locked st = Inr ()" and "i < length leases"
    and "dget (leases ! i) ''lease_id'' = PStr wanted" and "write_result env = WriteOk"
    and "iso (clock env) = Inr stamp" and "s = lifecycle (leases ! i)"
    and "updated = moved_lease (leases ! i) target stamp evidence reason"
  shows "transition env wanted target evidence reason st =
    (if s = target \<and> target \<in> {''release-pending'', ''released''} then (Inr (leases ! i), st)
     else if (s, target) \<notin> {(''acquired'', ''held''), (''acquired'', ''release-pending''), (''acquired'', ''released''),
               (''held'', ''release-pending''), (''held'', ''released''), (''release-pending'', ''released''),
               (''orphaned-active'', ''release-pending''), (''orphaned-active'', ''released'')}
     then (Inl (PoolLeaseTransitionError wanted s target), st)
     else if valid_lease updated then (Inr updated, st\<lparr>registry := Stored (seal_registry (leases[i := updated]))\<rparr>)
     else (Inl (PoolLeaseError (''lease-transition-invalid:'' @ py_join '';'' (validate_lease None None (PDict updated)))), st))"
proof -
  have index: "first_index (\<lambda>lease. dget lease ''lease_id'' = PStr wanted) leases = Some i"
    by (rule well_formed_index [OF load_unlocked_sound [OF assms(1)] assms(3,4)])
  have table: "target \<in> set (LEASE_TRANSITIONS s) \<longleftrightarrow>
      (s, target) \<in> {(''acquired'', ''held''), (''acquired'', ''release-pending''), (''acquired'', ''released''),
               (''held'', ''release-pending''), (''held'', ''released''), (''release-pending'', ''released''),
               (''orphaned-active'', ''release-pending''), (''orphaned-active'', ''released'')}"
    by (auto simp: LEASE_TRANSITIONS_def)
  have prep: "prepare_transition env (leases ! i) target evidence reason False None ''lease-transition-invalid'' =
     (if s = target \<and> target \<in> {''release-pending'', ''released''} then Inr (leases ! i, False)
      else if target \<notin> set (LEASE_TRANSITIONS s) then Inl (PoolLeaseTransitionError wanted s target)
      else if valid_lease updated then Inr (updated, True)
      else Inl (PoolLeaseError (''lease-transition-invalid:'' @ py_join '';'' (validate_lease None None (PDict updated)))))"
    using assms(4,6-8) by (simp add: prepare_transition_def IDEMPOTENT_LEASE_STATES_def Let_def ensure_def) auto
  show ?thesis
    unfolding table [symmetric]
    by (auto simp: transition_def assms(1,2,5) index prep returning_def write_unlocked_def)
qed

theorem transition_follows_table_witness:
  "transition demo_env ''lease-w'' ''orphaned-active'' PNone PNone (demo_store\<lparr>registry := Stored (seal_registry [demo_w])\<rparr>) =
     (Inl (PoolLeaseTransitionError ''lease-w'' ''acquired'' ''orphaned-active''),
      demo_store\<lparr>registry := Stored (seal_registry [demo_w])\<rparr>)"
  using transition_follows_table [OF demo_w_loads, where i = 0 and wanted = "''lease-w''" and env = demo_env
      and target = "''orphaned-active''" and evidence = PNone and reason = PNone, OF _ _ _ _ demo_iso refl refl]
  by (simp add: locked_def demo_store_def demo_env_def)

text \<open>C27: a released lease is final.  Whatever operations follow, in whatever environments, the registry
  keeps loading and the released lease stays in it unchanged.\<close>

theorem released_lease_is_final:
  assumes "lease_reachable st" and "load_unlocked st = Inr leases" and "lease \<in> set leases"
    and "lifecycle lease = ''released''"
  shows "\<exists>leases'. load_unlocked (run_ops steps st) = Inr leases' \<and> lease \<in> set leases'"
  using run_ops_keeps [OF lease_reachable_inv [OF assms(1)], of steps] assms(2-) by (auto simp: retains_def)

text \<open>The registry's text round trip.  What one operation writes, the next one reads.\<close>

theorem sealed_registry_loads:
  assumes "\<forall>lease\<in>set leases. valid_lease lease" and "distinct (map lease_id leases)"
    and "registry st = Stored (seal_registry leases)"
  shows "load_unlocked st = Inr leases"
  using assms by (intro load_unlocked_sealed) (simp_all add: well_formed_def)

theorem sealed_registry_loads_witness:
  "load_unlocked (demo_store\<lparr>registry := Stored (seal_registry [demo_w])\<rparr>) = Inr [demo_w]"
  using demo_w_valid validate_lease_contract by (intro sealed_registry_loads) auto

theorem released_lease_is_final_witness:
  "\<exists>st steps leases leases'. lease_reachable st \<and> demo_released \<in> set leases
     \<and> load_unlocked (run_ops steps st) = Inr leases' \<and> demo_released \<in> set leases'"
proof -
  let ?st = "demo_store\<lparr>registry := Stored (seal_registry [demo_w])\<rparr>"
  let ?st' = "demo_store\<lparr>registry := Stored (seal_registry [demo_released])\<rparr>"
  let ?state = "[(''status'', PStr ''closed''), (''state_sha256'', PStr demo_hash)]"
  have "release demo_env ''lease-w'' ?state ''w'' ?st = (Inr demo_released, ?st')"
    using demo_released_valid
    by (simp add: release_def transition_def demo_state_ok demo_w_loads prepare_transition_def demo_iso
        LEASE_TRANSITIONS_def IDEMPOTENT_LEASE_STATES_def demo_released_def returning_def write_unlocked_def)
  then have step: "run_op demo_env (Release ''lease-w'' ?state ''w'') ?st = ?st'" by simp
  have "lease_reachable ?st'"
    using lease_reachable.step [OF demo_reachable, of demo_env "Release ''lease-w'' ?state ''w''"] step
    by (simp add: demo_acquire)
  moreover have "lifecycle demo_released = ''released''"
    by (simp add: demo_released_def moved_lease_fields)
  ultimately show ?thesis
    using released_lease_is_final [OF _ demo_released_loads,
        where steps = "[(demo_env, Hold ''lease-w''), (demo_env, CleanupStale (\<lambda>_. None))]"]
    by force
qed

text \<open>C28: acquisition and cleanup leave the leases of live owners alone.  Only a lease whose owner process
  is dead may be reclassified, released or marked by them.\<close>

theorem live_owner_leases_stay:
  assumes "lease_reachable st" and "load_unlocked st = Inr leases" and "lease \<in> set leases"
    and "owner_alive env (dget lease ''owner'')" and "op = Acquire contract ids \<or> op = CleanupStale states"
  shows "\<exists>leases'. load_unlocked (run_op env op st) = Inr leases' \<and> lease \<in> set leases'"
  using assms acquire_many_retains [OF lease_reachable_inv, of st env contract ids]
    cleanup_stale_retains [OF lease_reachable_inv, of st env states]
  by (auto simp: retains_def)

theorem live_owner_leases_stay_witness:
  "\<exists>leases'. load_unlocked (run_op demo_env (CleanupStale (\<lambda>_. None))
     (demo_store\<lparr>registry := Stored (seal_registry [demo_w])\<rparr>)) = Inr leases' \<and> demo_w \<in> set leases'"
  using live_owner_leases_stay [OF demo_reachable, of "[demo_w]" demo_w demo_env "CleanupStale (\<lambda>_. None)"]
  by (simp add: demo_acquire demo_w_loads) (simp add: demo_env_def)

lemma list_ids_disjoint:
  "distinct (map f (xs @ ys)) \<Longrightarrow> filter (\<lambda>l. f l \<in> f ` set ys) (xs @ ys) = ys
     \<and> filter (\<lambda>l. f l \<notin> f ` set ys) (xs @ ys) = xs"
proof -
  assume "distinct (map f (xs @ ys))"
  then have "\<forall>x\<in>set xs. f x \<notin> f ` set ys" by auto
  then show ?thesis by (auto simp: filter_empty_conv intro!: filter_True)
qed

lemma lock_is_symlink_write_or_restore:
  "lock_is_symlink (snd (write_or_restore env final st)) = lock_is_symlink st"
  by (cases "write_result env") (simp_all add: write_or_restore_def write_unlocked_def restore_bytes_unlocked_def)

lemma dkeys_lease_map: "set (dkeys (lease_map leases)) = lease_id ` set leases"
proof -
  have "set (dkeys (dmerge acc (map (\<lambda>lease. (lease_id lease, PDict lease)) leases)))
      = set (dkeys acc) \<union> lease_id ` set leases" for acc
    by (induction leases arbitrary: acc) auto
  then show ?thesis by (simp add: lease_map_def)
qed

lemma wf_lease_map: "wf_dict (lease_map leases)"
  by (simp add: lease_map_def wf_dict_def [of "[]"])

lemma length_lease_map: "distinct (map lease_id leases) \<Longrightarrow> length (lease_map leases) = length leases"
proof -
  assume dist: "distinct (map lease_id leases)"
  have "length (lease_map leases) = card (set (dkeys (lease_map leases)))"
    using distinct_card [of "dkeys (lease_map leases)"] wf_lease_map [of leases]
    by (simp add: wf_dict_def) (simp add: dkeys_def)
  also have "\<dots> = length leases"
    using distinct_card [OF dist] by (simp add: dkeys_lease_map)
  finally show ?thesis .
qed



end
