(* ===== verification/PoolScheduler.thy ===== *)
theory PoolScheduler
  imports PoolContracts "HOL-Library.Product_Lexorder"
begin

text \<open>
  \<^verbatim>\<open>scripts/cwo_core/native_pool_scheduler.py\<close>: the strict form of cumulative usage, the
  ledger that accepts each observation of a child once, the selection of the child with the
  earliest deadline, and the guard that lets a peer run first.  Counters are Python integers, so
  they do not wrap; durations are floats.
\<close>

datatype pool_error =
    PoolSchedulingError string
  | PoolAccountingError string
  | StopIteration
  | OverflowError

section \<open>Usage\<close>

definition NUMERIC_USAGE_FIELDS :: "string list" where
  "NUMERIC_USAGE_FIELDS = [''tool_calls'', ''runtime_seconds'', ''compactions'', ''full_suite_runs'', ''mutations'']"

definition TOKEN_COUNTER_FIELDS :: "string list" where
  "TOKEN_COUNTER_FIELDS = [''input'', ''cached_input'', ''output'', ''reasoning'', ''total'']"

definition USAGE_FIELDS :: "string list" where
  "USAGE_FIELDS = NUMERIC_USAGE_FIELDS @ [''tokens'']"

definition TOKEN_FIELDS :: "string list" where
  "TOKEN_FIELDS = [''availability''] @ TOKEN_COUNTER_FIELDS @ [''unavailable_reason'']"

definition nonnegative_int :: "pyval \<Rightarrow> string \<Rightarrow> (pool_error, int) res" where
  "nonnegative_int value field =
     (case value of
        PInt i \<Rightarrow> if i < 0 then Inl (PoolAccountingError (field @ ''-must-be-nonnegative-integer'')) else Inr i
      | _ \<Rightarrow> Inl (PoolAccountingError (field @ ''-must-be-nonnegative-integer'')))"

definition require_sha256 :: "pyval \<Rightarrow> string \<Rightarrow> (pool_error, string) res" where
  "require_sha256 value field =
     rbind (ensure (is_sha256 value) (PoolAccountingError (field @ ''-must-be-lowercase-sha256'')))
       (\<lambda>_. Inr (the_str value))"

text \<open>The dictionaries that the functions build, from the values of the counters in field order.\<close>

definition available_tokens :: "int list \<Rightarrow> pydict" where
  "available_tokens counters =
     (''availability'', PStr ''available'') # zip TOKEN_COUNTER_FIELDS (map PInt counters)
     @ [(''unavailable_reason'', PNone)]"

definition unavailable_tokens :: "string \<Rightarrow> pydict" where
  "unavailable_tokens reason =
     (''availability'', PStr ''unavailable'') # map (\<lambda>field. (field, PNone)) TOKEN_COUNTER_FIELDS
     @ [(''unavailable_reason'', PStr reason)]"

definition zero_token_usage :: pydict where
  "zero_token_usage = unavailable_tokens ''trusted-token-telemetry-unavailable''"

definition usage_of :: "int list \<Rightarrow> pydict \<Rightarrow> pydict" where
  "usage_of numbers tokens = zip NUMERIC_USAGE_FIELDS (map PInt numbers) @ [(''tokens'', PDict tokens)]"

definition zero_usage :: pydict where
  "zero_usage = usage_of [0, 0, 0, 0, 0] zero_token_usage"

abbreviation counter :: "pydict \<Rightarrow> string \<Rightarrow> int" where
  "counter usage field \<equiv> the_int (dget usage field)"

abbreviation tokens_of :: "pydict \<Rightarrow> pydict" where
  "tokens_of usage \<equiv> the_dict (dget usage ''tokens'')"

abbreviation availability :: "pydict \<Rightarrow> pyval" where
  "availability usage \<equiv> dget (tokens_of usage) ''availability''"

definition normalize_tokens :: "pyval \<Rightarrow> (pool_error, pydict) res" where
  "normalize_tokens value =
     rbind (ensure (is_dict value \<and> set (dkeys (the_dict value)) = set TOKEN_FIELDS)
              (PoolAccountingError ''token-usage-fields-invalid'')) (\<lambda>_.
     let tokens = the_dict value; availability = dget tokens ''availability'' in
     if availability = PStr ''available'' then
       rbind (mapM (\<lambda>field. nonnegative_int (dget tokens field) (''tokens-'' @ dashed field)) TOKEN_COUNTER_FIELDS) (\<lambda>counters.
       rbind (ensure (dget tokens ''unavailable_reason'' = PNone)
                (PoolAccountingError ''available-token-usage-has-unavailable-reason'')) (\<lambda>_.
       rbind (ensure (counters ! 4 = sum_list (take 4 counters)) (PoolAccountingError ''token-total-mismatch'')) (\<lambda>_.
       Inr (available_tokens counters))))
     else if availability = PStr ''unavailable'' then
       rbind (ensure (\<forall>field\<in>set TOKEN_COUNTER_FIELDS. dget tokens field = PNone)
                (PoolAccountingError ''unavailable-token-usage-has-counters'')) (\<lambda>_.
       rbind (ensure (nonempty_text (dget tokens ''unavailable_reason''))
                (PoolAccountingError ''unavailable-token-usage-missing-reason'')) (\<lambda>_.
       Inr (unavailable_tokens (the_str (dget tokens ''unavailable_reason'')))))
     else Inl (PoolAccountingError ''token-availability-invalid''))"

definition normalize_usage :: "pyval \<Rightarrow> (pool_error, pydict) res" where
  "normalize_usage value =
     rbind (ensure (is_dict value \<and> set (dkeys (the_dict value)) = set USAGE_FIELDS)
              (PoolAccountingError ''usage-fields-invalid'')) (\<lambda>_.
     let usage = the_dict value in
     rbind (mapM (\<lambda>field. nonnegative_int (dget usage field) (''usage-'' @ dashed field)) NUMERIC_USAGE_FIELDS) (\<lambda>numbers.
     rbind (normalize_tokens (dget usage ''tokens'')) (\<lambda>tokens.
     Inr (usage_of numbers tokens))))"

text \<open>One counter's growth; the error names the field with the given prefix.\<close>

definition counter_delta :: "string \<Rightarrow> pydict \<Rightarrow> pydict \<Rightarrow> string \<Rightarrow> (pool_error, int) res" where
  "counter_delta prefix before after field =
     (if counter after field < counter before field
      then Inl (PoolAccountingError (prefix @ dashed field @ ''-reset''))
      else Inr (counter after field - counter before field))"

definition usage_delta :: "pyval \<Rightarrow> pyval \<Rightarrow> (pool_error, pydict) res" where
  "usage_delta previous current =
     rbind (normalize_usage previous) (\<lambda>before.
     rbind (normalize_usage current) (\<lambda>after.
     rbind (mapM (counter_delta ''cumulative-'' before after) NUMERIC_USAGE_FIELDS) (\<lambda>numbers.
     rbind (ensure (availability before = availability after)
              (PoolAccountingError ''token-availability-changed'')) (\<lambda>_.
     if availability after = PStr ''available'' then
       rbind (mapM (counter_delta ''cumulative-token-'' (tokens_of before) (tokens_of after)) TOKEN_COUNTER_FIELDS) (\<lambda>counters.
       Inr (usage_of numbers (available_tokens counters)))
     else Inr (usage_of numbers zero_token_usage)))))"

definition sum_cumulative_usage :: "pyval list \<Rightarrow> (pool_error, pydict) res" where
  "sum_cumulative_usage values =
     rbind (mapM normalize_usage values) (\<lambda>normalized.
     if normalized = [] then Inr zero_usage
     else Inr (usage_of (map (\<lambda>field. sum_list (map (\<lambda>u. counter u field) normalized)) NUMERIC_USAGE_FIELDS)
       (if \<forall>u\<in>set normalized. availability u = PStr ''available''
        then available_tokens
               (map (\<lambda>field. sum_list (map (\<lambda>u. counter (tokens_of u) field) normalized)) TOKEN_COUNTER_FIELDS)
        else zero_token_usage)))"

definition exhausted_budget :: "pyval \<Rightarrow> pyval \<Rightarrow> (pool_error, string list) res" where
  "exhausted_budget aggregate budget =
     rbind (normalize_usage aggregate) (\<lambda>usage.
     rbind (ensure (is_dict budget \<and> set (dkeys (the_dict budget)) = set NUMERIC_USAGE_FIELDS)
              (PoolAccountingError ''aggregate-hard-budget-fields-invalid'')) (\<lambda>_.
     rbind (mapM (\<lambda>field.
              rbind (nonnegative_int (dget (the_dict budget) field) (''budget-'' @ dashed field)) (\<lambda>ceiling.
              Inr (err_if (ceiling < counter usage field) (''aggregate-'' @ dashed field @ ''-exhausted''))))
              NUMERIC_USAGE_FIELDS) (\<lambda>reasons.
     Inr (concat reasons))))"

section \<open>The ledger\<close>

text \<open>
  The latest cumulative usage of every child, the digest of its last observed state, and the
  observations seen, as keys of child, state digest and decision sequence.
\<close>

record usage_ledger =
  child_ids :: "string list"
  latest :: "string \<rightharpoonup> pydict"
  last_state_hash :: "string \<rightharpoonup> string"
  seen :: "(string \<times> string \<times> int) list"

record usage_observation =
  obs_child_id :: string
  obs_child_state_sha256 :: string
  obs_decision_sequence :: int
  obs_delta :: pydict
  obs_aggregate :: pydict

definition new_ledger :: "pyval list \<Rightarrow> pyval option \<Rightarrow> (pool_error, usage_ledger) res" where
  "new_ledger ids initial_usage =
     rbind (ensure (ids \<noteq> [] \<and> (\<forall>c\<in>set ids. is_str c \<and> the_str c \<noteq> []))
              (PoolAccountingError ''child-ids-invalid'')) (\<lambda>_.
     rbind (ensure (distinct ids) (PoolAccountingError ''duplicate-child-id'')) (\<lambda>_.
     rbind (normalize_usage (case initial_usage of
              Some v \<Rightarrow> if py_truth v then v else PDict zero_usage | None \<Rightarrow> PDict zero_usage)) (\<lambda>baseline.
     Inr \<lparr>child_ids = map the_str ids,
          latest = (\<lambda>c. if c \<in> set (map the_str ids) then Some baseline else None),
          last_state_hash = Map.empty, seen = []\<rparr>)))"

definition aggregate_usage :: "usage_ledger \<Rightarrow> (pool_error, pydict) res" where
  "aggregate_usage ledger =
     sum_cumulative_usage (map (\<lambda>c. PDict (the (latest ledger c))) (child_ids ledger))"

definition latest_for :: "usage_ledger \<Rightarrow> string \<Rightarrow> (pool_error, pydict) res" where
  "latest_for ledger child_id =
     (case latest ledger child_id of
        None \<Rightarrow> Inl (PoolAccountingError ''unknown-child-id'')
      | Some usage \<Rightarrow> normalize_usage (PDict usage))"

definition observe ::
    "string \<Rightarrow> pyval \<Rightarrow> pyval \<Rightarrow> pyval \<Rightarrow> usage_ledger
       \<Rightarrow> (pool_error, usage_observation) res \<times> usage_ledger" where
  "observe child_id child_state_sha256 decision_sequence cumulative_usage ledger =
     (case rbind (ensure (latest ledger child_id \<noteq> None) (PoolAccountingError ''unknown-child-id'')) (\<lambda>_.
           rbind (require_sha256 child_state_sha256 ''child-state-sha256'') (\<lambda>state_hash.
           rbind (nonnegative_int decision_sequence ''decision-sequence'') (\<lambda>sequence.
           rbind (ensure ((child_id, state_hash, sequence) \<notin> set (seen ledger))
                    (PoolAccountingError ''usage-observation-replay'')) (\<lambda>_.
           rbind (normalize_usage cumulative_usage) (\<lambda>current.
           rbind (usage_delta (PDict (the (latest ledger child_id))) (PDict current)) (\<lambda>delta.
           Inr (state_hash, sequence, current, delta))))))) of
        Inl e \<Rightarrow> (Inl e, ledger)
      | Inr (state_hash, sequence, current, delta) \<Rightarrow>
          (let ledger' = ledger\<lparr>latest := (latest ledger)(child_id \<mapsto> current),
                 last_state_hash := (last_state_hash ledger)(child_id \<mapsto> state_hash),
                 seen := (child_id, state_hash, sequence) # seen ledger\<rparr>
           in (rbind (aggregate_usage ledger') (\<lambda>aggregate.
                 Inr \<lparr>obs_child_id = child_id, obs_child_state_sha256 = state_hash,
                   obs_decision_sequence = sequence, obs_delta = delta, obs_aggregate = aggregate\<rparr>), ledger')))"

definition reconcile :: "usage_ledger \<Rightarrow> pyval \<Rightarrow> (pool_error, unit) res" where
  "reconcile ledger expected =
     rbind (aggregate_usage ledger) (\<lambda>aggregate.
     rbind (normalize_usage expected) (\<lambda>normalized.
     ensure (py_eq (PDict aggregate) (PDict normalized)) (PoolAccountingError ''aggregate-reconciliation-failed'')))"

section \<open>Deadlines\<close>

record scheduler_selection =
  sel_child_id :: string
  sel_ordinal :: nat
  sel_deadline_ns :: int
  sel_next_cursor :: nat

text \<open>The loop over the children: the ids seen, and the candidates with a deadline.\<close>

definition scan_child ::
    "string list \<times> (int \<times> nat \<times> string) list \<Rightarrow> nat \<times> pydict
       \<Rightarrow> (pool_error, string list \<times> (int \<times> nat \<times> string) list) res" where
  "scan_child acc item =
     (case acc of (seen_child_ids, candidates) \<Rightarrow> (case item of (ordinal, child) \<Rightarrow>
        let child_id = dget child ''child_id''; deadline = dget child ''next_deadline_ns'' in
        rbind (ensure (is_str child_id \<and> the_str child_id \<noteq> []) (PoolSchedulingError ''child-id-invalid'')) (\<lambda>_.
        rbind (ensure (the_str child_id \<notin> set seen_child_ids) (PoolSchedulingError ''duplicate-child-id'')) (\<lambda>_.
        if deadline = PNone then Inr (the_str child_id # seen_child_ids, candidates)
        else rbind (ensure (is_int_ge 0 deadline) (PoolSchedulingError ''child-deadline-invalid'')) (\<lambda>_.
          Inr (the_str child_id # seen_child_ids, candidates @ [(the_int deadline, ordinal, the_str child_id)]))))))"

text \<open>The earliest candidate, and among equal deadlines the first one from the cursor onwards.\<close>

definition pick_candidate ::
    "nat \<Rightarrow> nat \<Rightarrow> (int \<times> nat \<times> string) list \<Rightarrow> (pool_error, scheduler_selection option) res" where
  "pick_candidate n_children cursor candidates =
     (if candidates = [] then Inr None
      else let earliest = Min (set (map fst candidates));
               tied = map snd (filter (\<lambda>(deadline, _). deadline = earliest) candidates)
           in (case find (\<lambda>ordinal. ordinal \<in> set (map fst tied)) ([cursor..<n_children] @ [0..<cursor]) of
                 None \<Rightarrow> Inl StopIteration
               | Some ordinal \<Rightarrow> Inr (Some
                   \<lparr>sel_child_id = the (map_of tied ordinal), sel_ordinal = ordinal,
                    sel_deadline_ns = earliest, sel_next_cursor = Suc ordinal mod n_children\<rparr>)))"

definition select_earliest_deadline ::
    "pydict list \<Rightarrow> pyval \<Rightarrow> (pool_error, scheduler_selection option) res" where
  "select_earliest_deadline children cursor =
     (if children = [] then Inr None
      else rbind (ensure (is_int_ge 0 cursor \<and> the_int cursor < int (length children))
                    (PoolSchedulingError ''scheduler-cursor-out-of-range'')) (\<lambda>_.
      rbind (foldM scan_child ([], []) (index_from 0 children)) (\<lambda>(_, candidates).
      pick_candidate (length children) (nat (the_int cursor)) candidates)))"

text \<open>\<^verbatim>\<open>math.ceil(float(value) * 1_000_000)\<close> of a finite non-negative number.\<close>

definition duration_ns :: "pyval \<Rightarrow> string \<Rightarrow> (pool_error, int) res" where
  "duration_ns value field =
     (let invalid = Inl (PoolSchedulingError (field @ ''-invalid''));
          scaled = (\<lambda>q. if q < 0 then invalid
                     else case to_double (q * 1000000) of FFin r \<Rightarrow> Inr \<lceil>r\<rceil> | _ \<Rightarrow> Inl OverflowError)
      in case value of
           PInt i \<Rightarrow> (case float_of_int i of None \<Rightarrow> Inl OverflowError | Some q \<Rightarrow> if i < 0 then invalid else scaled q)
         | PFloat (FFin q) \<Rightarrow> scaled q
         | _ \<Rightarrow> invalid)"

definition peer_order_key :: "nat \<Rightarrow> nat \<Rightarrow> nat \<times> pydict \<Rightarrow> int \<times> int" where
  "peer_order_key cursor n_children item =
     (counter (snd item) ''next_deadline_ns'', (int (fst item) - int cursor) mod int n_children)"

definition peers_of :: "pydict list \<Rightarrow> pyval \<Rightarrow> (nat \<times> pydict) list" where
  "peers_of children proposed_child_id =
     filter (\<lambda>(_, child). dget child ''child_id'' \<noteq> proposed_child_id
                         \<and> dget child ''next_deadline_ns'' \<noteq> PNone) (index_from 0 children)"

text \<open>
  The peers in order of deadline, and the first of them if one would miss its deadline after the
  proposed callback and the checks of the peers before it.
\<close>

definition overtaking_peer ::
    "pydict list \<Rightarrow> nat \<Rightarrow> pyval \<Rightarrow> int \<Rightarrow> int \<Rightarrow> int \<Rightarrow> int \<Rightarrow> scheduler_selection option" where
  "overtaking_peer children cursor proposed_child_id now_ns proposed_ns peer_check_ns overhead_ns =
     (let ordered = sort_key (peer_order_key cursor (length children)) (peers_of children proposed_child_id);
          violates_deadline = (\<exists>(position, (_, child))\<in>set (index_from 1 ordered).
            counter child ''next_deadline_ns'' \<le> now_ns + proposed_ns + overhead_ns + int position * peer_check_ns)
      in if ordered = [] \<or> \<not> violates_deadline then None
         else (case hd ordered of (original_ordinal, earliest) \<Rightarrow> Some
           \<lparr>sel_child_id = the_str (dget earliest ''child_id''), sel_ordinal = original_ordinal,
            sel_deadline_ns = counter earliest ''next_deadline_ns'',
            sel_next_cursor = Suc original_ordinal mod length children\<rparr>))"

definition peer_deadline_guard ::
    "pydict list \<Rightarrow> pyval \<Rightarrow> pyval \<Rightarrow> pyval \<Rightarrow> pyval \<Rightarrow> pyval \<Rightarrow> pyval
       \<Rightarrow> (pool_error, scheduler_selection option) res" where
  "peer_deadline_guard children cursor proposed_child_id now_ns certified_callback_ms
       certified_peer_check_ms certified_scheduler_overhead_ms =
     rbind (ensure (is_int_ge 0 now_ns) (PoolSchedulingError ''monotonic-time-invalid'')) (\<lambda>_.
     rbind (ensure (is_str proposed_child_id \<and> the_str proposed_child_id \<noteq> [])
              (PoolSchedulingError ''proposed-child-id-invalid'')) (\<lambda>_.
     rbind (duration_ns certified_callback_ms ''certified-callback-latency'') (\<lambda>proposed_ns.
     rbind (duration_ns certified_peer_check_ms ''certified-peer-check-latency'') (\<lambda>peer_check_ns.
     rbind (duration_ns certified_scheduler_overhead_ms ''certified-scheduler-overhead'') (\<lambda>overhead_ns.
     rbind (ensure (proposed_child_id \<in> set (map (\<lambda>child. dget child ''child_id'') children))
              (PoolSchedulingError ''proposed-child-unknown'')) (\<lambda>_.
     rbind (select_earliest_deadline children cursor) (\<lambda>_.
     Inr (overtaking_peer children (nat (the_int cursor)) proposed_child_id (the_int now_ns)
            proposed_ns peer_check_ns overhead_ns))))))))"

definition wait_seconds :: "pyval \<Rightarrow> pyval \<Rightarrow> (pool_error, pyfloat) res" where
  "wait_seconds now_ns deadline_ns =
     (if deadline_ns = PNone then Inr (FFin 0)
      else rbind (ensure (is_int_ge 0 now_ns \<and> is_int_ge 0 deadline_ns)
                    (PoolSchedulingError ''wait-deadline-invalid'')) (\<lambda>_.
        case to_double (of_int (the_int deadline_ns - the_int now_ns) / 1000000000) of
          FFin q \<Rightarrow> Inr (FFin (max 0 q))
        | _ \<Rightarrow> Inl OverflowError))"

definition mutation_evidence_sha256 :: "pydict \<Rightarrow> (pool_error, string) res" where
  "mutation_evidence_sha256 value =
     (let names = [''integration_root_clean'', ''shared_read_only_clean'', ''child_worktrees_clean''];
          booleans = map (\<lambda>field. (field, dget value field)) names
      in rbind (ensure (set (dkeys value) = set (names @ [''evidence_sha256'']))
                  (PoolSchedulingError ''mutation-evidence-fields-invalid'')) (\<lambda>_.
         rbind (ensure (\<forall>(_, item)\<in>set booleans. is_bool item)
                  (PoolSchedulingError ''mutation-evidence-values-invalid'')) (\<lambda>_.
         rbind (ensure (dget value ''evidence_sha256'' = PStr (canonical_sha256 (PDict booleans)))
                  (PoolSchedulingError ''mutation-evidence-sha256-mismatch'')) (\<lambda>_.
         Inr (canonical_sha256 (PDict booleans))))))"

section \<open>Normal form of usage\<close>

lemma length_five: "length xs = 5 \<longleftrightarrow> (\<exists>a b c d e. xs = [a, b, c, d, e])"
  by (auto simp: length_Suc_conv eval_nat_numeral)

lemma nonnegative_int_Inr: "nonnegative_int v f = Inr n \<longleftrightarrow> v = PInt n \<and> 0 \<le> n"
  by (cases v) (auto simp: nonnegative_int_def)

lemma nonnegative_int_PInt [simp]: "0 \<le> n \<Longrightarrow> nonnegative_int (PInt n) f = Inr n"
  by (simp add: nonnegative_int_def)

definition wf_tokens :: "pydict \<Rightarrow> bool" where
  "wf_tokens t \<longleftrightarrow>
     (\<exists>a b c d. t = available_tokens [a, b, c, d, a + b + c + d] \<and> 0 \<le> a \<and> 0 \<le> b \<and> 0 \<le> c \<and> 0 \<le> d)
     \<or> (\<exists>reason. t = unavailable_tokens reason \<and> py_strip reason \<noteq> [])"

definition wf_usage :: "pydict \<Rightarrow> bool" where
  "wf_usage u \<longleftrightarrow> (\<exists>a b c d e t. u = usage_of [a, b, c, d, e] t
     \<and> 0 \<le> a \<and> 0 \<le> b \<and> 0 \<le> c \<and> 0 \<le> d \<and> 0 \<le> e \<and> wf_tokens t)"

lemma dget_available [simp]:
  "dget (available_tokens [a, b, c, d, e]) k =
     (if k = ''availability'' then PStr ''available'' else if k = ''input'' then PInt a
      else if k = ''cached_input'' then PInt b else if k = ''output'' then PInt c
      else if k = ''reasoning'' then PInt d else if k = ''total'' then PInt e else PNone)"
  by (simp add: available_tokens_def TOKEN_COUNTER_FIELDS_def)

lemma dget_unavailable [simp]:
  "dget (unavailable_tokens reason) k =
     (if k = ''availability'' then PStr ''unavailable'' else if k = ''unavailable_reason'' then PStr reason else PNone)"
  by (simp add: unavailable_tokens_def TOKEN_COUNTER_FIELDS_def)

lemma dget_usage [simp]:
  "dget (usage_of [a, b, c, d, e] t) k =
     (if k = ''tool_calls'' then PInt a else if k = ''runtime_seconds'' then PInt b
      else if k = ''compactions'' then PInt c else if k = ''full_suite_runs'' then PInt d
      else if k = ''mutations'' then PInt e else if k = ''tokens'' then PDict t else PNone)"
  by (simp add: usage_of_def NUMERIC_USAGE_FIELDS_def)

lemma dkeys_available: "dkeys (available_tokens [a, b, c, d, e]) = TOKEN_FIELDS"
  by (simp add: available_tokens_def TOKEN_COUNTER_FIELDS_def TOKEN_FIELDS_def)

lemma dkeys_unavailable: "dkeys (unavailable_tokens reason) = TOKEN_FIELDS"
  by (simp add: unavailable_tokens_def TOKEN_COUNTER_FIELDS_def TOKEN_FIELDS_def)

lemma dkeys_usage: "dkeys (usage_of [a, b, c, d, e] t) = USAGE_FIELDS"
  by (simp add: usage_of_def NUMERIC_USAGE_FIELDS_def USAGE_FIELDS_def)

lemmas usage_keys = dkeys_available dkeys_unavailable dkeys_usage

lemma wf_tokensI:
  "0 \<le> a \<Longrightarrow> 0 \<le> b \<Longrightarrow> 0 \<le> c \<Longrightarrow> 0 \<le> d \<Longrightarrow> e = a + b + c + d \<Longrightarrow> wf_tokens (available_tokens [a, b, c, d, e])"
  "py_strip reason \<noteq> [] \<Longrightarrow> wf_tokens (unavailable_tokens reason)"
  unfolding wf_tokens_def by blast+

lemma wf_usageI:
  "0 \<le> a \<Longrightarrow> 0 \<le> b \<Longrightarrow> 0 \<le> c \<Longrightarrow> 0 \<le> d \<Longrightarrow> 0 \<le> e \<Longrightarrow> wf_tokens t \<Longrightarrow> wf_usage (usage_of [a, b, c, d, e] t)"
  unfolding wf_usage_def by blast

text \<open>Reading five counters.\<close>

lemma mapM_five:
  assumes "mapM (\<lambda>field. nonnegative_int (dget d field) (name field)) [f1, f2, f3, f4, f5] = Inr ns"
  shows "\<exists>a b c d e. ns = [a, b, c, d, e] \<and> 0 \<le> a \<and> 0 \<le> b \<and> 0 \<le> c \<and> 0 \<le> d \<and> 0 \<le> e"
  using assms by (auto simp: res_simps nonnegative_int_Inr)

lemma normalize_tokens_wf:
  assumes "normalize_tokens v = Inr t"
  shows "wf_tokens t"
proof (cases "dget (the_dict v) ''availability'' = PStr ''available''")
  case True
  then obtain cs where "mapM (\<lambda>field. nonnegative_int (dget (the_dict v) field) (''tokens-'' @ dashed field)) TOKEN_COUNTER_FIELDS = Inr cs"
    and total: "cs ! 4 = sum_list (take 4 cs)" and t: "t = available_tokens cs"
    using assms by (auto simp: normalize_tokens_def Let_def res_simps simp del: mapM.simps)
  then obtain a b c d e where "cs = [a, b, c, d, e]" "0 \<le> a" "0 \<le> b" "0 \<le> c" "0 \<le> d" "0 \<le> e"
    using mapM_five [of "the_dict v" "\<lambda>f. ''tokens-'' @ dashed f"] unfolding TOKEN_COUNTER_FIELDS_def by blast
  then show ?thesis using t total by (simp add: eval_nat_numeral wf_tokensI(1))
next
  case False
  then show ?thesis
    using assms wf_tokensI(2)
    by (simp add: normalize_tokens_def Let_def res_simps nonempty_text_iff split: if_splits) auto
qed

lemma normalize_usage_wf:
  assumes "normalize_usage v = Inr u"
  shows "wf_usage u"
proof -
  from assms obtain ns t where "mapM (\<lambda>field. nonnegative_int (dget (the_dict v) field) (''usage-'' @ dashed field)) NUMERIC_USAGE_FIELDS = Inr ns"
    and t: "normalize_tokens (dget (the_dict v) ''tokens'') = Inr t" and u: "u = usage_of ns t"
    by (auto simp: normalize_usage_def Let_def res_simps simp del: mapM.simps)
  then obtain a b c d e where "ns = [a, b, c, d, e]" "0 \<le> a" "0 \<le> b" "0 \<le> c" "0 \<le> d" "0 \<le> e"
    using mapM_five [of "the_dict v" "\<lambda>f. ''usage-'' @ dashed f"] unfolding NUMERIC_USAGE_FIELDS_def by blast
  then show ?thesis unfolding u using normalize_tokens_wf [OF t] by (simp add: wf_usageI)
qed

lemma normalize_tokens_fixed:
  assumes "wf_tokens t"
  shows "normalize_tokens (PDict t) = Inr t"
  using assms unfolding wf_tokens_def
proof (elim disjE exE conjE)
  fix a b c d :: int assume "t = available_tokens [a, b, c, d, a + b + c + d]" "0 \<le> a" "0 \<le> b" "0 \<le> c" "0 \<le> d"
  then show ?thesis
    by (simp add: normalize_tokens_def Let_def usage_keys) (simp add: TOKEN_COUNTER_FIELDS_def)
next
  fix reason assume "t = unavailable_tokens reason" "py_strip reason \<noteq> []"
  then show ?thesis
    by (simp add: normalize_tokens_def Let_def usage_keys nonempty_text_def) (simp add: TOKEN_COUNTER_FIELDS_def)
qed

lemma normalize_usage_fixed:
  assumes "wf_usage u"
  shows "normalize_usage (PDict u) = Inr u"
proof -
  from assms obtain a b c d e t where u: "u = usage_of [a, b, c, d, e] t" "0 \<le> a" "0 \<le> b" "0 \<le> c" "0 \<le> d" "0 \<le> e"
    and t: "wf_tokens t"
    unfolding wf_usage_def by blast
  then show ?thesis
    by (simp add: normalize_usage_def Let_def usage_keys normalize_tokens_fixed)
       (simp add: NUMERIC_USAGE_FIELDS_def)
qed

lemma wf_zero_usage: "wf_usage zero_usage"
proof -
  have "wf_tokens zero_token_usage"
    by (auto simp: wf_tokens_def zero_token_usage_def py_strip_def is_space_def)
  then show ?thesis by (simp add: zero_usage_def wf_usageI)
qed

lemma wf_tokens_cases:
  assumes "wf_tokens t"
  obtains (available) a b c d where "t = available_tokens [a, b, c, d, a + b + c + d]" "0 \<le> a" "0 \<le> b" "0 \<le> c" "0 \<le> d"
  | (unavailable) reason where "t = unavailable_tokens reason" "py_strip reason \<noteq> []"
  using assms by (auto simp: wf_tokens_def)

lemma wf_usage_cases:
  assumes "wf_usage u"
  obtains a b c d e t where "u = usage_of [a, b, c, d, e] t" "0 \<le> a" "0 \<le> b" "0 \<le> c" "0 \<le> d" "0 \<le> e" "wf_tokens t"
  using assms by (auto simp: wf_usage_def)

lemma sum_list_nonneg_map: "(\<And>x. x \<in> set xs \<Longrightarrow> 0 \<le> f x) \<Longrightarrow> 0 \<le> sum_list (map f xs :: int list)"
  by (induction xs) auto

lemma sum_list_add4:
  "sum_list (map (\<lambda>x. f x + g x + h x + k x) xs) =
     sum_list (map f xs) + sum_list (map g xs) + sum_list (map h xs) + (sum_list (map k xs) :: int)"
  by (induction xs) auto

lemma wf_available: "wf_tokens t \<Longrightarrow> dget t ''availability'' = PStr ''available'' \<Longrightarrow>
   \<exists>a b c d. t = available_tokens [a, b, c, d, a + b + c + d] \<and> 0 \<le> a \<and> 0 \<le> b \<and> 0 \<le> c \<and> 0 \<le> d"
  by (auto elim!: wf_tokens_cases)

lemma availability_cases:
  "wf_tokens t \<Longrightarrow> dget t ''availability'' = PStr ''available'' \<or> dget t ''availability'' = PStr ''unavailable''"
  by (auto elim!: wf_tokens_cases)

text \<open>The counters of a usage, by field.\<close>

lemma wf_usage_counter: "wf_usage u \<Longrightarrow> 0 \<le> counter u f"
  by (auto elim!: wf_usage_cases)

lemma wf_usage_tokens: "wf_usage u \<Longrightarrow> wf_tokens (tokens_of u)"
  by (auto elim!: wf_usage_cases)

definition total_usage :: "pydict list \<Rightarrow> pydict" where
  "total_usage us = usage_of (map (\<lambda>field. sum_list (map (\<lambda>u. counter u field) us)) NUMERIC_USAGE_FIELDS)
       (if \<forall>u\<in>set us. availability u = PStr ''available''
        then available_tokens
               (map (\<lambda>field. sum_list (map (\<lambda>u. counter (tokens_of u) field) us)) TOKEN_COUNTER_FIELDS)
        else zero_token_usage)"

lemma mapM_fixed: "(\<And>u. u \<in> set us \<Longrightarrow> wf_usage u) \<Longrightarrow> mapM normalize_usage (map PDict us) = Inr us"
  by (induction us) (auto simp: normalize_usage_fixed)

lemma wf_zero_tokens: "wf_tokens zero_token_usage"
  using wf_zero_usage by (auto simp: wf_usage_def zero_usage_def usage_of_def)

lemma wf_total_usage:
  assumes "\<And>u. u \<in> set us \<Longrightarrow> wf_usage u"
  shows "wf_usage (total_usage us)"
proof -
  have "wf_tokens (available_tokens (map (\<lambda>field. sum_list (map (\<lambda>u. counter (tokens_of u) field) us)) TOKEN_COUNTER_FIELDS))"
    if av: "\<forall>u\<in>set us. availability u = PStr ''available''"
  proof -
    let ?s = "\<lambda>f. sum_list (map (\<lambda>u. counter (tokens_of u) f) us)"
    have each: "counter (tokens_of u) ''total'' = counter (tokens_of u) ''input'' + counter (tokens_of u) ''cached_input''
        + counter (tokens_of u) ''output'' + counter (tokens_of u) ''reasoning''
        \<and> 0 \<le> counter (tokens_of u) f" if "u \<in> set us" for u f
      using wf_available [OF wf_usage_tokens [OF assms [OF that]]] av that by fastforce
    have "?s ''total'' = sum_list (map (\<lambda>u. counter (tokens_of u) ''input'' + counter (tokens_of u) ''cached_input''
        + counter (tokens_of u) ''output'' + counter (tokens_of u) ''reasoning'') us)"
      using each by (intro arg_cong [where f = sum_list] map_cong) auto
    moreover have "0 \<le> ?s f" for f using each by (intro sum_list_nonneg_map) auto
    ultimately show ?thesis
      by (simp add: TOKEN_COUNTER_FIELDS_def sum_list_add4 wf_tokensI(1))
  qed
  moreover have "0 \<le> sum_list (map (\<lambda>u. counter u f) us)" for f
    using assms wf_usage_counter by (intro sum_list_nonneg_map) auto
  ultimately show ?thesis
    by (simp add: total_usage_def NUMERIC_USAGE_FIELDS_def wf_zero_tokens wf_usageI)
qed

lemma sum_cumulative_usage_fixed:
  "(\<And>u. u \<in> set us \<Longrightarrow> wf_usage u) \<Longrightarrow> us \<noteq> [] \<Longrightarrow>
     sum_cumulative_usage (map PDict us) = Inr (total_usage us)"
  by (simp add: sum_cumulative_usage_def mapM_fixed total_usage_def)

section \<open>Earliest deadline first\<close>

abbreviation deadline :: "pydict \<Rightarrow> pyval" where
  "deadline child \<equiv> dget child ''next_deadline_ns''"

abbreviation child_name :: "pydict \<Rightarrow> string" where
  "child_name child \<equiv> the_str (dget child ''child_id'')"

definition schedulable :: "pydict list \<Rightarrow> bool" where
  "schedulable children \<longleftrightarrow>
     (\<forall>child\<in>set children. is_str (dget child ''child_id'') \<and> child_name child \<noteq> []
        \<and> (deadline child = PNone \<or> is_int_ge 0 (deadline child)))
     \<and> distinct (map child_name children)"

definition candidates :: "nat \<Rightarrow> pydict list \<Rightarrow> (int \<times> nat \<times> string) list" where
  "candidates k children =
     map (\<lambda>(i, child). (the_int (deadline child), i, child_name child))
       (filter (\<lambda>(_, child). deadline child \<noteq> PNone) (index_from k children))"

lemma candidates_Cons:
  "candidates k (child # children) =
     (if deadline child = PNone then [] else [(the_int (deadline child), k, child_name child)])
     @ candidates (Suc k) children"
  by (simp add: candidates_def)

lemma scan_child_Inr:
  "scan_child (seen_ids, cs) (i, child) = Inr acc \<longleftrightarrow>
     is_str (dget child ''child_id'') \<and> child_name child \<noteq> [] \<and> child_name child \<notin> set seen_ids
     \<and> (deadline child = PNone \<or> is_int_ge 0 (deadline child))
     \<and> acc = (child_name child # seen_ids,
              cs @ (if deadline child = PNone then [] else [(the_int (deadline child), i, child_name child)]))"
  by (auto simp: scan_child_def Let_def res_simps)

lemma foldM_scan_child:
  "foldM scan_child (seen_ids, cs) (index_from k children) = Inr (seen_ids', cs') \<longleftrightarrow>
     schedulable children \<and> set seen_ids \<inter> set (map child_name children) = {}
     \<and> seen_ids' = rev (map child_name children) @ seen_ids \<and> cs' = cs @ candidates k children"
proof (induction children arbitrary: k seen_ids cs)
  case Nil
  then show ?case by (auto simp: schedulable_def candidates_def)
next
  case (Cons child children)
  show ?case
    by (auto simp: res_simps scan_child_Inr Cons.IH candidates_Cons schedulable_def)
qed

lemma in_candidates:
  "(d, i, name) \<in> set (candidates 0 children) \<longleftrightarrow>
     i < length children \<and> deadline (children ! i) \<noteq> PNone
     \<and> d = the_int (deadline (children ! i)) \<and> name = child_name (children ! i)"
  by (force simp: candidates_def in_set_index_from)

lemma distinct_candidates: "distinct (map (fst \<circ> snd) (candidates k children))"
proof (induction children arbitrary: k)
  case (Cons child children)
  have "k < i" if "(d, i, name) \<in> set (candidates (Suc k) children)" for d i name
    using that by (auto simp: candidates_def in_set_index_from)
  with Cons.IH [of "Suc k"] show ?case by (force simp: candidates_Cons)
qed (simp add: candidates_def)

text \<open>The places of the list in cyclic order from a cursor.\<close>

lemma rotation:
  assumes "s < n"
  shows "[s..<n] @ [0..<s] = map (\<lambda>k. (s + k) mod n) [0..<n]"
proof (intro nth_equalityI)
  fix i assume i: "i < length ([s..<n] @ [0..<s])"
  show "([s..<n] @ [0..<s]) ! i = map (\<lambda>k. (s + k) mod n) [0..<n] ! i"
  proof (cases "i < n - s")
    case True
    moreover from True have "i < n" by simp
    ultimately show ?thesis using assms by (simp add: nth_append)
  next
    case False
    then have ge: "n \<le> s + i" by simp
    then have "(s + i) mod n = s + i - n" using i assms by (simp add: mod_if)
    then show ?thesis using False ge i assms by (simp add: nth_append)
  qed
qed (use assms in simp)

definition cyclic_distance :: "nat \<Rightarrow> nat \<Rightarrow> nat \<Rightarrow> nat" where
  "cyclic_distance n s i = nat ((int i - int s) mod int n)"

lemma cyclic_distance_rotated: "k < n \<Longrightarrow> cyclic_distance n s ((s + k) mod n) = k"
  by (simp add: cyclic_distance_def zmod_int mod_diff_left_eq)

lemma cyclic_distance_inverse: "i < n \<Longrightarrow> (s + cyclic_distance n s i) mod n = i \<and> cyclic_distance n s i < n"
proof -
  assume "i < n"
  have "int ((s + cyclic_distance n s i) mod n) = (int s + (int i - int s) mod int n) mod int n"
    using \<open>i < n\<close> by (simp add: cyclic_distance_def zmod_int)
  also have "\<dots> = int i" using \<open>i < n\<close> by (simp add: mod_add_right_eq)
  finally have "(s + cyclic_distance n s i) mod n = i" by simp
  moreover have "cyclic_distance n s i < n" using \<open>i < n\<close> by (simp add: cyclic_distance_def nat_less_iff)
  ultimately show ?thesis by simp
qed

lemma find_map_upt: "find P (map f [0..<n]) = Some i \<longleftrightarrow> (\<exists>k<n. P (f k) \<and> i = f k \<and> (\<forall>l<k. \<not> P (f l)))"
proof -
  have "find P (map f [0..<n]) = Some i \<longleftrightarrow>
     (\<exists>k<n. P (map f [0..<n] ! k) \<and> i = map f [0..<n] ! k \<and> (\<forall>l<k. \<not> P (map f [0..<n] ! l)))"
    by (simp only: find_Some_iff length_map length_upt minus_nat.diff_0)
  also have "\<dots> \<longleftrightarrow> (\<exists>k<n. P (f k) \<and> i = f k \<and> (\<forall>l<k. \<not> P (f l)))"
    by (rule ex_cong1) (auto)
  finally show ?thesis .
qed

lemma find_rotated:
  assumes "s < n"
  shows "find P ([s..<n] @ [0..<s]) = Some i \<longleftrightarrow>
     i < n \<and> P i \<and> (\<forall>j<n. P j \<longrightarrow> cyclic_distance n s i \<le> cyclic_distance n s j)"
proof -
  have "find P ([s..<n] @ [0..<s]) = Some i \<longleftrightarrow>
      (\<exists>k<n. P ((s + k) mod n) \<and> i = (s + k) mod n \<and> (\<forall>l<k. \<not> P ((s + l) mod n)))"
    unfolding rotation [OF assms] by (rule find_map_upt)
  also have "\<dots> \<longleftrightarrow> i < n \<and> P i \<and> (\<forall>j<n. P j \<longrightarrow> cyclic_distance n s i \<le> cyclic_distance n s j)"
  proof
    assume "\<exists>k<n. P ((s + k) mod n) \<and> i = (s + k) mod n \<and> (\<forall>l<k. \<not> P ((s + l) mod n))"
    then obtain k where k: "k < n" "P i" "i = (s + k) mod n" "\<forall>l<k. \<not> P ((s + l) mod n)" by blast
    have "k \<le> cyclic_distance n s j" if "j < n" "P j" for j
      using k(4) cyclic_distance_inverse [OF that(1), of s] that(2) by (metis linorder_not_le)
    then show "i < n \<and> P i \<and> (\<forall>j<n. P j \<longrightarrow> cyclic_distance n s i \<le> cyclic_distance n s j)"
      using k assms by (simp add: cyclic_distance_rotated)
  next
    assume r: "i < n \<and> P i \<and> (\<forall>j<n. P j \<longrightarrow> cyclic_distance n s i \<le> cyclic_distance n s j)"
    have "\<not> P ((s + l) mod n)" if "l < cyclic_distance n s i" for l
    proof
      assume "P ((s + l) mod n)"
      moreover have "l < n" using that cyclic_distance_inverse [of i n s] r by simp
      ultimately have "cyclic_distance n s i \<le> cyclic_distance n s ((s + l) mod n)" using r by simp
      then show False using that \<open>l < n\<close> by (simp add: cyclic_distance_rotated)
    qed
    then show "\<exists>k<n. P ((s + k) mod n) \<and> i = (s + k) mod n \<and> (\<forall>l<k. \<not> P ((s + l) mod n))"
      using r cyclic_distance_inverse [of i n s] by (intro exI [of _ "cyclic_distance n s i"]) auto
  qed
  finally show ?thesis .
qed

lemma find_rotated_None:
  "s < n \<Longrightarrow> find P ([s..<n] @ [0..<s]) = None \<longleftrightarrow> (\<forall>i<n. \<not> P i)"
  by (auto simp: find_None_iff)

text \<open>What the selection is, on a non-empty list with the cursor in range.\<close>

definition edf_choice :: "pydict list \<Rightarrow> nat \<Rightarrow> nat \<Rightarrow> bool" where
  "edf_choice children cursor i \<longleftrightarrow>
     i < length children \<and> deadline (children ! i) \<noteq> PNone
     \<and> (\<forall>j<length children. deadline (children ! j) \<noteq> PNone \<longrightarrow>
          the_int (deadline (children ! i)) \<le> the_int (deadline (children ! j))
          \<and> (the_int (deadline (children ! j)) = the_int (deadline (children ! i)) \<longrightarrow>
               cyclic_distance (length children) cursor i \<le> cyclic_distance (length children) cursor j))"

definition selection_at :: "pydict list \<Rightarrow> nat \<Rightarrow> scheduler_selection" where
  "selection_at children i =
     \<lparr>sel_child_id = child_name (children ! i), sel_ordinal = i,
      sel_deadline_ns = the_int (deadline (children ! i)), sel_next_cursor = Suc i mod length children\<rparr>"

lemma map_of_candidate:
  assumes "(d, i, name) \<in> set cs" and "distinct (map (fst \<circ> snd) cs)"
  shows "map_of (map snd (filter (\<lambda>(d', _). d' = d) cs)) i = Some name"
proof -
  have "distinct (map fst (map snd (filter (\<lambda>(d', _). d' = d) cs)))"
    using assms(2) by (simp add: distinct_map_filter comp_def)
  moreover have "(i, name) \<in> set (map snd (filter (\<lambda>(d', _). d' = d) cs))" using assms(1) by force
  ultimately show ?thesis by (rule map_of_is_SomeI)
qed

lemma in_tied: "i \<in> set (map fst (map snd (filter (\<lambda>(d', _). d' = d) cs))) \<longleftrightarrow> (\<exists>name. (d, i, name) \<in> set cs)"
  by force

lemma select_some:
  assumes "schedulable children" and "c < length children"
    and "\<exists>i<length children. deadline (children ! i) \<noteq> PNone"
  shows "\<exists>i. edf_choice children c i
     \<and> select_earliest_deadline children (PInt (int c)) = Inr (Some (selection_at children i))"
proof -
  let ?n = "length children" and ?cs = "candidates 0 children"
  let ?e = "Min (set (map fst ?cs))"
  let ?tied = "map snd (filter (\<lambda>(d, _). d = ?e) ?cs)"
  have ne: "?cs \<noteq> []" using assms(3) in_candidates by (metis emptyE empty_set)
  then have "?e \<in> set (map fst ?cs)" by (intro Min_in) auto
  then obtain i0 where i0: "i0 < ?n" "deadline (children ! i0) \<noteq> PNone" "the_int (deadline (children ! i0)) = ?e"
    using in_candidates by fastforce
  have tied: "i \<in> set (map fst ?tied) \<longleftrightarrow> i < ?n \<and> deadline (children ! i) \<noteq> PNone \<and> the_int (deadline (children ! i)) = ?e" for i
    unfolding in_tied in_candidates by auto
  have "find (\<lambda>i. i \<in> set (map fst ?tied)) ([c..<?n] @ [0..<c]) \<noteq> None"
    unfolding find_rotated_None [OF assms(2)] tied using i0 by blast
  then obtain i where i: "find (\<lambda>i. i \<in> set (map fst ?tied)) ([c..<?n] @ [0..<c]) = Some i"
    unfolding not_None_eq by blast
  note first = i [unfolded find_rotated [OF assms(2)] tied]
  have min: "?e \<le> the_int (deadline (children ! j))" if "j < ?n" "deadline (children ! j) \<noteq> PNone" for j
  proof (rule Min_le)
    have "(the_int (deadline (children ! j)), j, child_name (children ! j)) \<in> set ?cs"
      using that by (simp add: in_candidates)
    then have "fst (the_int (deadline (children ! j)), j, child_name (children ! j)) \<in> set (map fst ?cs)"
      unfolding set_map by (rule imageI)
    then show "the_int (deadline (children ! j)) \<in> set (map fst ?cs)" by simp
  qed simp
  have "edf_choice children c i" unfolding edf_choice_def using first min by metis
  moreover have "the (map_of ?tied i) = child_name (children ! i)"
    using map_of_candidate [of ?e i "child_name (children ! i)" ?cs] first distinct_candidates [of 0 children]
      in_candidates [of ?e i "child_name (children ! i)" children] by simp
  moreover have "foldM scan_child ([], []) (index_from 0 children) = Inr (rev (map child_name children), ?cs)"
    using assms(1) by (simp add: foldM_scan_child)
  moreover have "pick_candidate ?n c ?cs = Inr (Some
      \<lparr>sel_child_id = the (map_of ?tied i), sel_ordinal = i, sel_deadline_ns = ?e, sel_next_cursor = Suc i mod ?n\<rparr>)"
    using ne unfolding pick_candidate_def Let_def i by (simp only: if_False option.case)
  moreover have "children \<noteq> []" using assms(2) by auto
  ultimately show ?thesis
    using assms(2) first
    by (intro exI [of _ i]) (simp add: select_earliest_deadline_def selection_at_def)
qed

lemma select_none:
  assumes "schedulable children" and "c < length children"
    and "\<forall>i<length children. deadline (children ! i) = PNone"
  shows "select_earliest_deadline children (PInt (int c)) = Inr None"
proof -
  have "candidates 0 children = []"
    using assms(3) in_candidates by (metis list.set_intros(1) neq_Nil_conv prod_cases3)
  moreover have "foldM scan_child ([], []) (index_from 0 children) = Inr (rev (map child_name children), candidates 0 children)"
    using assms(1) by (simp add: foldM_scan_child)
  ultimately show ?thesis using assms(2) by (auto simp: select_earliest_deadline_def pick_candidate_def)
qed

lemma select_Inr:
  assumes "select_earliest_deadline children cursor = Inr r" and "children \<noteq> []"
  shows "\<exists>c. cursor = PInt (int c) \<and> c < length children \<and> schedulable children"
proof -
  from assms have "is_int_ge 0 cursor" and lt: "the_int cursor < int (length children)"
    and "\<exists>x. foldM scan_child ([], []) (index_from 0 children) = Inr x"
    by (auto simp: select_earliest_deadline_def res_simps)
  then have "schedulable children" by (auto simp: foldM_scan_child)
  moreover from \<open>is_int_ge 0 cursor\<close> obtain i where "cursor = PInt i" "0 \<le> i" by (auto simp: is_int_ge_iff)
  ultimately show ?thesis using lt by (intro exI [of _ "nat i"]) auto
qed

lemma edf_choice_unique: "edf_choice children c i \<Longrightarrow> edf_choice children c j \<Longrightarrow> i = j"
proof -
  assume i: "edf_choice children c i" and j: "edf_choice children c j"
  then have "cyclic_distance (length children) c i = cyclic_distance (length children) c j"
    unfolding edf_choice_def by (metis order_antisym)
  then show "i = j" using i j cyclic_distance_inverse unfolding edf_choice_def by metis
qed


section \<open>The peer guard\<close>

definition is_peer :: "pydict list \<Rightarrow> pyval \<Rightarrow> nat \<Rightarrow> bool" where
  "is_peer children proposed i \<longleftrightarrow> i < length children \<and> dget (children ! i) ''child_id'' \<noteq> proposed
     \<and> deadline (children ! i) \<noteq> PNone"

definition peer_key :: "pydict list \<Rightarrow> nat \<Rightarrow> nat \<Rightarrow> int \<times> int" where
  "peer_key children c i = peer_order_key c (length children) (i, children ! i)"

text \<open>How many peers are served up to and including this one, when they are served in order.\<close>

definition peer_rank :: "pydict list \<Rightarrow> nat \<Rightarrow> pyval \<Rightarrow> nat \<Rightarrow> nat" where
  "peer_rank children c proposed i =
     card {j. is_peer children proposed j \<and> peer_key children c j \<le> peer_key children c i}"

lemma in_peers: "(i, child) \<in> set (peers_of children proposed) \<longleftrightarrow> is_peer children proposed i \<and> child = children ! i"
  by (auto simp: peers_of_def in_set_index_from is_peer_def)

lemma distinct_peers: "distinct (map fst (peers_of children proposed))"
proof -
  have "distinct (map fst (index_from 0 children))"
    by (simp add: index_from_zip map_fst_zip_take)
  then show ?thesis unfolding peers_of_def by (rule distinct_map_filter)
qed

lemma peer_key_inj:
  "i < length children \<Longrightarrow> j < length children \<Longrightarrow> peer_key children c i = peer_key children c j \<Longrightarrow> i = j"
proof -
  assume i: "i < length children" and j: "j < length children" and eq: "peer_key children c i = peer_key children c j"
  then have "cyclic_distance (length children) c i = cyclic_distance (length children) c j"
    by (simp add: peer_key_def peer_order_key_def cyclic_distance_def)
  then show "i = j" using cyclic_distance_inverse [OF i, of c] cyclic_distance_inverse [OF j, of c] by metis
qed

lemma peer_key_le:
  "i < length children \<Longrightarrow> j < length children \<Longrightarrow> peer_key children c i \<le> peer_key children c j \<longleftrightarrow>
     the_int (deadline (children ! i)) < the_int (deadline (children ! j))
     \<or> (the_int (deadline (children ! i)) = the_int (deadline (children ! j))
        \<and> cyclic_distance (length children) c i \<le> cyclic_distance (length children) c j)"
proof -
  assume "i < length children" and "j < length children"
  then have "0 \<le> (int j - int c) mod int (length children)" by (intro pos_mod_sign) auto
  then show ?thesis
    by (auto simp: peer_key_def peer_order_key_def cyclic_distance_def less_eq_prod_def nat_le_eq_zle)
qed

lemma card_le_nth:
  assumes "sorted ks" and "distinct ks" and "k < length ks"
  shows "card {x \<in> set ks. x \<le> ks ! k} = Suc k"
proof -
  have "{x \<in> set ks. x \<le> ks ! k} = set (take (Suc k) ks)"
  proof (intro equalityI subsetI)
    fix x assume "x \<in> {x \<in> set ks. x \<le> ks ! k}"
    then obtain j where j: "j < length ks" "x = ks ! j" "ks ! j \<le> ks ! k" by (auto simp: in_set_conv_nth)
    have "\<not> k < j"
    proof
      assume "k < j"
      then have "ks ! k < ks ! j"
        using assms j(1) by (metis le_neq_trans less_imp_le nat_neq_iff nth_eq_iff_index_eq sorted_nth_mono)
      with j(3) show False by simp
    qed
    then show "x \<in> set (take (Suc k) ks)" using j(1,2) assms(3) by (auto simp: in_set_conv_nth intro!: exI [of _ j])
  next
    fix x assume "x \<in> set (take (Suc k) ks)"
    then obtain j where "j < Suc k" "x = ks ! j" using assms(3) by (auto simp: in_set_conv_nth)
    then show "x \<in> {x \<in> set ks. x \<le> ks ! k}" using assms by (auto intro: sorted_nth_mono)
  qed
  then show ?thesis using assms by (simp add: distinct_card)
qed

text \<open>The sorted peers: the first has the least key, and the position of each is its rank.\<close>

abbreviation ordered_peers :: "pydict list \<Rightarrow> nat \<Rightarrow> pyval \<Rightarrow> (nat \<times> pydict) list" where
  "ordered_peers children c proposed \<equiv> sort_key (peer_order_key c (length children)) (peers_of children proposed)"

lemma ordered_peers_position:
  assumes "(position, i, child) \<in> set (index_from 1 (ordered_peers children c proposed))"
  shows "is_peer children proposed i \<and> child = children ! i \<and> position = peer_rank children c proposed i"
proof -
  let ?key = "peer_order_key c (length children)"
  let ?ps = "ordered_peers children c proposed"
  from assms have pos: "1 \<le> position" "position < 1 + length ?ps" "?ps ! (position - 1) = (i, child)"
    unfolding in_set_index_from by simp_all
  then have lt: "position - 1 < length ?ps" by linarith
  have "(i, child) \<in> set ?ps" unfolding pos(3) [symmetric] by (rule nth_mem [OF lt])
  then have peer: "is_peer children proposed i" and child: "child = children ! i"
    by (simp_all add: in_peers)
  have "inj_on ?key (set ?ps)"
  proof (rule inj_onI, clarsimp simp: in_peers)
    fix j k assume "peer_order_key c (length children) (j, children ! j) = peer_order_key c (length children) (k, children ! k)"
      and "is_peer children proposed j" and "is_peer children proposed k"
    then have "j = k" using peer_key_inj [of j children k c] by (simp add: peer_key_def is_peer_def)
    then show "j = k \<and> children ! j = children ! k" by simp
  qed
  then have dist: "distinct (map ?key ?ps)"
    using distinct_peers by (simp add: distinct_map)
  have sorted: "sorted (map ?key ?ps)" by simp
  have k: "position - 1 < length (map ?key ?ps)" using lt by simp
  have "Suc (position - 1) = card {x \<in> set (map ?key ?ps). x \<le> map ?key ?ps ! (position - 1)}"
    using card_le_nth [OF sorted dist k] by simp
  also have "map ?key ?ps ! (position - 1) = peer_key children c i"
    using k pos(3) child by (simp add: peer_key_def)
  also have "{x \<in> set (map ?key ?ps). x \<le> peer_key children c i}
      = peer_key children c ` {j. is_peer children proposed j \<and> peer_key children c j \<le> peer_key children c i}"
    by (force simp: in_peers peer_key_def)
  also have "card \<dots> = peer_rank children c proposed i"
    unfolding peer_rank_def using peer_key_inj
    by (intro card_image) (auto simp: inj_on_def is_peer_def)
  finally show ?thesis using peer child pos(1) by simp
qed

lemma ordered_peers_all:
  "is_peer children proposed i \<Longrightarrow>
     \<exists>position. (position, i, children ! i) \<in> set (index_from 1 (ordered_peers children c proposed))"
proof -
  assume "is_peer children proposed i"
  then have "(i, children ! i) \<in> set (ordered_peers children c proposed)" by (simp add: in_peers)
  then obtain k where "k < length (ordered_peers children c proposed)" "ordered_peers children c proposed ! k = (i, children ! i)"
    by (metis in_set_conv_nth)
  then show ?thesis by (intro exI [of _ "Suc k"]) (simp add: in_set_index_from)
qed

lemma ordered_peers_hd:
  assumes "ordered_peers children c proposed = (i, child) # rest" and "is_peer children proposed j"
  shows "is_peer children proposed i \<and> child = children ! i \<and> peer_key children c i \<le> peer_key children c j"
proof -
  let ?ps = "ordered_peers children c proposed"
  have i: "(i, child) \<in> set ?ps" by (simp only: assms(1) list.set_intros)
  then have peer: "is_peer children proposed i \<and> child = children ! i" by (simp add: in_peers)
  have "sorted (map (peer_order_key c (length children)) ?ps)" by simp
  then have "\<forall>x\<in>set rest. peer_order_key c (length children) (i, child) \<le> peer_order_key c (length children) x"
    unfolding assms(1) by simp
  moreover have "(j, children ! j) \<in> set ?ps" using assms(2) by (simp add: in_peers)
  ultimately show ?thesis using peer unfolding assms(1) by (auto simp: peer_key_def)
qed

text \<open>The children as the guard sees them: the proposed child has no deadline.\<close>

definition without_deadline :: "pyval \<Rightarrow> pydict list \<Rightarrow> pydict list" where
  "without_deadline proposed =
     map (\<lambda>child. if dget child ''child_id'' = proposed then dset child ''next_deadline_ns'' PNone else child)"

lemma without_deadline_nth:
  "i < length children \<Longrightarrow> dget (without_deadline proposed children ! i) ''child_id'' = dget (children ! i) ''child_id''
   \<and> (deadline (without_deadline proposed children ! i) \<noteq> PNone \<longleftrightarrow> is_peer children proposed i)
   \<and> (is_peer children proposed i \<longrightarrow> without_deadline proposed children ! i = children ! i)"
  by (auto simp: without_deadline_def is_peer_def)

lemma schedulable_without_deadline: "schedulable children \<Longrightarrow> schedulable (without_deadline proposed children)"
  unfolding schedulable_def
  by (auto simp: without_deadline_def comp_def if_distrib [of "\<lambda>d. dget d _"] cong: if_cong)

lemma length_without_deadline [simp]: "length (without_deadline proposed children) = length children"
  by (simp add: without_deadline_def)

lemma edf_without_deadline:
  assumes "is_peer children proposed i"
    and "\<And>j. is_peer children proposed j \<Longrightarrow> peer_key children c i \<le> peer_key children c j"
  shows "edf_choice (without_deadline proposed children) c i"
proof -
  have i: "i < length children" using assms(1) by (simp add: is_peer_def)
  have "the_int (deadline (children ! i)) \<le> the_int (deadline (children ! j))
      \<and> (the_int (deadline (children ! j)) = the_int (deadline (children ! i)) \<longrightarrow>
           cyclic_distance (length children) c i \<le> cyclic_distance (length children) c j)"
    if "is_peer children proposed j" for j
    using assms(2) [OF that] peer_key_le [OF i, of j c] that by (auto simp: is_peer_def)
  moreover have "without_deadline proposed children ! j = children ! j \<and> is_peer children proposed j"
    if "j < length children" "deadline (without_deadline proposed children ! j) \<noteq> PNone" for j
    using without_deadline_nth [OF that(1), of proposed] that(2) by blast
  moreover have "without_deadline proposed children ! i = children ! i" "deadline (children ! i) \<noteq> PNone"
    using without_deadline_nth [OF i, of proposed] assms(1) by (auto simp: is_peer_def)
  ultimately show ?thesis
    using i unfolding edf_choice_def length_without_deadline by metis
qed

lemma peer_deadline_guard_Inr:
  assumes "peer_deadline_guard children cursor proposed now cb check overhead = Inr r"
  obtains c t a b ovh where "cursor = PInt (int c)" "c < length children" "now = PInt t" "schedulable children"
    "duration_ns cb ''certified-callback-latency'' = Inr a"
    "duration_ns check ''certified-peer-check-latency'' = Inr b"
    "duration_ns overhead ''certified-scheduler-overhead'' = Inr ovh"
    "r = overtaking_peer children c proposed t a b ovh"
proof -
  from assms obtain a b ovh s where now: "is_int_ge 0 now"
    and dur: "duration_ns cb ''certified-callback-latency'' = Inr a"
      "duration_ns check ''certified-peer-check-latency'' = Inr b"
      "duration_ns overhead ''certified-scheduler-overhead'' = Inr ovh"
    and known: "proposed \<in> set (map (\<lambda>child. dget child ''child_id'') children)"
    and sel: "select_earliest_deadline children cursor = Inr s"
    and r: "r = overtaking_peer children (nat (the_int cursor)) proposed (the_int now) a b ovh"
    unfolding peer_deadline_guard_def rbind_eq_Inr ensure_eq_Inr sum.inject by blast
  from known have "children \<noteq> []" by auto
  from select_Inr [OF sel this] obtain c where c: "cursor = PInt (int c)" "c < length children" "schedulable children"
    by blast
  from now obtain t where t: "now = PInt t" by (auto simp: is_int_ge_iff)
  show thesis by (rule that [OF c(1,2) t c(3) dur]) (use r c(1) t in simp)
qed

text \<open>A peer that comes too late if it is checked after the callback and the peers before it.\<close>

definition too_late :: "pydict list \<Rightarrow> nat \<Rightarrow> pyval \<Rightarrow> int \<Rightarrow> int \<Rightarrow> nat \<Rightarrow> bool" where
  "too_late children c proposed start check i \<longleftrightarrow>
     is_peer children proposed i
     \<and> the_int (deadline (children ! i)) \<le> start + int (peer_rank children c proposed i) * check"

lemma violates_iff:
  "(\<exists>(position, (_, child))\<in>set (index_from 1 (ordered_peers children c proposed)).
       counter child ''next_deadline_ns'' \<le> start + int position * check)
   \<longleftrightarrow> (\<exists>i. too_late children c proposed start check i)"
proof
  assume "\<exists>(position, (_, child))\<in>set (index_from 1 (ordered_peers children c proposed)).
       counter child ''next_deadline_ns'' \<le> start + int position * check"
  then obtain position i child where "(position, i, child) \<in> set (index_from 1 (ordered_peers children c proposed))"
    and "counter child ''next_deadline_ns'' \<le> start + int position * check" by auto
  with ordered_peers_position [OF this(1)] show "\<exists>i. too_late children c proposed start check i"
    by (auto simp: too_late_def)
next
  assume "\<exists>i. too_late children c proposed start check i"
  then obtain i where late: "too_late children c proposed start check i" by blast
  then obtain position where p: "(position, i, children ! i) \<in> set (index_from 1 (ordered_peers children c proposed))"
    using ordered_peers_all [of children proposed i c] unfolding too_late_def by blast
  show "\<exists>(position, (_, child))\<in>set (index_from 1 (ordered_peers children c proposed)).
       counter child ''next_deadline_ns'' \<le> start + int position * check"
    using late ordered_peers_position [OF p] p by (intro bexI [OF _ p]) (simp add: too_late_def)
qed

lemma overtaking_peer_cases:
  "overtaking_peer children c proposed now a b ovh =
     (if \<exists>i. too_late children c proposed (now + a + ovh) b i
      then Some (selection_at children (fst (hd (ordered_peers children c proposed)))) else None)"
proof (cases "\<exists>i. too_late children c proposed (now + a + ovh) b i")
  case True
  then obtain i where "is_peer children proposed i" by (auto simp: too_late_def)
  then have "(i, children ! i) \<in> set (ordered_peers children c proposed)" by (simp add: in_peers)
  then have ne: "ordered_peers children c proposed \<noteq> []" by force
  then obtain j child rest where hd: "ordered_peers children c proposed = (j, child) # rest"
    by (metis list.exhaust surj_pair)
  from hd have "(j, child) \<in> set (ordered_peers children c proposed)" by (simp only: list.set_intros)
  then have child: "child = children ! j" by (simp add: in_peers)
  show ?thesis
    unfolding overtaking_peer_def Let_def violates_iff if_P [OF True]
    using True ne unfolding hd by (simp add: child selection_at_def)
next
  case False
  show ?thesis unfolding overtaking_peer_def Let_def violates_iff if_not_P [OF False] using False by simp
qed

lemma overtaking_peer_edf:
  assumes "overtaking_peer children c proposed now a b ovh = Some s" and "schedulable children" and "c < length children"
  shows "select_earliest_deadline (without_deadline proposed children) (PInt (int c)) = Inr (Some s)"
proof -
  obtain k where "is_peer children proposed k"
    and s: "s = selection_at children (fst (hd (ordered_peers children c proposed)))"
    using assms(1) by (auto simp: overtaking_peer_cases too_late_def split: if_splits)
  then have "(k, children ! k) \<in> set (ordered_peers children c proposed)" by (simp add: in_peers)
  then have "ordered_peers children c proposed \<noteq> []" by force
  then obtain i child rest where hd: "ordered_peers children c proposed = (i, child) # rest"
    by (metis list.exhaust surj_pair)
  note least = ordered_peers_hd [OF hd]
  have peer: "is_peer children proposed i" using least \<open>is_peer children proposed k\<close> by blast
  have edf: "edf_choice (without_deadline proposed children) c i"
    using least by (intro edf_without_deadline peer) blast
  have i: "i < length children" using peer by (simp add: is_peer_def)
  obtain j where "edf_choice (without_deadline proposed children) c j"
    and sel: "select_earliest_deadline (without_deadline proposed children) (PInt (int c))
       = Inr (Some (selection_at (without_deadline proposed children) j))"
    using select_some [OF schedulable_without_deadline [OF assms(2), of proposed], of c] assms(3)
      without_deadline_nth [OF i, of proposed] peer i by auto
  with edf_choice_unique [OF edf] have "j = i" by blast
  then show ?thesis
    using sel s hd without_deadline_nth [OF i, of proposed] peer by (simp add: selection_at_def)
qed

section \<open>The ledger's invariant\<close>

lemma mapM_counter_delta:
  "mapM (counter_delta prefix before after) fs = Inr ns \<longleftrightarrow>
     (\<forall>f\<in>set fs. counter before f \<le> counter after f) \<and> ns = map (\<lambda>f. counter after f - counter before f) fs"
  by (induction fs arbitrary: ns) (auto simp: res_simps counter_delta_def)

lemma usage_delta_Inr:
  assumes "wf_usage before" and "wf_usage after"
  shows "usage_delta (PDict before) (PDict after) = Inr delta \<longleftrightarrow>
     (\<forall>f\<in>set NUMERIC_USAGE_FIELDS. counter before f \<le> counter after f)
     \<and> availability before = availability after
     \<and> (availability after = PStr ''available'' \<longrightarrow>
          (\<forall>f\<in>set TOKEN_COUNTER_FIELDS. counter (tokens_of before) f \<le> counter (tokens_of after) f))
     \<and> delta = usage_of (map (\<lambda>f. counter after f - counter before f) NUMERIC_USAGE_FIELDS)
          (if availability after = PStr ''available''
           then available_tokens (map (\<lambda>f. counter (tokens_of after) f - counter (tokens_of before) f) TOKEN_COUNTER_FIELDS)
           else zero_token_usage)"
  unfolding usage_delta_def normalize_usage_fixed [OF assms(1)] normalize_usage_fixed [OF assms(2)] rbind_Inr
  by (auto simp: rbind_eq_Inr mapM_counter_delta simp del: mapM.simps)

lemma usage_delta_counters:
  assumes "wf_usage before" and "wf_usage after" and "usage_delta (PDict before) (PDict after) = Inr delta"
    and "f \<in> set NUMERIC_USAGE_FIELDS"
  shows "counter delta f = counter after f - counter before f" and "0 \<le> counter delta f"
  using assms(3,4) unfolding usage_delta_Inr [OF assms(1,2)]
  by (auto simp: NUMERIC_USAGE_FIELDS_def)

definition ledger_inv :: "usage_ledger \<Rightarrow> bool" where
  "ledger_inv ledger \<longleftrightarrow> child_ids ledger \<noteq> [] \<and> distinct (child_ids ledger)
     \<and> dom (latest ledger) = set (child_ids ledger)
     \<and> (\<forall>usage\<in>ran (latest ledger). wf_usage usage) \<and> distinct (seen ledger)"

text \<open>The aggregate, computed from the latest usage of every child.\<close>

definition ledger_total :: "usage_ledger \<Rightarrow> pydict" where
  "ledger_total ledger = total_usage (map (\<lambda>c. the (latest ledger c)) (child_ids ledger))"

lemma ledger_latest_wf: "ledger_inv ledger \<Longrightarrow> c \<in> set (child_ids ledger) \<Longrightarrow> wf_usage (the (latest ledger c))"
  unfolding ledger_inv_def by (metis domD option.sel ranI)

lemma aggregate_usage_total: "ledger_inv ledger \<Longrightarrow> aggregate_usage ledger = Inr (ledger_total ledger)"
proof -
  assume inv: "ledger_inv ledger"
  have "sum_cumulative_usage (map PDict (map (\<lambda>c. the (latest ledger c)) (child_ids ledger))) = Inr (ledger_total ledger)"
    unfolding ledger_total_def
    using ledger_latest_wf [OF inv] inv by (intro sum_cumulative_usage_fixed) (auto simp: ledger_inv_def)
  then show ?thesis by (simp add: aggregate_usage_def comp_def)
qed

lemma new_ledger_inv:
  assumes "new_ledger ids initial = Inr ledger"
  shows "ledger_inv ledger \<and> seen ledger = []"
proof -
  from assms obtain baseline where norm: "\<exists>v. normalize_usage v = Inr baseline"
    and ids: "ids \<noteq> []" "\<forall>c\<in>set ids. is_str c \<and> the_str c \<noteq> []" "distinct ids"
    and ledger: "ledger = \<lparr>child_ids = map the_str ids,
          latest = (\<lambda>c. if c \<in> set (map the_str ids) then Some baseline else None),
          last_state_hash = Map.empty, seen = []\<rparr>"
    unfolding new_ledger_def rbind_eq_Inr ensure_eq_Inr sum.inject by blast
  have wf: "wf_usage baseline" using norm normalize_usage_wf by blast
  have "inj_on the_str (set ids)"
  proof (rule inj_onI)
    fix x y assume "x \<in> set ids" and "y \<in> set ids" and "the_str x = the_str y"
    with ids(2) show "x = y" by (cases x; cases y) auto
  qed
  then have "distinct (map the_str ids)" using ids(3) by (simp add: distinct_map)
  moreover have "dom (latest ledger) = set (child_ids ledger)" by (auto simp: ledger split: if_splits)
  moreover have "\<forall>usage\<in>ran (latest ledger). wf_usage usage"
    using wf by (auto simp: ledger ran_def split: if_splits)
  ultimately show ?thesis using ids(1) by (simp add: ledger ledger_inv_def)
qed

text \<open>One observation: rejected without a trace, or recorded under its key.\<close>

lemma observe_cases:
  assumes inv: "ledger_inv ledger" and obs: "observe child_id state_hash sequence usage ledger = (r, ledger')"
  shows "(\<exists>e. r = Inl e \<and> ledger' = ledger)
    \<or> (\<exists>h n current delta. child_id \<in> set (child_ids ledger) \<and> state_hash = PStr h \<and> sequence = PInt n
         \<and> (child_id, h, n) \<notin> set (seen ledger) \<and> normalize_usage usage = Inr current
         \<and> usage_delta (PDict (the (latest ledger child_id))) (PDict current) = Inr delta
         \<and> ledger' = ledger\<lparr>latest := (latest ledger)(child_id \<mapsto> current),
               last_state_hash := (last_state_hash ledger)(child_id \<mapsto> h),
               seen := (child_id, h, n) # seen ledger\<rparr>
         \<and> ledger_inv ledger'
         \<and> r = Inr \<lparr>obs_child_id = child_id, obs_child_state_sha256 = h, obs_decision_sequence = n,
               obs_delta = delta, obs_aggregate = ledger_total ledger'\<rparr>)"
proof (cases "rbind (ensure (latest ledger child_id \<noteq> None) (PoolAccountingError ''unknown-child-id'')) (\<lambda>_.
           rbind (require_sha256 state_hash ''child-state-sha256'') (\<lambda>state_hash.
           rbind (nonnegative_int sequence ''decision-sequence'') (\<lambda>sequence.
           rbind (ensure ((child_id, state_hash, sequence) \<notin> set (seen ledger))
                    (PoolAccountingError ''usage-observation-replay'')) (\<lambda>_.
           rbind (normalize_usage usage) (\<lambda>current.
           rbind (usage_delta (PDict (the (latest ledger child_id))) (PDict current)) (\<lambda>delta.
           Inr (state_hash, sequence, current, delta)))))))")
  case (Inl e)
  then show ?thesis using obs unfolding observe_def Inl by auto
next
  case (Inr x)
  then obtain h n current delta where x: "x = (h, n, current, delta)" by (metis prod_cases4)
  from Inr [unfolded rbind_eq_Inr x] have facts: "latest ledger child_id \<noteq> None" "state_hash = PStr h" "sequence = PInt n"
    "(child_id, h, n) \<notin> set (seen ledger)" "normalize_usage usage = Inr current"
    "usage_delta (PDict (the (latest ledger child_id))) (PDict current) = Inr delta"
    by (auto simp: require_sha256_def nonnegative_int_Inr is_sha256_iff res_simps)
  let ?l = "ledger\<lparr>latest := (latest ledger)(child_id \<mapsto> current),
               last_state_hash := (last_state_hash ledger)(child_id \<mapsto> h),
               seen := (child_id, h, n) # seen ledger\<rparr>"
  have mem: "child_id \<in> set (child_ids ledger)" using facts(1) inv by (auto simp: ledger_inv_def)
  have inv': "ledger_inv ?l"
    using inv facts(4) mem normalize_usage_wf [OF facts(5)]
    by (auto simp: ledger_inv_def ran_def split: if_splits)
  have "ledger' = ?l \<and> r = Inr \<lparr>obs_child_id = child_id, obs_child_state_sha256 = h, obs_decision_sequence = n,
               obs_delta = delta, obs_aggregate = ledger_total ?l\<rparr>"
    using obs aggregate_usage_total [OF inv'] unfolding observe_def Inr x by (auto simp: Let_def)
  then show ?thesis using facts mem inv' by blast
qed

text \<open>A run of observations, with the accepted ones in order.\<close>

type_synonym observation_request = "string \<times> pyval \<times> pyval \<times> pyval"

fun observe_all :: "observation_request list \<Rightarrow> usage_ledger \<Rightarrow> usage_observation list \<times> usage_ledger" where
  "observe_all [] ledger = ([], ledger)"
| "observe_all ((child_id, state_hash, sequence, usage) # requests) ledger =
     (case observe child_id state_hash sequence usage ledger of
        (Inl _, ledger') \<Rightarrow> observe_all requests ledger'
      | (Inr observation, ledger') \<Rightarrow>
          (case observe_all requests ledger' of (observations, ledger'') \<Rightarrow> (observation # observations, ledger'')))"

abbreviation observation_key :: "usage_observation \<Rightarrow> string \<times> string \<times> int" where
  "observation_key o' \<equiv> (obs_child_id o', obs_child_state_sha256 o', obs_decision_sequence o')"

lemma counter_total:
  "f \<in> set NUMERIC_USAGE_FIELDS \<Longrightarrow> counter (total_usage us) f = sum_list (map (\<lambda>u. counter u f) us)"
  by (auto simp: total_usage_def NUMERIC_USAGE_FIELDS_def)

lemma sum_list_fun_upd:
  "distinct cs \<Longrightarrow> c \<in> set cs \<Longrightarrow>
     sum_list (map (g(c := x)) cs) = sum_list (map g cs) + (x - g c :: int)"
proof (induction cs)
  case (Cons d cs)
  show ?case
  proof (cases "d = c")
    case True
    then have "sum_list (map (g(c := x)) cs) = sum_list (map g cs)"
      using Cons.prems(1) by (intro arg_cong [where f = sum_list] map_cong) auto
    then show ?thesis using True by (simp only: list.map sum_list.Cons fun_upd_same)
  next
    case False
    then show ?thesis using Cons by simp
  qed
qed simp

lemma ledger_total_observe:
  assumes inv: "ledger_inv ledger" and mem: "c \<in> set (child_ids ledger)"
    and f: "f \<in> set NUMERIC_USAGE_FIELDS"
  shows "counter (ledger_total (ledger\<lparr>latest := (latest ledger)(c \<mapsto> current), last_state_hash := h, seen := s\<rparr>)) f
    = counter (ledger_total ledger) f + (counter current f - counter (the (latest ledger c)) f)"
proof -
  let ?g = "\<lambda>c. counter (the (latest ledger c)) f"
  have "counter (ledger_total (ledger\<lparr>latest := (latest ledger)(c \<mapsto> current), last_state_hash := h, seen := s\<rparr>)) f
      = sum_list (map (?g(c := counter current f)) (child_ids ledger))"
    unfolding ledger_total_def counter_total [OF f] map_map
    by (intro arg_cong [where f = sum_list] map_cong) auto
  also have "\<dots> = sum_list (map ?g (child_ids ledger)) + (counter current f - ?g c)"
    using inv mem by (intro sum_list_fun_upd) (simp_all add: ledger_inv_def)
  also have "sum_list (map ?g (child_ids ledger)) = counter (ledger_total ledger) f"
    by (simp add: ledger_total_def counter_total [OF f] comp_def)
  finally show ?thesis .
qed

lemma observe_all_counts:
  assumes "ledger_inv ledger" and "observe_all requests ledger = (observations, ledger')"
  shows "ledger_inv ledger'
    \<and> seen ledger' = rev (map observation_key observations) @ seen ledger
    \<and> (\<forall>f\<in>set NUMERIC_USAGE_FIELDS.
         counter (ledger_total ledger') f
           = counter (ledger_total ledger) f + sum_list (map (\<lambda>o'. counter (obs_delta o') f) observations))
    \<and> (\<forall>o'\<in>set observations. \<forall>f\<in>set NUMERIC_USAGE_FIELDS. 0 \<le> counter (obs_delta o') f)"
  using assms
proof (induction requests arbitrary: ledger observations)
  case (Cons request requests)
  obtain c h s u where request: "request = (c, h, s, u)" by (metis prod_cases4)
  obtain r l1 where obs: "observe c h s u ledger = (r, l1)" by (metis surj_pair)
  from observe_cases [OF Cons.prems(1) obs] show ?case
  proof (elim disjE exE conjE)
    fix e assume "r = Inl e" "l1 = ledger"
    then show ?thesis using Cons.IH [OF Cons.prems(1)] Cons.prems(2) obs by (simp add: request)
  next
    fix h' n current delta
    assume step: "c \<in> set (child_ids ledger)" "normalize_usage u = Inr current"
      "usage_delta (PDict (the (latest ledger c))) (PDict current) = Inr delta"
      and l1: "l1 = ledger\<lparr>latest := (latest ledger)(c \<mapsto> current),
               last_state_hash := (last_state_hash ledger)(c \<mapsto> h'), seen := (c, h', n) # seen ledger\<rparr>"
      and inv: "ledger_inv l1"
      and r: "r = Inr \<lparr>obs_child_id = c, obs_child_state_sha256 = h', obs_decision_sequence = n,
               obs_delta = delta, obs_aggregate = ledger_total l1\<rparr>"
    obtain rest where rest: "observe_all requests l1 = (rest, ledger')"
      and observations: "observations = \<lparr>obs_child_id = c, obs_child_state_sha256 = h', obs_decision_sequence = n,
               obs_delta = delta, obs_aggregate = ledger_total l1\<rparr> # rest"
      using Cons.prems(2) obs r by (auto simp: request split: prod.splits)
    note IH = Cons.IH [OF inv rest]
    have wf: "wf_usage (the (latest ledger c))" "wf_usage current"
      using ledger_latest_wf [OF Cons.prems(1) step(1)] normalize_usage_wf [OF step(2)] by simp_all
    have "counter (ledger_total l1) f = counter (ledger_total ledger) f + counter delta f \<and> 0 \<le> counter delta f"
      if "f \<in> set NUMERIC_USAGE_FIELDS" for f
      using usage_delta_counters [OF wf step(3) that] ledger_total_observe [OF Cons.prems(1) step(1) that]
      by (simp add: l1)
    then show ?thesis using IH by (auto simp: observations l1)
  qed
qed simp

section \<open>Properties\<close>

text \<open>C6: the scheduler is earliest-deadline-first.  When a selection succeeds on a non-empty list of children,
  no child has a deadline and nothing is selected, or the selected child has the least deadline, it is the
  first such child in cyclic order from the cursor, and the next cursor is the place after it.\<close>

theorem select_earliest_is_edf:
  assumes "select_earliest_deadline children cursor = Inr r" and "children \<noteq> []"
  shows "case r of
      None \<Rightarrow> \<forall>child\<in>set children. dget child ''next_deadline_ns'' = PNone
    | Some s \<Rightarrow> sel_ordinal s < length children
        \<and> dget (children ! sel_ordinal s) ''child_id'' = PStr (sel_child_id s)
        \<and> dget (children ! sel_ordinal s) ''next_deadline_ns'' = PInt (sel_deadline_ns s)
        \<and> sel_next_cursor s = (sel_ordinal s + 1) mod length children
        \<and> (\<forall>j<length children. \<forall>d. dget (children ! j) ''next_deadline_ns'' = PInt d \<longrightarrow>
             sel_deadline_ns s \<le> d
             \<and> (d = sel_deadline_ns s \<longrightarrow>
                  (int (sel_ordinal s) - the_int cursor) mod int (length children)
                    \<le> (int j - the_int cursor) mod int (length children)))"
proof -
  from select_Inr [OF assms] obtain c where c: "cursor = PInt (int c)" "c < length children"
    and ok: "schedulable children" by blast
  show ?thesis
  proof (cases "\<exists>i<length children. deadline (children ! i) \<noteq> PNone")
    case True
    then obtain i where i: "edf_choice children c i" and r: "r = Some (selection_at children i)"
      using select_some [OF ok c(2)] assms(1) c(1) by auto
    have "i < length children" using i by (simp add: edf_choice_def)
    then have child: "is_str (dget (children ! i) ''child_id'')" "is_int_ge 0 (deadline (children ! i))"
      using ok i by (auto simp: schedulable_def edf_choice_def)
    have "0 \<le> (int j - int c) mod int (length children)" for j
      using c(2) by (intro pos_mod_sign) linarith
    then have dist: "cyclic_distance (length children) c i \<le> cyclic_distance (length children) c j \<longleftrightarrow>
        (int i - int c) mod int (length children) \<le> (int j - int c) mod int (length children)" for j
      by (simp add: cyclic_distance_def nat_le_eq_zle)
    have "the_int (deadline (children ! i)) \<le> d
        \<and> (d = the_int (deadline (children ! i)) \<longrightarrow>
             (int i - int c) mod int (length children) \<le> (int j - int c) mod int (length children))"
      if "j < length children" "deadline (children ! j) = PInt d" for j d
      using i that unfolding edf_choice_def dist by force
    then show ?thesis
      using child \<open>i < length children\<close> by (auto simp: r c(1) selection_at_def is_str_iff is_int_ge_iff)
  next
    case False
    then have "r = None" using select_none [OF ok c(2)] assms(1) c(1) by auto
    then show ?thesis using False by (auto simp: in_set_conv_nth)
  qed
qed

definition demo_children :: "pydict list" where
  "demo_children =
     [[(''child_id'', PStr ''a''), (''next_deadline_ns'', PInt 900)],
      [(''child_id'', PStr ''b''), (''next_deadline_ns'', PInt 500)],
      [(''child_id'', PStr ''c''), (''next_deadline_ns'', PNone)],
      [(''child_id'', PStr ''d''), (''next_deadline_ns'', PInt 500)]]"

lemma demo_select: "select_earliest_deadline demo_children (PInt 2)
    = Inr (Some \<lparr>sel_child_id = ''d'', sel_ordinal = 3, sel_deadline_ns = 500, sel_next_cursor = 0\<rparr>)"
  by code_simp

theorem select_earliest_is_edf_witness:
  "select_earliest_deadline demo_children (PInt 2)
     = Inr (Some \<lparr>sel_child_id = ''d'', sel_ordinal = 3, sel_deadline_ns = 500, sel_next_cursor = 0\<rparr>)
   \<and> (3 - 2) mod 4 \<le> (1 - 2) mod (4 :: int)"
  using select_earliest_is_edf [OF demo_select] demo_select by (simp add: demo_children_def)

text \<open>A number of successive selections, each with the cursor that the one before returned.\<close>

fun serve :: "pydict list \<Rightarrow> nat \<Rightarrow> pyval \<Rightarrow> (pool_error, nat list) res" where
  "serve children 0 cursor = Inr []"
| "serve children (Suc k) cursor =
     rbind (select_earliest_deadline children cursor) (\<lambda>r.
     case r of None \<Rightarrow> Inr []
     | Some s \<Rightarrow> rbind (serve children k (PInt (int (sel_next_cursor s)))) (\<lambda>rest. Inr (sel_ordinal s # rest)))"

lemma equal_deadlines_choice:
  assumes "c < length children" and "\<And>i. i < length children \<Longrightarrow> deadline (children ! i) = PInt d"
  shows "edf_choice children c c"
proof -
  have "cyclic_distance (length children) c c = 0" by (simp add: cyclic_distance_def)
  then show ?thesis using assms by (simp add: edf_choice_def)
qed

text \<open>C36: equal deadlines rotate.  Repeating the selection with the cursor it returns, over children that all
  have one deadline, serves them in turn: the selection number k is the child at place c + k modulo
  their number, so every child is served once in any run as long as the list.\<close>

theorem equal_deadlines_rotate:
  assumes "schedulable children" and "c < length children"
    and "\<forall>child\<in>set children. dget child ''next_deadline_ns'' = PInt d"
  shows "serve children k (PInt (int c)) = Inr (map (\<lambda>i. (c + i) mod length children) [0..<k])"
  using assms(2)
proof (induction k arbitrary: c)
  case (Suc k)
  have each: "deadline (children ! i) = PInt d" if "i < length children" for i
    using assms(3) that by simp
  obtain i where "edf_choice children c i"
    and sel: "select_earliest_deadline children (PInt (int c)) = Inr (Some (selection_at children i))"
    using select_some [OF assms(1) Suc.prems] each Suc.prems by fastforce
  then have i: "i = c" using edf_choice_unique equal_deadlines_choice [OF Suc.prems each] by blast
  have next_cursor: "Suc c mod length children < length children" using Suc.prems by (intro mod_less_divisor) linarith
  have rest: "serve children k (PInt (int (Suc c mod length children)))
      = Inr (map (\<lambda>j. (c + Suc j) mod length children) [0..<k])"
    unfolding Suc.IH [OF next_cursor] by (simp add: mod_add_left_eq)
  have "map (\<lambda>i. (c + i) mod length children) [0..<Suc k]
      = c # map (\<lambda>j. (c + Suc j) mod length children) [0..<k]"
    using Suc.prems by (simp add: upt_conv_Cons map_Suc_upt [symmetric] comp_def del: upt_Suc map_Suc_upt)
  then show ?case using rest by (simp add: sel i selection_at_def)
qed simp

theorem equal_deadlines_rotate_witness:
  "serve [[(''child_id'', PStr ''a''), (''next_deadline_ns'', PInt 5)],
          [(''child_id'', PStr ''b''), (''next_deadline_ns'', PInt 5)]] 3 (PInt (int 1)) = Inr [1, 0, 1]"
  using equal_deadlines_rotate [of "[[(''child_id'', PStr ''a''), (''next_deadline_ns'', PInt 5)],
          [(''child_id'', PStr ''b''), (''next_deadline_ns'', PInt 5)]]" 1 5 3]
  by (simp add: schedulable_def upt_rec mod_Suc del: serve.simps)

text \<open>C24: the peer guard admits the proposed callback only if no peer deadline can be missed, and otherwise
  hands over to the scheduler's own choice.  It returns nothing exactly when every peer, served after the
  callback, the overhead and the checks of the peers with earlier places, completes before its deadline;
  a peer it returns is the one that the deadline selection makes when the proposed child is left out.\<close>

theorem peer_guard_protects_deadlines:
  assumes "peer_deadline_guard children (PInt (int c)) proposed (PInt now) callback_ms check_ms overhead_ms = Inr r"
    and "duration_ns callback_ms ''certified-callback-latency'' = Inr callback"
    and "duration_ns check_ms ''certified-peer-check-latency'' = Inr check"
    and "duration_ns overhead_ms ''certified-scheduler-overhead'' = Inr overhead"
  shows "(r = None \<longleftrightarrow>
      (\<forall>i. is_peer children proposed i \<longrightarrow>
         now + callback + overhead + int (peer_rank children c proposed i) * check
           < the_int (dget (children ! i) ''next_deadline_ns'')))
    \<and> (\<forall>s. r = Some s \<longrightarrow>
      select_earliest_deadline (without_deadline proposed children) (PInt (int c)) = Inr (Some s))"
proof -
  obtain c' t a b ovh where parts: "PInt (int c) = PInt (int c')" "c' < length children" "PInt now = PInt t"
    "schedulable children" "duration_ns callback_ms ''certified-callback-latency'' = Inr a"
    "duration_ns check_ms ''certified-peer-check-latency'' = Inr b"
    "duration_ns overhead_ms ''certified-scheduler-overhead'' = Inr ovh"
    "r = overtaking_peer children c' proposed t a b ovh"
    by (rule peer_deadline_guard_Inr [OF assms(1)])
  then have r: "r = overtaking_peer children c proposed now callback check overhead" and c: "c < length children"
    using assms(2-4) by simp_all
  have "r = None \<longleftrightarrow> (\<forall>i. is_peer children proposed i \<longrightarrow>
         now + callback + overhead + int (peer_rank children c proposed i) * check
           < the_int (dget (children ! i) ''next_deadline_ns''))"
    by (auto simp: r overtaking_peer_cases too_late_def)
  moreover have "select_earliest_deadline (without_deadline proposed children) (PInt (int c)) = Inr (Some s)"
    if "r = Some s" for s
    using overtaking_peer_edf [OF _ parts(4) c] that r by simp
  ultimately show ?thesis by blast
qed

lemma demo_durations: "duration_ns (PInt 0) f = Inr 0"
  by (simp add: duration_ns_def float_of_int_def)

lemma demo_guard: "peer_deadline_guard demo_children (PInt (int 2)) (PStr ''a'') (PInt 500) (PInt 0) (PInt 0) (PInt 0)
    = Inr (Some \<lparr>sel_child_id = ''d'', sel_ordinal = 3, sel_deadline_ns = 500, sel_next_cursor = 0\<rparr>)"
proof -
  have "overtaking_peer demo_children 2 (PStr ''a'') 500 0 0 0
      = Some \<lparr>sel_child_id = ''d'', sel_ordinal = 3, sel_deadline_ns = 500, sel_next_cursor = 0\<rparr>"
    by code_simp
  then show ?thesis
    using demo_select by (simp add: peer_deadline_guard_def demo_durations) (simp add: demo_children_def)
qed

theorem peer_guard_protects_deadlines_witness:
  "select_earliest_deadline (without_deadline (PStr ''a'') demo_children) (PInt (int 2))
     = Inr (Some \<lparr>sel_child_id = ''d'', sel_ordinal = 3, sel_deadline_ns = 500, sel_next_cursor = 0\<rparr>)"
  by (rule peer_guard_protects_deadlines [OF demo_guard demo_durations demo_durations demo_durations,
        THEN conjunct2, rule_format, OF refl])


definition demo_usage :: "int \<Rightarrow> pyval" where
  "demo_usage n = PDict (usage_of [n, n + 1, 0, 0, 0] zero_token_usage)"

definition demo_digest :: pyval where
  "demo_digest = PStr (replicate 64 CHR ''c'')"

definition demo_requests :: "observation_request list" where
  "demo_requests = [(''a'', demo_digest, PInt 1, demo_usage 2), (''a'', demo_digest, PInt 1, demo_usage 3),
     (''b'', demo_digest, PInt 1, demo_usage 4)]"

definition demo_ledger :: usage_ledger where
  "demo_ledger = (case new_ledger [PStr ''a'', PStr ''b''] None of Inr ledger \<Rightarrow> ledger
     | Inl _ \<Rightarrow> \<lparr>child_ids = [], latest = Map.empty, last_state_hash = Map.empty, seen = []\<rparr>)"

lemma demo_new_ledger: "new_ledger [PStr ''a'', PStr ''b''] None = Inr demo_ledger"
  by (simp add: demo_ledger_def new_ledger_def normalize_usage_fixed wf_zero_usage)


text \<open>A hard budget is reported exactly.  When the budget check succeeds, a reason is listed for exactly the
  numeric dimensions whose authoritative total is above its ceiling, in the order of the dimensions.\<close>

theorem exhausted_budget_exact:
  assumes "exhausted_budget aggregate budget = Inr reasons"
  shows "\<exists>usage. normalize_usage aggregate = Inr usage
    \<and> reasons = map (\<lambda>field. ''aggregate-'' @ dashed field @ ''-exhausted'')
        (filter (\<lambda>field. the_int (dget (the_dict budget) field) < counter usage field) NUMERIC_USAGE_FIELDS)"
proof -
  have step: "mapM (\<lambda>field. rbind (nonnegative_int (dget d field) (g field)) (\<lambda>ceiling.
        Inr (err_if (ceiling < counter usage field) (h field)))) fs = Inr rs
      \<Longrightarrow> concat rs = map h (filter (\<lambda>field. the_int (dget d field) < counter usage field) fs)"
    for d usage fs rs g h
    by (induction fs arbitrary: rs) (auto simp: res_simps nonnegative_int_Inr err_if_def)
  from assms obtain usage rs where u: "normalize_usage aggregate = Inr usage" and reasons: "reasons = concat rs"
    and m: "mapM (\<lambda>field. rbind (nonnegative_int (dget (the_dict budget) field) (''budget-'' @ dashed field)) (\<lambda>ceiling.
        Inr (err_if (ceiling < counter usage field) (''aggregate-'' @ dashed field @ ''-exhausted'')))) NUMERIC_USAGE_FIELDS = Inr rs"
    unfolding exhausted_budget_def rbind_eq_Inr sum.inject by blast
  show ?thesis unfolding reasons using step [OF m] u by blast
qed

theorem exhausted_budget_exact_witness:
  "exhausted_budget (demo_usage 7) (PDict (zip NUMERIC_USAGE_FIELDS (map PInt [7, 7, 0, 0, 0])))
     = Inr [''aggregate-runtime-seconds-exhausted'']"
proof -
  have run: "exhausted_budget (demo_usage 7) (PDict (zip NUMERIC_USAGE_FIELDS (map PInt [7, 7, 0, 0, 0])))
     = Inr [''aggregate-runtime-seconds-exhausted'']" by code_simp
  from exhausted_budget_exact [OF run] run show ?thesis by blast
qed

end
