(* ===== verification/UsageContracts.thy ===== *)
theory UsageContracts
  imports PoolScheduler
begin

text \<open>
  The usage validators of \<^verbatim>\<open>native_pool_contracts.py\<close>, which report errors, beside the
  strict normal form of \<^verbatim>\<open>native_pool_scheduler.py\<close>, which raises; and the sum of the
  children's usage that the state validator recomputes.
\<close>

definition validate_token_usage :: "pyval \<Rightarrow> string \<Rightarrow> string list" where
  "validate_token_usage value prefix = strict value TOKEN_FIELDS prefix (\<lambda>tokens.
     let availability = dget tokens ''availability'' in
     if availability = PStr ''available'' then
       err_if (\<exists>field\<in>set TOKEN_COUNTER_FIELDS. \<not> is_int_ge 0 (dget tokens field))
         (''invalid-'' @ prefix @ ''-available-counters'')
       @ err_if (dget tokens ''unavailable_reason'' \<noteq> PNone) (''invalid-'' @ prefix @ ''-available-reason'')
       @ err_if ((\<forall>field\<in>set TOKEN_COUNTER_FIELDS. is_int_ge 0 (dget tokens field))
            \<and> counter tokens ''total'' \<noteq> counter tokens ''input'' + counter tokens ''cached_input''
                 + counter tokens ''output'' + counter tokens ''reasoning'')
           (''invalid-'' @ prefix @ ''-total'')
     else if availability = PStr ''unavailable'' then
       err_if (\<exists>field\<in>set TOKEN_COUNTER_FIELDS. dget tokens field \<noteq> PNone)
         (''invalid-'' @ prefix @ ''-unavailable-counters'')
       @ err_if (\<not> nonempty_text (dget tokens ''unavailable_reason''))
           (''invalid-'' @ prefix @ ''-unavailable-reason'')
     else [''invalid-'' @ prefix @ ''-availability''])"

definition validate_usage :: "pyval \<Rightarrow> string \<Rightarrow> string list" where
  "validate_usage value prefix = strict value USAGE_FIELDS prefix (\<lambda>usage.
     concat (map (\<lambda>field. err_if (\<not> is_int_ge 0 (dget usage field)) (''invalid-'' @ prefix @ ''-'' @ dashed field))
       NUMERIC_USAGE_FIELDS)
     @ validate_token_usage (dget usage ''tokens'') (prefix @ ''-tokens''))"

text \<open>
  The sum of the children's usage: nothing if a child has none or a numeric field is not a
  counter.  Token counters are summed with \<^verbatim>\<open>sum(tokens[field] for ...)\<close>, which raises
  \<^verbatim>\<open>KeyError\<close> for a missing field and \<^verbatim>\<open>TypeError\<close> for a value that is not a
  number.
\<close>

datatype sum_error = KeyError string | TypeError

definition token_counter :: "string \<Rightarrow> pydict \<Rightarrow> (sum_error, pyval) res" where
  "token_counter field tokens =
     (if field \<in> set (dkeys tokens) then Inr (dget tokens field) else Inl (KeyError field))"

definition sum_token_counter :: "pydict list \<Rightarrow> string \<Rightarrow> (sum_error, pyval) res" where
  "sum_token_counter token_values field =
     foldM (\<lambda>acc tokens. rbind (token_counter field tokens) (\<lambda>v.
              case py_add acc v of None \<Rightarrow> Inl TypeError | Some acc' \<Rightarrow> Inr acc')) (PInt 0) token_values"

definition usage_sum :: "pydict list \<Rightarrow> (sum_error, pydict option) res" where
  "usage_sum children =
     (let usages = map (\<lambda>child. dget child ''last_cumulative_usage'') children;
          token_values = map (\<lambda>usage. dget (the_dict usage) ''tokens'') usages
      in if (\<exists>usage\<in>set usages. \<not> is_dict usage)
            \<or> (\<exists>field\<in>set NUMERIC_USAGE_FIELDS. \<exists>usage\<in>set usages. \<not> is_int_ge 0 (dget (the_dict usage) field))
         then Inr None
         else
           let numbers = map (\<lambda>field. sum_list (map (\<lambda>usage. counter (the_dict usage) field) usages)) NUMERIC_USAGE_FIELDS
           in if \<forall>tokens\<in>set token_values. is_dict tokens \<and> dget (the_dict tokens) ''availability'' = PStr ''available''
              then rbind (mapM (sum_token_counter (map the_dict token_values)) TOKEN_COUNTER_FIELDS) (\<lambda>counters.
                Inr (Some (usage_of numbers ((''availability'', PStr ''available'') # zip TOKEN_COUNTER_FIELDS counters
                   @ [(''unavailable_reason'', PNone)]))))
              else Inr (Some (usage_of numbers zero_token_usage)))"

lemma validate_token_usage_iff: "validate_token_usage v p = [] \<longleftrightarrow> (\<exists>t. normalize_tokens v = Inr t)"
proof (cases v)
  case (PDict d)
  show ?thesis
  proof (cases "dget d ''availability'' = PStr ''available''")
    case True
    then show ?thesis
      by (simp add: PDict validate_token_usage_def normalize_tokens_def res_simps nonnegative_int_Inr is_int_ge_iff
          TOKEN_COUNTER_FIELDS_def eval_nat_numeral eq_commute [of "set TOKEN_FIELDS"]) auto
  next
    case False
    then show ?thesis
      by (auto simp: PDict validate_token_usage_def normalize_tokens_def res_simps)
  qed
qed (simp_all add: validate_token_usage_def normalize_tokens_def res_simps)

lemma validate_usage_iff: "validate_usage v p = [] \<longleftrightarrow> (\<exists>u. normalize_usage v = Inr u)"
proof (cases v)
  case (PDict d)
  then show ?thesis
    by (simp add: validate_usage_def normalize_usage_def res_simps nonnegative_int_Inr is_int_ge_iff
          NUMERIC_USAGE_FIELDS_def validate_token_usage_iff eq_commute [of "set USAGE_FIELDS"]) auto
qed (simp_all add: validate_usage_def normalize_usage_def res_simps)

text \<open>The normal form has the counters of the value it was made from.\<close>

lemma mapM_five_values:
  assumes "mapM (\<lambda>field. nonnegative_int (dget d field) (name field)) [f1, f2, f3, f4, f5] = Inr ns"
  shows "\<exists>a b c e g. ns = [a, b, c, e, g] \<and> dget d f1 = PInt a \<and> dget d f2 = PInt b \<and> dget d f3 = PInt c
    \<and> dget d f4 = PInt e \<and> dget d f5 = PInt g \<and> 0 \<le> a \<and> 0 \<le> b \<and> 0 \<le> c \<and> 0 \<le> e \<and> 0 \<le> g"
  using assms by (auto simp: res_simps nonnegative_int_Inr)

lemma normalize_tokens_available:
  assumes "normalize_tokens v = Inr t" and "dget (the_dict v) ''availability'' = PStr ''available''"
  shows "\<exists>a b c d e. t = available_tokens [a, b, c, d, e]
    \<and> dget (the_dict v) ''input'' = PInt a \<and> dget (the_dict v) ''cached_input'' = PInt b
    \<and> dget (the_dict v) ''output'' = PInt c \<and> dget (the_dict v) ''reasoning'' = PInt d
    \<and> dget (the_dict v) ''total'' = PInt e"
proof -
  from assms obtain cs where "mapM (\<lambda>field. nonnegative_int (dget (the_dict v) field) (''tokens-'' @ dashed field)) TOKEN_COUNTER_FIELDS = Inr cs"
    and t: "t = available_tokens cs"
    by (auto simp: normalize_tokens_def Let_def res_simps simp del: mapM.simps)
  then show ?thesis
    using mapM_five_values [of "the_dict v" "\<lambda>f. ''tokens-'' @ dashed f"] unfolding TOKEN_COUNTER_FIELDS_def by blast
qed

lemma normalize_tokens_unavailable:
  "normalize_tokens v = Inr t \<Longrightarrow> dget (the_dict v) ''availability'' \<noteq> PStr ''available'' \<Longrightarrow>
     dget (the_dict v) ''availability'' = PStr ''unavailable'' \<and> dget t ''availability'' = PStr ''unavailable''"
  by (simp add: normalize_tokens_def Let_def res_simps split: if_splits) auto

lemma normalize_tokens_keys:
  "normalize_tokens v = Inr t \<Longrightarrow> is_dict v \<and> set (dkeys (the_dict v)) = set TOKEN_FIELDS"
  by (simp add: normalize_tokens_def rbind_eq_Inr)

lemma normalize_tokens_availability:
  "normalize_tokens v = Inr t \<Longrightarrow> dget t ''availability'' = dget (the_dict v) ''availability''"
  using normalize_tokens_available [of v t] normalize_tokens_unavailable [of v t] by fastforce

lemma normalize_tokens_counter:
  assumes "normalize_tokens v = Inr t" and "dget t ''availability'' = PStr ''available''" and "f \<in> set TOKEN_COUNTER_FIELDS"
  shows "f \<in> set (dkeys (the_dict v)) \<and> dget (the_dict v) f = PInt (counter t f)"
proof -
  have "f \<in> set TOKEN_FIELDS" using assms(3) by (simp add: TOKEN_FIELDS_def)
  then have "f \<in> set (dkeys (the_dict v))" using normalize_tokens_keys [OF assms(1)] by simp
  moreover have "dget (the_dict v) f = PInt (counter t f)"
    using normalize_tokens_available [OF assms(1)] normalize_tokens_availability [OF assms(1)] assms(2,3)
    by (auto simp: TOKEN_COUNTER_FIELDS_def)
  ultimately show ?thesis by blast
qed

lemma normalize_usage_fields:
  assumes "normalize_usage v = Inr u"
  shows "is_dict v" and "f \<in> set NUMERIC_USAGE_FIELDS \<Longrightarrow> dget (the_dict v) f = PInt (counter u f) \<and> 0 \<le> counter u f"
    and "normalize_tokens (dget (the_dict v) ''tokens'') = Inr (tokens_of u)"
proof -
  from assms obtain ns t where ns: "mapM (\<lambda>field. nonnegative_int (dget (the_dict v) field) (''usage-'' @ dashed field)) NUMERIC_USAGE_FIELDS = Inr ns"
    and t: "normalize_tokens (dget (the_dict v) ''tokens'') = Inr t" and u: "u = usage_of ns t" and d: "is_dict v"
    by (auto simp: normalize_usage_def Let_def res_simps simp del: mapM.simps)
  show "is_dict v" by (rule d)
  from ns obtain a b c e g where five: "ns = [a, b, c, e, g]" "dget (the_dict v) ''tool_calls'' = PInt a"
    "dget (the_dict v) ''runtime_seconds'' = PInt b" "dget (the_dict v) ''compactions'' = PInt c"
    "dget (the_dict v) ''full_suite_runs'' = PInt e" "dget (the_dict v) ''mutations'' = PInt g"
    "0 \<le> a" "0 \<le> b" "0 \<le> c" "0 \<le> e" "0 \<le> g"
    using mapM_five_values [of "the_dict v" "\<lambda>f. ''usage-'' @ dashed f"] unfolding NUMERIC_USAGE_FIELDS_def by blast
  show "dget (the_dict v) f = PInt (counter u f) \<and> 0 \<le> counter u f" if "f \<in> set NUMERIC_USAGE_FIELDS"
    using five that unfolding u by (auto simp: NUMERIC_USAGE_FIELDS_def)
  show "normalize_tokens (dget (the_dict v) ''tokens'') = Inr (tokens_of u)"
    using t five(1) unfolding u by simp
qed

lemma sum_token_counter_ints:
  "(\<And>d. d \<in> set ds \<Longrightarrow> f \<in> set (dkeys d) \<and> is_int (dget d f)) \<Longrightarrow>
     sum_token_counter ds f = Inr (PInt (sum_list (map (\<lambda>d. counter d f) ds)))"
proof -
  assume ints: "\<And>d. d \<in> set ds \<Longrightarrow> f \<in> set (dkeys d) \<and> is_int (dget d f)"
  have "foldM (\<lambda>acc tokens. rbind (token_counter f tokens) (\<lambda>v.
              case py_add acc v of None \<Rightarrow> Inl TypeError | Some acc' \<Rightarrow> Inr acc')) (PInt start) ds
      = Inr (PInt (start + sum_list (map (\<lambda>d. counter d f) ds)))" for start
    using ints
  proof (induction ds arbitrary: start)
    case (Cons d ds)
    from Cons.prems [of d] obtain i where "dget d f = PInt i" "f \<in> set (dkeys d)" by (auto simp: is_int_iff)
    then show ?case using Cons by (simp add: token_counter_def add.assoc)
  qed simp
  from this [of 0] show ?thesis by (simp add: sum_token_counter_def)
qed

section \<open>Properties\<close>

text \<open>C38: the reporting validator and the raising normaliser of usage accept the same values.\<close>

theorem usage_validators_agree: "validate_usage v prefix = [] \<longleftrightarrow> (\<exists>u. normalize_usage v = Inr u)"
  by (rule validate_usage_iff)

text \<open>The two sums of usage agree.  For children whose usage is accepted, the sum that the state validator
  recomputes is the sum that the ledger computes, and it does not raise.\<close>

theorem usage_sums_agree:
  assumes "children \<noteq> []"
    and "\<forall>child\<in>set children. validate_usage (dget child ''last_cumulative_usage'') ''usage'' = []"
  shows "\<exists>u. usage_sum children = Inr (Some u)
    \<and> sum_cumulative_usage (map (\<lambda>child. dget child ''last_cumulative_usage'') children) = Inr u"
proof -
  let ?us = "map (\<lambda>child. dget child ''last_cumulative_usage'') children"
  have "\<forall>v\<in>set ?us. \<exists>u. normalize_usage v = Inr u" using assms(2) by (simp add: validate_usage_iff)
  then obtain norm where norm: "\<And>v. v \<in> set ?us \<Longrightarrow> normalize_usage v = Inr (norm v)" by metis
  note numeric = normalize_usage_fields(2) [OF norm]
  note toks = normalize_usage_fields(3) [OF norm]
  have mapM: "mapM normalize_usage ?us = Inr (map norm ?us)"
    using norm by (subst mapM_cong [of _ _ "\<lambda>v. Inr (norm v)"]) auto
  have all_available: "(\<forall>tokens\<in>set (map (\<lambda>usage. dget (the_dict usage) ''tokens'') ?us).
        is_dict tokens \<and> dget (the_dict tokens) ''availability'' = PStr ''available'')
      \<longleftrightarrow> (\<forall>u\<in>set (map norm ?us). availability u = PStr ''available'')"
    using normalize_tokens_keys [OF toks] normalize_tokens_availability [OF toks] by auto
  have counters: "mapM (sum_token_counter (map the_dict (map (\<lambda>usage. dget (the_dict usage) ''tokens'') ?us))) TOKEN_COUNTER_FIELDS
      = Inr (map PInt (map (\<lambda>field. sum_list (map (\<lambda>u. counter (tokens_of u) field) (map norm ?us))) TOKEN_COUNTER_FIELDS))"
    if av: "\<forall>u\<in>set (map norm ?us). availability u = PStr ''available''"
  proof -
    have "sum_token_counter (map the_dict (map (\<lambda>usage. dget (the_dict usage) ''tokens'') ?us)) f
        = Inr (PInt (sum_list (map (\<lambda>u. counter (tokens_of u) f) (map norm ?us))))"
      if f: "f \<in> set TOKEN_COUNTER_FIELDS" for f
    proof -
      have each: "f \<in> set (dkeys (the_dict (dget (the_dict v) ''tokens'')))
          \<and> dget (the_dict (dget (the_dict v) ''tokens'')) f = PInt (counter (tokens_of (norm v)) f)" if "v \<in> set ?us" for v
        using normalize_tokens_counter [OF toks [OF that] _ f] av that by auto
      have "sum_token_counter (map the_dict (map (\<lambda>usage. dget (the_dict usage) ''tokens'') ?us)) f
          = Inr (PInt (sum_list (map (\<lambda>d. counter d f) (map the_dict (map (\<lambda>usage. dget (the_dict usage) ''tokens'') ?us)))))"
        using each by (intro sum_token_counter_ints) auto
      also have "map (\<lambda>d. counter d f) (map the_dict (map (\<lambda>usage. dget (the_dict usage) ''tokens'') ?us))
          = map (\<lambda>u. counter (tokens_of u) f) (map norm ?us)"
        using each by auto
      finally show ?thesis .
    qed
    then have "mapM (sum_token_counter (map the_dict (map (\<lambda>usage. dget (the_dict usage) ''tokens'') ?us))) TOKEN_COUNTER_FIELDS
        = mapM (\<lambda>f. Inr (PInt (sum_list (map (\<lambda>u. counter (tokens_of u) f) (map norm ?us))))) TOKEN_COUNTER_FIELDS"
      by (intro mapM_cong)
    then show ?thesis by (simp only: mapM_Ret) (simp add: comp_def)
  qed
  have guard: "\<not> ((\<exists>usage\<in>set ?us. \<not> is_dict usage)
        \<or> (\<exists>field\<in>set NUMERIC_USAGE_FIELDS. \<exists>usage\<in>set ?us. \<not> is_int_ge 0 (dget (the_dict usage) field)))"
    using normalize_usage_fields(1) [OF norm] numeric by auto
  have numbers: "map (\<lambda>field. sum_list (map (\<lambda>usage. counter (the_dict usage) field) ?us)) NUMERIC_USAGE_FIELDS
      = map (\<lambda>field. sum_list (map (\<lambda>u. counter u field) (map norm ?us))) NUMERIC_USAGE_FIELDS"
    using numeric by (auto intro!: arg_cong [where f = sum_list])
  have "usage_sum children = Inr (Some (total_usage (map norm ?us)))"
    unfolding usage_sum_def Let_def if_not_P [OF guard] all_available numbers
    using counters by (auto simp: total_usage_def available_tokens_def simp del: mapM.simps)
  moreover have "sum_cumulative_usage ?us = Inr (total_usage (map norm ?us))"
    using assms(1) by (simp add: sum_cumulative_usage_def mapM total_usage_def del: map_map)
  ultimately show ?thesis by blast
qed

theorem usage_sums_agree_witness:
  "\<exists>u. usage_sum [[(''last_cumulative_usage'', PDict zero_usage)]] = Inr (Some u)
     \<and> sum_cumulative_usage [PDict zero_usage] = Inr u"
  using usage_sums_agree [of "[[(''last_cumulative_usage'', PDict zero_usage)]]"]
  by (simp add: validate_usage_iff normalize_usage_fixed wf_zero_usage)

end
