(* ===== verification/PoolSchedulability.thy ===== *)
theory PoolSchedulability
  imports PoolContracts
begin

text \<open>
  \<^verbatim>\<open>scripts/cwo_core/native_pool_schedulability.py\<close>: the proof that \<open>N\<close> workers can be
  served within one poll interval, computed with \<^verbatim>\<open>Decimal\<close> numbers: values are exact,
  each product and sum is rounded to 28 significant digits.
\<close>

datatype schedulability_error = PoolSchedulabilityError string

definition SCHEDULABILITY_PROOF_TYPE :: string where
  "SCHEDULABILITY_PROOF_TYPE = ''cwo-native-pool-schedulability-proof''"

definition SCHEDULABILITY_FORMULA :: string where
  "SCHEDULABILITY_FORMULA = ''lifecycle_max_ms + requested_workers * check_max_ms + scheduler_overhead_ms <= poll_interval_ms''"

text \<open>\<^verbatim>\<open>Decimal(str(value))\<close> with its sign checks.\<close>

definition decimal_number :: "pyval \<Rightarrow> string \<Rightarrow> bool \<Rightarrow> (schedulability_error, rat) res" where
  "decimal_number value field strictly_positive =
     rbind (case value of
              PInt i \<Rightarrow> Inr (of_int i)
            | PFloat (FFin q) \<Rightarrow> Inr (decimal_of_float q)
            | _ \<Rightarrow> Inl (PoolSchedulabilityError (field @ ''-must-be-finite-number''))) (\<lambda>normalized.
     rbind (ensure (\<not> (normalized < 0 \<or> (strictly_positive \<and> normalized = 0)))
              (PoolSchedulabilityError (field @ ''-must-be-'' @ (if strictly_positive then ''positive'' else ''nonnegative''))))
       (\<lambda>_. Inr normalized))"

definition plain_number :: "rat \<Rightarrow> pyval" where
  "plain_number value = (if of_int \<lfloor>value\<rfloor> = value then PInt \<lfloor>value\<rfloor> else PFloat (to_double value))"

record scheduling_proof =
  requested_workers :: int
  certified_callback_max_ms :: pydict
  lifecycle_max_ms :: pyval
  check_max_ms :: pyval
  scheduler_overhead_ms :: pyval
  poll_interval_ms :: pyval
  total_demand_ms :: pyval
  slack_ms :: pyval
  accepted :: bool

definition proof_as_dict :: "scheduling_proof \<Rightarrow> pydict" where
  "proof_as_dict p =
     [(''proof_type'', PStr SCHEDULABILITY_PROOF_TYPE), (''version'', PInt 1),
      (''formula'', PStr SCHEDULABILITY_FORMULA),
      (''inputs'', PDict [(''requested_workers'', PInt (requested_workers p)),
         (''certified_callback_max_ms'', PDict (certified_callback_max_ms p)),
         (''scheduler_overhead_ms'', scheduler_overhead_ms p), (''poll_interval_ms'', poll_interval_ms p)]),
      (''lifecycle_max_ms'', lifecycle_max_ms p), (''check_max_ms'', check_max_ms p),
      (''total_demand_ms'', total_demand_ms p), (''slack_ms'', slack_ms p), (''accepted'', PBool (accepted p))]"

definition normalize_callback :: "string \<times> pyval \<Rightarrow> (schedulability_error, string \<times> rat) res" where
  "normalize_callback item =
     (case item of (name, value) \<Rightarrow>
        rbind (ensure (name \<noteq> []) (PoolSchedulabilityError ''certified-callback-name-must-be-nonempty-string'')) (\<lambda>_.
        rbind (decimal_number value (''certified-callback-'' @ name @ ''-ms'') False) (\<lambda>n. Inr (name, n))))"

text \<open>The demand of \<open>N\<close> workers: the two sums and the product, each rounded.\<close>

definition total_demand :: "rat \<Rightarrow> int \<Rightarrow> rat \<Rightarrow> rat \<Rightarrow> rat" where
  "total_demand lifecycle_max workers check_max overhead =
     decimal_round (decimal_round (lifecycle_max + decimal_round (of_int workers * check_max)) + overhead)"

definition scheduling_budget_proof :: "pyval \<Rightarrow> pyval \<Rightarrow> pyval \<Rightarrow> pyval \<Rightarrow> (schedulability_error, scheduling_proof) res" where
  "scheduling_budget_proof workers callbacks overhead_ms poll_ms =
     rbind (ensure (is_int_ge 1 workers) (PoolSchedulabilityError ''requested-workers-must-be-positive-integer'')) (\<lambda>_.
     rbind (ensure (is_dict callbacks \<and> the_dict callbacks \<noteq> [] \<and> ''check'' \<in> set (dkeys (the_dict callbacks)))
              (PoolSchedulabilityError ''certified-callback-max-ms-must-contain-check'')) (\<lambda>_.
     rbind (mapM normalize_callback (the_dict callbacks)) (\<lambda>normalized.
     rbind (decimal_number overhead_ms ''certified-scheduler-overhead-ms'' False) (\<lambda>overhead.
     rbind (decimal_number poll_ms ''poll-interval-ms'' True) (\<lambda>poll_interval.
     let lifecycle_max = Max (set (map snd normalized));
         check_max = the (map_of normalized ''check'');
         demand = total_demand lifecycle_max (the_int workers) check_max overhead;
         slack = decimal_round (poll_interval - demand)
     in Inr \<lparr>requested_workers = the_int workers,
             certified_callback_max_ms = map (\<lambda>(name, value). (name, plain_number value)) (sort_key fst normalized),
             lifecycle_max_ms = plain_number lifecycle_max, check_max_ms = plain_number check_max,
             scheduler_overhead_ms = plain_number overhead, poll_interval_ms = plain_number poll_interval,
             total_demand_ms = plain_number demand, slack_ms = plain_number slack, accepted = (0 \<le> slack)\<rparr>)))))"

definition validate_slack_warning_fraction :: "pyval \<Rightarrow> (schedulability_error, pyfloat) res" where
  "validate_slack_warning_fraction value =
     rbind (decimal_number value ''slack-warning-fraction'' True) (\<lambda>fraction.
     rbind (ensure (fraction \<le> 1) (PoolSchedulabilityError ''slack-warning-fraction-must-not-exceed-one'')) (\<lambda>_.
     Inr (to_double fraction)))"

definition latency_consumes_slack_fraction :: "scheduling_proof \<Rightarrow> pyval \<Rightarrow> pyval \<Rightarrow> (schedulability_error, bool) res" where
  "latency_consumes_slack_fraction p observed_latency_ms warning_fraction =
     rbind (decimal_number observed_latency_ms ''observed-latency-ms'' False) (\<lambda>observed.
     rbind (validate_slack_warning_fraction warning_fraction) (\<lambda>fraction_float.
     let fraction = decimal_of_float (finite_value fraction_float);
         slack = (case slack_ms p of PInt i \<Rightarrow> of_int i | PFloat x \<Rightarrow> decimal_of_float (finite_value x) | _ \<Rightarrow> 0)
     in if slack \<le> 0 then Inr True else Inr (decimal_round (slack * fraction) \<le> observed)))"

section \<open>Monotonicity\<close>

lemma decimal_number_nonneg: "decimal_number v f b = Inr q \<Longrightarrow> 0 \<le> q"
  by (auto simp: decimal_number_def res_simps)

lemma normalize_callbacks_names:
  "mapM normalize_callback d = Inr ns \<Longrightarrow> map fst ns = dkeys d \<and> (\<forall>(k, q)\<in>set ns. 0 \<le> q)"
  by (induction d arbitrary: ns)
     (auto simp: res_simps normalize_callback_def dkeys_def dest: decimal_number_nonneg)

lemma total_demand_mono:
  assumes "0 \<le> l" and "0 \<le> c" and "0 \<le> o'" and "0 \<le> m" and "m \<le> n"
  shows "total_demand l m c o' \<le> total_demand l n c o'"
proof -
  have a: "decimal_round (of_int m * c) \<le> decimal_round (of_int n * c)"
    using assms by (intro decimal_round_mono) (auto intro: mult_right_mono)
  have nn: "0 \<le> decimal_round (of_int m * c)" using assms by (simp add: decimal_round_nonneg_iff)
  have b: "decimal_round (l + decimal_round (of_int m * c)) \<le> decimal_round (l + decimal_round (of_int n * c))"
    using a nn assms by (intro decimal_round_mono) auto
  have "0 \<le> decimal_round (l + decimal_round (of_int m * c))"
    using nn assms by (simp add: decimal_round_nonneg_iff)
  then show ?thesis using b assms unfolding total_demand_def by (intro decimal_round_mono) auto
qed

lemma scheduling_budget_proof_Inr:
  assumes "scheduling_budget_proof workers callbacks overhead poll = Inr p"
  obtains n normalized o' t where "workers = PInt n" "1 \<le> n" "mapM normalize_callback (the_dict callbacks) = Inr normalized"
    "''check'' \<in> set (dkeys (the_dict callbacks))" "is_dict callbacks"
    "decimal_number overhead ''certified-scheduler-overhead-ms'' False = Inr o'"
    "decimal_number poll ''poll-interval-ms'' True = Inr t"
    "accepted p \<longleftrightarrow> total_demand (Max (set (map snd normalized))) n (the (map_of normalized ''check'')) o' \<le> t"
  using assms
  by (auto simp: scheduling_budget_proof_def Let_def res_simps is_int_ge_iff decimal_round_nonneg_iff)

lemma decimal_round_numeral [simp]: "(numeral k :: int) < 10 ^ 28 \<Longrightarrow> decimal_round (numeral k) = numeral k"
  using decimal_round_int [of "numeral k"] by simp

section \<open>Properties\<close>

text \<open>C35: the proof is the exact inequality.  For whole milliseconds below 10 ^ 9, where no rounding takes place,
  a pool of n workers is accepted exactly when the longest callback, n checks and the scheduler's overhead
  fit into the poll interval.\<close>

theorem schedulability_exact:
  assumes "scheduling_budget_proof (PInt n) (PDict (map (\<lambda>(name, ms). (name, PInt ms)) callbacks)) (PInt overhead) (PInt poll) = Inr p"
    and "n < 10 ^ 9" and "overhead < 10 ^ 9" and "\<forall>(name, ms)\<in>set callbacks. ms < 10 ^ 9"
  shows "accepted p \<longleftrightarrow>
    Max (snd ` set callbacks) + n * the (map_of callbacks ''check'') + overhead \<le> poll"
proof -
  from assms(1) obtain n' normalized o' t where n': "PInt n = PInt n'" "1 \<le> n'"
    and norm: "mapM normalize_callback (map (\<lambda>(name, ms). (name, PInt ms)) callbacks) = Inr normalized"
    and check: "''check'' \<in> set (dkeys (map (\<lambda>(name, ms). (name, PInt ms)) callbacks))"
    and oh: "decimal_number (PInt overhead) ''certified-scheduler-overhead-ms'' False = Inr o'"
    and poll: "decimal_number (PInt poll) ''poll-interval-ms'' True = Inr t"
    and acc: "accepted p \<longleftrightarrow> total_demand (Max (set (map snd normalized))) n' (the (map_of normalized ''check'')) o' \<le> t"
    by (elim scheduling_budget_proof_Inr) auto
  have eq: "normalized = map (\<lambda>(name, ms). (name, of_int ms)) callbacks \<and> (\<forall>(name, ms)\<in>set callbacks. 0 \<le> ms)"
    using norm
    by (induction callbacks arbitrary: normalized) (auto simp: res_simps normalize_callback_def decimal_number_def)
  have ne: "callbacks \<noteq> []" using check by auto
  have map_of: "map_of normalized k = map_option of_int (map_of callbacks k)" for k
    using eq by (induction callbacks arbitrary: normalized) auto
  obtain c where c: "map_of callbacks ''check'' = Some c"
    using check by (cases "map_of callbacks ''check''") (auto simp: map_of_eq_None_iff dkeys_def image_iff)
  have "Max (set (map snd normalized)) = Max (of_int ` snd ` set callbacks)"
    using eq by (auto simp: image_image case_prod_unfold)
  also have "\<dots> = of_int (Max (snd ` set callbacks))"
    using ne by (intro mono_Max_commute [symmetric]) (auto simp: mono_def)
  finally have max: "Max (set (map snd normalized)) = of_int (Max (snd ` set callbacks))" .
  have "Max (snd ` set callbacks) \<in> snd ` set callbacks" using ne by (intro Max_in) auto
  then have L: "0 \<le> Max (snd ` set callbacks)" "Max (snd ` set callbacks) < 10 ^ 9"
    using eq assms(4) by fastforce+
  have C: "0 \<le> c" "c < 10 ^ 9" using map_of_SomeD [OF c] eq assms(4) by fastforce+
  have O: "o' = of_int overhead" "0 \<le> overhead" using oh by (auto simp: decimal_number_def res_simps)
  have T: "t = of_int poll" using poll by (auto simp: decimal_number_def res_simps)
  have n: "n' = n" "0 \<le> n" using n' by simp_all
  have nc: "0 \<le> n * c" using n C by simp
  have "n * c \<le> 10 ^ 9 * 10 ^ 9"
    by (rule mult_mono) (use n C assms(2) in auto)
  note nc = nc this
  have "total_demand (of_int (Max (snd ` set callbacks))) n (of_int c) (of_int overhead)
      = of_int (Max (snd ` set callbacks) + n * c + overhead)"
  proof -
    have 1: "decimal_round (of_int n * of_int c) = of_int (n * c)"
      using nc decimal_round_int [of "n * c"] by simp
    have 2: "decimal_round (of_int (Max (snd ` set callbacks)) + of_int (n * c)) = of_int (Max (snd ` set callbacks) + n * c)"
      using nc L decimal_round_int [of "Max (snd ` set callbacks) + n * c"] by simp
    have 3: "decimal_round (of_int (Max (snd ` set callbacks) + n * c) + of_int overhead)
        = of_int (Max (snd ` set callbacks) + n * c + overhead)"
      using nc L O assms(3) decimal_round_int [of "Max (snd ` set callbacks) + n * c + overhead"] by simp
    show ?thesis unfolding total_demand_def 1 2 3 ..
  qed
  then show ?thesis
    unfolding acc max n(1) map_of c O(1) T by (simp only: option.map option.sel of_int_le_iff)
qed

definition demo_callbacks :: "(string \<times> int) list" where
  "demo_callbacks = [(''send_input'', 275), (''check'', 200)]"

theorem schedulability_exact_witness:
  "\<exists>p. scheduling_budget_proof (PInt 3) (PDict (map (\<lambda>(name, ms). (name, PInt ms)) demo_callbacks)) (PInt 100) (PInt 1000) = Inr p
     \<and> accepted p"
proof -
  obtain p where p: "scheduling_budget_proof (PInt 3) (PDict (map (\<lambda>(name, ms). (name, PInt ms)) demo_callbacks)) (PInt 100) (PInt 1000) = Inr p"
    by (simp add: scheduling_budget_proof_def demo_callbacks_def normalize_callback_def decimal_number_def Let_def)
  from schedulability_exact [OF p] p show ?thesis by (simp add: demo_callbacks_def)
qed

text \<open>Schedulability is monotone.  If a number of workers is accepted, every smaller number is accepted with the
  same certified latencies, overhead and interval, rounding included.\<close>

theorem fewer_workers_stay_schedulable:
  assumes "scheduling_budget_proof (PInt n) callbacks overhead poll = Inr p" and "accepted p"
    and "1 \<le> m" and "m \<le> n"
  shows "\<exists>p'. scheduling_budget_proof (PInt m) callbacks overhead poll = Inr p' \<and> accepted p'"
proof -
  from assms(1) obtain n' normalized o' t where parts: "PInt n = PInt n'" "1 \<le> n'"
    "mapM normalize_callback (the_dict callbacks) = Inr normalized"
    "''check'' \<in> set (dkeys (the_dict callbacks))" "is_dict callbacks"
    "decimal_number overhead ''certified-scheduler-overhead-ms'' False = Inr o'"
    "decimal_number poll ''poll-interval-ms'' True = Inr t"
    "accepted p \<longleftrightarrow> total_demand (Max (set (map snd normalized))) n' (the (map_of normalized ''check'')) o' \<le> t"
    by (rule scheduling_budget_proof_Inr)
  note names = normalize_callbacks_names [OF parts(3)]
  have ne: "the_dict callbacks \<noteq> []" using parts(4) by auto
  obtain p' where p': "scheduling_budget_proof (PInt m) callbacks overhead poll = Inr p'"
    using parts(3-7) ne assms(3) by (simp add: scheduling_budget_proof_def Let_def)
  have "accepted p' \<longleftrightarrow> total_demand (Max (set (map snd normalized))) m (the (map_of normalized ''check'')) o' \<le> t"
    using p' parts(3,6,7) by (elim scheduling_budget_proof_Inr) auto
  moreover have "normalized \<noteq> []" using names ne by (auto simp: dkeys_def)
  then have "Max (set (map snd normalized)) \<in> set (map snd normalized)" by (intro Max_in) auto
  then have "0 \<le> Max (set (map snd normalized))" using names by auto
  moreover have "0 \<le> the (map_of normalized ''check'')"
  proof -
    have "''check'' \<in> fst ` set normalized" using parts(4) names by (metis set_map)
    then obtain q where "map_of normalized ''check'' = Some q" by (metis map_of_eq_None_iff not_None_eq)
    then show ?thesis using names by (auto dest: map_of_SomeD)
  qed
  moreover have "0 \<le> o'" using decimal_number_nonneg [OF parts(6)] .
  ultimately have "total_demand (Max (set (map snd normalized))) m (the (map_of normalized ''check'')) o'
      \<le> total_demand (Max (set (map snd normalized))) n (the (map_of normalized ''check'')) o'"
    using assms(3,4) by (intro total_demand_mono) auto
  then show ?thesis
    using p' assms(2) parts(1,8) \<open>accepted p' \<longleftrightarrow> _\<close> by auto
qed

theorem fewer_workers_stay_schedulable_witness:
  "\<exists>p. scheduling_budget_proof (PInt 2) (PDict (map (\<lambda>(name, ms). (name, PInt ms)) demo_callbacks)) (PInt 100) (PInt 1000) = Inr p
     \<and> accepted p"
proof -
  obtain p where p: "scheduling_budget_proof (PInt 3) (PDict (map (\<lambda>(name, ms). (name, PInt ms)) demo_callbacks)) (PInt 100) (PInt 1000) = Inr p"
    "accepted p"
    by (simp add: scheduling_budget_proof_def demo_callbacks_def normalize_callback_def decimal_number_def Let_def
        total_demand_def)
  from fewer_workers_stay_schedulable [OF p, of 2] show ?thesis by simp
qed

end
