(* ===== verification/ControlTurn.thy ===== *)
theory ControlTurn
  imports PoolContracts
begin

text \<open>
  \<^verbatim>\<open>scripts/cwo_core/native_control.py\<close>: the contract and the receipt of one control turn,
  and the machine that executes a turn with at most one adapter callback per step.  The adapter is
  outside the program: the outcome of a callback, a value or an exception with its type name and
  message, is an argument of the step that makes the call.
\<close>

datatype py_exception = PyException string string

datatype callback_outcome = Returned pyval | Failed py_exception

section \<open>Contracts and receipts\<close>

definition CONTROL_CONTRACT_TYPE :: string where
  "CONTROL_CONTRACT_TYPE = ''cwo-native-control-turn-contract''"

definition CONTROL_RECEIPT_TYPE :: string where
  "CONTROL_RECEIPT_TYPE = ''cwo-native-control-turn-receipt''"

definition ALLOWED_ACTIONS :: "string list" where
  "ALLOWED_ACTIONS = [''arm'', ''send-input'', ''mark-dispatched'', ''check'', ''interrupt'', ''close'', ''finalize'']"

definition REQUIRED_CALLBACKS :: "string list" where
  "REQUIRED_CALLBACKS =
     [''arm'', ''send_input'', ''mark_dispatched'', ''check'', ''interrupt'', ''close'', ''finalize'', ''sleep'']"

definition REQUIRED_CONTRACT_FIELDS :: "string list" where
  "REQUIRED_CONTRACT_FIELDS =
     [''contract_type'', ''version'', ''state_file'', ''agent_id'', ''control_turn_id'', ''task_sha256'',
      ''poll_interval_ms'', ''allowed_actions'', ''contract_sha256'']"

definition RECEIPT_FIELDS :: "string list" where
  "RECEIPT_FIELDS =
     [''receipt_type'', ''version'', ''contract_sha256'', ''task_sha256'', ''submission_id'', ''actions'',
      ''decisions'', ''poll_count'', ''terminal_state'', ''errors'']"

definition VALID_DECISIONS :: "string list" where
  "VALID_DECISIONS = [''continue'', ''warn'', ''complete'', ''interrupt'', ''control-lost'']"

definition DECISION_ALIASES :: "(string \<times> string) list" where
  "DECISION_ALIASES =
     [(''completed'', ''complete''), (''worker-completed'', ''complete''),
      (''task_complete'', ''complete''), (''task-complete'', ''complete'')]"

definition ValueError :: "string \<Rightarrow> py_exception" where
  "ValueError message = PyException ''ValueError'' message"

definition normalize_terminal_state :: "pyval \<Rightarrow> (py_exception, string) res" where
  "normalize_terminal_state value =
     (case value of
        PNone \<Rightarrow> Inl (ValueError ''terminal state is required'')
      | PStr s \<Rightarrow>
          (let state = dashed (py_lower (py_strip s)) in
           if state \<in> {''complete'', ''completed'', ''worker-completed'', ''task-complete''} then Inr ''completed''
           else if state \<in> {''closed'', ''control-failed''} then Inr state
           else Inl (ValueError ''terminal state is invalid''))
      | _ \<Rightarrow> Inl (ValueError ''terminal state is invalid''))"

definition text_or_none :: "string \<Rightarrow> string option" where
  "text_or_none s = (if py_strip s = [] then None else Some (py_strip s))"

definition normalize_control_acknowledgement :: "pyval \<Rightarrow> (py_exception, string option) res" where
  "normalize_control_acknowledgement value =
     (let invalid = Inl (ValueError ''control callback acknowledgement must be text, mapping, or null'') in
      case value of
        PNone \<Rightarrow> Inr None
      | PStr s \<Rightarrow> Inr (text_or_none s)
      | PDict d \<Rightarrow>
          (case find (\<lambda>field. is_str (dget d field) \<and> py_strip (the_str (dget d field)) \<noteq> [])
                  [''ack'', ''acknowledgement'', ''status'', ''state'', ''control_action''] of
             Some field \<Rightarrow> Inr (text_or_none (the_str (dget d field)))
           | None \<Rightarrow> if is_str (dget d ''decision'') then Inr (text_or_none (the_str (dget d ''decision'')))
                     else invalid)
      | _ \<Rightarrow> invalid)"

definition validate_control_turn_contract :: "pyval \<Rightarrow> string list" where
  "validate_control_turn_contract contract =
     (case contract of
        PDict d \<Rightarrow>
          (let missing = missing_fields REQUIRED_CONTRACT_FIELDS d;
               unknown = unknown_fields REQUIRED_CONTRACT_FIELDS d
           in err_if (missing \<noteq> []) (''missing-fields:'' @ py_join '','' missing)
              @ err_if (unknown \<noteq> []) (''unknown-fields:'' @ py_join '','' unknown)
              @ err_if (dget d ''contract_type'' \<noteq> PStr CONTROL_CONTRACT_TYPE) ''invalid-contract-type''
              @ err_if (dget d ''version'' \<noteq> PInt 1) ''invalid-version''
              @ err_if (\<not> (nonempty_text (dget d ''state_file'') \<and> path_is_absolute (the_str (dget d ''state_file''))))
                  ''invalid-state-file''
              @ concat (map (\<lambda>field. err_if (\<not> nonempty_text (dget d field)) (''invalid-'' @ dashed field))
                  [''agent_id'', ''control_turn_id''])
              @ err_if (\<not> is_sha256 (dget d ''task_sha256'')) ''invalid-task-sha256''
              @ err_if (\<not> is_int_ge 1 (dget d ''poll_interval_ms'')) ''invalid-poll-interval-ms''
              @ (if dget d ''allowed_actions'' \<noteq> PList (map PStr ALLOWED_ACTIONS) then [''invalid-allowed-actions'']
                 else err_if (\<exists>action\<in>set ALLOWED_ACTIONS. contains_text ''wait'' action) ''wait-action-forbidden'')
              @ (if \<not> is_sha256 (dget d ''contract_sha256'') then [''invalid-contract-sha256'']
                 else err_if (missing = [] \<and> unknown = []
                        \<and> dget d ''contract_sha256'' \<noteq> PStr (canonical_sha256 (PDict (dpop d ''contract_sha256''))))
                        ''contract-sha256-mismatch''))
      | _ \<Rightarrow> [''contract-must-be-object''])"

definition build_control_turn_contract ::
    "string \<Rightarrow> string \<Rightarrow> string \<Rightarrow> string \<Rightarrow> int \<Rightarrow> (py_exception, pydict) res" where
  "build_control_turn_contract state_file agent_id control_turn_id task_sha256 poll_interval_ms =
     (let payload = [(''contract_type'', PStr CONTROL_CONTRACT_TYPE), (''version'', PInt 1),
            (''state_file'', PStr state_file), (''agent_id'', PStr agent_id),
            (''control_turn_id'', PStr control_turn_id), (''task_sha256'', PStr task_sha256),
            (''poll_interval_ms'', PInt poll_interval_ms), (''allowed_actions'', PList (map PStr ALLOWED_ACTIONS))];
          contract = dset payload ''contract_sha256'' (PStr (canonical_sha256 (PDict payload)));
          errors = validate_control_turn_contract (PDict contract)
      in if errors \<noteq> [] then Inl (ValueError (''invalid control-turn contract: '' @ py_join ''; '' errors))
         else Inr contract)"

text \<open>The callbacks a turn was given, as names with their callability; \<open>None\<close> if they are not a mapping.\<close>

type_synonym callback_table = "(string \<times> bool) list option"

definition validate_control_callbacks :: "callback_table \<Rightarrow> string list" where
  "validate_control_callbacks callbacks =
     (case callbacks of
        None \<Rightarrow> [''callbacks-must-be-object'']
      | Some table \<Rightarrow>
          (let names = map fst table;
               forbidden = sort (filter (\<lambda>key. contains_text ''wait'' (py_lower key)) names);
               unknown = sort (filter (\<lambda>key. key \<notin> set REQUIRED_CALLBACKS) names);
               missing = filter (\<lambda>name. name \<notin> set names) REQUIRED_CALLBACKS;
               invalid = filter (\<lambda>name. map_of table name = Some False) REQUIRED_CALLBACKS
           in err_if (forbidden \<noteq> []) (''wait-callback-forbidden:'' @ py_join '','' forbidden)
              @ err_if (unknown \<noteq> []) (''unknown-callbacks:'' @ py_join '','' unknown)
              @ err_if (missing \<noteq> []) (''missing-callbacks:'' @ py_join '','' missing)
              @ err_if (invalid \<noteq> []) (''noncallable-callbacks:'' @ py_join '','' invalid)))"

definition valid_receipt_decision :: "pyval \<Rightarrow> bool" where
  "valid_receipt_decision value =
     (case value of
        PStr s \<Rightarrow> s \<in> set VALID_DECISIONS
          \<or> (starts_with ''interrupt:'' s
             \<and> (let reason = remove_prefix ''interrupt:'' s in reason \<noteq> [] \<and> reason = py_strip reason))
      | _ \<Rightarrow> False)"

definition list_of :: "(pyval \<Rightarrow> bool) \<Rightarrow> pyval \<Rightarrow> bool" where
  "list_of p value = (case value of PList items \<Rightarrow> list_all p items | _ \<Rightarrow> False)"

definition validate_control_turn_receipt :: "pyval \<Rightarrow> pydict option \<Rightarrow> string list" where
  "validate_control_turn_receipt value contract =
     (case value of
        PDict receipt \<Rightarrow> sorted_set (
          (let missing = missing_fields RECEIPT_FIELDS receipt; unknown = unknown_fields RECEIPT_FIELDS receipt
           in err_if (missing \<noteq> []) (''control-receipt-missing-fields:'' @ py_join '','' missing)
              @ err_if (unknown \<noteq> []) (''control-receipt-unknown-fields:'' @ py_join '','' unknown))
          @ err_if (dget receipt ''receipt_type'' \<noteq> PStr CONTROL_RECEIPT_TYPE) ''control-receipt-type-invalid''
          @ err_if (dget receipt ''version'' \<noteq> PInt 1) ''control-receipt-version-invalid''
          @ concat (map (\<lambda>field. err_if (\<not> is_sha256 (dget receipt field)) (''control-receipt-'' @ dashed field @ ''-invalid''))
              [''contract_sha256'', ''task_sha256''])
          @ err_if (dget receipt ''submission_id'' \<noteq> PNone \<and> \<not> nonempty_text (dget receipt ''submission_id''))
              ''control-receipt-submission-id-invalid''
          @ err_if (\<not> list_of nonempty_text (dget receipt ''actions'')) ''control-receipt-actions-invalid''
          @ err_if (\<not> list_of valid_receipt_decision (dget receipt ''decisions'')) ''control-receipt-decisions-invalid''
          @ err_if (\<not> is_int_ge 0 (dget receipt ''poll_count'')) ''control-receipt-poll-count-invalid''
          @ err_if (\<not> in_strs (dget receipt ''terminal_state'') [''completed'', ''closed'', ''control-failed''])
              ''control-receipt-terminal-state-invalid''
          @ err_if (\<not> list_of nonempty_text (dget receipt ''errors'')) ''control-receipt-errors-invalid''
          @ (case contract of None \<Rightarrow> []
             | Some c \<Rightarrow>
                 map (\<lambda>item. ''control-receipt-contract:'' @ item) (validate_control_turn_contract (PDict c))
                 @ err_if (\<not> py_eq (dget receipt ''contract_sha256'') (dget c ''contract_sha256''))
                     ''control-receipt-contract-sha256-mismatch''
                 @ err_if (\<not> py_eq (dget receipt ''task_sha256'') (dget c ''task_sha256''))
                     ''control-receipt-task-sha256-mismatch''))
      | _ \<Rightarrow> [''control-receipt-must-be-object''])"

section \<open>Reading callback results\<close>

definition submission_id_of :: "pyval \<Rightarrow> (py_exception, string) res" where
  "submission_id_of value =
     (let inner = (case value of PDict d \<Rightarrow> dget d ''submission_id'' | _ \<Rightarrow> value) in
      if nonempty_text inner then Inr (py_strip (the_str inner))
      else Inl (ValueError ''send_input did not return a submission_id''))"

definition decision_of :: "pyval \<Rightarrow> (py_exception, string) res" where
  "decision_of value =
     (let invalid = Inl (ValueError ''check returned an invalid decision'') in
      if value = PNone then Inl (ValueError ''check returned missing decision evidence'')
      else
        let inner = (case value of
              PDict d \<Rightarrow>
                map_option (dget d) (find (\<lambda>field. field \<in> set (dkeys d))
                  [''decision'', ''control_action'', ''ack'', ''acknowledgement'', ''state''])
            | _ \<Rightarrow> Some value)
        in (case inner of
              Some (PStr s) \<Rightarrow>
                (let normalized = dashed (py_lower (py_strip s));
                     decision = (case map_of DECISION_ALIASES normalized of Some d \<Rightarrow> d | None \<Rightarrow> normalized)
                 in if decision \<in> set VALID_DECISIONS then Inr decision else invalid)
            | _ \<Rightarrow> invalid))"

definition deferred_close_requested :: "pyval \<Rightarrow> bool" where
  "deferred_close_requested value = (case value of PDict d \<Rightarrow> dget d ''close_wait_required'' = PBool True | _ \<Rightarrow> False)"

section \<open>The turn\<close>

datatype turn_phase =
    Start | Arm | SendInput | MarkDispatched | Check | Waiting
  | FinalizeComplete | WaitingCloseComplete | CloseComplete
  | Interrupt | FinalizeInterrupt | WaitingCloseInterrupt | CloseInterrupt | FinalizeClose
  | FinalizeControlFailed | Terminal

definition phase_text :: "turn_phase \<Rightarrow> string" where
  "phase_text phase =
     (case phase of
        Start \<Rightarrow> ''start'' | Arm \<Rightarrow> ''arm'' | SendInput \<Rightarrow> ''send-input'' | MarkDispatched \<Rightarrow> ''mark-dispatched''
      | Check \<Rightarrow> ''check'' | Waiting \<Rightarrow> ''waiting'' | FinalizeComplete \<Rightarrow> ''finalize-complete''
      | WaitingCloseComplete \<Rightarrow> ''waiting-close-complete'' | CloseComplete \<Rightarrow> ''close-complete''
      | Interrupt \<Rightarrow> ''interrupt'' | FinalizeInterrupt \<Rightarrow> ''finalize-interrupt''
      | WaitingCloseInterrupt \<Rightarrow> ''waiting-close-interrupt'' | CloseInterrupt \<Rightarrow> ''close-interrupt''
      | FinalizeClose \<Rightarrow> ''finalize-close'' | FinalizeControlFailed \<Rightarrow> ''finalize-control-failed''
      | Terminal \<Rightarrow> ''terminal'')"

record control_turn =
  turn_contract :: pyval
  turn_callbacks :: callback_table
  turn_started :: bool
  turn_terminal :: bool
  turn_phase :: turn_phase
  turn_waiting :: bool
  turn_task_input :: string
  turn_submission_id :: "string option"
  turn_actions :: "string list"
  turn_decisions :: "string list"
  turn_errors :: "string list"
  turn_poll_count :: nat
  turn_receipt :: "pydict option"

definition new_turn :: "pyval \<Rightarrow> callback_table \<Rightarrow> control_turn" where
  "new_turn contract callbacks =
     \<lparr>turn_contract = contract, turn_callbacks = callbacks, turn_started = False, turn_terminal = False,
      turn_phase = Start, turn_waiting = False, turn_task_input = [], turn_submission_id = None,
      turn_actions = [], turn_decisions = [], turn_errors = [], turn_poll_count = 0, turn_receipt = None\<rparr>"

definition make_receipt ::
    "pyval \<Rightarrow> string option \<Rightarrow> string list \<Rightarrow> string list \<Rightarrow> nat \<Rightarrow> string \<Rightarrow> string list \<Rightarrow> pydict" where
  "make_receipt contract submission_id actions decisions poll_count terminal_state errors =
     [(''receipt_type'', PStr CONTROL_RECEIPT_TYPE), (''version'', PInt 1),
      (''contract_sha256'', dget (the_dict contract) ''contract_sha256''),
      (''task_sha256'', dget (the_dict contract) ''task_sha256''),
      (''submission_id'', opt_str submission_id), (''actions'', PList (map PStr actions)),
      (''decisions'', PList (map PStr decisions)), (''poll_count'', PInt (int poll_count)),
      (''terminal_state'', PStr terminal_state), (''errors'', PList (map PStr errors))]"

definition finish :: "string \<Rightarrow> control_turn \<Rightarrow> control_turn" where
  "finish terminal_state t =
     t\<lparr>turn_terminal := True, turn_waiting := False, turn_phase := Terminal,
       turn_receipt := Some (make_receipt (turn_contract t) (turn_submission_id t) (turn_actions t)
         (turn_decisions t) (turn_poll_count t) terminal_state (turn_errors t))\<rparr>"

definition record_callback_failure :: "py_exception \<Rightarrow> control_turn \<Rightarrow> control_turn" where
  "record_callback_failure e t =
     (case e of PyException name message \<Rightarrow>
        t\<lparr>turn_errors := turn_errors t @ [''callback-failed:'' @ name @ '':'' @ message],
          turn_waiting := False, turn_phase := FinalizeControlFailed\<rparr>)"

text \<open>The callback of a phase: its name, the label of the action, and its arguments.\<close>

definition phase_call :: "control_turn \<Rightarrow> (string \<times> string \<times> pydict) option" where
  "phase_call t =
     (let contract = the_dict (turn_contract t);
          state_file = (''state_file'', dget contract ''state_file'');
          control_turn_id = (''control_turn_id'', dget contract ''control_turn_id'');
          agent_id = (''agent_id'', dget contract ''agent_id'');
          control_action = (\<lambda>action. (''control_action'', PStr action))
      in case turn_phase t of
           Arm \<Rightarrow> Some (''arm'', ''arm'', [state_file, control_turn_id])
         | SendInput \<Rightarrow> Some (''send_input'', ''send-input'', [agent_id, (''message'', PStr (turn_task_input t))])
         | MarkDispatched \<Rightarrow> Some (''mark_dispatched'', ''mark-dispatched'',
             [state_file, control_turn_id, (''submission_id'', opt_str (turn_submission_id t))])
         | Check \<Rightarrow> Some (''check'', ''check'', [state_file, control_turn_id])
         | FinalizeComplete \<Rightarrow> Some (''finalize'', ''finalize:worker-completed'',
             [state_file, control_turn_id, control_action ''worker-completed''])
         | CloseComplete \<Rightarrow> Some (''close'', ''close'', [agent_id])
         | Interrupt \<Rightarrow> Some (''interrupt'', ''interrupt'',
             [agent_id, (''message'', PStr (''STOP: native supervisor decision '' @ last (turn_decisions t)))])
         | FinalizeInterrupt \<Rightarrow> Some (''finalize'', ''finalize:interrupt-confirmed'',
             [state_file, control_turn_id, control_action ''interrupt-confirmed''])
         | CloseInterrupt \<Rightarrow> Some (''close'', ''close'', [agent_id])
         | FinalizeClose \<Rightarrow> Some (''finalize'', ''finalize:close-confirmed'',
             [state_file, control_turn_id, control_action ''close-confirmed''])
         | FinalizeControlFailed \<Rightarrow> Some (''finalize'', ''finalize:control-failed'',
             [state_file, control_turn_id, control_action ''control-failed''])
         | _ \<Rightarrow> None)"

text \<open>\<^verbatim>\<open>_invoke\<close>: the action is recorded first; acknowledgements are checked for all but two calls.\<close>

definition invoke :: "string \<Rightarrow> string \<Rightarrow> callback_outcome \<Rightarrow> control_turn \<Rightarrow> (py_exception, pyval) res \<times> control_turn" where
  "invoke name label outcome t =
     (case outcome of
        Failed e \<Rightarrow> Inl e
      | Returned value \<Rightarrow>
          if name \<in> {''arm'', ''mark_dispatched'', ''finalize'', ''close'', ''interrupt''}
          then rbind (normalize_control_acknowledgement value) (\<lambda>_. Inr value) else Inr value,
      t\<lparr>turn_actions := turn_actions t @ [label]\<rparr>)"

text \<open>What a phase does with the value of its callback.\<close>

definition record_decision :: "string \<Rightarrow> control_turn \<Rightarrow> control_turn" where
  "record_decision decision t =
     (let t1 = t\<lparr>turn_poll_count := Suc (turn_poll_count t), turn_decisions := turn_decisions t @ [decision]\<rparr>
      in if decision \<in> {''continue'', ''warn''} then t1\<lparr>turn_phase := Waiting, turn_waiting := True\<rparr>
         else if decision = ''complete'' then t1\<lparr>turn_phase := FinalizeComplete\<rparr>
         else t1\<lparr>turn_phase := Interrupt\<rparr>)"

definition after_call :: "pyval \<Rightarrow> control_turn \<Rightarrow> (py_exception, control_turn) res" where
  "after_call value t =
     (case turn_phase t of
        Arm \<Rightarrow> Inr (t\<lparr>turn_phase := SendInput\<rparr>)
      | SendInput \<Rightarrow> rbind (submission_id_of value) (\<lambda>submission_id.
          Inr (t\<lparr>turn_submission_id := Some submission_id, turn_phase := MarkDispatched\<rparr>))
      | MarkDispatched \<Rightarrow> Inr (t\<lparr>turn_phase := Check\<rparr>)
      | Check \<Rightarrow> rbind (decision_of value) (\<lambda>decision. Inr (record_decision decision t))
      | FinalizeComplete \<Rightarrow> Inr (if deferred_close_requested value
          then t\<lparr>turn_phase := WaitingCloseComplete, turn_waiting := True\<rparr> else t\<lparr>turn_phase := CloseComplete\<rparr>)
      | CloseComplete \<Rightarrow> Inr (if deferred_close_requested value
          then t\<lparr>turn_phase := WaitingCloseComplete, turn_waiting := True\<rparr> else finish ''completed'' t)
      | Interrupt \<Rightarrow> Inr (t\<lparr>turn_phase := FinalizeInterrupt\<rparr>)
      | FinalizeInterrupt \<Rightarrow> Inr (if deferred_close_requested value
          then t\<lparr>turn_phase := WaitingCloseInterrupt, turn_waiting := True\<rparr> else t\<lparr>turn_phase := CloseInterrupt\<rparr>)
      | CloseInterrupt \<Rightarrow> Inr (if deferred_close_requested value
          then t\<lparr>turn_phase := WaitingCloseInterrupt, turn_waiting := True\<rparr> else t\<lparr>turn_phase := FinalizeClose\<rparr>)
      | FinalizeClose \<Rightarrow> Inr (finish ''closed'' t)
      | _ \<Rightarrow> Inr t)"

text \<open>The body of \<^verbatim>\<open>step\<close> for a turn that is neither terminal nor waiting.\<close>

definition advance :: "callback_outcome \<Rightarrow> control_turn \<Rightarrow> control_turn" where
  "advance outcome t =
     (case phase_call t of
        None \<Rightarrow> record_callback_failure (PyException ''RuntimeError'' (''unknown cooperative phase: '' @ phase_text (turn_phase t))) t
      | Some (name, label, _) \<Rightarrow>
          (case invoke name label outcome t of (result, t1) \<Rightarrow>
             if turn_phase t = FinalizeControlFailed then
               finish ''control-failed'' (case result of
                   Inl (PyException ename message) \<Rightarrow>
                     t1\<lparr>turn_errors := turn_errors t1 @ [''control-failed-receipt-failed:'' @ ename @ '':'' @ message]\<rparr>
                 | Inr _ \<Rightarrow> t1)
             else (case rbind result (\<lambda>value. after_call value t1) of
                     Inl e \<Rightarrow> record_callback_failure e t1
                   | Inr t2 \<Rightarrow> t2)))"

definition start_errors :: "pyval \<Rightarrow> control_turn \<Rightarrow> string list" where
  "start_errors task_input t =
     (case task_input of
        PStr s \<Rightarrow> err_if (is_dict (turn_contract t)
            \<and> dget (the_dict (turn_contract t)) ''task_sha256'' \<noteq> PStr (text_sha256 s)) ''task-sha256-mismatch''
      | _ \<Rightarrow> [''task-input-must-be-string''])
     @ validate_control_turn_contract (turn_contract t) @ validate_control_callbacks (turn_callbacks t)"

definition turn_start :: "pyval \<Rightarrow> control_turn \<Rightarrow> bool \<times> control_turn" where
  "turn_start task_input t =
     (let t1 = t\<lparr>turn_errors := turn_errors t @ start_errors task_input t\<rparr>
      in if turn_errors t1 \<noteq> [] then (False, finish ''control-failed'' t1)
         else (True, t1\<lparr>turn_started := True, turn_task_input := the_str task_input, turn_phase := Arm\<rparr>))"

definition turn_step :: "pyval \<Rightarrow> callback_outcome \<Rightarrow> control_turn \<Rightarrow> (py_exception, unit) res \<times> control_turn" where
  "turn_step task_input outcome t =
     (if turn_terminal t then (Inr (), t)
      else if turn_started t \<and> task_input \<noteq> PNone
      then (Inl (ValueError ''task input is already bound to this control turn''), t)
      else case (if turn_started t then (True, t) else turn_start task_input t) of (ok, t1) \<Rightarrow>
        if \<not> ok \<or> turn_waiting t1 then (Inr (), t1)
        else (Inr (), advance outcome t1))"

definition resume_after_wait :: "control_turn \<Rightarrow> (py_exception, unit) res \<times> control_turn" where
  "resume_after_wait t =
     (if turn_terminal t then (Inr (), t)
      else if \<not> turn_waiting t then (Inl (ValueError ''control turn is not waiting''), t)
      else
        let t1 = t\<lparr>turn_waiting := False\<rparr>;
            next_phase = (case turn_phase t of
                Waiting \<Rightarrow> Some Check | WaitingCloseComplete \<Rightarrow> Some CloseComplete
              | WaitingCloseInterrupt \<Rightarrow> Some CloseInterrupt | _ \<Rightarrow> None)
        in (case next_phase of
              None \<Rightarrow> (Inl (PyException ''RuntimeError'' ''unknown cooperative wait phase''), t1)
            | Some phase \<Rightarrow> (Inr (), t1\<lparr>turn_phase := phase\<rparr>)))"

definition request_interrupt :: "pyval \<Rightarrow> control_turn \<Rightarrow> (py_exception, unit) res \<times> control_turn" where
  "request_interrupt reason t =
     (if turn_terminal t then (Inr (), t)
      else if \<not> turn_started t then (Inl (ValueError ''control turn has not started''), t)
      else if \<not> nonempty_text reason then (Inl (ValueError ''interrupt reason must be a nonempty string''), t)
      else
        let decision = ''interrupt:'' @ py_strip (the_str reason);
            decisions = (if turn_decisions t = [] \<or> last (turn_decisions t) \<noteq> decision
                         then turn_decisions t @ [decision] else turn_decisions t)
        in (Inr (), t\<lparr>turn_decisions := decisions, turn_waiting := False, turn_phase := Interrupt\<rparr>))"

definition turn_status :: "control_turn \<Rightarrow> string" where
  "turn_status t = (if turn_terminal t then ''terminal'' else if turn_waiting t then ''waiting'' else ''running'')"

definition turn_wait_seconds :: "control_turn \<Rightarrow> pyfloat option" where
  "turn_wait_seconds t =
     (if turn_waiting t \<and> is_dict (turn_contract t)
      then Some (to_double (of_int (the_int (dget (the_dict (turn_contract t)) ''poll_interval_ms'')) / 1000)) else None)"

definition turn_progress :: "control_turn \<Rightarrow> pydict" where
  "turn_progress t =
     [(''status'', PStr (turn_status t)), (''phase'', PStr (phase_text (turn_phase t))),
      (''wait_required'', PBool (turn_waiting t)),
      (''wait_seconds'', case turn_wait_seconds t of Some x \<Rightarrow> PFloat x | None \<Rightarrow> PNone),
      (''receipt'', case turn_receipt t of Some receipt \<Rightarrow> PDict receipt | None \<Rightarrow> PNone)]"

text \<open>
  The loop of \<^verbatim>\<open>run\<close> over the outcomes of the callbacks it makes, sleeps included.  The
  value \<open>None\<close> means that the outcomes are used up before the turn is terminal.
\<close>

definition after_sleep :: "callback_outcome \<Rightarrow> control_turn \<Rightarrow> control_turn" where
  "after_sleep outcome t =
     (let t1 = t\<lparr>turn_actions := turn_actions t @ [''sleep'']\<rparr>
      in case outcome of Failed e \<Rightarrow> record_callback_failure e t1 | Returned _ \<Rightarrow> snd (resume_after_wait t1))"

fun run_loop :: "callback_outcome list \<Rightarrow> control_turn \<Rightarrow> control_turn option" where
  "run_loop [] t = (if turn_terminal t then Some t else None)"
| "run_loop (outcome # outcomes) t =
     (if turn_terminal t then Some t
      else if turn_waiting t then
        (case outcomes of
           [] \<Rightarrow> None
         | outcome' # outcomes' \<Rightarrow> run_loop outcomes' (snd (turn_step PNone outcome' (after_sleep outcome t))))
      else run_loop outcomes (snd (turn_step PNone outcome t)))"

definition already_dispatched_receipt :: "control_turn \<Rightarrow> pydict" where
  "already_dispatched_receipt t =
     make_receipt (turn_contract t) None [] [] 0 ''control-failed'' [''control-turn-already-dispatched'']"

definition turn_run :: "pyval \<Rightarrow> callback_outcome list \<Rightarrow> control_turn \<Rightarrow> (pydict \<times> control_turn) option" where
  "turn_run task_input outcomes t =
     (if turn_started t \<or> turn_terminal t then Some (already_dispatched_receipt t, t)
      else case outcomes of
        [] \<Rightarrow> (case turn_start task_input t of (ok, t1) \<Rightarrow> if ok then None else Some (the (turn_receipt t1), t1))
      | outcome # outcomes' \<Rightarrow>
          map_option (\<lambda>t'. (the (turn_receipt t'), t')) (run_loop outcomes' (snd (turn_step task_input outcome t))))"

end
