(* ===== verification/ControlTurnInvariant.thy ===== *)
theory ControlTurnInvariant
  imports ControlTurn
begin

text \<open>
  The operations of a control turn as one step function, the turns they reach, and the invariant that
  every operation keeps: which callbacks a phase presupposes, the form of the recorded evidence, and
  what a terminal receipt says.
\<close>

section \<open>Reachable turns\<close>

datatype turn_op =
    Step pyval callback_outcome
  | Resume
  | RequestInterrupt pyval
  | Sleep callback_outcome

fun apply_turn_op :: "turn_op \<Rightarrow> control_turn \<Rightarrow> control_turn" where
  "apply_turn_op (Step task_input outcome) t = snd (turn_step task_input outcome t)"
| "apply_turn_op Resume t = snd (resume_after_wait t)"
| "apply_turn_op (RequestInterrupt reason) t = snd (request_interrupt reason t)"
| "apply_turn_op (Sleep outcome) t = (if turn_waiting t \<and> \<not> turn_terminal t then after_sleep outcome t else t)"

inductive turn_reachable :: "pyval \<Rightarrow> callback_table \<Rightarrow> control_turn \<Rightarrow> bool" for contract callbacks where
  new: "turn_reachable contract callbacks (new_turn contract callbacks)"
| op: "turn_reachable contract callbacks t \<Longrightarrow> turn_reachable contract callbacks (apply_turn_op op t)"

definition DISPATCH_ACTIONS :: "string list" where
  "DISPATCH_ACTIONS = [''arm'', ''send-input'', ''mark-dispatched'']"

text \<open>
  The actions of a turn: a part of the dispatch sequence from its start, then others, with a check
  only after the whole sequence.
\<close>

definition dispatched :: "nat \<Rightarrow> string list \<Rightarrow> bool" where
  "dispatched k actions \<longleftrightarrow> k \<le> 3 \<and> (\<exists>rest. actions = take k DISPATCH_ACTIONS @ rest
     \<and> set rest \<inter> set DISPATCH_ACTIONS = {} \<and> (''check'' \<in> set rest \<longrightarrow> k = 3))"

definition polling_phases :: "turn_phase set" where
  "polling_phases = {Check, Waiting, FinalizeComplete, WaitingCloseComplete, CloseComplete}"

definition actions_inv :: "turn_phase \<Rightarrow> string list \<Rightarrow> bool" where
  "actions_inv phase actions \<longleftrightarrow>
     (phase = Start \<or> phase = Arm \<longrightarrow> actions = []) \<and> (phase = SendInput \<longrightarrow> actions = [''arm''])
     \<and> (phase = MarkDispatched \<longrightarrow> actions = [''arm'', ''send-input''])
     \<and> (\<exists>k. dispatched k actions \<and> (phase \<in> polling_phases \<longrightarrow> k = 3))"

lemma dispatched_append:
  "dispatched k actions \<Longrightarrow> a \<notin> set DISPATCH_ACTIONS \<Longrightarrow> a = ''check'' \<longrightarrow> k = 3 \<Longrightarrow> dispatched k (actions @ [a])"
  by (auto simp: dispatched_def)

lemma dispatched_starts:
  "dispatched 0 []" "dispatched (Suc 0) [''arm'']" "dispatched 2 [''arm'', ''send-input'']"
  "dispatched 3 [''arm'', ''send-input'', ''mark-dispatched'']"
  by (auto simp: dispatched_def DISPATCH_ACTIONS_def eval_nat_numeral)

lemma actions_inv_append:
  assumes "actions_inv phase actions" and "a \<notin> set DISPATCH_ACTIONS" and "a \<noteq> ''check''"
    and "phase' \<notin> {Start, Arm, SendInput, MarkDispatched}"
    and "phase' \<in> polling_phases \<longrightarrow> phase \<in> polling_phases"
  shows "actions_inv phase' (actions @ [a])"
  using assms unfolding actions_inv_def by (auto intro: dispatched_append)

lemma actions_inv_check:
  "actions_inv Check actions \<Longrightarrow> phase' \<notin> {Start, Arm, SendInput, MarkDispatched} \<Longrightarrow>
     actions_inv phase' (actions @ [''check''])"
  unfolding actions_inv_def polling_phases_def
  by (auto intro!: exI [of _ 3] dispatched_append simp: DISPATCH_ACTIONS_def)

lemma actions_inv_dispatch:
  "actions_inv Arm actions \<Longrightarrow> phase' \<in> {SendInput, FinalizeControlFailed} \<Longrightarrow> actions_inv phase' (actions @ [''arm''])"
  "actions_inv SendInput actions \<Longrightarrow> phase' \<in> {MarkDispatched, FinalizeControlFailed} \<Longrightarrow>
     actions_inv phase' (actions @ [''send-input''])"
  "actions_inv MarkDispatched actions \<Longrightarrow> phase' \<in> {Check, FinalizeControlFailed} \<Longrightarrow>
     actions_inv phase' (actions @ [''mark-dispatched''])"
  using dispatched_starts unfolding actions_inv_def polling_phases_def by auto

lemma actions_inv_phase:
  "actions_inv phase actions \<Longrightarrow> phase' \<notin> {Start, Arm, SendInput, MarkDispatched} \<Longrightarrow>
     phase' \<in> polling_phases \<longrightarrow> phase \<in> polling_phases \<Longrightarrow> actions_inv phase' actions"
  unfolding actions_inv_def by auto

definition waiting_phases :: "turn_phase set" where
  "waiting_phases = {Waiting, WaitingCloseComplete, WaitingCloseInterrupt}"

definition completing_phases :: "turn_phase set" where
  "completing_phases = {FinalizeComplete, WaitingCloseComplete, CloseComplete}"

text \<open>The evidence so far: decisions, errors and the submission id have the form that a receipt needs.\<close>

definition evidence_ok :: "control_turn \<Rightarrow> bool" where
  "evidence_ok t \<longleftrightarrow>
     (\<forall>d\<in>set (turn_decisions t). valid_receipt_decision (PStr d))
     \<and> (\<forall>e\<in>set (turn_errors t). nonempty_text (PStr e))
     \<and> (\<forall>a\<in>set (turn_actions t). nonempty_text (PStr a))
     \<and> (\<forall>s. turn_submission_id t = Some s \<longrightarrow> nonempty_text (PStr s))"

definition terminal_receipt_ok :: "control_turn \<Rightarrow> bool" where
  "terminal_receipt_ok t \<longleftrightarrow>
     (\<exists>state\<in>{''completed'', ''closed'', ''control-failed''}.
        turn_receipt t = Some (make_receipt (turn_contract t) (turn_submission_id t) (turn_actions t)
          (turn_decisions t) (turn_poll_count t) state (turn_errors t))
        \<and> (state = ''completed'' \<longrightarrow> turn_errors t = [] \<and> turn_decisions t \<noteq> [] \<and> last (turn_decisions t) = ''complete''
             \<and> last (turn_actions t) = ''close'' \<and> dispatched 3 (turn_actions t)))"

definition accepted_start :: "control_turn \<Rightarrow> bool" where
  "accepted_start t \<longleftrightarrow> validate_control_turn_contract (turn_contract t) = []
     \<and> validate_control_callbacks (turn_callbacks t) = []
     \<and> dget (the_dict (turn_contract t)) ''task_sha256'' = PStr (text_sha256 (turn_task_input t))"

text \<open>The invariant of a turn that has started.\<close>

definition running_inv :: "control_turn \<Rightarrow> bool" where
  "running_inv t \<longleftrightarrow>
     turn_started t \<and> accepted_start t \<and> evidence_ok t \<and> actions_inv (turn_phase t) (turn_actions t)
     \<and> turn_phase t \<noteq> Start
     \<and> (turn_waiting t \<longleftrightarrow> turn_phase t \<in> waiting_phases)
     \<and> (turn_terminal t \<longleftrightarrow> turn_phase t = Terminal)
     \<and> (turn_phase t = Interrupt \<longrightarrow> turn_decisions t \<noteq> [])
     \<and> (turn_phase t \<in> completing_phases \<longrightarrow>
          turn_errors t = [] \<and> turn_decisions t \<noteq> [] \<and> last (turn_decisions t) = ''complete'')
     \<and> (turn_errors t = [] \<or> turn_phase t \<notin> polling_phases \<union> {Arm, SendInput, MarkDispatched})
     \<and> (turn_terminal t \<longrightarrow> terminal_receipt_ok t)"

text \<open>A turn has not started, or was refused at its start, or is running.\<close>

definition turn_inv :: "pyval \<Rightarrow> callback_table \<Rightarrow> control_turn \<Rightarrow> bool" where
  "turn_inv contract callbacks t \<longleftrightarrow> turn_contract t = contract \<and> turn_callbacks t = callbacks
     \<and> (t = new_turn contract callbacks
        \<or> (\<exists>errors. errors \<noteq> [] \<and> t = finish ''control-failed'' ((new_turn contract callbacks)\<lparr>turn_errors := errors\<rparr>))
        \<or> running_inv t)"

lemma nonempty_text_Cons: "\<not> is_space c \<Longrightarrow> nonempty_text (PStr (c # s))"
proof -
  assume c: "\<not> is_space c"
  have "c \<in> set (rev (c # s))" by simp
  then have "dropWhile is_space (rev (c # s)) \<noteq> []" using c by (metis dropWhile_eq_Nil_conv)
  then show ?thesis using c by (simp add: nonempty_text_def py_strip_def)
qed

lemma nonempty_literals [simp]:
  "nonempty_text (PStr ''arm'')" "nonempty_text (PStr ''send-input'')" "nonempty_text (PStr ''mark-dispatched'')"
  "nonempty_text (PStr ''check'')" "nonempty_text (PStr ''close'')" "nonempty_text (PStr ''interrupt'')"
  "nonempty_text (PStr ''sleep'')"
  "nonempty_text (PStr (CHR ''f'' # s))" "nonempty_text (PStr (CHR ''c'' # s))"
  by (simp_all add: nonempty_text_Cons is_space_def)

lemma valid_decision_literals: "d \<in> set VALID_DECISIONS \<Longrightarrow> valid_receipt_decision (PStr d)"
  by (simp add: valid_receipt_decision_def)

lemma valid_decision_interrupt:
  "nonempty_text (PStr s) \<Longrightarrow> valid_receipt_decision (PStr (''interrupt:'' @ py_strip s))"
  by (simp add: valid_receipt_decision_def nonempty_text_def Let_def starts_with_append [unfolded append.simps]
      remove_prefix_append [unfolded append.simps] del: append.simps)

lemma decision_of_valid: "decision_of v = Inr d \<Longrightarrow> d \<in> set VALID_DECISIONS"
  by (auto simp: decision_of_def Let_def split: if_splits option.splits pyval.splits)

lemma submission_id_of_valid: "submission_id_of v = Inr s \<Longrightarrow> nonempty_text (PStr s)"
  by (auto simp: submission_id_of_def Let_def nonempty_text_iff split: if_splits pyval.splits)

lemmas turn_inv_defs = running_inv_def evidence_ok_def accepted_start_def waiting_phases_def completing_phases_def
  polling_phases_def

text \<open>A failed callback leads to the phase that reports it.\<close>

lemma running_inv_failure:
  assumes "running_inv t" and "\<not> turn_terminal t" and "actions_inv FinalizeControlFailed (turn_actions t @ [label])"
    and "nonempty_text (PStr label)"
  shows "running_inv (record_callback_failure e (t\<lparr>turn_actions := turn_actions t @ [label]\<rparr>))"
  using assms by (cases e) (auto simp: record_callback_failure_def turn_inv_defs)

lemma advance_frame:
  "turn_contract (advance outcome t) = turn_contract t \<and> turn_callbacks (advance outcome t) = turn_callbacks t
   \<and> turn_task_input (advance outcome t) = turn_task_input t"
  by (cases "turn_phase t")
     (auto simp: advance_def phase_call_def Let_def invoke_def after_call_def record_callback_failure_def finish_def
        record_decision_def rbind_def split: py_exception.splits callback_outcome.splits sum.splits if_splits)

lemma advance_cases:
  assumes "phase_call t = Some (name, label, args)" and "turn_phase t \<noteq> FinalizeControlFailed"
  obtains (failed) e where "advance outcome t = record_callback_failure e (t\<lparr>turn_actions := turn_actions t @ [label]\<rparr>)"
  | (returned) val t2 where "outcome = Returned val"
      "after_call val (t\<lparr>turn_actions := turn_actions t @ [label]\<rparr>) = Inr t2" "advance outcome t = t2"
proof (cases outcome)
  case (Returned val)
  show ?thesis
  proof (cases "fst (invoke name label outcome t)")
    case (Inl e)
    then show ?thesis using failed assms Returned by (auto simp: advance_def invoke_def split: if_splits)
  next
    case (Inr v)
    then have "v = val" using Returned by (auto simp: invoke_def res_simps split: if_splits)
    then show ?thesis
      using failed returned assms Returned Inr
      by (cases "after_call val (t\<lparr>turn_actions := turn_actions t @ [label]\<rparr>)") (auto simp: advance_def invoke_def)
  qed
next
  case (Failed e)
  then show ?thesis using failed assms by (auto simp: advance_def invoke_def)
qed

lemma phase_call_phases:
  "turn_phase t = Arm \<Longrightarrow> \<exists>args. phase_call t = Some (''arm'', ''arm'', args)"
  "turn_phase t = SendInput \<Longrightarrow> \<exists>args. phase_call t = Some (''send_input'', ''send-input'', args)"
  "turn_phase t = MarkDispatched \<Longrightarrow> \<exists>args. phase_call t = Some (''mark_dispatched'', ''mark-dispatched'', args)"
  "turn_phase t = Check \<Longrightarrow> \<exists>args. phase_call t = Some (''check'', ''check'', args)"
  "turn_phase t = FinalizeComplete \<Longrightarrow> \<exists>args. phase_call t = Some (''finalize'', ''finalize:worker-completed'', args)"
  "turn_phase t = CloseComplete \<Longrightarrow> \<exists>args. phase_call t = Some (''close'', ''close'', args)"
  "turn_phase t = Interrupt \<Longrightarrow> \<exists>args. phase_call t = Some (''interrupt'', ''interrupt'', args)"
  "turn_phase t = FinalizeInterrupt \<Longrightarrow> \<exists>args. phase_call t = Some (''finalize'', ''finalize:interrupt-confirmed'', args)"
  "turn_phase t = CloseInterrupt \<Longrightarrow> \<exists>args. phase_call t = Some (''close'', ''close'', args)"
  "turn_phase t = FinalizeClose \<Longrightarrow> \<exists>args. phase_call t = Some (''finalize'', ''finalize:close-confirmed'', args)"
  "turn_phase t = FinalizeControlFailed \<Longrightarrow> \<exists>args. phase_call t = Some (''finalize'', ''finalize:control-failed'', args)"
  by (auto simp: phase_call_def Let_def)

lemma fresh_labels [simp]:
  "''check'' \<notin> set DISPATCH_ACTIONS" "''close'' \<notin> set DISPATCH_ACTIONS" "''interrupt'' \<notin> set DISPATCH_ACTIONS"
  "''sleep'' \<notin> set DISPATCH_ACTIONS" "CHR ''f'' # s \<notin> set DISPATCH_ACTIONS"
  by (simp_all add: DISPATCH_ACTIONS_def)

text \<open>One step of a running turn, phase by phase.\<close>

lemma running_inv_step:
  assumes inv: "running_inv t" and call: "phase_call t = Some (name, label, args)"
    and label: "nonempty_text (PStr label)" and live: "\<not> turn_terminal t"
    and not_failing: "turn_phase t \<noteq> FinalizeControlFailed"
    and act: "actions_inv FinalizeControlFailed (turn_actions t @ [label])"
    and next_inv: "\<And>val t2. after_call val (t\<lparr>turn_actions := turn_actions t @ [label]\<rparr>) = Inr t2 \<Longrightarrow> running_inv t2"
  shows "running_inv (advance outcome t)"
  using call not_failing
proof (cases rule: advance_cases [where outcome = outcome])
  case (failed e)
  then show ?thesis using running_inv_failure [OF inv live act label] by simp
next
  case (returned val t2)
  then show ?thesis using next_inv by simp
qed

lemma finish_inv:
  assumes "evidence_ok t" and "turn_started t" and "accepted_start t"
    and "actions_inv Terminal (turn_actions t)" and "state \<in> {''completed'', ''closed'', ''control-failed''}"
    and "state = ''completed'' \<longrightarrow> turn_errors t = [] \<and> turn_decisions t \<noteq> [] \<and> last (turn_decisions t) = ''complete''
             \<and> last (turn_actions t) = ''close'' \<and> dispatched 3 (turn_actions t)"
  shows "running_inv (finish state t)"
  using assms by (auto simp: running_inv_def evidence_ok_def accepted_start_def finish_def waiting_phases_def
      completing_phases_def polling_phases_def terminal_receipt_ok_def)

lemma running_inv_dispatch:
  assumes "running_inv t" and "turn_phase t \<in> {Arm, SendInput, MarkDispatched}"
  shows "running_inv (advance outcome t)"
proof -
  have "turn_errors t = []" and live: "\<not> turn_terminal t" using assms by (auto simp: running_inv_def)
  consider "turn_phase t = Arm" | "turn_phase t = SendInput" | "turn_phase t = MarkDispatched" using assms(2) by auto
  then show ?thesis
  proof cases
    case 1
    from phase_call_phases(1) [OF 1] obtain args where call: "phase_call t = Some (''arm'', ''arm'', args)" by blast
    show ?thesis
      by (rule running_inv_step [OF assms(1) call _ live])
         (use assms(1) 1 actions_inv_dispatch(1) in \<open>auto simp: after_call_def turn_inv_defs\<close>)
  next
    case 2
    from phase_call_phases(2) [OF 2] obtain args where call: "phase_call t = Some (''send_input'', ''send-input'', args)" by blast
    show ?thesis
      by (rule running_inv_step [OF assms(1) call _ live])
         (use assms(1) 2 actions_inv_dispatch(2) submission_id_of_valid in \<open>auto simp: after_call_def turn_inv_defs res_simps\<close>)
  next
    case 3
    from phase_call_phases(3) [OF 3] obtain args where call: "phase_call t = Some (''mark_dispatched'', ''mark-dispatched'', args)" by blast
    show ?thesis
      by (rule running_inv_step [OF assms(1) call _ live])
         (use assms(1) 3 actions_inv_dispatch(3) in \<open>auto simp: after_call_def turn_inv_defs\<close>)
  qed
qed

lemma running_inv_check:
  assumes "running_inv t" and phase: "turn_phase t = Check"
  shows "running_inv (advance outcome t)"
proof -
  have live: "\<not> turn_terminal t" using assms by (auto simp: running_inv_def)
  from phase_call_phases(4) [OF phase] obtain args where call: "phase_call t = Some (''check'', ''check'', args)" by blast
  have act: "actions_inv Check (turn_actions t)" using assms by (simp add: running_inv_def)
  have next_act: "actions_inv phase' (turn_actions t @ [''check''])" if "phase' \<in> {Waiting, FinalizeComplete, Interrupt}" for phase'
    using that by (intro actions_inv_check [OF act]) auto
  show ?thesis
  proof (rule running_inv_step [OF assms(1) call _ live])
    show "actions_inv FinalizeControlFailed (turn_actions t @ [''check''])" by (intro actions_inv_check [OF act]) auto
    fix val t2 assume "after_call val (t\<lparr>turn_actions := turn_actions t @ [''check'']\<rparr>) = Inr t2"
    then obtain d where "decision_of val = Inr d"
      and t2: "t2 = record_decision d (t\<lparr>turn_actions := turn_actions t @ [''check'']\<rparr>)"
      by (auto simp: after_call_def phase rbind_eq_Inr)
    then have d: "d \<in> set VALID_DECISIONS" using decision_of_valid by blast
    note acts = next_act [of Waiting] next_act [of FinalizeComplete] next_act [of Interrupt]
    have "turn_errors t = []" using assms(1) phase by (auto simp: running_inv_def polling_phases_def)
    then show "running_inv t2"
      using assms(1) phase acts valid_decision_literals [OF d] unfolding t2
      by (auto simp: record_decision_def Let_def running_inv_def evidence_ok_def accepted_start_def waiting_phases_def
          completing_phases_def)
  qed (use phase in auto)
qed

lemma running_inv_complete:
  assumes "running_inv t" and "turn_phase t \<in> {FinalizeComplete, CloseComplete}"
  shows "running_inv (advance outcome t)"
proof -
  have live: "\<not> turn_terminal t" and act: "actions_inv (turn_phase t) (turn_actions t)"
    and settled: "turn_errors t = []" "turn_decisions t \<noteq> []" "last (turn_decisions t) = ''complete''"
    using assms by (auto simp: running_inv_def completing_phases_def)
  have next_act: "actions_inv phase' (turn_actions t @ [a])"
    if "phase' \<notin> {Start, Arm, SendInput, MarkDispatched}" "a \<notin> set DISPATCH_ACTIONS" "a \<noteq> ''check''" for phase' a
    using that assms(2) by (intro actions_inv_append [OF act]) (auto simp: polling_phases_def)
  have disp: "dispatched 3 (turn_actions t @ [''close''])" 
  proof (rule dispatched_append)
    have "turn_phase t \<in> polling_phases" using assms(2) by (auto simp: polling_phases_def)
    then show "dispatched 3 (turn_actions t)" using act unfolding actions_inv_def by blast
  qed simp_all
  consider (fin) "turn_phase t = FinalizeComplete" | (cl) "turn_phase t = CloseComplete" using assms(2) by auto
  then show ?thesis
  proof cases
    case fin
    from phase_call_phases(5) [OF fin] obtain args where
      call: "phase_call t = Some (''finalize'', ''finalize:worker-completed'', args)" by blast
    show ?thesis
      by (rule running_inv_step [OF assms(1) call _ live])
         (use assms(1) fin next_act [of FinalizeControlFailed "''finalize:worker-completed''"]
            next_act [of CloseComplete "''finalize:worker-completed''"]
            next_act [of WaitingCloseComplete "''finalize:worker-completed''"] settled
          in \<open>auto simp: after_call_def turn_inv_defs split: if_splits\<close>)
  next
    case cl
    from phase_call_phases(6) [OF cl] obtain args where call: "phase_call t = Some (''close'', ''close'', args)" by blast
    show ?thesis
    proof (rule running_inv_step [OF assms(1) call _ live])
      fix val t2 assume "after_call val (t\<lparr>turn_actions := turn_actions t @ [''close'']\<rparr>) = Inr t2"
      then have t2: "t2 = (if deferred_close_requested val
          then t\<lparr>turn_actions := turn_actions t @ [''close''], turn_phase := WaitingCloseComplete, turn_waiting := True\<rparr>
          else finish ''completed'' (t\<lparr>turn_actions := turn_actions t @ [''close'']\<rparr>))"
        using cl by (auto simp: after_call_def)
      show "running_inv t2"
      proof (cases "deferred_close_requested val")
        case True
        then show ?thesis using assms(1) cl next_act [of WaitingCloseComplete "''close''"] settled by (auto simp: t2 turn_inv_defs)
      next
        case False
        show ?thesis unfolding t2 if_not_P [OF False]
          by (rule finish_inv)
             (use assms(1) next_act [of Terminal "''close''"] settled disp in \<open>auto simp: running_inv_def evidence_ok_def accepted_start_def\<close>)
      qed
    qed (use cl next_act [of FinalizeControlFailed "''close''"] in auto)
  qed
qed

lemma running_inv_interrupt:
  assumes "running_inv t" and "turn_phase t \<in> {Interrupt, FinalizeInterrupt, CloseInterrupt, FinalizeClose}"
  shows "running_inv (advance outcome t)"
proof -
  have live: "\<not> turn_terminal t" and act: "actions_inv (turn_phase t) (turn_actions t)"
    using assms by (auto simp: running_inv_def)
  have next_act: "actions_inv phase' (turn_actions t @ [a])"
    if "phase' \<notin> {Start, Arm, SendInput, MarkDispatched} \<union> polling_phases" "a \<notin> set DISPATCH_ACTIONS" "a \<noteq> ''check''" for phase' a
    using that by (intro actions_inv_append [OF act]) auto
  consider (int) "turn_phase t = Interrupt" | (fin) "turn_phase t = FinalizeInterrupt" | (cl) "turn_phase t = CloseInterrupt"
    | (fc) "turn_phase t = FinalizeClose" using assms(2) by auto
  then show ?thesis
  proof cases
    case int
    from phase_call_phases(7) [OF int] obtain args where call: "phase_call t = Some (''interrupt'', ''interrupt'', args)" by blast
    show ?thesis
      by (rule running_inv_step [OF assms(1) call _ live])
         (use assms(1) int next_act [of _ "''interrupt''"] in \<open>auto simp: after_call_def turn_inv_defs\<close>)
  next
    case fin
    from phase_call_phases(8) [OF fin] obtain args where
      call: "phase_call t = Some (''finalize'', ''finalize:interrupt-confirmed'', args)" by blast
    show ?thesis
      by (rule running_inv_step [OF assms(1) call _ live])
         (use assms(1) fin next_act in \<open>auto simp: after_call_def turn_inv_defs split: if_splits\<close>)
  next
    case cl
    from phase_call_phases(9) [OF cl] obtain args where call: "phase_call t = Some (''close'', ''close'', args)" by blast
    show ?thesis
      by (rule running_inv_step [OF assms(1) call _ live])
         (use assms(1) cl next_act in \<open>auto simp: after_call_def turn_inv_defs split: if_splits\<close>)
  next
    case fc
    from phase_call_phases(10) [OF fc] obtain args where
      call: "phase_call t = Some (''finalize'', ''finalize:close-confirmed'', args)" by blast
    show ?thesis
    proof (rule running_inv_step [OF assms(1) call _ live])
      fix val t2 assume "after_call val (t\<lparr>turn_actions := turn_actions t @ [''finalize:close-confirmed'']\<rparr>) = Inr t2"
      then have t2: "t2 = finish ''closed'' (t\<lparr>turn_actions := turn_actions t @ [''finalize:close-confirmed'']\<rparr>)"
        using fc by (simp add: after_call_def)
      show "running_inv t2" unfolding t2
        by (rule finish_inv)
           (use assms(1) next_act in \<open>auto simp: running_inv_def evidence_ok_def accepted_start_def polling_phases_def\<close>)
    qed (use fc next_act in \<open>auto simp: polling_phases_def\<close>)
  qed
qed

lemma running_inv_control_failed:
  assumes "running_inv t" and phase: "turn_phase t = FinalizeControlFailed"
  shows "running_inv (advance outcome t)"
proof -
  from phase_call_phases(11) [OF phase] obtain args where
    call: "phase_call t = Some (''finalize'', ''finalize:control-failed'', args)" by blast
  have act: "actions_inv Terminal (turn_actions t @ [''finalize:control-failed''])"
    using assms by (intro actions_inv_append [of FinalizeControlFailed]) (auto simp: running_inv_def polling_phases_def)
  obtain r where r: "advance outcome t = finish ''control-failed'' (t\<lparr>turn_actions := turn_actions t @ [''finalize:control-failed''],
      turn_errors := turn_errors t @ r\<rparr>) \<and> (\<forall>e\<in>set r. nonempty_text (PStr e))"
  proof (cases "fst (invoke ''finalize'' ''finalize:control-failed'' outcome t)")
    case (Inl e)
    obtain n m where "e = PyException n m" by (cases e)
    then show ?thesis
      using that [of "[''control-failed-receipt-failed:'' @ n @ '':'' @ m]"] Inl call phase by (simp add: advance_def invoke_def)
  next
    case (Inr v)
    then show ?thesis using that [of "[]"] call phase by (simp add: advance_def invoke_def)
  qed
  then have eq: "advance outcome t = finish ''control-failed'' (t\<lparr>turn_actions := turn_actions t @ [''finalize:control-failed''],
      turn_errors := turn_errors t @ r\<rparr>)" by blast
  show ?thesis unfolding eq
    by (rule finish_inv)
       (use assms(1) act r in \<open>auto simp: running_inv_def evidence_ok_def accepted_start_def\<close>)
qed

lemma running_inv_advance:
  assumes "running_inv t" and "\<not> turn_terminal t" and "\<not> turn_waiting t"
  shows "running_inv (advance outcome t)"
proof -
  have "turn_phase t \<noteq> Start" "turn_phase t \<noteq> Terminal" "turn_phase t \<notin> waiting_phases"
    using assms by (simp_all add: running_inv_def)
  then have "turn_phase t \<in> {Arm, SendInput, MarkDispatched} \<or> turn_phase t = Check
      \<or> turn_phase t \<in> {FinalizeComplete, CloseComplete}
      \<or> turn_phase t \<in> {Interrupt, FinalizeInterrupt, CloseInterrupt, FinalizeClose}
      \<or> turn_phase t = FinalizeControlFailed"
    by (cases "turn_phase t") (simp_all add: waiting_phases_def)
  then show ?thesis
    using running_inv_dispatch running_inv_check running_inv_complete running_inv_interrupt running_inv_control_failed
      assms(1) by blast
qed

lemma text_or_refused_start:
  "start_errors task_input t = [] \<Longrightarrow> \<exists>s. task_input = PStr s"
  by (cases task_input) (simp_all add: start_errors_def)

lemma turn_start_new:
  "turn_start task_input (new_turn contract callbacks) =
     (if start_errors task_input (new_turn contract callbacks) \<noteq> []
      then (False, finish ''control-failed'' ((new_turn contract callbacks)
              \<lparr>turn_errors := start_errors task_input (new_turn contract callbacks)\<rparr>))
      else (True, (new_turn contract callbacks)\<lparr>turn_started := True, turn_task_input := the_str task_input, turn_phase := Arm\<rparr>))"
  by (simp add: turn_start_def new_turn_def)

lemma accepted_contract_is_dict: "validate_control_turn_contract c = [] \<Longrightarrow> is_dict c"
  by (cases c) (simp_all add: validate_control_turn_contract_def)

lemma running_inv_started:
  assumes "start_errors task_input (new_turn contract callbacks) = []"
  shows "running_inv ((new_turn contract callbacks)\<lparr>turn_started := True, turn_task_input := the_str task_input, turn_phase := Arm\<rparr>)"
proof -
  obtain s where s: "task_input = PStr s" using text_or_refused_start [OF assms] by blast
  have valid: "validate_control_turn_contract contract = []" "validate_control_callbacks callbacks = []"
    using assms by (simp_all add: start_errors_def new_turn_def)
  then have "dget (the_dict contract) ''task_sha256'' = PStr (text_sha256 s)"
    using assms accepted_contract_is_dict [OF valid(1)] s
    by (auto simp: start_errors_def new_turn_def err_if_def split: if_splits)
  then show ?thesis
    using valid s dispatched_starts(1)
    by (auto simp: turn_inv_defs new_turn_def actions_inv_def)
qed

lemma start_frame [simp]:
  "turn_contract (snd (turn_start v t)) = turn_contract t" "turn_callbacks (snd (turn_start v t)) = turn_callbacks t"
  by (simp_all add: turn_start_def Let_def finish_def)

lemma finish_terminal: "turn_terminal (finish state t)"
  by (simp add: finish_def)

lemma turn_inv_cases [consumes 1, case_names fresh ended running]:
  assumes "turn_inv contract callbacks t"
  obtains "t = new_turn contract callbacks" | "turn_terminal t" | "running_inv t" "\<not> turn_terminal t"
  using assms finish_terminal unfolding turn_inv_def by metis

lemma turn_inv_running:
  "running_inv t' \<Longrightarrow> turn_contract t' = turn_contract t \<Longrightarrow> turn_callbacks t' = turn_callbacks t \<Longrightarrow>
     turn_inv contract callbacks t \<Longrightarrow> turn_inv contract callbacks t'"
  unfolding turn_inv_def by simp

lemma turn_inv_step:
  assumes "turn_inv contract callbacks t"
  shows "turn_inv contract callbacks (snd (turn_step task_input outcome t))"
proof -
  from assms show ?thesis
  proof (cases rule: turn_inv_cases)
    case fresh
    let ?t = "new_turn contract callbacks"
    show ?thesis
    proof (cases "start_errors task_input ?t = []")
      case True
      let ?t1 = "?t\<lparr>turn_started := True, turn_task_input := the_str task_input, turn_phase := Arm\<rparr>"
      have "snd (turn_step task_input outcome t) = advance outcome ?t1"
        using True by (simp add: fresh turn_step_def turn_start_new) (simp add: new_turn_def)
      moreover have "running_inv (advance outcome ?t1)"
        by (rule running_inv_advance [OF running_inv_started [OF True]]) (simp_all add: new_turn_def)
      ultimately show ?thesis by (simp add: turn_inv_def advance_frame) (simp add: new_turn_def)
    next
      case False
      then have "snd (turn_step task_input outcome t) = finish ''control-failed''
          (?t\<lparr>turn_errors := start_errors task_input ?t\<rparr>)"
        by (simp add: fresh turn_step_def turn_start_new) (simp add: new_turn_def)
      then show ?thesis using False by (auto simp: turn_inv_def finish_def new_turn_def)
    qed
  next
    case ended
    then show ?thesis using assms by (simp add: turn_step_def)
  next
    case running
    have "turn_started t" using running by (simp add: running_inv_def)
    then have "snd (turn_step task_input outcome t) = t
        \<or> (\<not> turn_waiting t \<and> snd (turn_step task_input outcome t) = advance outcome t)"
      by (auto simp: turn_step_def)
    then show ?thesis
      using assms running running_inv_advance [OF running]
      by (auto simp: turn_inv_def advance_frame)
  qed
qed

lemma running_inv_resume:
  assumes "running_inv t"
  shows "running_inv (snd (resume_after_wait t))"
proof (cases "turn_waiting t \<and> \<not> turn_terminal t")
  case True
  then have act: "actions_inv (turn_phase t) (turn_actions t)" and "turn_phase t \<in> waiting_phases"
    using assms by (auto simp: running_inv_def)
  then consider "turn_phase t = Waiting" | "turn_phase t = WaitingCloseComplete" | "turn_phase t = WaitingCloseInterrupt"
    by (auto simp: waiting_phases_def)
  then show ?thesis
    using assms True actions_inv_phase [OF act, of Check] actions_inv_phase [OF act, of CloseComplete]
      actions_inv_phase [OF act, of CloseInterrupt]
    by cases (auto simp: resume_after_wait_def Let_def turn_inv_defs)
next
  case False
  then show ?thesis using assms by (auto simp: resume_after_wait_def)
qed

lemma running_inv_interrupt_request:
  assumes "running_inv t"
  shows "running_inv (snd (request_interrupt reason t))"
proof (cases "turn_terminal t \<or> \<not> nonempty_text reason")
  case True
  then show ?thesis using assms by (auto simp: request_interrupt_def)
next
  case False
  then obtain s where s: "reason = PStr s" "nonempty_text (PStr s)"
    by (cases reason) (auto simp: nonempty_text_def)
  have act: "actions_inv (turn_phase t) (turn_actions t)" and "turn_started t" using assms by (auto simp: running_inv_def)
  then show ?thesis
    using assms False s valid_decision_interrupt [OF s(2)] actions_inv_phase [OF act, of Interrupt]
    by (auto simp: request_interrupt_def Let_def turn_inv_defs)
qed

lemma evidence_sleep: "evidence_ok t \<Longrightarrow> evidence_ok (t\<lparr>turn_actions := turn_actions t @ [''sleep'']\<rparr>)"
  by (auto simp: evidence_ok_def)

lemma running_inv_sleep_action:
  assumes "running_inv t" and "turn_waiting t" and "\<not> turn_terminal t"
  shows "running_inv (t\<lparr>turn_actions := turn_actions t @ [''sleep'']\<rparr>)"
proof -
  have act: "actions_inv (turn_phase t) (turn_actions t)" and wait: "turn_phase t \<in> waiting_phases"
    using assms by (auto simp: running_inv_def)
  have "actions_inv (turn_phase t) (turn_actions t @ [''sleep''])"
    by (rule actions_inv_append [OF act]) (use wait in \<open>auto simp: waiting_phases_def\<close>)
  then show ?thesis using assms evidence_sleep [of t] by (simp add: running_inv_def accepted_start_def)
qed

lemma running_inv_after_sleep:
  assumes "running_inv t" and "turn_waiting t" and "\<not> turn_terminal t"
  shows "running_inv (after_sleep outcome t)"
proof (cases outcome)
  case (Returned v)
  then show ?thesis using running_inv_resume [OF running_inv_sleep_action [OF assms]] by (simp add: after_sleep_def)
next
  case (Failed e)
  have act: "actions_inv (turn_phase t) (turn_actions t)" using assms by (simp add: running_inv_def)
  have "actions_inv FinalizeControlFailed (turn_actions t @ [''sleep''])"
    by (rule actions_inv_append [OF act]) (auto simp: polling_phases_def)
  then show ?thesis using running_inv_failure [OF assms(1,3)] Failed by (simp add: after_sleep_def)
qed

lemma turn_op_frame [simp]:
  "turn_contract (snd (resume_after_wait t)) = turn_contract t" "turn_callbacks (snd (resume_after_wait t)) = turn_callbacks t"
  "turn_contract (snd (request_interrupt r t)) = turn_contract t" "turn_callbacks (snd (request_interrupt r t)) = turn_callbacks t"
  "turn_contract (record_callback_failure e t) = turn_contract t" "turn_callbacks (record_callback_failure e t) = turn_callbacks t"
  by (auto simp: resume_after_wait_def request_interrupt_def record_callback_failure_def Let_def
      split: turn_phase.splits py_exception.splits)

lemma after_sleep_frame [simp]:
  "turn_contract (after_sleep outcome t) = turn_contract t" "turn_callbacks (after_sleep outcome t) = turn_callbacks t"
  by (cases outcome; simp add: after_sleep_def)+

lemma idle_ops:
  assumes "t = new_turn contract callbacks \<or> turn_terminal t"
  shows "snd (resume_after_wait t) = t" "snd (request_interrupt reason t) = t"
    "apply_turn_op (Sleep outcome) t = t"
proof -
  have "turn_terminal t \<or> \<not> turn_waiting t \<and> \<not> turn_started t" using assms by (auto simp: new_turn_def)
  then show "snd (resume_after_wait t) = t" "snd (request_interrupt reason t) = t" "apply_turn_op (Sleep outcome) t = t"
    by (auto simp: resume_after_wait_def request_interrupt_def)
qed

lemma turn_inv_new: "turn_inv contract callbacks (new_turn contract callbacks)"
  by (simp add: turn_inv_def new_turn_def)

lemma turn_inv_apply:
  assumes "turn_inv contract callbacks t"
  shows "turn_inv contract callbacks (apply_turn_op op t)"
proof (cases op)
  case (Step v outcome)
  then show ?thesis using turn_inv_step [OF assms] by simp
next
  case Resume
  from assms show ?thesis
    by (cases rule: turn_inv_cases) (simp_all add: Resume idle_ops idle_ops [OF disjI1 [OF refl]] turn_inv_new turn_inv_running [OF running_inv_resume] assms)
next
  case (RequestInterrupt r)
  from assms show ?thesis
    by (cases rule: turn_inv_cases)
       (simp_all add: RequestInterrupt idle_ops idle_ops [OF disjI1 [OF refl]] turn_inv_new turn_inv_running [OF running_inv_interrupt_request] assms)
next
  case (Sleep outcome)
  from assms show ?thesis
  proof (cases rule: turn_inv_cases)
    case running
    then show ?thesis
      using Sleep assms turn_inv_running [OF running_inv_after_sleep [OF running(1) _ running(2)]]
      by (cases "turn_waiting t") simp_all
  qed (simp_all add: Sleep idle_ops idle_ops [OF disjI1 [OF refl]] turn_inv_new assms del: apply_turn_op.simps)
qed

lemma reachable_turn_inv: "turn_reachable contract callbacks t \<Longrightarrow> turn_inv contract callbacks t"
  by (induction rule: turn_reachable.induct) (rule turn_inv_new, rule turn_inv_apply)

end
