(* ===== verification/ControlTurnProperties.thy ===== *)
theory ControlTurnProperties
  imports ControlTurnInvariant
begin

text \<open>
  What the invariant gives of a control turn: receipts of the declared type, a single dispatch, earned
  completion, absorption of the terminal phase, and termination of the blocking run by a potential that
  every callback lowers unless its outcome defers.
\<close>

section \<open>Termination of a run\<close>

text \<open>An outcome that makes a polling or a closing phase wait and repeat.\<close>

definition defers :: "callback_outcome \<Rightarrow> bool" where
  "defers outcome =
     (case outcome of
        Failed _ \<Rightarrow> False
      | Returned value \<Rightarrow> decision_of value = Inr ''continue'' \<or> decision_of value = Inr ''warn''
          \<or> deferred_close_requested value)"

text \<open>The callbacks that are still needed when no outcome defers.\<close>

fun phase_rank :: "turn_phase \<Rightarrow> nat" where
  "phase_rank Start = 10"
| "phase_rank Arm = 9"
| "phase_rank SendInput = 8"
| "phase_rank MarkDispatched = 7"
| "phase_rank Check = 6"
| "phase_rank Waiting = 6"
| "phase_rank Interrupt = 5"
| "phase_rank FinalizeInterrupt = 4"
| "phase_rank CloseInterrupt = 3"
| "phase_rank WaitingCloseInterrupt = 3"
| "phase_rank FinalizeClose = 2"
| "phase_rank FinalizeComplete = 3"
| "phase_rank CloseComplete = 2"
| "phase_rank WaitingCloseComplete = 2"
| "phase_rank FinalizeControlFailed = 1"
| "phase_rank Terminal = 0"

definition turn_potential :: "control_turn \<Rightarrow> nat" where
  "turn_potential t = phase_rank (turn_phase t) + (if turn_waiting t then 1 else 0)"

definition defer_cost :: "callback_outcome \<Rightarrow> nat" where
  "defer_cost outcome = (if defers outcome then 2 else 0)"

lemma potential_failure [simp]: "turn_potential (record_callback_failure e t) = 1"
  by (cases e) (simp add: turn_potential_def record_callback_failure_def)

lemma potential_finish [simp]: "turn_potential (finish state t) = 0"
  by (simp add: turn_potential_def finish_def)

lemma after_call_potential:
  assumes "after_call val t = Inr t2" and "\<not> turn_waiting t" and "turn_phase t \<notin> waiting_phases \<union> {Start, Terminal, FinalizeControlFailed}"
  shows "Suc (turn_potential t2) \<le> turn_potential t + defer_cost (Returned val)"
proof (cases "turn_phase t = Check")
  case True
  then obtain d where d: "decision_of val = Inr d" and t2: "t2 = record_decision d t"
    using assms(1) by (auto simp: after_call_def rbind_eq_Inr)
  then show ?thesis
    using True assms(2) by (auto simp: record_decision_def Let_def turn_potential_def defer_cost_def defers_def)
next
  case False
  then show ?thesis
    using assms
    by (cases "turn_phase t")
       (auto simp: after_call_def turn_potential_def finish_def defer_cost_def defers_def waiting_phases_def rbind_eq_Inr
          split: if_splits)
qed

lemma phase_has_call:
  "turn_phase t \<notin> waiting_phases \<union> {Start, Terminal} \<Longrightarrow> \<exists>name label args. phase_call t = Some (name, label, args)"
  by (cases "turn_phase t") (simp_all add: phase_call_def Let_def waiting_phases_def)

lemma phase_rank_running: "phase \<notin> {Terminal, FinalizeControlFailed} \<Longrightarrow> 2 \<le> phase_rank phase"
  by (cases phase) simp_all

lemma advance_potential:
  assumes "running_inv t" and "\<not> turn_terminal t" and "\<not> turn_waiting t"
  shows "Suc (turn_potential (advance outcome t)) \<le> turn_potential t + defer_cost outcome"
proof -
  have phase: "turn_phase t \<notin> waiting_phases \<union> {Start, Terminal}" using assms by (auto simp: running_inv_def)
  then obtain name label args where call: "phase_call t = Some (name, label, args)" using phase_has_call by blast
  show ?thesis
  proof (cases "turn_phase t = FinalizeControlFailed")
    case True
    then have "turn_potential (advance outcome t) = 0"
      using call by (auto simp: advance_def invoke_def split: py_exception.splits sum.splits)
    then show ?thesis using True by (simp add: turn_potential_def)
  next
    case False
    from call False show ?thesis
    proof (cases rule: advance_cases [where outcome = outcome])
      case (failed e)
      moreover have "2 \<le> phase_rank (turn_phase t)" using phase False by (intro phase_rank_running) simp
      ultimately show ?thesis by (simp add: turn_potential_def [of t])
    next
      case (returned val t2)
      then have "Suc (turn_potential t2) \<le> turn_potential (t\<lparr>turn_actions := turn_actions t @ [label]\<rparr>) + defer_cost outcome"
        using after_call_potential [OF returned(2)] phase False assms(3) returned(1) by simp
      then show ?thesis using returned(3) by (simp add: turn_potential_def)
    qed
  qed
qed

lemma running_step:
  "running_inv t \<Longrightarrow> \<not> turn_terminal t \<Longrightarrow> \<not> turn_waiting t \<Longrightarrow> turn_step PNone outcome t = (Inr (), advance outcome t)"
  by (simp add: turn_step_def running_inv_def)

lemma after_sleep_ready:
  assumes "running_inv t" and "turn_waiting t" and "\<not> turn_terminal t"
  shows "\<not> turn_waiting (after_sleep outcome t) \<and> \<not> turn_terminal (after_sleep outcome t)
    \<and> Suc (turn_potential (after_sleep outcome t)) \<le> turn_potential t"
proof -
  have "turn_phase t \<in> waiting_phases" using assms by (simp add: running_inv_def)
  then show ?thesis
    using assms by (cases outcome; cases "turn_phase t")
      (auto simp: after_sleep_def Let_def resume_after_wait_def waiting_phases_def turn_potential_def record_callback_failure_def
         split: py_exception.splits)
qed

lemma running_potential_positive: "running_inv t \<Longrightarrow> \<not> turn_terminal t \<Longrightarrow> 1 \<le> turn_potential t"
  by (cases "turn_phase t") (auto simp: turn_potential_def running_inv_def)

lemma waiting_potential: "running_inv t \<Longrightarrow> turn_waiting t \<Longrightarrow> 3 \<le> turn_potential t"
  by (cases "turn_phase t") (auto simp: turn_potential_def running_inv_def waiting_phases_def)

lemma run_loop_terminates:
  assumes "running_inv t" and "turn_potential t + sum_list (map defer_cost outcomes) \<le> length outcomes"
  shows "\<exists>t'. run_loop outcomes t = Some t' \<and> running_inv t' \<and> turn_terminal t'"
  using assms
proof (induction outcomes t rule: run_loop.induct)
  case (1 t)
  then have "turn_terminal t" using running_potential_positive [of t] by (cases "turn_terminal t") auto
  then show ?case using 1 by simp
next
  case (2 outcome outcomes t)
  show ?case
  proof (cases "turn_terminal t")
    case True
    then show ?thesis using "2.prems" by simp
  next
    case live: False
    show ?thesis
    proof (cases "turn_waiting t")
      case False
      have step: "turn_step PNone outcome t = (Inr (), advance outcome t)"
        by (rule running_step) (use "2.prems" live False in auto)
      have "turn_potential (advance outcome t) + sum_list (map defer_cost outcomes) \<le> length outcomes"
        using advance_potential [OF "2.prems"(1) live False, of outcome] "2.prems"(2) by simp
      then show ?thesis
        using "2.IH"(2) live False running_inv_advance [OF "2.prems"(1) live False] by (simp add: step)
    next
      case True
      let ?s = "after_sleep outcome t"
      have ready: "\<not> turn_waiting ?s" "\<not> turn_terminal ?s" "Suc (turn_potential ?s) \<le> turn_potential t"
        using after_sleep_ready [OF "2.prems"(1) True live] by auto
      have inv: "running_inv ?s" by (rule running_inv_after_sleep [OF "2.prems"(1) True live])
      obtain outcome' outcomes' where outs: "outcomes = outcome' # outcomes'"
        using waiting_potential [OF "2.prems"(1) True] "2.prems"(2) by (cases outcomes) auto
      have step: "turn_step PNone outcome' ?s = (Inr (), advance outcome' ?s)"
        by (rule running_step [OF inv ready(2,1)])
      have "turn_potential (advance outcome' ?s) + sum_list (map defer_cost outcomes') \<le> length outcomes'"
        using advance_potential [OF inv ready(2,1), of outcome'] ready(3) "2.prems"(2) by (simp add: outs)
      then show ?thesis
        using "2.IH"(1) [OF live True outs] live True outs running_inv_advance [OF inv ready(2,1)] by (simp add: step)
    qed
  qed
qed

lemma sum_defer_cost: "sum_list (map defer_cost outcomes) = 2 * length (filter defers outcomes)"
  by (induction outcomes) (simp_all add: defer_cost_def)

section \<open>Receipts\<close>

lemma dkeys_make_receipt: "dkeys (make_receipt c s a d n st e) = RECEIPT_FIELDS"
  by (simp add: make_receipt_def dkeys_def RECEIPT_FIELDS_def)

lemma dget_make_receipt [simp]:
  "dget (make_receipt c s a d n st e) ''receipt_type'' = PStr CONTROL_RECEIPT_TYPE"
  "dget (make_receipt c s a d n st e) ''version'' = PInt 1"
  "dget (make_receipt c s a d n st e) ''contract_sha256'' = dget (the_dict c) ''contract_sha256''"
  "dget (make_receipt c s a d n st e) ''task_sha256'' = dget (the_dict c) ''task_sha256''"
  "dget (make_receipt c s a d n st e) ''submission_id'' = opt_str s"
  "dget (make_receipt c s a d n st e) ''actions'' = PList (map PStr a)"
  "dget (make_receipt c s a d n st e) ''decisions'' = PList (map PStr d)"
  "dget (make_receipt c s a d n st e) ''poll_count'' = PInt (int n)"
  "dget (make_receipt c s a d n st e) ''terminal_state'' = PStr st"
  "dget (make_receipt c s a d n st e) ''errors'' = PList (map PStr e)"
  by (simp_all add: make_receipt_def)

lemma accepted_contract_hashes:
  "validate_control_turn_contract (PDict d) = [] \<Longrightarrow> is_sha256 (dget d ''contract_sha256'') \<and> is_sha256 (dget d ''task_sha256'')"
  by (simp add: validate_control_turn_contract_def Let_def split: if_splits)

lemma is_sha256_py_eq: "is_sha256 v \<Longrightarrow> py_eq v v"
  by (auto simp: is_sha256_iff)

lemma terminal_receipt_valid:
  assumes contract: "turn_contract t = PDict d" "validate_control_turn_contract (PDict d) = []"
    and "evidence_ok t" and state: "state \<in> {''completed'', ''closed'', ''control-failed''}"
  shows "validate_control_turn_receipt (PDict (make_receipt (turn_contract t) (turn_submission_id t) (turn_actions t)
          (turn_decisions t) (turn_poll_count t) state (turn_errors t))) (Some d) = []"
proof -
  let ?r = "make_receipt (turn_contract t) (turn_submission_id t) (turn_actions t)
          (turn_decisions t) (turn_poll_count t) state (turn_errors t)"
  have fields: "missing_fields RECEIPT_FIELDS ?r = []" "unknown_fields RECEIPT_FIELDS ?r = []"
    by (simp_all add: missing_fields_def unknown_fields_def dkeys_make_receipt)
  have hashes: "is_sha256 (dget d ''contract_sha256'')" "is_sha256 (dget d ''task_sha256'')"
    using accepted_contract_hashes [OF contract(2)] by auto
  have states: "in_strs (PStr state) [''completed'', ''closed'', ''control-failed'']" using state by auto
  have submission: "opt_str (turn_submission_id t) = PNone \<or> nonempty_text (opt_str (turn_submission_id t))"
    using assms(3) by (cases "turn_submission_id t") (auto simp: evidence_ok_def)
  have lists: "list_of nonempty_text (PList (map PStr (turn_actions t)))"
      "list_of valid_receipt_decision (PList (map PStr (turn_decisions t)))"
      "list_of nonempty_text (PList (map PStr (turn_errors t)))"
    using assms(3) by (auto simp: evidence_ok_def list_of_def list_all_iff)
  show ?thesis
    using fields hashes states submission lists is_sha256_py_eq [OF hashes(1)] is_sha256_py_eq [OF hashes(2)]
    by (simp add: validate_control_turn_receipt_def contract)
qed

lemma refused_turn_not_started: "\<not> turn_started (finish state ((new_turn contract callbacks)\<lparr>turn_errors := errors\<rparr>))"
  by (simp add: finish_def new_turn_def)

lemma new_turn_not_started: "\<not> turn_started (new_turn contract callbacks)"
  by (simp add: new_turn_def)

lemma started_running: "turn_reachable contract callbacks t \<Longrightarrow> turn_started t \<Longrightarrow> running_inv t"
  using reachable_turn_inv [of contract callbacks t] refused_turn_not_started new_turn_not_started
  unfolding turn_inv_def by metis

text \<open>A concrete contract and callback table, accepted by the validators.\<close>

definition demo_task :: string where
  "demo_task = ''go''"

definition demo_contract :: pydict where
  "demo_contract =
     (let payload = [(''contract_type'', PStr CONTROL_CONTRACT_TYPE), (''version'', PInt 1),
            (''state_file'', PStr ''/s''), (''agent_id'', PStr ''a''),
            (''control_turn_id'', PStr ''t''), (''task_sha256'', PStr (text_sha256 demo_task)),
            (''poll_interval_ms'', PInt 1000), (''allowed_actions'', PList (map PStr ALLOWED_ACTIONS))]
      in dset payload ''contract_sha256'' (PStr (canonical_sha256 (PDict payload))))"

definition demo_callbacks :: callback_table where
  "demo_callbacks = Some (map (\<lambda>name. (name, True)) REQUIRED_CALLBACKS)"

lemma build_payload_valid:
  assumes "nonempty_text (PStr state_file)" "path_is_absolute state_file" "nonempty_text (PStr agent_id)"
    "nonempty_text (PStr control_turn_id)" "hex64 task_sha256" "0 < poll_interval_ms"
  defines "payload \<equiv> [(''contract_type'', PStr CONTROL_CONTRACT_TYPE), (''version'', PInt 1),
            (''state_file'', PStr state_file), (''agent_id'', PStr agent_id),
            (''control_turn_id'', PStr control_turn_id), (''task_sha256'', PStr task_sha256),
            (''poll_interval_ms'', PInt poll_interval_ms), (''allowed_actions'', PList (map PStr ALLOWED_ACTIONS))]"
  shows "validate_control_turn_contract (PDict (dset payload ''contract_sha256'' (PStr (canonical_sha256 (PDict payload))))) = []"
proof -
  let ?h = "PStr (canonical_sha256 (PDict payload))"
  have d: "dset payload ''contract_sha256'' ?h = payload @ [(''contract_sha256'', ?h)]"
    by (rule dset_append_new) (simp add: payload_def dkeys_def)
  have keys: "dkeys (dset payload ''contract_sha256'' ?h) = REQUIRED_CONTRACT_FIELDS"
    unfolding d by (simp add: payload_def dkeys_def REQUIRED_CONTRACT_FIELDS_def)
  have fields: "missing_fields REQUIRED_CONTRACT_FIELDS (dset payload ''contract_sha256'' ?h) = []"
      "unknown_fields REQUIRED_CONTRACT_FIELDS (dset payload ''contract_sha256'' ?h) = []"
    by (simp_all add: missing_fields_def unknown_fields_def keys)
  have pop: "dpop (dset payload ''contract_sha256'' ?h) ''contract_sha256'' = payload"
    unfolding d by (simp add: payload_def dpop_def)
  have gets: "dget payload ''contract_type'' = PStr CONTROL_CONTRACT_TYPE" "dget payload ''version'' = PInt 1"
      "dget payload ''state_file'' = PStr state_file" "dget payload ''agent_id'' = PStr agent_id"
      "dget payload ''control_turn_id'' = PStr control_turn_id" "dget payload ''task_sha256'' = PStr task_sha256"
      "dget payload ''poll_interval_ms'' = PInt poll_interval_ms"
      "dget payload ''allowed_actions'' = PList (map PStr ALLOWED_ACTIONS)"
    by (simp_all add: payload_def)
  have no_wait: "\<not> (\<exists>action\<in>set ALLOWED_ACTIONS. contains_text ''wait'' action)" by code_simp
  show ?thesis
    unfolding validate_control_turn_contract_def Let_def
    using assms(1-6) fields pop gets no_wait by simp
qed

lemma demo_contract_valid: "validate_control_turn_contract (PDict demo_contract) = []"
proof -
  have a: "nonempty_text (PStr ''/s'')" "path_is_absolute ''/s''" "nonempty_text (PStr ''a'')" "nonempty_text (PStr ''t'')"
    by code_simp+
  show ?thesis
    unfolding demo_contract_def Let_def
    by (rule build_payload_valid [OF a hex64_text_sha256]) simp
qed

lemma demo_callbacks_valid: "validate_control_callbacks demo_callbacks = []"
  by code_simp

lemma demo_task_sha256: "dget demo_contract ''task_sha256'' = PStr (text_sha256 demo_task)"
  by (simp add: demo_contract_def Let_def)

definition demo_turn :: control_turn where
  "demo_turn = new_turn (PDict demo_contract) demo_callbacks"

lemma demo_start_accepted: "start_errors (PStr demo_task) demo_turn = []"
  by (simp add: start_errors_def demo_turn_def new_turn_def demo_contract_valid demo_callbacks_valid demo_task_sha256)

definition demo_armed :: control_turn where
  "demo_armed = demo_turn\<lparr>turn_started := True, turn_task_input := demo_task, turn_phase := Arm\<rparr>"

lemma demo_first_step: "turn_step (PStr demo_task) outcome demo_turn = (Inr (), advance outcome demo_armed)"
  using demo_start_accepted
  by (simp add: turn_step_def turn_start_def demo_armed_def) (simp add: demo_turn_def new_turn_def)

section \<open>Properties\<close>

lemma reachable_dispatched:
  assumes "turn_reachable contract callbacks t"
  shows "\<exists>k. dispatched k (turn_actions t)"
proof -
  have empty: "turn_actions (new_turn contract callbacks) = []"
    "turn_actions (finish state ((new_turn contract callbacks)\<lparr>turn_errors := errors\<rparr>)) = []" for state errors
    by (simp_all add: new_turn_def finish_def)
  have "turn_actions t = [] \<or> running_inv t"
    using reachable_turn_inv [OF assms] empty unfolding turn_inv_def by metis
  then show ?thesis
    using dispatched_starts(1) unfolding running_inv_def actions_inv_def by metis
qed

text \<open>
  C1: In every reachable control turn the recorded callbacks start with a prefix of arm, send-input,
  mark-dispatched; none of the three is ever called again, whatever the outcomes, waits and
  interrupt requests, and a check is made only after all three: a worker gets its task at most once.
\<close>

theorem control_turn_dispatches_once:
  assumes "turn_reachable contract callbacks t"
  shows "\<exists>k rest. turn_actions t = take k [''arm'', ''send-input'', ''mark-dispatched''] @ rest
    \<and> set rest \<inter> {''arm'', ''send-input'', ''mark-dispatched''} = {} \<and> (''check'' \<notin> set rest \<or> k = 3)"
  using reachable_dispatched [OF assms] unfolding dispatched_def DISPATCH_ACTIONS_def by auto

lemma demo_turn_reachable: "turn_reachable (PDict demo_contract) demo_callbacks (advance outcome demo_armed)"
  using turn_reachable.op [OF turn_reachable.new, of "PDict demo_contract" demo_callbacks "Step (PStr demo_task) outcome"]
    demo_first_step [of outcome] by (simp add: demo_turn_def)

text \<open>A full run of the concrete turn: armed, sent, marked, one completed check, finalized, closed.\<close>

lemma demo_ack: "normalize_control_acknowledgement PNone = Inr None" "\<not> deferred_close_requested PNone"
  "submission_id_of (PStr ''sub'') = Inr ''sub''" "decision_of (PStr ''complete'') = Inr ''complete''"
  by code_simp+

lemma advance_returned:
  assumes "phase_call t = Some (name, label, args)" "turn_phase t \<noteq> FinalizeControlFailed"
    and "val = PNone \<or> name \<notin> {''arm'', ''mark_dispatched'', ''finalize'', ''close'', ''interrupt''}"
    and "after_call val (t\<lparr>turn_actions := turn_actions t @ [label]\<rparr>) = Inr t2"
  shows "advance (Returned val) t = t2"
proof -
  have "invoke name label (Returned val) t = (Inr val, t\<lparr>turn_actions := turn_actions t @ [label]\<rparr>)"
    using assms(3) by (auto simp: invoke_def demo_ack)
  then show ?thesis using assms by (simp add: advance_def)
qed

lemma demo_advance:
  "turn_phase t = Arm \<Longrightarrow> advance (Returned PNone) t = t\<lparr>turn_actions := turn_actions t @ [''arm''], turn_phase := SendInput\<rparr>"
  "turn_phase t = SendInput \<Longrightarrow> advance (Returned (PStr ''sub'')) t =
     t\<lparr>turn_actions := turn_actions t @ [''send-input''], turn_submission_id := Some ''sub'', turn_phase := MarkDispatched\<rparr>"
  "turn_phase t = MarkDispatched \<Longrightarrow> advance (Returned PNone) t =
     t\<lparr>turn_actions := turn_actions t @ [''mark-dispatched''], turn_phase := Check\<rparr>"
  "turn_phase t = Check \<Longrightarrow> advance (Returned (PStr ''complete'')) t =
     t\<lparr>turn_actions := turn_actions t @ [''check''], turn_poll_count := Suc (turn_poll_count t),
       turn_decisions := turn_decisions t @ [''complete''], turn_phase := FinalizeComplete\<rparr>"
  "turn_phase t = FinalizeComplete \<Longrightarrow> advance (Returned PNone) t =
     t\<lparr>turn_actions := turn_actions t @ [''finalize:worker-completed''], turn_phase := CloseComplete\<rparr>"
  "turn_phase t = CloseComplete \<Longrightarrow> advance (Returned PNone) t =
     finish ''completed'' (t\<lparr>turn_actions := turn_actions t @ [''close'']\<rparr>)"
proof -
  show "turn_phase t = Arm \<Longrightarrow> advance (Returned PNone) t = t\<lparr>turn_actions := turn_actions t @ [''arm''], turn_phase := SendInput\<rparr>"
    using phase_call_phases(1) [of t] by (auto intro!: advance_returned simp: after_call_def)
  show "turn_phase t = SendInput \<Longrightarrow> advance (Returned (PStr ''sub'')) t =
     t\<lparr>turn_actions := turn_actions t @ [''send-input''], turn_submission_id := Some ''sub'', turn_phase := MarkDispatched\<rparr>"
    using phase_call_phases(2) [of t] by (auto intro!: advance_returned simp: after_call_def demo_ack)
  show "turn_phase t = MarkDispatched \<Longrightarrow> advance (Returned PNone) t =
     t\<lparr>turn_actions := turn_actions t @ [''mark-dispatched''], turn_phase := Check\<rparr>"
    using phase_call_phases(3) [of t] by (auto intro!: advance_returned simp: after_call_def)
  show "turn_phase t = Check \<Longrightarrow> advance (Returned (PStr ''complete'')) t =
     t\<lparr>turn_actions := turn_actions t @ [''check''], turn_poll_count := Suc (turn_poll_count t),
       turn_decisions := turn_decisions t @ [''complete''], turn_phase := FinalizeComplete\<rparr>"
    using phase_call_phases(4) [of t]
    by (auto intro!: advance_returned simp: after_call_def demo_ack record_decision_def Let_def)
  show "turn_phase t = FinalizeComplete \<Longrightarrow> advance (Returned PNone) t =
     t\<lparr>turn_actions := turn_actions t @ [''finalize:worker-completed''], turn_phase := CloseComplete\<rparr>"
    using phase_call_phases(5) [of t] by (auto intro!: advance_returned simp: after_call_def demo_ack)
  show "turn_phase t = CloseComplete \<Longrightarrow> advance (Returned PNone) t =
     finish ''completed'' (t\<lparr>turn_actions := turn_actions t @ [''close'']\<rparr>)"
    using phase_call_phases(6) [of t] by (auto intro!: advance_returned simp: after_call_def demo_ack)
qed

text \<open>The turn after its first five callbacks, before the close.\<close>

definition demo_closing :: control_turn where
  "demo_closing = demo_armed\<lparr>turn_phase := CloseComplete, turn_submission_id := Some ''sub'',
     turn_poll_count := 1, turn_decisions := [''complete''],
     turn_actions := [''arm'', ''send-input'', ''mark-dispatched'', ''check'', ''finalize:worker-completed'']\<rparr>"

lemma demo_armed_fields [simp]:
  "turn_phase demo_armed = Arm" "turn_actions demo_armed = []" "turn_decisions demo_armed = []" "turn_poll_count demo_armed = 0"
  "turn_started demo_armed" "\<not> turn_terminal demo_armed" "\<not> turn_waiting demo_armed" "turn_errors demo_armed = []"
  "turn_contract demo_armed = PDict demo_contract" "turn_callbacks demo_armed = demo_callbacks"
  by (simp_all add: demo_armed_def demo_turn_def new_turn_def)

lemma demo_running:
  assumes "turn_reachable c cb t" "turn_started t" "\<not> turn_terminal t" "\<not> turn_waiting t"
  shows "turn_reachable c cb (advance outcome t)"
proof -
  have "apply_turn_op (Step PNone outcome) t = advance outcome t"
    using assms(2-4) by (simp add: turn_step_def)
  then show ?thesis using turn_reachable.op [OF assms(1), of "Step PNone outcome"] by simp
qed

abbreviation demo_reaches :: "control_turn \<Rightarrow> bool" where
  "demo_reaches \<equiv> turn_reachable (PDict demo_contract) demo_callbacks"

lemma demo_closing_reachable: "demo_reaches demo_closing"
proof -
  have 1: "demo_reaches (demo_armed\<lparr>turn_actions := [''arm''], turn_phase := SendInput\<rparr>)"
    using demo_turn_reachable [of "Returned PNone"] by (simp add: demo_advance)
  have 2: "demo_reaches (demo_armed\<lparr>turn_actions := [''arm'', ''send-input''], turn_submission_id := Some ''sub'',
      turn_phase := MarkDispatched\<rparr>)"
    by (rule back_subst [of demo_reaches, OF demo_running [OF 1, of "Returned (PStr ''sub'')"]])
       (simp_all add: demo_advance control_turn.equality)
  have 3: "demo_reaches (demo_armed\<lparr>turn_actions := [''arm'', ''send-input'', ''mark-dispatched''],
      turn_submission_id := Some ''sub'', turn_phase := Check\<rparr>)"
    by (rule back_subst [of demo_reaches, OF demo_running [OF 2, of "Returned PNone"]]) (simp_all add: demo_advance control_turn.equality)
  have 4: "demo_reaches (demo_armed\<lparr>turn_actions := [''arm'', ''send-input'', ''mark-dispatched'', ''check''],
      turn_submission_id := Some ''sub'', turn_phase := FinalizeComplete, turn_poll_count := 1, turn_decisions := [''complete'']\<rparr>)"
    by (rule back_subst [of demo_reaches, OF demo_running [OF 3, of "Returned (PStr ''complete'')"]])
       (simp_all add: demo_advance control_turn.equality)
  show ?thesis
    by (rule back_subst [of demo_reaches, OF demo_running [OF 4, of "Returned PNone"]])
       (simp_all add: demo_advance demo_closing_def control_turn.equality)
qed

definition demo_end :: control_turn where
  "demo_end = advance (Returned PNone) demo_closing"

lemma demo_end_eq: "demo_end = finish ''completed'' (demo_closing\<lparr>turn_actions := turn_actions demo_closing @ [''close'']\<rparr>)"
  unfolding demo_end_def by (rule demo_advance) (simp add: demo_closing_def)

lemma demo_end_reachable: "demo_reaches demo_end"
  unfolding demo_end_def
  by (rule demo_running [OF demo_closing_reachable]) (simp_all add: demo_closing_def)

lemma demo_end_fields:
  "turn_terminal demo_end" "turn_started demo_end" "turn_contract demo_end = PDict demo_contract"
  "turn_receipt demo_end = Some (make_receipt (PDict demo_contract) (Some ''sub'')
     [''arm'', ''send-input'', ''mark-dispatched'', ''check'', ''finalize:worker-completed'', ''close''] [''complete''] 1 ''completed'' [])"
  by (simp_all add: demo_end_eq finish_def demo_closing_def)

theorem control_turn_dispatches_once_witness:
  "turn_reachable (PDict demo_contract) demo_callbacks (advance (Returned PNone) demo_armed)
   \<and> turn_actions (advance (Returned PNone) demo_armed) = [''arm'']
   \<and> (\<exists>k rest. turn_actions (advance (Returned PNone) demo_armed) = take k [''arm'', ''send-input'', ''mark-dispatched''] @ rest
        \<and> set rest \<inter> {''arm'', ''send-input'', ''mark-dispatched''} = {} \<and> (''check'' \<notin> set rest \<or> k = 3))"
  using control_turn_dispatches_once [OF demo_turn_reachable [of "Returned PNone"]] demo_turn_reachable [of "Returned PNone"]
  by (simp add: demo_advance(1))

text \<open>
  C9: A started control turn that is terminal has a receipt, and the receipt has the declared type: it
  passes the receipt validator against the contract of the turn, with no error, whatever values and
  exceptions the callbacks produced on the way.
\<close>

theorem control_turn_receipt_well_typed:
  assumes "turn_reachable contract callbacks t" and "turn_started t" and "turn_terminal t"
  shows "\<exists>receipt d. turn_receipt t = Some receipt \<and> contract = PDict d
    \<and> validate_control_turn_receipt (PDict receipt) (Some d) = []"
proof -
  have inv: "running_inv t" using started_running [OF assms(1,2)] .
  have "turn_contract t = contract" using reachable_turn_inv [OF assms(1)] by (simp add: turn_inv_def)
  moreover have accepted: "validate_control_turn_contract (turn_contract t) = []"
    using inv by (simp add: running_inv_def accepted_start_def)
  then obtain d where "turn_contract t = PDict d"
    using accepted_contract_is_dict [OF accepted] by (cases "turn_contract t") simp_all
  ultimately show ?thesis
    using inv accepted assms(3) terminal_receipt_valid [of t d]
    unfolding running_inv_def terminal_receipt_ok_def by auto
qed

theorem control_turn_receipt_well_typed_witness:
  "\<exists>receipt d. turn_receipt demo_end = Some receipt \<and> PDict demo_contract = PDict d
    \<and> validate_control_turn_receipt (PDict receipt) (Some d) = []"
  by (rule control_turn_receipt_well_typed [OF demo_end_reachable]) (simp_all add: demo_end_fields)



lemma appends_at_most_one_advance: "\<exists>as. turn_actions (advance outcome t) = turn_actions t @ as \<and> length as \<le> 1"
proof (cases "turn_phase t = FinalizeControlFailed")
  case True
  then show ?thesis
    using phase_call_phases(11) [of t]
    by (auto simp: advance_def invoke_def finish_def split: sum.splits py_exception.splits)
next
  case False
  show ?thesis
  proof (cases "phase_call t")
    case None
    then show ?thesis by (simp add: advance_def record_callback_failure_def)
  next
    case (Some call)
    obtain name label args where call: "phase_call t = Some (name, label, args)" using Some by (cases call) auto
    have same: "turn_actions t2 = turn_actions t'" if "after_call val t' = Inr t2" for val t' t2
      using that by (cases "turn_phase t'")
        (auto simp: after_call_def finish_def record_decision_def Let_def rbind_eq_Inr split: if_splits)
    from call False show ?thesis
    proof (cases rule: advance_cases [where outcome = outcome])
      case (failed e)
      then show ?thesis by (cases e) (simp add: record_callback_failure_def)
    next
      case (returned val t2)
      then show ?thesis using same [OF returned(2)] by simp
    qed
  qed
qed

lemma appends_at_most_one: "\<exists>as. turn_actions (apply_turn_op op t) = turn_actions t @ as \<and> length as \<le> 1"
proof (cases op)
  case (Step task_input outcome)
  have "turn_actions (snd (turn_start task_input t)) = turn_actions t"
    by (simp add: turn_start_def Let_def finish_def)
  then show ?thesis
    using appends_at_most_one_advance [of outcome t] appends_at_most_one_advance [of outcome "snd (turn_start task_input t)"] Step
    by (auto simp: turn_step_def split: prod.splits)
next
  case (Sleep outcome)
  have "turn_actions (snd (resume_after_wait t')) = turn_actions t'" for t'
    by (auto simp: resume_after_wait_def Let_def split: turn_phase.splits)
  moreover have "turn_actions (record_callback_failure e t') = turn_actions t'" for e t'
    by (cases e) (simp add: record_callback_failure_def)
  ultimately show ?thesis using Sleep by (cases outcome) (simp_all add: after_sleep_def)
next
  case Resume
  then show ?thesis by (auto simp: resume_after_wait_def Let_def split: turn_phase.splits)
next
  case (RequestInterrupt r)
  then show ?thesis by (auto simp: request_interrupt_def Let_def)
qed

text \<open>
  C32: A control turn makes at most one callback per operation, and appends it to its record; once the
  turn is terminal no step, resume, sleep or interrupt request changes anything of it.
\<close>

theorem control_turn_one_callback_per_operation:
  "(\<exists>callback. turn_actions (apply_turn_op op t) = turn_actions t @ callback \<and> length callback \<le> 1)
    \<and> (turn_terminal t \<longrightarrow> apply_turn_op op t = t)"
proof -
  have "turn_terminal t \<longrightarrow> apply_turn_op op t = t"
    by (cases op) (auto simp: turn_step_def resume_after_wait_def request_interrupt_def)
  then show ?thesis using appends_at_most_one [of op t] by blast
qed

theorem control_turn_one_callback_per_operation_witness:
  "turn_terminal demo_end \<and> apply_turn_op (RequestInterrupt (PStr ''stop'')) demo_end = demo_end"
  using control_turn_one_callback_per_operation [of "RequestInterrupt (PStr ''stop'')" demo_end] demo_end_fields(1) by blast

text \<open>
  C25: A run of a control turn terminates under every schedule of callback outcomes in which the adapter
  does not defer forever: nine outcomes, and two more for each outcome that asks to continue, warns or
  defers the close, are enough for the run to return the receipt of a terminal turn, failures included.
\<close>

theorem control_turn_run_terminates:
  assumes "9 + 2 * length (filter defers outcomes) \<le> length outcomes"
  shows "\<exists>receipt t. turn_run task_input outcomes (new_turn contract callbacks) = Some (receipt, t)
    \<and> turn_terminal t \<and> turn_receipt t = Some receipt"
proof -
  let ?t = "new_turn contract callbacks"
  obtain outcome rest where outs: "outcomes = outcome # rest" using assms by (cases outcomes) auto
  show ?thesis
  proof (cases "start_errors task_input ?t = []")
    case True
    let ?t1 = "?t\<lparr>turn_started := True, turn_task_input := the_str task_input, turn_phase := Arm\<rparr>"
    have inv: "running_inv ?t1" by (rule running_inv_started [OF True])
    have live: "\<not> turn_terminal ?t1" "\<not> turn_waiting ?t1" by (simp_all add: new_turn_def)
    have step: "turn_step task_input outcome ?t = (Inr (), advance outcome ?t1)"
      using True by (simp add: turn_step_def turn_start_new) (simp add: new_turn_def)
    have "turn_potential ?t1 = 9" by (simp add: turn_potential_def new_turn_def)
    then have "turn_potential (advance outcome ?t1) + sum_list (map defer_cost rest) \<le> length rest"
      using advance_potential [OF inv live, of outcome] assms unfolding outs
      by (simp add: sum_defer_cost defer_cost_def split: if_splits)
    from run_loop_terminates [OF running_inv_advance [OF inv live] this]
    obtain t' where loop: "run_loop rest (advance outcome ?t1) = Some t'" "running_inv t'" "turn_terminal t'" by blast
    then have "\<exists>receipt. turn_receipt t' = Some receipt" unfolding running_inv_def terminal_receipt_ok_def by blast
    moreover have "turn_run task_input outcomes ?t = Some (the (turn_receipt t'), t')"
      using loop(1) by (simp add: turn_run_def outs step) (simp add: new_turn_def)
    ultimately show ?thesis using loop(3) by auto
  next
    case False
    let ?stop = "finish ''control-failed'' (?t\<lparr>turn_errors := start_errors task_input ?t\<rparr>)"
    have step: "turn_step task_input outcome ?t = (Inr (), ?stop)"
      using False by (simp add: turn_step_def turn_start_new) (simp add: new_turn_def)
    have ended: "turn_terminal ?stop" "turn_receipt ?stop \<noteq> None" by (simp_all add: finish_def)
    have "run_loop rest ?stop = Some ?stop" using ended(1) by (cases rest) simp_all
    then have "turn_run task_input outcomes ?t = Some (the (turn_receipt ?stop), ?stop)"
      by (simp add: turn_run_def outs step) (simp add: new_turn_def)
    then show ?thesis using ended by auto
  qed
qed

theorem control_turn_run_terminates_witness:
  "\<exists>receipt t. turn_run (PStr demo_task) (replicate 9 (Failed (PyException ''OSError'' ''gone''))) demo_turn = Some (receipt, t)
    \<and> turn_terminal t \<and> turn_receipt t = Some receipt"
  unfolding demo_turn_def by (rule control_turn_run_terminates) (simp add: defers_def)

lemma run_loop_terminal: "run_loop outcomes t = Some t' \<Longrightarrow> turn_terminal t'"
proof (induction outcomes t rule: run_loop.induct)
  case (1 t)
  then show ?case by (simp split: if_splits)
next
  case (2 outcome outcomes t)
  consider "turn_terminal t" | "\<not> turn_terminal t" "turn_waiting t" | "\<not> turn_terminal t" "\<not> turn_waiting t" by blast
  then show ?case
  proof cases
    case 1
    then show ?thesis using "2.prems" by simp
  next
    case waiting: 2
    then show ?thesis using "2.prems" "2.IH"(1) [OF waiting] by (cases outcomes) simp_all
  next
    case running: 3
    then show ?thesis using "2.prems" "2.IH"(2) [OF running] by simp
  qed
qed

lemma turn_run_spent:
  assumes "turn_run task_input outcomes t = Some (receipt, t')"
  shows "turn_started t' \<or> turn_terminal t'"
proof (cases "turn_started t \<or> turn_terminal t")
  case True
  then show ?thesis using assms by (auto simp: turn_run_def)
next
  case False
  show ?thesis
  proof (cases outcomes)
    case Nil
    then show ?thesis using assms False by (auto simp: turn_run_def turn_start_def Let_def finish_def split: if_splits)
  next
    case (Cons outcome rest)
    then have "run_loop rest (snd (turn_step task_input outcome t)) = Some t'"
      using assms False by (auto simp: turn_run_def)
    then show ?thesis using run_loop_terminal by blast
  qed
qed

text \<open>
  C39: A control turn can be run once: after any run that returned, a second run makes no callback, leaves
  the turn as it is and answers with a control-failed receipt that names the repeated dispatch as its
  only error and reports no action, no decision and no submission.
\<close>

theorem control_turn_second_run_refused:
  assumes "turn_run task_input outcomes t = Some (receipt, t')"
  shows "\<exists>second. turn_run task_input' outcomes' t' = Some (second, t')
    \<and> dget second ''terminal_state'' = PStr ''control-failed'' \<and> dget second ''errors'' = PList [PStr ''control-turn-already-dispatched'']
    \<and> dget second ''actions'' = PList [] \<and> dget second ''decisions'' = PList [] \<and> dget second ''submission_id'' = PNone"
  using turn_run_spent [OF assms] by (auto simp: turn_run_def already_dispatched_receipt_def)

lemma demo_refused_run:
  "\<exists>receipt t'. turn_run PNone [] (new_turn PNone None) = Some (receipt, t')"
  by (simp add: turn_run_def turn_start_def new_turn_def start_errors_def Let_def finish_def)

theorem control_turn_second_run_refused_witness:
  "\<exists>receipt t' second. turn_run PNone [] (new_turn PNone None) = Some (receipt, t')
    \<and> turn_run (PStr demo_task) [] t' = Some (second, t') \<and> dget second ''terminal_state'' = PStr ''control-failed''"
  using demo_refused_run control_turn_second_run_refused by blast

lemma contract_input_errors:
  assumes "validate_control_turn_contract (PDict d) = []"
  shows "nonempty_text (dget d ''state_file'') \<and> path_is_absolute (the_str (dget d ''state_file''))
    \<and> nonempty_text (dget d ''agent_id'') \<and> nonempty_text (dget d ''control_turn_id'')
    \<and> is_sha256 (dget d ''task_sha256'') \<and> is_int_ge 1 (dget d ''poll_interval_ms'')"
  using assms by (simp add: validate_control_turn_contract_def Let_def)

text \<open>
  The contract builder is total on its argument types: for a nonempty absolute state file, nonempty
  worker and turn ids, a well-formed task digest and a positive interval it returns a contract that the
  validator accepts, sealed with the digest of its other fields; for any other arguments it raises
  ValueError, and never returns a contract that a turn would refuse.
\<close>

theorem control_contract_build_total:
  "if nonempty_text (PStr state_file) \<and> path_is_absolute state_file \<and> nonempty_text (PStr agent_id)
      \<and> nonempty_text (PStr control_turn_id) \<and> hex64 task_sha256 \<and> 0 < poll_interval_ms
   then \<exists>d. build_control_turn_contract state_file agent_id control_turn_id task_sha256 poll_interval_ms = Inr d
      \<and> validate_control_turn_contract (PDict d) = []
      \<and> dget d ''contract_sha256'' = PStr (canonical_sha256 (PDict (dpop d ''contract_sha256'')))
   else \<exists>detail. build_control_turn_contract state_file agent_id control_turn_id task_sha256 poll_interval_ms
      = Inl (PyException ''ValueError'' (''invalid control-turn contract: '' @ detail))"
  (is "if ?ok then _ else _")
proof -
  let ?payload = "[(''contract_type'', PStr CONTROL_CONTRACT_TYPE), (''version'', PInt 1),
            (''state_file'', PStr state_file), (''agent_id'', PStr agent_id),
            (''control_turn_id'', PStr control_turn_id), (''task_sha256'', PStr task_sha256),
            (''poll_interval_ms'', PInt poll_interval_ms), (''allowed_actions'', PList (map PStr ALLOWED_ACTIONS))]"
  let ?d = "dset ?payload ''contract_sha256'' (PStr (canonical_sha256 (PDict ?payload)))"
  have built: "build_control_turn_contract state_file agent_id control_turn_id task_sha256 poll_interval_ms =
      (if validate_control_turn_contract (PDict ?d) \<noteq> []
       then Inl (ValueError (''invalid control-turn contract: '' @ py_join ''; '' (validate_control_turn_contract (PDict ?d))))
       else Inr ?d)"
    by (simp only: build_control_turn_contract_def Let_def)
  have gets: "dget ?d ''state_file'' = PStr state_file" "dget ?d ''agent_id'' = PStr agent_id"
      "dget ?d ''control_turn_id'' = PStr control_turn_id" "dget ?d ''task_sha256'' = PStr task_sha256"
      "dget ?d ''poll_interval_ms'' = PInt poll_interval_ms"
    by simp_all
  have sealed: "dget ?d ''contract_sha256'' = PStr (canonical_sha256 (PDict (dpop ?d ''contract_sha256'')))"
    by (simp add: dpop_def)
  show ?thesis
  proof (cases ?ok)
    case True
    then have "validate_control_turn_contract (PDict ?d) = []" by (intro build_payload_valid) auto
    then show ?thesis using True built sealed by (simp del: dset.simps)
  next
    case False
    then have "validate_control_turn_contract (PDict ?d) \<noteq> []"
      using contract_input_errors [of ?d] unfolding gets by auto
    then show ?thesis using False built by (simp del: dset.simps add: ValueError_def)
  qed
qed

end
