(* ===== verification/ActivationLedger.thy ===== *)
theory ActivationLedger
  imports PoolContracts
begin

text \<open>
  \<^verbatim>\<open>scripts/cwo_core/native_activation_ledger.py\<close>: the one-shot activation ledger.  An entry
  list is replayed by a phase machine that fixes which event may come next for which role; a ledger is
  valid when its header, its entry chain, its replay and its seal are.  The store keeps the ledger file
  as a JSON value and the audit file as text; the file system appears as the outcomes of the lock, of
  the replacement of the ledger file and of the audit write.
\<close>

section \<open>Values\<close>

datatype ledger_error = LedgerError string | UnhashableType string

text \<open>\<^verbatim>\<open>str(exc)\<close> of a failure.\<close>

definition ledger_error_text :: "ledger_error \<Rightarrow> string" where
  "ledger_error_text e = (case e of LedgerError message \<Rightarrow> message
     | UnhashableType name \<Rightarrow> ''unhashable type: '' @ [CHR 0x27] @ name @ [CHR 0x27])"

definition LEDGER_TYPE :: string where
  "LEDGER_TYPE = ''cwo-native-tool-activation-ledger''"

definition LEDGER_SCHEMA :: string where
  "LEDGER_SCHEMA = ''schemas/native-tool-activation-ledger.schema.json''"

definition PROFILE_ROLES :: "(string \<times> string list) list" where
  "PROFILE_ROLES =
     [(''n1-read-only'', [''calibration'', ''read-only-0'']),
      (''n2-read-only'', [''calibration'', ''read-only-0'', ''read-only-1'']),
      (''n1-mutable'', [''calibration'', ''mutable-0''])]"

definition ACTIVATION_EVENTS :: "string list" where
  "ACTIVATION_EVENTS =
     [''claim-acquired'', ''approval-consume-intent'', ''approval-verified'', ''activation-dispatch-intent'',
      ''allocation-intent'', ''thread-bound'', ''turn-intent'', ''turn-bound'', ''terminal'']"

definition LEDGER_FIELDS :: "string list" where
  "LEDGER_FIELDS =
     [''ledger_type'', ''version'', ''schema'', ''ledger_id'', ''profile'', ''plan_sha256'', ''claim_sha256'',
      ''action_sha256'', ''campaign_nonce'', ''expected_roles'', ''created_at'', ''entries'',
      ''head_entry_sha256'', ''ledger_sha256'']"

definition ENTRY_FIELDS :: "string list" where
  "ENTRY_FIELDS =
     [''sequence'', ''event'', ''recorded_at'', ''role'', ''intent_id'', ''subject_id'', ''detail_sha256'',
      ''previous_entry_sha256'', ''entry_sha256'']"

definition activation_text :: "pyval \<Rightarrow> string" where
  "activation_text value = json_text False value"

definition canonical_activation_sha256 :: "pyval \<Rightarrow> (ledger_error, string) res" where
  "canonical_activation_sha256 value =
     (if finite_json value then Inr (text_sha256 (activation_text value))
      else Inl (LedgerError ''activation-value-not-canonical-json''))"

text \<open>
  \<^verbatim>\<open>str(uuid.UUID(value)) == value\<close>: only the canonical lower-case form with dashes is
  equal to what the constructor prints.
\<close>

definition uuid_text :: "string \<Rightarrow> bool" where
  "uuid_text s \<longleftrightarrow> map length (split_on (CHR ''-'') s) = [8, 4, 4, 4, 12]
     \<and> list_all (list_all is_hex_char) (split_on (CHR ''-'') s)"

definition is_uuid :: "pyval \<Rightarrow> bool" where
  "is_uuid value = (case value of PStr s \<Rightarrow> uuid_text s | _ \<Rightarrow> False)"

text \<open>\<^verbatim>\<open>value in NAMES\<close>: hashing a list or a dictionary raises.\<close>

definition hashed_member :: "pyval \<Rightarrow> string list \<Rightarrow> (ledger_error, bool) res" where
  "hashed_member value names =
     (case value of
        PList _ \<Rightarrow> Inl (UnhashableType ''list'')
      | PDict _ \<Rightarrow> Inl (UnhashableType ''dict'')
      | _ \<Rightarrow> Inr (in_strs value names))"

section \<open>Entries and their replay\<close>

definition entry_unsigned ::
    "nat \<Rightarrow> string \<Rightarrow> string option \<Rightarrow> string option \<Rightarrow> string option \<Rightarrow> string \<Rightarrow> pyval \<Rightarrow> string \<Rightarrow> pydict" where
  "entry_unsigned sequence event role intent_id subject_id detail_sha256 previous_entry_sha256 recorded_at =
     [(''sequence'', PInt (int sequence)), (''event'', PStr event), (''recorded_at'', PStr recorded_at),
      (''role'', opt_str role), (''intent_id'', opt_str intent_id), (''subject_id'', opt_str subject_id),
      (''detail_sha256'', PStr detail_sha256), (''previous_entry_sha256'', previous_entry_sha256)]"

definition validate_entry_shape :: "pyval \<Rightarrow> nat \<Rightarrow> (ledger_error, pydict) res" where
  "validate_entry_shape entry sequence =
     (case entry of
        PDict d \<Rightarrow>
          rbind (ensure (set (dkeys d) = set ENTRY_FIELDS) (LedgerError ''activation-ledger-entry-fields-invalid'')) (\<lambda>_.
          rbind (ensure (py_eq (dget d ''sequence'') (PInt (int sequence)))
                   (LedgerError ''activation-ledger-entry-header-invalid'')) (\<lambda>_.
          rbind (hashed_member (dget d ''event'') ACTIVATION_EVENTS) (\<lambda>known.
          rbind (ensure known (LedgerError ''activation-ledger-entry-header-invalid'')) (\<lambda>_.
          rbind (ensure (is_sha256 (dget d ''detail_sha256'')) (LedgerError ''activation-ledger-entry-detail-sha256-invalid'')) (\<lambda>_.
          rbind (ensure (is_sha256 (dget d ''entry_sha256'')) (LedgerError ''activation-ledger-entry-entry-sha256-invalid'')) (\<lambda>_.
          rbind (canonical_activation_sha256 (PDict (dpop d ''entry_sha256''))) (\<lambda>computed.
          rbind (ensure (dget d ''entry_sha256'' = PStr computed) (LedgerError ''activation-ledger-entry-sha256-mismatch'')) (\<lambda>_.
          Inr d))))))))
      | _ \<Rightarrow> Inl (LedgerError ''activation-ledger-entry-fields-invalid''))"

datatype ledger_phase =
    New | Claimed | ApprovalIntent | ApprovalVerified | Allocating
  | CalibrationTurning | WorkerTurning | Dispatched | Ended

definition ledger_phase_text :: "ledger_phase \<Rightarrow> string" where
  "ledger_phase_text phase =
     (case phase of New \<Rightarrow> ''new'' | Claimed \<Rightarrow> ''claimed'' | ApprovalIntent \<Rightarrow> ''approval-intent''
      | ApprovalVerified \<Rightarrow> ''approval-verified'' | Allocating \<Rightarrow> ''allocating''
      | CalibrationTurning \<Rightarrow> ''calibration-turning'' | WorkerTurning \<Rightarrow> ''worker-turning''
      | Dispatched \<Rightarrow> ''dispatched'' | Ended \<Rightarrow> ''terminal'')"

record replay_state =
  replay_phase :: ledger_phase
  head_sha256 :: "string option"
  allocation_index :: nat
  pending_allocation :: "(string \<times> string) option"
  thread_by_role :: "string \<Rightarrow> string option"
  turn_index :: nat
  pending_turn :: "(string option \<times> string option \<times> string option) option"
  replay_terminal :: bool

definition replay_start :: replay_state where
  "replay_start = \<lparr>replay_phase = New, head_sha256 = None, allocation_index = 0, pending_allocation = None,
     thread_by_role = (\<lambda>_. None), turn_index = 0, pending_turn = None, replay_terminal = False\<rparr>"

text \<open>
  \<^verbatim>\<open>str(value)\<close> where the result is compared with roles and identifiers only: the text of
  any value other than a string or \<^verbatim>\<open>None\<close> is neither.
\<close>

definition name_text :: "pyval \<Rightarrow> string option" where
  "name_text value = (case value of PStr s \<Rightarrow> Some s | PNone \<Rightarrow> Some ''None'' | _ \<Rightarrow> None)"

definition thread_of :: "replay_state \<Rightarrow> pyval \<Rightarrow> string option" where
  "thread_of s role = Option.bind (name_text role) (thread_by_role s)"

definition header_event ::
    "ledger_phase \<Rightarrow> ledger_phase \<Rightarrow> string \<Rightarrow> pyval \<Rightarrow> pyval \<Rightarrow> pyval \<Rightarrow> replay_state \<Rightarrow> (ledger_error, replay_state) res" where
  "header_event before after message role intent_id subject_id s =
     rbind (ensure (replay_phase s = before \<and> role = PNone \<and> intent_id = PNone \<and> subject_id = PNone) (LedgerError message)) (\<lambda>_.
     Inr (s\<lparr>replay_phase := after\<rparr>))"

definition replay_allocation_intent ::
    "string list \<Rightarrow> pyval \<Rightarrow> pyval \<Rightarrow> pyval \<Rightarrow> replay_state \<Rightarrow> (ledger_error, replay_state) res" where
  "replay_allocation_intent expected_roles role intent_id subject_id s =
     rbind (ensure (replay_phase s = Allocating \<and> pending_allocation s = None
              \<and> allocation_index s < length expected_roles \<and> role = PStr (expected_roles ! allocation_index s)
              \<and> is_uuid intent_id \<and> subject_id = PNone)
              (LedgerError ''activation-ledger-allocation-intent-sequence-invalid'')) (\<lambda>_.
     Inr (s\<lparr>pending_allocation := Some (the_str role, the_str intent_id)\<rparr>))"

definition replay_thread_bound ::
    "string list \<Rightarrow> pyval \<Rightarrow> pyval \<Rightarrow> pyval \<Rightarrow> replay_state \<Rightarrow> (ledger_error, replay_state) res" where
  "replay_thread_bound expected_roles role intent_id subject_id s =
     rbind (ensure (replay_phase s = Allocating
              \<and> (\<exists>r i. pending_allocation s = Some (r, i) \<and> role = PStr r \<and> intent_id = PStr i) \<and> is_uuid subject_id)
              (LedgerError ''activation-ledger-thread-bind-sequence-invalid'')) (\<lambda>_.
     let s1 = s\<lparr>thread_by_role := (thread_by_role s)(the_str role \<mapsto> the_str subject_id),
              pending_allocation := None, allocation_index := Suc (allocation_index s)\<rparr>
     in Inr (if role = PStr ''calibration'' then s1\<lparr>replay_phase := CalibrationTurning\<rparr>
             else if allocation_index s1 = length expected_roles then s1\<lparr>replay_phase := WorkerTurning\<rparr>
             else s1))"

definition replay_turn_intent ::
    "string list \<Rightarrow> pyval \<Rightarrow> pyval \<Rightarrow> pyval \<Rightarrow> replay_state \<Rightarrow> (ledger_error, replay_state) res" where
  "replay_turn_intent turn_roles role intent_id subject_id s =
     (let expected_role = (if turn_index s < length turn_roles then PStr (turn_roles ! turn_index s) else PNone) in
      rbind (ensure (replay_phase s \<in> {CalibrationTurning, WorkerTurning} \<and> pending_turn s = None
               \<and> role = expected_role \<and> is_uuid intent_id \<and> subject_id = opt_str (thread_of s role))
               (LedgerError ''activation-ledger-turn-intent-sequence-invalid'')) (\<lambda>_.
      Inr (s\<lparr>pending_turn := Some (name_text role, name_text intent_id, name_text subject_id)\<rparr>)))"

definition replay_turn_bound ::
    "string list \<Rightarrow> pyval \<Rightarrow> pyval \<Rightarrow> pyval \<Rightarrow> replay_state \<Rightarrow> (ledger_error, replay_state) res" where
  "replay_turn_bound turn_roles role intent_id subject_id s =
     rbind (ensure (replay_phase s \<in> {CalibrationTurning, WorkerTurning}
              \<and> pending_turn s = Some (name_text role, name_text intent_id, thread_of s role) \<and> is_uuid subject_id)
              (LedgerError ''activation-ledger-turn-bind-sequence-invalid'')) (\<lambda>_.
     let s1 = s\<lparr>pending_turn := None, turn_index := Suc (turn_index s)\<rparr>
     in Inr (if role = PStr ''calibration'' then s1\<lparr>replay_phase := Allocating\<rparr>
             else if turn_index s1 = length turn_roles then s1\<lparr>replay_phase := Dispatched\<rparr>
             else s1))"

definition replay_terminal_event :: "pyval \<Rightarrow> pyval \<Rightarrow> replay_state \<Rightarrow> (ledger_error, replay_state) res" where
  "replay_terminal_event role intent_id s =
     rbind (ensure (replay_phase s \<noteq> New \<and> role = PNone \<and> intent_id = PNone)
              (LedgerError ''activation-ledger-terminal-sequence-invalid'')) (\<lambda>_.
     Inr (s\<lparr>replay_terminal := True, replay_phase := Ended\<rparr>))"

definition replay_event ::
    "string list \<Rightarrow> string \<Rightarrow> pyval \<Rightarrow> pyval \<Rightarrow> pyval \<Rightarrow> replay_state \<Rightarrow> (ledger_error, replay_state) res" where
  "replay_event expected_roles event role intent_id subject_id s =
     (if event = ''claim-acquired'' then
        header_event New Claimed ''activation-ledger-claim-sequence-invalid'' role intent_id subject_id s
      else if event = ''approval-consume-intent'' then
        header_event Claimed ApprovalIntent ''activation-ledger-approval-intent-sequence-invalid'' role intent_id subject_id s
      else if event = ''approval-verified'' then
        header_event ApprovalIntent ApprovalVerified ''activation-ledger-approval-sequence-invalid'' role intent_id subject_id s
      else if event = ''activation-dispatch-intent'' then
        header_event ApprovalVerified Allocating ''activation-ledger-dispatch-intent-sequence-invalid'' role intent_id subject_id s
      else if event = ''allocation-intent'' then replay_allocation_intent expected_roles role intent_id subject_id s
      else if event = ''thread-bound'' then replay_thread_bound expected_roles role intent_id subject_id s
      else if event = ''turn-intent'' then replay_turn_intent expected_roles role intent_id subject_id s
      else if event = ''turn-bound'' then replay_turn_bound expected_roles role intent_id subject_id s
      else if event = ''terminal'' then replay_terminal_event role intent_id s
      else Inr s)"

definition replay_entry :: "string list \<Rightarrow> replay_state \<Rightarrow> nat \<times> pyval \<Rightarrow> (ledger_error, replay_state) res" where
  "replay_entry expected_roles s item =
     (case item of (sequence, raw) \<Rightarrow>
        rbind (validate_entry_shape raw sequence) (\<lambda>entry.
        rbind (ensure (py_eq (dget entry ''previous_entry_sha256'') (opt_str (head_sha256 s)))
                 (LedgerError ''activation-ledger-entry-chain-invalid'')) (\<lambda>_.
        rbind (ensure (\<not> replay_terminal s) (LedgerError ''activation-ledger-event-after-terminal'')) (\<lambda>_.
        rbind (replay_event expected_roles (the_str (dget entry ''event'')) (dget entry ''role'')
                 (dget entry ''intent_id'') (dget entry ''subject_id'') s) (\<lambda>s1.
        Inr (s1\<lparr>head_sha256 := Some (the_str (dget entry ''entry_sha256''))\<rparr>))))))"

definition replay_entries :: "string list \<Rightarrow> pyval list \<Rightarrow> (ledger_error, replay_state) res" where
  "replay_entries expected_roles entries = foldM (replay_entry expected_roles) replay_start (index_from 0 entries)"

section \<open>The ledger\<close>

definition profile_roles :: "pyval \<Rightarrow> string list" where
  "profile_roles profile = the (map_of PROFILE_ROLES (the_str profile))"

definition check_activation_ledger :: "pyval \<Rightarrow> (ledger_error, unit) res" where
  "check_activation_ledger ledger =
     (case ledger of
        PDict d \<Rightarrow>
          rbind (ensure (set (dkeys d) = set LEDGER_FIELDS) (LedgerError ''activation-ledger-fields-invalid'')) (\<lambda>_.
          rbind (ensure (py_eq (dget d ''ledger_type'') (PStr LEDGER_TYPE) \<and> py_eq (dget d ''version'') (PInt 1)
                   \<and> py_eq (dget d ''schema'') (PStr LEDGER_SCHEMA)) (LedgerError ''activation-ledger-header-invalid'')) (\<lambda>_.
          rbind (ensure (is_uuid (dget d ''ledger_id'')) (LedgerError ''activation-ledger-id-invalid'')) (\<lambda>_.
          rbind (hashed_member (dget d ''profile'') (map fst PROFILE_ROLES)) (\<lambda>known.
          rbind (ensure known (LedgerError ''activation-ledger-profile-invalid'')) (\<lambda>_.
          rbind (ensure (py_eq (dget d ''expected_roles'') (PList (map PStr (profile_roles (dget d ''profile'')))))
                   (LedgerError ''activation-ledger-roles-invalid'')) (\<lambda>_.
          rbind (mapM (\<lambda>field. ensure (is_sha256 (dget d field)) (LedgerError (''activation-ledger-'' @ dashed field @ ''-invalid'')))
                   [''plan_sha256'', ''claim_sha256'', ''action_sha256'']) (\<lambda>_.
          rbind (ensure (is_uuid (dget d ''campaign_nonce'')) (LedgerError ''activation-ledger-campaign-nonce-invalid'')) (\<lambda>_.
          rbind (ensure (is_list (dget d ''entries'')) (LedgerError ''activation-ledger-entries-invalid'')) (\<lambda>_.
          rbind (replay_entries (profile_roles (dget d ''profile'')) (the_list (dget d ''entries''))) (\<lambda>replay.
          rbind (ensure (py_eq (dget d ''head_entry_sha256'') (opt_str (head_sha256 replay)))
                   (LedgerError ''activation-ledger-head-invalid'')) (\<lambda>_.
          rbind (ensure (is_sha256 (dget d ''ledger_sha256'')) (LedgerError ''activation-ledger-sha256-mismatch'')) (\<lambda>_.
          rbind (canonical_activation_sha256 (PDict (dpop d ''ledger_sha256''))) (\<lambda>computed.
          ensure (dget d ''ledger_sha256'' = PStr computed) (LedgerError ''activation-ledger-sha256-mismatch''))))))))))))))
      | _ \<Rightarrow> Inl (LedgerError ''activation-ledger-fields-invalid''))"

definition validate_activation_ledger :: "pyval \<Rightarrow> string list" where
  "validate_activation_ledger ledger =
     (case check_activation_ledger ledger of Inl e \<Rightarrow> [ledger_error_text e] | Inr _ \<Rightarrow> [])"

definition seal_ledger :: "pydict \<Rightarrow> (ledger_error, pydict) res" where
  "seal_ledger ledger =
     (let unsealed = dpop ledger ''ledger_sha256'' in
      rbind (canonical_activation_sha256 (PDict unsealed)) (\<lambda>sha256.
      let sealed = dset unsealed ''ledger_sha256'' (PStr sha256);
          errors = validate_activation_ledger (PDict sealed)
      in rbind (ensure (errors = []) (LedgerError (''activation-ledger-invalid:'' @ py_join '';'' errors))) (\<lambda>_.
         Inr sealed)))"

section \<open>The store\<close>

text \<open>
  The files: the JSON value of the ledger and the text of the audit trail, when they exist.  What the
  file system does during an operation: the lock or the read fails with an error; the replacement of the
  ledger fails before or after the new file is in place; the audit write stops after some characters.
\<close>

record ledger_store =
  ledger_file :: "pyval option"
  audit_file :: "string option"

datatype replace_outcome = Replaced | ReplaceFailed string | ReplacedThenFailed string

datatype audit_outcome = Audited | AuditFailed nat string

record ledger_io =
  io_lock :: "string option"
  io_replace :: replace_outcome
  io_audit :: audit_outcome
  io_now :: string

definition load_ledger :: "ledger_store \<Rightarrow> (ledger_error, pydict) res" where
  "load_ledger st =
     (case ledger_file st of
        None \<Rightarrow> Inl (LedgerError ''activation-ledger-read-failed'')
      | Some (PDict d) \<Rightarrow>
          (let errors = validate_activation_ledger (PDict d) in
           rbind (ensure (errors = []) (LedgerError (''activation-ledger-invalid:'' @ py_join '';'' errors))) (\<lambda>_. Inr d))
      | Some _ \<Rightarrow> Inl (LedgerError ''activation-ledger-object-required''))"

definition ledger_summary :: "ledger_store \<Rightarrow> (ledger_error, pydict) res" where
  "ledger_summary st =
     rbind (load_ledger st) (\<lambda>ledger.
     rbind (replay_entries (profile_roles (dget ledger ''profile'')) (the_list (dget ledger ''entries''))) (\<lambda>replay.
     Inr [(''phase'', PStr (ledger_phase_text (replay_phase replay))),
          (''pending_allocation'', PBool (pending_allocation replay \<noteq> None)),
          (''pending_turn'', PBool (pending_turn replay \<noteq> None)),
          (''terminal'', PBool (replay_terminal replay))]))"

text \<open>An event with its arguments, as a caller gives them.\<close>

record ledger_request =
  req_event :: string
  req_role :: "string option"
  req_intent_id :: "string option"
  req_subject_id :: "string option"
  req_detail :: pydict
  req_recorded_at :: "string option"

definition or_now :: "string option \<Rightarrow> string \<Rightarrow> string" where
  "or_now supplied now = (case supplied of Some s \<Rightarrow> if s = [] then now else s | None \<Rightarrow> now)"

text \<open>The entry that an append adds to a ledger, and the ledger with it, before the seal.\<close>

definition next_entry :: "ledger_request \<Rightarrow> string \<Rightarrow> string \<Rightarrow> pydict \<Rightarrow> (ledger_error, pydict) res" where
  "next_entry request detail_sha256 now ledger =
     (let unsigned = entry_unsigned (length (the_list (dget ledger ''entries''))) (req_event request) (req_role request)
            (req_intent_id request) (req_subject_id request) detail_sha256 (dget ledger ''head_entry_sha256'')
            (or_now (req_recorded_at request) now)
      in rbind (canonical_activation_sha256 (PDict unsigned)) (\<lambda>sha256.
         Inr (unsigned @ [(''entry_sha256'', PStr sha256)])))"

definition plan_append :: "ledger_request \<Rightarrow> string \<Rightarrow> pydict \<Rightarrow> (ledger_error, pydict \<times> pydict) res" where
  "plan_append request now ledger =
     rbind (canonical_activation_sha256 (PDict (req_detail request))) (\<lambda>detail_sha256.
     rbind (next_entry request detail_sha256 now ledger) (\<lambda>entry.
     let candidate_entries = the_list (dget ledger ''entries'') @ [PDict entry] in
     rbind (replay_entries (profile_roles (dget ledger ''profile'')) candidate_entries) (\<lambda>_.
     rbind (seal_ledger (dset (dset ledger ''entries'' (PList candidate_entries))
              ''head_entry_sha256'' (dget entry ''entry_sha256''))) (\<lambda>sealed.
     Inr (entry, sealed)))))"

definition audit_line :: "pydict \<Rightarrow> string" where
  "audit_line entry = activation_text (PDict entry) @ [CHR 0x0A]"

definition ledger_append :: "ledger_io \<Rightarrow> ledger_request \<Rightarrow> ledger_store \<Rightarrow> (ledger_error, pydict) res \<times> ledger_store" where
  "ledger_append io request st =
     (case rbind (ensure (req_event request \<in> set ACTIVATION_EVENTS) (LedgerError ''activation-ledger-event-invalid'')) (\<lambda>_.
           rbind (canonical_activation_sha256 (PDict (req_detail request))) (\<lambda>_.
           rbind (case io_lock io of None \<Rightarrow> Inr () | Some message \<Rightarrow> Inl (LedgerError message)) (\<lambda>_.
           rbind (load_ledger st) (plan_append request (io_now io))))) of
        Inl e \<Rightarrow> (Inl e, st)
      | Inr (entry, sealed) \<Rightarrow>
          (case io_replace io of
             ReplaceFailed message \<Rightarrow> (Inl (LedgerError message), st)
           | ReplacedThenFailed message \<Rightarrow> (Inl (LedgerError message), st\<lparr>ledger_file := Some (PDict sealed)\<rparr>)
           | Replaced \<Rightarrow>
               (let st1 = st\<lparr>ledger_file := Some (PDict sealed)\<rparr> in
                case audit_file st of
                  None \<Rightarrow> (Inl (LedgerError ''activation-ledger-audit-write-failed''), st1)
                | Some audit \<Rightarrow>
                    (case io_audit io of
                       AuditFailed n message \<Rightarrow>
                         (Inl (LedgerError message), st1\<lparr>audit_file := Some (audit @ take n (audit_line entry))\<rparr>)
                     | Audited \<Rightarrow> (Inr entry, st1\<lparr>audit_file := Some (audit @ audit_line entry)\<rparr>)))))"

text \<open>Creating a store in a directory; the writes fail when the files are there already.\<close>

definition claim_request :: "string \<Rightarrow> ledger_request" where
  "claim_request claim_sha256 =
     \<lparr>req_event = ''claim-acquired'', req_role = None, req_intent_id = None, req_subject_id = None,
      req_detail = [(''claim_sha256'', PStr claim_sha256)], req_recorded_at = None\<rparr>"

definition empty_ledger ::
    "string \<Rightarrow> string \<Rightarrow> string \<Rightarrow> string \<Rightarrow> string \<Rightarrow> string \<Rightarrow> string \<Rightarrow> pydict" where
  "empty_ledger ledger_id profile plan_sha256 claim_sha256 action_sha256 campaign_nonce created_at =
     [(''ledger_type'', PStr LEDGER_TYPE), (''version'', PInt 1), (''schema'', PStr LEDGER_SCHEMA),
      (''ledger_id'', PStr ledger_id), (''profile'', PStr profile), (''plan_sha256'', PStr plan_sha256),
      (''claim_sha256'', PStr claim_sha256), (''action_sha256'', PStr action_sha256),
      (''campaign_nonce'', PStr campaign_nonce),
      (''expected_roles'', PList (map PStr (profile_roles (PStr profile)))), (''created_at'', PStr created_at),
      (''entries'', PList []), (''head_entry_sha256'', PNone)]"

definition create_ledger ::
    "ledger_io \<Rightarrow> string \<Rightarrow> string \<Rightarrow> string \<Rightarrow> string \<Rightarrow> string \<Rightarrow> string \<Rightarrow> string option \<Rightarrow> ledger_store
       \<Rightarrow> (ledger_error, unit) res \<times> ledger_store" where
  "create_ledger io ledger_id profile plan_sha256 claim_sha256 action_sha256 campaign_nonce created_at st =
     (if profile \<notin> set (map fst PROFILE_ROLES) then (Inl (LedgerError ''activation-ledger-profile-invalid''), st)
      else case seal_ledger (empty_ledger ledger_id profile plan_sha256 claim_sha256 action_sha256 campaign_nonce
                  (or_now created_at (io_now io))) of
        Inl e \<Rightarrow> (Inl e, st)
      | Inr sealed \<Rightarrow>
          (if ledger_file st \<noteq> None then (Inl (LedgerError ''activation-ledger-already-exists''), st)
           else
             let st1 = st\<lparr>ledger_file := Some (PDict sealed)\<rparr> in
             if audit_file st \<noteq> None then (Inl (LedgerError ''activation-ledger-audit-already-exists''), st1)
             else (case ledger_append io (claim_request claim_sha256) (st1\<lparr>audit_file := Some []\<rparr>) of
                     (Inl e, st2) \<Rightarrow> (Inl e, st2) | (Inr _, st2) \<Rightarrow> (Inr (), st2))))"

text \<open>The four operations of a supervisor; an identifier for an intent comes from \<^verbatim>\<open>uuid.uuid4\<close>.\<close>

definition allocation_intent :: "ledger_io \<Rightarrow> string \<Rightarrow> string \<Rightarrow> ledger_store \<Rightarrow> (ledger_error, string) res \<times> ledger_store" where
  "allocation_intent io new_uuid role st =
     (case ledger_append io \<lparr>req_event = ''allocation-intent'', req_role = Some role, req_intent_id = Some new_uuid,
          req_subject_id = None, req_detail = [(''role'', PStr role)], req_recorded_at = None\<rparr> st of
        (Inl e, st1) \<Rightarrow> (Inl e, st1) | (Inr _, st1) \<Rightarrow> (Inr new_uuid, st1))"

definition bind_thread :: "ledger_io \<Rightarrow> string \<Rightarrow> string \<Rightarrow> string \<Rightarrow> ledger_store \<Rightarrow> (ledger_error, unit) res \<times> ledger_store" where
  "bind_thread io allocation_intent_id role thread_id st =
     (case ledger_append io \<lparr>req_event = ''thread-bound'', req_role = Some role, req_intent_id = Some allocation_intent_id,
          req_subject_id = Some thread_id, req_detail = [(''thread_id'', PStr thread_id)], req_recorded_at = None\<rparr> st of
        (Inl e, st1) \<Rightarrow> (Inl e, st1) | (Inr _, st1) \<Rightarrow> (Inr (), st1))"

definition turn_intent ::
    "ledger_io \<Rightarrow> string \<Rightarrow> string \<Rightarrow> string \<Rightarrow> string \<Rightarrow> ledger_store \<Rightarrow> (ledger_error, string) res \<times> ledger_store" where
  "turn_intent io new_uuid role thread_id prompt st =
     (case ledger_append io \<lparr>req_event = ''turn-intent'', req_role = Some role, req_intent_id = Some new_uuid,
          req_subject_id = Some thread_id,
          req_detail = [(''thread_id'', PStr thread_id), (''prompt_sha256'', PStr (text_sha256 prompt))],
          req_recorded_at = None\<rparr> st of
        (Inl e, st1) \<Rightarrow> (Inl e, st1) | (Inr _, st1) \<Rightarrow> (Inr new_uuid, st1))"

definition bind_turn :: "ledger_io \<Rightarrow> string \<Rightarrow> string \<Rightarrow> string \<Rightarrow> ledger_store \<Rightarrow> (ledger_error, unit) res \<times> ledger_store" where
  "bind_turn io role turn_intent_id turn_id st =
     (case ledger_append io \<lparr>req_event = ''turn-bound'', req_role = Some role, req_intent_id = Some turn_intent_id,
          req_subject_id = Some turn_id, req_detail = [(''turn_id'', PStr turn_id)], req_recorded_at = None\<rparr> st of
        (Inl e, st1) \<Rightarrow> (Inl e, st1) | (Inr _, st1) \<Rightarrow> (Inr (), st1))"

end
