(* ===== verification/ActivationLedgerInvariant.thy ===== *)
theory ActivationLedgerInvariant
  imports ActivationLedger "HOL-Library.Sublist"
begin

text \<open>
  What acceptance of an entry and of a ledger means, the fixed script of events of a profile as the
  reference description of an activation, and the invariants of the replay: where it stands in the
  script, and which threads the entries have bound.
\<close>

lemma hashed_member_eq_Inr: "hashed_member v names = Inr b \<longleftrightarrow> \<not> is_list v \<and> \<not> is_dict v \<and> b = in_strs v names"
  by (cases v) (auto simp: hashed_member_def)

lemma hashed_member_True: "hashed_member v names = Inr True \<longleftrightarrow> in_strs v names"
  by (cases v) (auto simp: hashed_member_def in_strs_def)

lemma hashed_member_ex: "(\<exists>x. hashed_member v names = Inr x \<and> x) \<longleftrightarrow> in_strs v names"
  using hashed_member_True [of v names] by metis

lemma canonical_activation_Inr:
  "canonical_activation_sha256 v = Inr h \<longleftrightarrow> finite_json v \<and> h = text_sha256 (activation_text v)"
  by (auto simp: canonical_activation_sha256_def)

text \<open>What acceptance of an entry and of a ledger means.\<close>

definition entry_ok :: "nat \<Rightarrow> pydict \<Rightarrow> bool" where
  "entry_ok sequence d \<longleftrightarrow> set (dkeys d) = set ENTRY_FIELDS \<and> py_eq (dget d ''sequence'') (PInt (int sequence))
     \<and> in_strs (dget d ''event'') ACTIVATION_EVENTS \<and> is_sha256 (dget d ''detail_sha256'')
     \<and> finite_json (PDict (dpop d ''entry_sha256''))
     \<and> dget d ''entry_sha256'' = PStr (text_sha256 (activation_text (PDict (dpop d ''entry_sha256''))))"

lemma validate_entry_shape_Inr:
  "validate_entry_shape raw n = Inr d \<longleftrightarrow> raw = PDict d \<and> entry_ok n d"
  by (cases raw)
     (auto simp: validate_entry_shape_def entry_ok_def rbind_eq_Inr ensure_eq_Inr hashed_member_ex hashed_member_True canonical_activation_Inr)

lemma replay_entry_Inr:
  "replay_entry roles s (n, raw) = Inr s' \<longleftrightarrow>
     (\<exists>d s1. raw = PDict d \<and> entry_ok n d \<and> py_eq (dget d ''previous_entry_sha256'') (opt_str (head_sha256 s))
        \<and> \<not> replay_terminal s
        \<and> replay_event roles (the_str (dget d ''event'')) (dget d ''role'') (dget d ''intent_id'') (dget d ''subject_id'') s = Inr s1
        \<and> s' = s1\<lparr>head_sha256 := Some (the_str (dget d ''entry_sha256''))\<rparr>)"
  by (auto simp: replay_entry_def rbind_eq_Inr ensure_eq_Inr validate_entry_shape_Inr)

definition header_ok :: "pydict \<Rightarrow> bool" where
  "header_ok d \<longleftrightarrow> py_eq (dget d ''ledger_type'') (PStr LEDGER_TYPE) \<and> py_eq (dget d ''version'') (PInt 1)
     \<and> py_eq (dget d ''schema'') (PStr LEDGER_SCHEMA) \<and> is_uuid (dget d ''ledger_id'')
     \<and> in_strs (dget d ''profile'') (map fst PROFILE_ROLES)
     \<and> py_eq (dget d ''expected_roles'') (PList (map PStr (profile_roles (dget d ''profile''))))
     \<and> is_sha256 (dget d ''plan_sha256'') \<and> is_sha256 (dget d ''claim_sha256'') \<and> is_sha256 (dget d ''action_sha256'')
     \<and> is_uuid (dget d ''campaign_nonce'')"

definition ledger_ok :: "pydict \<Rightarrow> bool" where
  "ledger_ok d \<longleftrightarrow> set (dkeys d) = set LEDGER_FIELDS \<and> header_ok d \<and> is_list (dget d ''entries'')
     \<and> (\<exists>replay. replay_entries (profile_roles (dget d ''profile'')) (the_list (dget d ''entries'')) = Inr replay
          \<and> py_eq (dget d ''head_entry_sha256'') (opt_str (head_sha256 replay)))
     \<and> finite_json (PDict (dpop d ''ledger_sha256''))
     \<and> dget d ''ledger_sha256'' = PStr (text_sha256 (activation_text (PDict (dpop d ''ledger_sha256''))))"

lemma check_activation_ledger_Inr:
  "check_activation_ledger (PDict d) = Inr () \<longleftrightarrow> ledger_ok d"
  by (auto simp: check_activation_ledger_def ledger_ok_def header_ok_def rbind_eq_Inr ensure_eq_Inr hashed_member_ex hashed_member_True
      canonical_activation_Inr)

lemma validate_activation_ledger_Nil: "validate_activation_ledger (PDict d) = [] \<longleftrightarrow> ledger_ok d"
  using check_activation_ledger_Inr [of d]
  by (cases "check_activation_ledger (PDict d)") (auto simp: validate_activation_ledger_def)

lemma load_ledger_Inr: "load_ledger st = Inr d \<longleftrightarrow> ledger_file st = Some (PDict d) \<and> ledger_ok d"
  by (cases "ledger_file st")
     (auto simp: load_ledger_def rbind_eq_Inr ensure_eq_Inr validate_activation_ledger_Nil Let_def split: pyval.splits)

lemma seal_ledger_Inr:
  "seal_ledger d = Inr s \<longleftrightarrow> finite_json (PDict (dpop d ''ledger_sha256''))
     \<and> s = dset (dpop d ''ledger_sha256'') ''ledger_sha256''
          (PStr (text_sha256 (activation_text (PDict (dpop d ''ledger_sha256''))))) \<and> ledger_ok s"
  by (auto simp: seal_ledger_def Let_def rbind_eq_Inr ensure_eq_Inr canonical_activation_Inr validate_activation_ledger_Nil)

lemma seal_ledger_fields: "seal_ledger d = Inr s \<Longrightarrow> k \<noteq> ''ledger_sha256'' \<Longrightarrow> dget s k = dget d k"
  by (auto simp: seal_ledger_Inr)

section \<open>The order of events\<close>

text \<open>
  The reference description of an activation: one fixed script per profile.  The header events, then the
  calibration thread and its turn, then the threads of the workers, then their turns.
\<close>

type_synonym event_label = "string \<times> pyval"

definition header_labels :: "event_label list" where
  "header_labels = map (\<lambda>event. (event, PNone))
     [''claim-acquired'', ''approval-consume-intent'', ''approval-verified'', ''activation-dispatch-intent'']"

definition allocations :: "string list \<Rightarrow> event_label list" where
  "allocations roles = concat (map (\<lambda>r. [(''allocation-intent'', PStr r), (''thread-bound'', PStr r)]) roles)"

definition turns :: "string list \<Rightarrow> event_label list" where
  "turns roles = concat (map (\<lambda>r. [(''turn-intent'', PStr r), (''turn-bound'', PStr r)]) roles)"

definition activation_script :: "string list \<Rightarrow> event_label list" where
  "activation_script roles = header_labels @ allocations (take 1 roles) @ turns (take 1 roles)
     @ allocations (drop 1 roles) @ turns (drop 1 roles)"

definition entry_label :: "pyval \<Rightarrow> event_label" where
  "entry_label entry = (the_str (dget (the_dict entry) ''event''), dget (the_dict entry) ''role'')"

definition pending_allocation_labels :: "replay_state \<Rightarrow> event_label list" where
  "pending_allocation_labels s =
     (case pending_allocation s of None \<Rightarrow> [] | Some (r, _) \<Rightarrow> [(''allocation-intent'', PStr r)])"

definition pending_turn_labels :: "replay_state \<Rightarrow> event_label list" where
  "pending_turn_labels s =
     (case pending_turn s of None \<Rightarrow> [] | Some (r, _) \<Rightarrow> [(''turn-intent'', PStr (the r))])"

definition calibrated :: "string list \<Rightarrow> event_label list" where
  "calibrated roles = header_labels @ allocations (take 1 roles) @ turns (take 1 roles)"

text \<open>Where a replay stands in the script.\<close>

definition at_position :: "string list \<Rightarrow> replay_state \<Rightarrow> event_label list \<Rightarrow> bool" where
  "at_position roles s labels \<longleftrightarrow>
     (case replay_phase s of
        New \<Rightarrow> labels = []
      | Claimed \<Rightarrow> labels = take 1 header_labels
      | ApprovalIntent \<Rightarrow> labels = take 2 header_labels
      | ApprovalVerified \<Rightarrow> labels = take 3 header_labels
      | Allocating \<Rightarrow> allocation_index s < length roles
          \<and> (allocation_index s = 0 \<and> turn_index s = 0 \<and> labels = header_labels @ pending_allocation_labels s
             \<or> 0 < allocation_index s \<and> turn_index s = 1
               \<and> labels = calibrated roles @ allocations (take (allocation_index s - 1) (drop 1 roles)) @ pending_allocation_labels s)
      | CalibrationTurning \<Rightarrow> allocation_index s = 1 \<and> turn_index s = 0
          \<and> labels = header_labels @ allocations (take 1 roles) @ pending_turn_labels s
      | WorkerTurning \<Rightarrow> allocation_index s = length roles \<and> 0 < turn_index s \<and> turn_index s < length roles
          \<and> labels = calibrated roles @ allocations (drop 1 roles) @ turns (take (turn_index s - 1) (drop 1 roles)) @ pending_turn_labels s
      | Dispatched \<Rightarrow> labels = activation_script roles
      | Ended \<Rightarrow> (\<exists>p. p \<noteq> [] \<and> prefix p (activation_script roles) \<and> labels = p @ [(''terminal'', PNone)]))"

definition position_inv :: "string list \<Rightarrow> replay_state \<Rightarrow> event_label list \<Rightarrow> bool" where
  "position_inv roles s labels \<longleftrightarrow> at_position roles s labels
     \<and> (replay_terminal s \<longleftrightarrow> replay_phase s = Ended)
     \<and> (replay_phase s \<in> {New, Claimed, ApprovalIntent, ApprovalVerified} \<longrightarrow> allocation_index s = 0 \<and> turn_index s = 0)
     \<and> (pending_allocation s = None \<or> replay_phase s \<in> {Allocating, Ended}
          \<and> fst (the (pending_allocation s)) = roles ! allocation_index s)
     \<and> (pending_turn s = None \<or> replay_phase s \<in> {CalibrationTurning, WorkerTurning, Ended}
          \<and> fst (the (pending_turn s)) = Some (roles ! turn_index s))"

definition profile_shape :: "string list \<Rightarrow> bool" where
  "profile_shape roles \<longleftrightarrow> (\<exists>ws. roles = ''calibration'' # ws \<and> ws \<noteq> [] \<and> ''calibration'' \<notin> set ws \<and> ''None'' \<notin> set roles)"

lemma profile_roles_shape: "in_strs profile (map fst PROFILE_ROLES) \<Longrightarrow> profile_shape (profile_roles profile)"
  by (auto simp: in_strs_iff PROFILE_ROLES_def profile_roles_def profile_shape_def)

lemma allocations_snoc: "allocations (rs @ [r]) = allocations rs @ [(''allocation-intent'', PStr r), (''thread-bound'', PStr r)]"
  by (simp add: allocations_def)

lemma turns_snoc: "turns (rs @ [r]) = turns rs @ [(''turn-intent'', PStr r), (''turn-bound'', PStr r)]"
  by (simp add: turns_def)

lemma allocations_Nil [simp]: "allocations [] = []" and turns_Nil [simp]: "turns [] = []"
  by (simp_all add: allocations_def turns_def)

lemma allocations_append: "allocations (xs @ ys) = allocations xs @ allocations ys"
  by (simp add: allocations_def)

lemma turns_append: "turns (xs @ ys) = turns xs @ turns ys"
  by (simp add: turns_def)

lemma in_strs_the_str: "in_strs v names \<Longrightarrow> v = PStr (the_str v) \<and> the_str v \<in> set names"
  by (auto simp: in_strs_iff)

lemma length_header_labels [simp]: "length header_labels = 4"
  by (simp add: header_labels_def)

lemmas position_defs = position_inv_def at_position_def

lemma early_position:
  assumes "position_inv roles s labels" and "replay_phase s \<in> {New, Claimed, ApprovalIntent, ApprovalVerified}"
  shows "pending_turn s = None \<and> pending_allocation s = None \<and> allocation_index s = 0 \<and> turn_index s = 0"
  using assms unfolding position_inv_def by (cases "replay_phase s") simp_all

lemma header_event_Inr:
  "header_event before after message role intent_id subject_id s = Inr s1 \<Longrightarrow>
     replay_phase s = before \<and> role = PNone \<and> s1 = s\<lparr>replay_phase := after\<rparr>"
  unfolding header_event_def rbind_eq_Inr ensure_eq_Inr sum.inject by blast

lemma position_headers:
  assumes inv: "position_inv roles s labels" and live: "\<not> replay_terminal s" and roles: "roles \<noteq> []"
  shows "replay_phase s = New \<Longrightarrow> position_inv roles (s\<lparr>replay_phase := Claimed\<rparr>) (labels @ [(''claim-acquired'', PNone)])"
    and "replay_phase s = Claimed \<Longrightarrow>
      position_inv roles (s\<lparr>replay_phase := ApprovalIntent\<rparr>) (labels @ [(''approval-consume-intent'', PNone)])"
    and "replay_phase s = ApprovalIntent \<Longrightarrow>
      position_inv roles (s\<lparr>replay_phase := ApprovalVerified\<rparr>) (labels @ [(''approval-verified'', PNone)])"
    and "replay_phase s = ApprovalVerified \<Longrightarrow>
      position_inv roles (s\<lparr>replay_phase := Allocating\<rparr>) (labels @ [(''activation-dispatch-intent'', PNone)])"
  using inv live roles early_position [OF inv]
  by (simp_all add: position_defs header_labels_def pending_allocation_labels_def eval_nat_numeral)

lemma position_allocation_intent:
  assumes "position_inv roles s labels" and "replay_allocation_intent roles role intent_id subject_id s = Inr s1"
  shows "position_inv roles s1 (labels @ [(''allocation-intent'', role)])"
  using assms
  by (auto simp: replay_allocation_intent_def rbind_eq_Inr ensure_eq_Inr position_defs pending_allocation_labels_def)

lemma position_thread_bound:
  assumes "position_inv roles s labels" and "replay_thread_bound roles role intent_id subject_id s = Inr s1"
    and shape: "profile_shape roles"
  shows "position_inv roles s1 (labels @ [(''thread-bound'', role)])"
proof -
  from shape obtain ws where ws: "roles = ''calibration'' # ws" "ws \<noteq> []" "''calibration'' \<notin> set ws"
    unfolding profile_shape_def by blast
  obtain r i where facts: "replay_phase s = Allocating" "pending_allocation s = Some (r, i)" "role = PStr r"
    and s1: "s1 = (let s1 = s\<lparr>thread_by_role := (thread_by_role s)(the_str role \<mapsto> the_str subject_id),
              pending_allocation := None, allocation_index := Suc (allocation_index s)\<rparr>
          in if role = PStr ''calibration'' then s1\<lparr>replay_phase := CalibrationTurning\<rparr>
             else if allocation_index s1 = length roles then s1\<lparr>replay_phase := WorkerTurning\<rparr>
             else s1)"
    using assms(2) unfolding replay_thread_bound_def rbind_eq_Inr ensure_eq_Inr Let_def sum.inject by blast
  have pos: "allocation_index s < length roles" "r = roles ! allocation_index s" "pending_turn s = None" "\<not> replay_terminal s"
    using assms(1) facts unfolding position_defs by simp_all
  show ?thesis
  proof (cases "allocation_index s")
    case 0
    then have "r = ''calibration''" using pos ws by simp
    then show ?thesis
      using 0 assms(1) facts pos ws
      by (simp add: s1 position_defs pending_allocation_labels_def pending_turn_labels_def allocations_def)
  next
    case (Suc n)
    then have n: "n < length ws" "r = ws ! n" using pos ws by auto
    then have "r \<noteq> ''calibration''" using ws(3) nth_mem [of n ws] by metis
    note n = n this
    then have take: "allocations (take (Suc n) ws) = allocations (take n ws) @ [(''allocation-intent'', PStr r), (''thread-bound'', PStr r)]"
      by (simp add: take_Suc_conv_app_nth allocations_snoc)
    have labels: "labels = calibrated roles @ allocations (take n ws) @ [(''allocation-intent'', PStr r)]" "turn_index s = 1"
      using Suc assms(1) facts ws by (auto simp: position_defs pending_allocation_labels_def)
    show ?thesis
      using Suc facts pos ws n take labels
      by (cases "Suc n = length ws")
         (simp_all add: s1 Let_def position_defs pending_allocation_labels_def pending_turn_labels_def)
  qed
qed

lemma position_turn_intent:
  assumes "position_inv roles s labels" and "replay_turn_intent roles role intent_id subject_id s = Inr s1"
    and "roles \<noteq> []"
  shows "position_inv roles s1 (labels @ [(''turn-intent'', role)])"
proof -
  have facts: "replay_phase s \<in> {CalibrationTurning, WorkerTurning}" "pending_turn s = None"
    and role: "role = (if turn_index s < length roles then PStr (roles ! turn_index s) else PNone)"
    and s1: "s1 = s\<lparr>pending_turn := Some (name_text role, name_text intent_id, name_text subject_id)\<rparr>"
    using assms(2) unfolding replay_turn_intent_def Let_def rbind_eq_Inr ensure_eq_Inr sum.inject by blast+
  have "turn_index s < length roles" 
    using assms(1,3) facts(1) unfolding position_defs by (cases "replay_phase s") simp_all
  then have role: "role = PStr (roles ! turn_index s)" using role by simp
  consider "replay_phase s = CalibrationTurning" | "replay_phase s = WorkerTurning" using facts(1) by blast
  then show ?thesis
    using assms(1) facts(2) role
    by cases (simp_all add: s1 position_defs pending_turn_labels_def name_text_def)
qed

lemma name_text_role: "name_text role = Some r \<Longrightarrow> role = PStr r \<or> r = ''None''"
  by (cases role) (simp_all add: name_text_def)

lemma position_turn_bound:
  assumes "position_inv roles s labels" and "replay_turn_bound roles role intent_id subject_id s = Inr s1"
    and shape: "profile_shape roles"
  shows "position_inv roles s1 (labels @ [(''turn-bound'', role)])"
proof -
  from shape obtain ws where ws: "roles = ''calibration'' # ws" "ws \<noteq> []" "''calibration'' \<notin> set ws"
    unfolding profile_shape_def by blast
  have none: "''None'' \<notin> set roles" using shape unfolding profile_shape_def by blast
  have facts: "replay_phase s \<in> {CalibrationTurning, WorkerTurning}"
      "pending_turn s = Some (name_text role, name_text intent_id, thread_of s role)"
    and s1: "s1 = (let s1 = s\<lparr>pending_turn := None, turn_index := Suc (turn_index s)\<rparr>
          in if role = PStr ''calibration'' then s1\<lparr>replay_phase := Allocating\<rparr>
             else if turn_index s1 = length roles then s1\<lparr>replay_phase := Dispatched\<rparr>
             else s1)"
    using assms(2) unfolding replay_turn_bound_def Let_def rbind_eq_Inr ensure_eq_Inr sum.inject by blast+
  have pending: "name_text role = Some (roles ! turn_index s)" "pending_allocation s = None" "\<not> replay_terminal s"
    using assms(1) facts unfolding position_inv_def by (cases "replay_phase s"; simp)+
  have index: "turn_index s < length roles"
    using assms(1) facts(1) ws(1) unfolding position_defs by (cases "replay_phase s") simp_all
  then have role: "role = PStr (roles ! turn_index s)"
    using name_text_role [OF pending(1)] none nth_mem [OF index] by metis
  show ?thesis
  proof (cases "replay_phase s = CalibrationTurning")
    case True
    then have "turn_index s = 0" "allocation_index s = 1" and labels: "labels = header_labels @ allocations (take 1 roles) @ [(''turn-intent'', role)]"
      using assms(1) facts role by (simp_all add: position_defs pending_turn_labels_def name_text_def)
    then show ?thesis
      using True pending role ws
      by (simp add: s1 position_defs pending_allocation_labels_def calibrated_def turns_def)
  next
    case False
    then have phase: "replay_phase s = WorkerTurning" using facts by simp
    then obtain n where n: "turn_index s = Suc n" "n < length ws" "allocation_index s = length roles"
      and labels: "labels = calibrated roles @ allocations (drop 1 roles) @ turns (take n ws) @ [(''turn-intent'', role)]"
      using assms(1) facts role ws by (cases "turn_index s") (auto simp: position_defs pending_turn_labels_def name_text_def)
    have "turns (take (Suc n) ws) = turns (take n ws) @ [(''turn-intent'', PStr (ws ! n)), (''turn-bound'', PStr (ws ! n))]"
      using n by (simp add: take_Suc_conv_app_nth turns_snoc)
    moreover have "ws ! n \<noteq> ''calibration''" using n(2) ws(3) nth_mem by metis
    moreover have "ws ! (length ws - Suc 0) = ws ! n" if "Suc n = length ws" using that [symmetric] by simp
    ultimately show ?thesis
      using phase pending role ws n labels
      by (cases "Suc n = length ws")
         (simp_all add: s1 Let_def position_defs pending_turn_labels_def activation_script_def calibrated_def)
  qed
qed

lemma prefix_script_allocations: "prefix (calibrated roles @ allocations (take n (drop 1 roles))) (activation_script roles)"
proof -
  have "allocations (drop 1 roles) = allocations (take n (drop 1 roles)) @ allocations (drop n (drop 1 roles))"
    by (simp only: append_take_drop_id flip: allocations_append)
  then show ?thesis by (simp add: activation_script_def calibrated_def)
qed

lemma prefix_prefixD: "prefix (p @ q) r \<Longrightarrow> prefix p r"
  by (metis append_prefixD)

text \<open>A position other than the end is a prefix of the script.\<close>

lemma position_prefix:
  assumes "position_inv roles s labels" and "replay_phase s \<noteq> Ended" and shape: "profile_shape roles"
  shows "prefix labels (activation_script roles)"
proof -
  from shape obtain ws where ws: "roles = ''calibration'' # ws" unfolding profile_shape_def by blast
  have header: "prefix (take n header_labels) (activation_script roles)" for n
    unfolding activation_script_def by (metis take_is_prefix prefix_append)
  show ?thesis
  proof (cases "replay_phase s")
    case Allocating
    show ?thesis
    proof (cases "allocation_index s")
      case 0
      then show ?thesis using assms(1) Allocating ws
        by (cases "pending_allocation s")
           (auto simp: position_defs pending_allocation_labels_def activation_script_def allocations_def)
    next
      case (Suc n)
      then have n: "n < length ws" using assms(1) Allocating ws by (auto simp: position_defs)
      have "ws = take n ws @ ws ! n # drop (Suc n) ws" by (rule id_take_nth_drop [OF n])
      then have split: "allocations ws = allocations (take n ws) @ allocations [ws ! n] @ allocations (drop (Suc n) ws)"
        by (metis allocations_append append_Cons append_Nil)
      show ?thesis
        using assms(1) Allocating ws Suc split
        by (cases "pending_allocation s") (auto simp: position_defs pending_allocation_labels_def activation_script_def calibrated_def allocations_def)
    qed
  next
    case WorkerTurning
    then obtain n where n: "turn_index s = Suc n" "n < length ws"
      using assms(1) ws by (cases "turn_index s") (auto simp: position_defs)
    have "ws = take n ws @ ws ! n # drop (Suc n) ws" by (rule id_take_nth_drop [OF n(2)])
    then have split: "turns ws = turns (take n ws) @ turns [ws ! n] @ turns (drop (Suc n) ws)"
      by (metis turns_append append_Cons append_Nil)
    show ?thesis
      using assms(1) WorkerTurning ws n split
      by (cases "pending_turn s") (auto simp: position_defs pending_turn_labels_def activation_script_def calibrated_def turns_def)
  next
    case CalibrationTurning
    then show ?thesis using assms(1) ws
      by (cases "pending_turn s") (auto simp: position_defs pending_turn_labels_def activation_script_def turns_def)
  qed (use assms(1,2) header in \<open>auto simp: position_defs\<close>)
qed

lemma position_nonempty:
  "position_inv roles s labels \<Longrightarrow> replay_phase s \<noteq> New \<Longrightarrow> labels \<noteq> []"
  by (cases "replay_phase s") (auto simp: position_defs header_labels_def calibrated_def activation_script_def)

lemma position_terminal:
  assumes "position_inv roles s labels" and "\<not> replay_terminal s" and "profile_shape roles"
    and "replay_terminal_event role intent_id s = Inr s1"
  shows "position_inv roles s1 (labels @ [(''terminal'', role)])"
proof -
  have facts: "replay_phase s \<noteq> New" "role = PNone" "s1 = s\<lparr>replay_terminal := True, replay_phase := Ended\<rparr>"
    using assms(4) unfolding replay_terminal_event_def rbind_eq_Inr ensure_eq_Inr sum.inject by blast+
  have "replay_phase s \<noteq> Ended" using assms(1,2) unfolding position_inv_def by simp
  then have "prefix labels (activation_script roles)" "labels \<noteq> []"
    using position_prefix [OF assms(1) _ assms(3)] position_nonempty [OF assms(1) facts(1)] by auto
  then show ?thesis using assms(1) facts unfolding position_inv_def at_position_def by auto
qed

lemma position_event:
  assumes "position_inv roles s labels" and "\<not> replay_terminal s" and "profile_shape roles"
    and "event \<in> set ACTIVATION_EVENTS" and "replay_event roles event role intent_id subject_id s = Inr s1"
  shows "position_inv roles s1 (labels @ [(event, role)])"
proof -
  have "roles \<noteq> []" using assms(3) by (auto simp: profile_shape_def)
  note headers = position_headers [OF assms(1,2) this]
  note step = assms(5) [unfolded replay_event_def]
  consider "event = ''claim-acquired''" | "event = ''approval-consume-intent''" | "event = ''approval-verified''"
    | "event = ''activation-dispatch-intent''" | "event = ''allocation-intent''" | "event = ''thread-bound''"
    | "event = ''turn-intent''" | "event = ''turn-bound''" | "event = ''terminal''"
    using assms(4) unfolding ACTIVATION_EVENTS_def by (simp only: list.set insert_iff empty_iff simp_thms) metis
  then show ?thesis
  proof cases
    case 1
    then show ?thesis using header_event_Inr [of New Claimed] step headers(1) by simp blast
  next
    case 2
    then show ?thesis using header_event_Inr [of Claimed ApprovalIntent] step headers(2) by simp blast
  next
    case 3
    then show ?thesis using header_event_Inr [of ApprovalIntent ApprovalVerified] step headers(3) by simp blast
  next
    case 4
    then show ?thesis using header_event_Inr [of ApprovalVerified Allocating] step headers(4) by simp blast
  next
    case 5
    then show ?thesis using position_allocation_intent [OF assms(1)] step by simp
  next
    case 6
    then show ?thesis using position_thread_bound [OF assms(1) _ assms(3)] step by simp
  next
    case 7
    then show ?thesis using position_turn_intent [OF assms(1) _ \<open>roles \<noteq> []\<close>] step by simp
  next
    case 8
    then show ?thesis using position_turn_bound [OF assms(1) _ assms(3)] step by simp
  next
    case 9
    then show ?thesis using position_terminal [OF assms(1,2,3)] step by simp
  qed
qed

lemma position_frame [simp]: "position_inv roles (s\<lparr>head_sha256 := h\<rparr>) labels = position_inv roles s labels"
  by (simp add: position_defs pending_allocation_labels_def pending_turn_labels_def cong: ledger_phase.case_cong)

lemma foldM_index_invariant:
  assumes "foldM (replay_entry roles) s (index_from n entries) = Inr s'"
    and "position_inv roles s labels" and "profile_shape roles"
  shows "position_inv roles s' (labels @ map entry_label entries)"
  using assms
proof (induction entries arbitrary: s n labels)
  case Nil
  then show ?case by simp
next
  case (Cons raw entries)
  then obtain s1 where first: "replay_entry roles s (n, raw) = Inr s1"
    and rest: "foldM (replay_entry roles) s1 (index_from (Suc n) entries) = Inr s'"
    by (auto simp: rbind_eq_Inr)
  then obtain d s2 where d: "raw = PDict d" "entry_ok n d" "\<not> replay_terminal s"
    "replay_event roles (the_str (dget d ''event'')) (dget d ''role'') (dget d ''intent_id'') (dget d ''subject_id'') s = Inr s2"
    "s1 = s2\<lparr>head_sha256 := Some (the_str (dget d ''entry_sha256''))\<rparr>"
    unfolding replay_entry_Inr by blast
  have "the_str (dget d ''event'') \<in> set ACTIVATION_EVENTS"
    using d(2) in_strs_the_str unfolding entry_ok_def by blast
  then have "position_inv roles s1 (labels @ [entry_label raw])"
    using position_event [OF Cons.prems(2) d(3) Cons.prems(3) _ d(4)] d(1,5) by (simp add: entry_label_def)
  from Cons.IH [OF rest this Cons.prems(3)] show ?case by simp
qed

lemma position_start: "position_inv roles replay_start []"
  by (simp add: position_defs replay_start_def)

lemma replay_position:
  "replay_entries roles entries = Inr s \<Longrightarrow> profile_shape roles \<Longrightarrow> position_inv roles s (map entry_label entries)"
  using foldM_index_invariant [OF _ position_start, of roles 0 entries s] by (simp add: replay_entries_def)

section \<open>Threads\<close>

definition binds_thread :: "pyval \<Rightarrow> pyval \<Rightarrow> pyval \<Rightarrow> bool" where
  "binds_thread entry role thread \<longleftrightarrow> dget (the_dict entry) ''event'' = PStr ''thread-bound''
     \<and> dget (the_dict entry) ''role'' = role \<and> dget (the_dict entry) ''subject_id'' = thread"

text \<open>Every known thread was bound by an entry, and every role before the allocation index has a thread.\<close>

definition threads_inv :: "string list \<Rightarrow> replay_state \<Rightarrow> pyval list \<Rightarrow> bool" where
  "threads_inv roles s entries \<longleftrightarrow>
     (\<forall>r t. thread_by_role s r = Some t \<longrightarrow> (\<exists>e\<in>set entries. binds_thread e (PStr r) (PStr t)))
     \<and> (\<forall>i<allocation_index s. i < length roles \<longrightarrow> thread_by_role s (roles ! i) \<noteq> None)"

lemma replay_event_threads:
  assumes "replay_event roles event role intent_id subject_id s = Inr s1"
  shows "thread_by_role s1 = thread_by_role s \<and> allocation_index s1 = allocation_index s \<or>
    event = ''thread-bound'' \<and> is_str subject_id \<and> (\<exists>r. role = PStr r \<and> fst (the (pending_allocation s)) = r
      \<and> thread_by_role s1 = (thread_by_role s)(r \<mapsto> the_str subject_id) \<and> allocation_index s1 = Suc (allocation_index s))"
proof (cases "event = ''thread-bound''")
  case True
  then have bound: "replay_thread_bound roles role intent_id subject_id s = Inr s1"
    using assms by (simp add: replay_event_def)
  obtain r i where "pending_allocation s = Some (r, i)" "role = PStr r" and id: "is_uuid subject_id"
    and s1: "s1 = (let s1 = s\<lparr>thread_by_role := (thread_by_role s)(the_str role \<mapsto> the_str subject_id),
              pending_allocation := None, allocation_index := Suc (allocation_index s)\<rparr>
          in if role = PStr ''calibration'' then s1\<lparr>replay_phase := CalibrationTurning\<rparr>
             else if allocation_index s1 = length roles then s1\<lparr>replay_phase := WorkerTurning\<rparr>
             else s1)"
    using bound unfolding replay_thread_bound_def rbind_eq_Inr ensure_eq_Inr Let_def sum.inject by blast
  moreover have "is_str subject_id" using id by (cases subject_id) (simp_all add: is_uuid_def)
  ultimately show ?thesis using True by (simp add: Let_def)
next
  case False
  then show ?thesis
    using assms
    by (auto simp: replay_event_def header_event_def replay_allocation_intent_def replay_turn_intent_def replay_turn_bound_def
        replay_terminal_event_def Let_def rbind_eq_Inr ensure_eq_Inr split: if_splits)
qed

text \<open>A turn is intended only on a bound thread.\<close>

lemma replay_turn_intent_thread:
  assumes "replay_event roles ''turn-intent'' role intent_id subject_id s = Inr s1" and "position_inv roles s labels"
    and "threads_inv roles s entries" and "profile_shape roles"
  shows "\<exists>e\<in>set entries. binds_thread e role subject_id"
proof -
  have step: "replay_turn_intent roles role intent_id subject_id s = Inr s1"
    using assms(1) by (simp add: replay_event_def)
  have facts: "replay_phase s \<in> {CalibrationTurning, WorkerTurning}"
    and role: "role = (if turn_index s < length roles then PStr (roles ! turn_index s) else PNone)"
    and subject: "subject_id = opt_str (thread_of s role)"
    using step unfolding replay_turn_intent_def Let_def rbind_eq_Inr ensure_eq_Inr by blast+
  have "roles \<noteq> []" using assms(4) by (auto simp: profile_shape_def)
  then have index: "turn_index s < length roles" "turn_index s < allocation_index s"
    using assms(2) facts unfolding position_defs by (cases "replay_phase s"; simp)+
  then obtain t where t: "thread_by_role s (roles ! turn_index s) = Some t"
    using assms(3) unfolding threads_inv_def by blast
  then have "role = PStr (roles ! turn_index s)" "subject_id = PStr t"
    using index role subject by (simp_all add: thread_of_def name_text_def)
  then show ?thesis using t assms(3) unfolding threads_inv_def by blast
qed

definition turns_bound :: "pyval list \<Rightarrow> bool" where
  "turns_bound entries \<longleftrightarrow> (\<forall>before entry after. entries = before @ entry # after
     \<longrightarrow> dget (the_dict entry) ''event'' = PStr ''turn-intent''
     \<longrightarrow> (\<exists>e\<in>set before. binds_thread e (dget (the_dict entry) ''role'') (dget (the_dict entry) ''subject_id'')))"

lemma turns_bound_snoc:
  "turns_bound (entries @ [entry]) \<longleftrightarrow> turns_bound entries
     \<and> (dget (the_dict entry) ''event'' = PStr ''turn-intent''
        \<longrightarrow> (\<exists>e\<in>set entries. binds_thread e (dget (the_dict entry) ''role'') (dget (the_dict entry) ''subject_id'')))"
  unfolding turns_bound_def
  by (auto simp: append_eq_append_conv2 append_eq_Cons_conv Cons_eq_append_conv) (metis append_Nil2)+

lemma turns_bound_Nil: "turns_bound []"
  by (simp add: turns_bound_def)

lemma threads_inv_step:
  assumes "threads_inv roles s entries" and "position_inv roles s labels"
    and "replay_event roles (the_str (dget d ''event'')) (dget d ''role'') (dget d ''intent_id'') (dget d ''subject_id'') s = Inr s1"
    and "dget d ''event'' = PStr (the_str (dget d ''event''))"
  shows "threads_inv roles s1 (entries @ [PDict d])"
  using replay_event_threads [OF assms(3)]
proof (elim disjE conjE exE)
  assume "thread_by_role s1 = thread_by_role s" "allocation_index s1 = allocation_index s"
  then show ?thesis using assms(1) unfolding threads_inv_def by auto
next
  fix r assume event: "the_str (dget d ''event'') = ''thread-bound''" and subject: "is_str (dget d ''subject_id'')"
    and role: "dget d ''role'' = PStr r" and pending: "fst (the (pending_allocation s)) = r"
    and s1: "thread_by_role s1 = (thread_by_role s)(r \<mapsto> the_str (dget d ''subject_id''))"
      "allocation_index s1 = Suc (allocation_index s)"
  have entry: "binds_thread (PDict d) (PStr r) (PStr (the_str (dget d ''subject_id'')))"
    using assms(4) event subject role by (auto simp: binds_thread_def is_str_iff)
  have "pending_allocation s \<noteq> None"
    using assms(3) event by (auto simp: replay_event_def replay_thread_bound_def rbind_eq_Inr ensure_eq_Inr)
  then have "r = roles ! allocation_index s" using assms(2) pending unfolding position_inv_def by auto
  then show ?thesis
    using assms(1) entry unfolding threads_inv_def s1 by (auto simp: less_Suc_eq)
qed

lemma foldM_threads:
  assumes "foldM (replay_entry roles) s (index_from n entries) = Inr s'"
    and "position_inv roles s (map entry_label past)" and "profile_shape roles" and "threads_inv roles s past" and "turns_bound past"
  shows "turns_bound (past @ entries)"
  using assms
proof (induction entries arbitrary: s n past)
  case Nil
  then show ?case by simp
next
  case (Cons raw entries)
  then obtain s1 where first: "replay_entry roles s (n, raw) = Inr s1"
    and rest: "foldM (replay_entry roles) s1 (index_from (Suc n) entries) = Inr s'"
    by (auto simp: rbind_eq_Inr)
  have "foldM (replay_entry roles) s (index_from n [raw]) = Inr s1" using first by simp
  then have pos: "position_inv roles s1 (map entry_label (past @ [raw]))"
    using foldM_index_invariant [of roles s n "[raw]" s1] Cons.prems(2,3) by simp
  obtain d s2 where d: "raw = PDict d" "entry_ok n d"
    "replay_event roles (the_str (dget d ''event'')) (dget d ''role'') (dget d ''intent_id'') (dget d ''subject_id'') s = Inr s2"
    "s1 = s2\<lparr>head_sha256 := Some (the_str (dget d ''entry_sha256''))\<rparr>"
    using first unfolding replay_entry_Inr by blast
  have event: "dget d ''event'' = PStr (the_str (dget d ''event''))"
    using d(2) in_strs_the_str unfolding entry_ok_def by blast
  have "threads_inv roles s2 (past @ [raw])"
    using threads_inv_step [OF Cons.prems(4,2) d(3) event] d(1) by simp
  then have threads: "threads_inv roles s1 (past @ [raw])" by (simp add: threads_inv_def d(4))
  have "turns_bound (past @ [raw])"
    using Cons.prems(5) replay_turn_intent_thread [OF _ Cons.prems(2,4,3)] d(1,3)
    unfolding turns_bound_snoc by auto
  from Cons.IH [OF rest pos Cons.prems(3) threads this] show ?case by simp
qed

lemma replay_turns_bound: "replay_entries roles entries = Inr s \<Longrightarrow> profile_shape roles \<Longrightarrow> turns_bound entries"
  using foldM_threads [of roles replay_start 0 entries s "[]"] position_start turns_bound_Nil
  by (simp add: replay_entries_def threads_inv_def replay_start_def)

end
