(* ===== verification/ActivationLedgerProperties.thy ===== *)
theory ActivationLedgerProperties
  imports ActivationLedgerInvariant
begin

text \<open>
  The operations of the ledger store: an append either leaves the stored ledger as it is or extends it
  by one entry that the phase machine accepts; creation; and a concrete activation for the witnesses.
\<close>

section \<open>Appending\<close>

definition ledger_entries :: "pydict \<Rightarrow> pyval list" where
  "ledger_entries d = the_list (dget d ''entries'')"

definition HEADER_NAMES :: "string list" where
  "HEADER_NAMES = [''ledger_type'', ''version'', ''schema'', ''ledger_id'', ''profile'', ''plan_sha256'', ''claim_sha256'',
     ''action_sha256'', ''campaign_nonce'', ''expected_roles'', ''created_at'']"

text \<open>The ledger of one store follows that of another: the header is the same and entries were only added.\<close>

definition extends :: "pydict \<Rightarrow> pydict \<Rightarrow> bool" where
  "extends d d' \<longleftrightarrow> prefix (ledger_entries d) (ledger_entries d') \<and> (\<forall>k\<in>set HEADER_NAMES. dget d' k = dget d k)"

lemma extends_refl: "extends d d"
  by (simp add: extends_def)

lemma extends_trans: "extends a b \<Longrightarrow> extends b c \<Longrightarrow> extends a c"
  unfolding extends_def using prefix_order.trans by fastforce

definition entry_of :: "ledger_request \<Rightarrow> pydict \<Rightarrow> bool" where
  "entry_of request entry \<longleftrightarrow> dget entry ''event'' = PStr (req_event request) \<and> dget entry ''role'' = opt_str (req_role request)
     \<and> dget entry ''intent_id'' = opt_str (req_intent_id request) \<and> dget entry ''subject_id'' = opt_str (req_subject_id request)"

lemma plan_append_Inr:
  assumes "plan_append request now d = Inr (entry, sealed)"
  shows "ledger_ok sealed \<and> ledger_entries sealed = ledger_entries d @ [PDict entry] \<and> extends d sealed
    \<and> (\<exists>replay. replay_entries (profile_roles (dget d ''profile'')) (ledger_entries d @ [PDict entry]) = Inr replay)
    \<and> entry_of request entry"
proof -
  obtain h replay where entry: "next_entry request h now d = Inr entry"
    and replay: "replay_entries (profile_roles (dget d ''profile'')) (ledger_entries d @ [PDict entry]) = Inr replay"
    and sealed: "seal_ledger (dset (dset d ''entries'' (PList (ledger_entries d @ [PDict entry])))
              ''head_entry_sha256'' (dget entry ''entry_sha256'')) = Inr sealed"
    using assms unfolding plan_append_def Let_def rbind_eq_Inr ledger_entries_def sum.inject prod.inject by blast
  have keep: "dget sealed k = dget d k" if "k \<in> set HEADER_NAMES" for k
    using that seal_ledger_fields [OF sealed, of k] by (auto simp: HEADER_NAMES_def)
  have entries: "ledger_entries sealed = ledger_entries d @ [PDict entry]"
    using seal_ledger_fields [OF sealed, of "''entries''"] by (simp add: ledger_entries_def)
  have "ledger_ok sealed" using sealed unfolding seal_ledger_Inr by blast
  moreover have "entry_of request entry"
    using entry by (auto simp: next_entry_def Let_def rbind_eq_Inr entry_unsigned_def entry_of_def)
  ultimately show ?thesis using keep entries replay by (simp add: extends_def)
qed

lemma ledger_append_cases:
  obtains (refused) e where "ledger_append io request st = (Inl e, st)"
  | (planned) d entry sealed where "load_ledger st = Inr d" "plan_append request (io_now io) d = Inr (entry, sealed)"
      "ledger_file (snd (ledger_append io request st)) = Some (PDict sealed)"
      "\<And>e. fst (ledger_append io request st) = Inr e \<Longrightarrow> e = entry"
      "audit_file (snd (ledger_append io request st)) = audit_file st
       \<or> (\<exists>audit n. audit_file st = Some audit
            \<and> audit_file (snd (ledger_append io request st)) = Some (audit @ take n (audit_line entry)))"
proof -
  let ?m = "rbind (ensure (req_event request \<in> set ACTIVATION_EVENTS) (LedgerError ''activation-ledger-event-invalid'')) (\<lambda>_.
           rbind (canonical_activation_sha256 (PDict (req_detail request))) (\<lambda>_.
           rbind (case io_lock io of None \<Rightarrow> Inr () | Some message \<Rightarrow> Inl (LedgerError message)) (\<lambda>_.
           rbind (load_ledger st) (plan_append request (io_now io)))))"
  show thesis
  proof (cases ?m)
    case (Inl e)
    then show thesis using refused by (simp add: ledger_append_def)
  next
    case (Inr r)
    then obtain d entry sealed where r: "r = (entry, sealed)" "load_ledger st = Inr d"
      and plan: "plan_append request (io_now io) d = Inr (entry, sealed)"
      unfolding rbind_eq_Inr by (cases r) auto
    have run: "ledger_append io request st =
      (case io_replace io of
             ReplaceFailed message \<Rightarrow> (Inl (LedgerError message), st)
           | ReplacedThenFailed message \<Rightarrow> (Inl (LedgerError message), st\<lparr>ledger_file := Some (PDict sealed)\<rparr>)
           | Replaced \<Rightarrow>
               (let st1 = st\<lparr>ledger_file := Some (PDict sealed)\<rparr> in
                case audit_file st of
                  None \<Rightarrow> (Inl (LedgerError ''activation-ledger-audit-write-failed''), st1)
                | Some audit \<Rightarrow>
                    (case io_audit io of
                       AuditFailed n message \<Rightarrow>
                         (Inl (LedgerError message), st1\<lparr>audit_file := Some (audit @ take n (audit_line entry))\<rparr>)
                     | Audited \<Rightarrow> (Inr entry, st1\<lparr>audit_file := Some (audit @ audit_line entry)\<rparr>))))"
      using Inr r(1) by (simp add: ledger_append_def)
    have whole: "audit_line entry = take (length (audit_line entry)) (audit_line entry)" by simp
    have whole: "\<exists>n. audit_line entry = take n (audit_line entry)" using whole by blast
    show thesis
    proof (cases "io_replace io")
      case (ReplaceFailed m)
      then show thesis using refused run by simp
    next
      case (ReplacedThenFailed m)
      then show thesis using run by (intro planned [OF r(2) plan]) simp_all
    next
      case Replaced
      show thesis
      proof (cases "audit_file st")
        case None
        then show thesis using run Replaced by (intro planned [OF r(2) plan]) simp_all
      next
        case (Some audit)
        have "\<exists>n. audit_file (snd (ledger_append io request st)) = Some (audit @ take n (audit_line entry))"
          using Some run Replaced whole by (cases "io_audit io") auto
        moreover have "e = entry" if "fst (ledger_append io request st) = Inr e" for e
          using that Some run Replaced by (cases "io_audit io") auto
        moreover have "ledger_file (snd (ledger_append io request st)) = Some (PDict sealed)"
          using Some run Replaced by (cases "io_audit io") auto
        ultimately show thesis using Some by (intro planned [OF r(2) plan]) blast+
      qed
    qed
  qed
qed

text \<open>A ledger that loads keeps loading, and only grows.\<close>

lemma append_extends:
  assumes "load_ledger st = Inr d"
  shows "\<exists>d'. load_ledger (snd (ledger_append io request st)) = Inr d' \<and> extends d d'
    \<and> length (ledger_entries d') \<le> Suc (length (ledger_entries d))"
proof (cases rule: ledger_append_cases [of io request st])
  case (refused e)
  then show ?thesis using assms extends_refl by simp
next
  case (planned d1 entry sealed)
  then have "d1 = d" using assms by simp
  then show ?thesis using planned(3) plan_append_Inr [OF planned(2)] by (auto simp: load_ledger_Inr)
qed

definition run_appends :: "(ledger_io \<times> ledger_request) list \<Rightarrow> ledger_store \<Rightarrow> ledger_store" where
  "run_appends ops st = foldl (\<lambda>st (io, request). snd (ledger_append io request st)) st ops"

lemma run_appends_extends:
  "load_ledger st = Inr d \<Longrightarrow> \<exists>d'. load_ledger (run_appends ops st) = Inr d' \<and> extends d d'"
proof (induction ops arbitrary: st d)
  case Nil
  then show ?case using extends_refl by (auto simp: run_appends_def)
next
  case (Cons op ops)
  obtain io request where op: "op = (io, request)" by (cases op)
  obtain d1 where d1: "load_ledger (snd (ledger_append io request st)) = Inr d1" "extends d d1"
    using append_extends [OF Cons.prems] by blast
  from Cons.IH [OF d1(1)] show ?case using extends_trans [OF d1(2)] by (auto simp: run_appends_def op)
qed

lemma ledger_ok_position:
  assumes "ledger_ok d"
  shows "profile_shape (profile_roles (dget d ''profile''))
    \<and> (\<exists>s. replay_entries (profile_roles (dget d ''profile'')) (ledger_entries d) = Inr s
         \<and> position_inv (profile_roles (dget d ''profile'')) s (map entry_label (ledger_entries d)))"
proof -
  have shape: "profile_shape (profile_roles (dget d ''profile''))"
    using assms profile_roles_shape unfolding ledger_ok_def header_ok_def by blast
  then show ?thesis using assms replay_position unfolding ledger_ok_def ledger_entries_def by blast
qed

text \<open>The replay of a longer list goes through the replay of its start.\<close>

lemma replay_entries_append:
  "replay_entries roles (xs @ [e]) = Inr s' \<Longrightarrow>
     \<exists>s. replay_entries roles xs = Inr s \<and> replay_entry roles s (length xs, e) = Inr s'"
  by (auto simp: replay_entries_def index_from_append foldM_append rbind_eq_Inr)

lemma terminal_position:
  assumes "position_inv roles s labels" and "labels \<noteq> []" and "fst (last labels) = ''terminal''" and "profile_shape roles"
  shows "replay_terminal s"
proof (rule ccontr)
  assume "\<not> replay_terminal s"
  then have "replay_phase s \<noteq> Ended" using assms(1) unfolding position_inv_def by simp
  then have "prefix labels (activation_script roles)" using position_prefix [OF assms(1) _ assms(4)] by blast
  then have "last labels \<in> set (activation_script roles)"
    using assms(2) by (meson last_in_set set_mono_prefix subsetD)
  then have "fst (last labels) \<in> fst ` set (activation_script roles)" by blast
  then show False
    using assms(3) by (auto simp: activation_script_def header_labels_def allocations_def turns_def)
qed

section \<open>Creating a ledger\<close>

lemma dset_entries_keys: "k \<in> set (dkeys d) \<Longrightarrow> set (dkeys (dset d k v)) = set (dkeys d)"
  by auto

definition wf_claim :: "string \<Rightarrow> string \<Rightarrow> string \<Rightarrow> string \<Rightarrow> string \<Rightarrow> string \<Rightarrow> bool" where
  "wf_claim ledger_id profile plan_sha256 claim_sha256 action_sha256 campaign_nonce \<longleftrightarrow>
     uuid_text ledger_id \<and> profile \<in> set (map fst PROFILE_ROLES) \<and> hex64 plan_sha256 \<and> hex64 claim_sha256
     \<and> hex64 action_sha256 \<and> uuid_text campaign_nonce"

lemma dkeys_empty_ledger:
  "insert ''ledger_sha256'' (set (dkeys (empty_ledger i p a b c n t))) = set LEDGER_FIELDS"
  "''ledger_sha256'' \<notin> set (dkeys (empty_ledger i p a b c n t))"
  by (simp_all add: empty_ledger_def dkeys_def LEDGER_FIELDS_def insert_commute)

lemma finite_json_dset:
  "finite_json (PDict d) \<Longrightarrow> finite_json v \<Longrightarrow> finite_json (PDict (dset d k v))"
  by (induction d) (auto split: if_splits)

lemma finite_json_dpop: "finite_json (PDict d) \<Longrightarrow> finite_json (PDict (dpop d k))"
  by (auto simp: dpop_def)

lemma finite_json_empty_ledger: "finite_json (PDict (empty_ledger i p a b c n t))"
  by (simp add: empty_ledger_def)

lemma header_ok_sealed: "header_ok (dset (dpop d ''ledger_sha256'') ''ledger_sha256'' v) = header_ok d"
  by (simp add: header_ok_def)

lemma header_ok_empty_ledger:
  "wf_claim i p a b c n \<Longrightarrow> header_ok (empty_ledger i p a b c n t)"
  by (simp add: header_ok_def empty_ledger_def wf_claim_def is_uuid_def py_eq_refl)

text \<open>Sealing any body with an accepted header and a replayable entry list gives an accepted ledger.\<close>

lemma seal_ledger_accepts:
  assumes header: "header_ok d" and keys: "insert ''ledger_sha256'' (set (dkeys d)) = set LEDGER_FIELDS"
    and finite: "finite_json (PDict (dpop d ''ledger_sha256''))" and list: "is_list (dget d ''entries'')"
    and replay: "replay_entries (profile_roles (dget d ''profile'')) (the_list (dget d ''entries'')) = Inr replay"
    and head: "dget d ''head_entry_sha256'' = opt_str (head_sha256 replay)"
  shows "\<exists>sealed. seal_ledger d = Inr sealed \<and> ledger_ok sealed \<and> (\<forall>k. k \<noteq> ''ledger_sha256'' \<longrightarrow> dget sealed k = dget d k)"
proof -
  let ?u = "dpop d ''ledger_sha256''"
  let ?s = "dset ?u ''ledger_sha256'' (PStr (text_sha256 (activation_text (PDict ?u))))"
  have get: "dget ?s k = dget d k" if "k \<noteq> ''ledger_sha256''" for k using that by simp
  have "header_ok ?s" using header unfolding header_ok_sealed .
  moreover have "set (dkeys ?s) = set LEDGER_FIELDS" using keys by (simp add: LEDGER_FIELDS_def)
  moreover have "dpop ?s ''ledger_sha256'' = ?u" by simp
  ultimately have "ledger_ok ?s"
    using list replay head finite unfolding ledger_ok_def by (simp add: py_eq_refl del: finite_json.simps)
  then show ?thesis using finite get unfolding seal_ledger_Inr by blast
qed

lemma seal_empty_ledger:
  assumes "wf_claim i p a b c n"
  shows "\<exists>sealed. seal_ledger (empty_ledger i p a b c n t) = Inr sealed \<and> ledger_ok sealed
    \<and> (\<forall>k. k \<noteq> ''ledger_sha256'' \<longrightarrow> dget sealed k = dget (empty_ledger i p a b c n t) k)"
  by (rule seal_ledger_accepts [where replay = replay_start])
     (use header_ok_empty_ledger [OF assms] dkeys_empty_ledger(1) finite_json_dpop [OF finite_json_empty_ledger] in
        \<open>simp_all add: empty_ledger_def replay_entries_def replay_start_def del: finite_json.simps\<close>)

lemma opt_str_py_eq: "py_eq v (opt_str o') \<Longrightarrow> v = opt_str o'"
  by (cases o') (auto simp: py_eq_str py_eq_none)

lemma finite_json_opt_str [simp]: "finite_json (opt_str o')"
  by (cases o') simp_all

lemma finite_json_dpop_dset:
  "finite_json (PDict (dpop d k')) \<Longrightarrow> finite_json v \<Longrightarrow> finite_json (PDict (dpop (dset d k v) k'))"
  by (induction d) (auto simp: dpop_def split: if_splits)

lemma finite_json_dget: "finite_json (PDict (dpop d k')) \<Longrightarrow> k \<noteq> k' \<Longrightarrow> finite_json (dget d k)"
  by (induction d) (auto simp: dpop_def split: if_splits)

text \<open>An append whose event the replay accepts is carried out.\<close>

lemma next_entry_replays:
  assumes "replay_entries roles entries = Inr s" and "\<not> replay_terminal s" and "req_event request \<in> set ACTIVATION_EVENTS"
    and "replay_event roles (req_event request) (opt_str (req_role request)) (opt_str (req_intent_id request))
           (opt_str (req_subject_id request)) s = Inr s1"
    and "dget d ''entries'' = PList entries" and "dget d ''head_entry_sha256'' = opt_str (head_sha256 s)" and "hex64 detail"
  shows "\<exists>entry. next_entry request detail now d = Inr entry \<and> finite_json (PDict entry)
    \<and> replay_entries roles (entries @ [PDict entry]) = Inr (s1\<lparr>head_sha256 := Some (the_str (dget entry ''entry_sha256''))\<rparr>)
    \<and> is_str (dget entry ''entry_sha256'')"
proof -
  let ?u = "entry_unsigned (length entries) (req_event request) (req_role request) (req_intent_id request)
      (req_subject_id request) detail (opt_str (head_sha256 s)) (or_now (req_recorded_at request) now)"
  let ?e = "?u @ [(''entry_sha256'', PStr (text_sha256 (activation_text (PDict ?u))))]"
  have finite: "finite_json (PDict ?u)" by (simp add: entry_unsigned_def)
  have entry: "next_entry request detail now d = Inr ?e"
    using assms(5,6) finite by (simp add: next_entry_def Let_def canonical_activation_sha256_def del: finite_json.simps)
  have pop: "dpop ?e ''entry_sha256'' = ?u" by (simp add: entry_unsigned_def dpop_def)
  have gets: "dget ?e ''event'' = PStr (req_event request)" "dget ?e ''role'' = opt_str (req_role request)"
      "dget ?e ''intent_id'' = opt_str (req_intent_id request)" "dget ?e ''subject_id'' = opt_str (req_subject_id request)"
      "dget ?e ''previous_entry_sha256'' = opt_str (head_sha256 s)" "dget ?e ''sequence'' = PInt (int (length entries))"
      "dget ?e ''detail_sha256'' = PStr detail"
      "dget ?e ''entry_sha256'' = PStr (text_sha256 (activation_text (PDict ?u)))"
    by (simp_all add: entry_unsigned_def)
  have keys: "set (dkeys ?e) = set ENTRY_FIELDS" by (simp add: entry_unsigned_def dkeys_def ENTRY_FIELDS_def insert_commute)
  have ok: "entry_ok (length entries) ?e"
    unfolding entry_ok_def pop gets using keys assms(3,7) finite by (simp add: py_eq_refl in_strs_def del: finite_json.simps)
  have "replay_entry roles s (length entries, PDict ?e) = Inr (s1\<lparr>head_sha256 := Some (text_sha256 (activation_text (PDict ?u)))\<rparr>)"
    unfolding replay_entry_Inr using ok assms(2,4) gets by (auto simp: py_eq_refl simp del: dget_Cons)
  then have "replay_entries roles (entries @ [PDict ?e]) = Inr (s1\<lparr>head_sha256 := Some (text_sha256 (activation_text (PDict ?u)))\<rparr>)"
    using assms(1) by (simp add: replay_entries_def index_from_append foldM_append)
  moreover have "finite_json (PDict ?e)" using finite by simp
  ultimately show ?thesis using entry gets(8) by (intro exI [of _ ?e]) (simp del: finite_json.simps)
qed

lemma plan_append_accepts:
  assumes ok: "ledger_ok d" and replay: "replay_entries (profile_roles (dget d ''profile'')) (ledger_entries d) = Inr s"
    and "\<not> replay_terminal s" and "req_event request \<in> set ACTIVATION_EVENTS" and "finite_json (PDict (req_detail request))"
    and "replay_event (profile_roles (dget d ''profile'')) (req_event request) (opt_str (req_role request))
           (opt_str (req_intent_id request)) (opt_str (req_subject_id request)) s = Inr s1"
  shows "\<exists>entry sealed. plan_append request now d = Inr (entry, sealed)
    \<and> replay_entries (profile_roles (dget d ''profile'')) (ledger_entries sealed)
        = Inr (s1\<lparr>head_sha256 := Some (the_str (dget entry ''entry_sha256''))\<rparr>)"
proof -
  let ?roles = "profile_roles (dget d ''profile'')"
  have keys: "set (dkeys d) = set LEDGER_FIELDS" and header: "header_ok d" and list: "is_list (dget d ''entries'')"
    and finite: "finite_json (PDict (dpop d ''ledger_sha256''))"
    using ok unfolding ledger_ok_def by blast+
  have entries: "dget d ''entries'' = PList (ledger_entries d)" using list by (auto simp: ledger_entries_def is_list_iff)
  have head: "dget d ''head_entry_sha256'' = opt_str (head_sha256 s)"
    using ok replay opt_str_py_eq unfolding ledger_ok_def ledger_entries_def by auto
  define h where "h = text_sha256 (activation_text (PDict (req_detail request)))"
  have detail: "canonical_activation_sha256 (PDict (req_detail request)) = Inr h"
    using assms(5) by (simp add: canonical_activation_sha256_def h_def)
  obtain entry where entry: "next_entry request h now d = Inr entry" "finite_json (PDict entry)"
    "replay_entries ?roles (ledger_entries d @ [PDict entry])
       = Inr (s1\<lparr>head_sha256 := Some (the_str (dget entry ''entry_sha256''))\<rparr>)" "is_str (dget entry ''entry_sha256'')"
    using next_entry_replays [OF replay assms(3,4,6) entries head, of h now] by (auto simp: h_def)
  let ?b = "dset (dset d ''entries'' (PList (ledger_entries d @ [PDict entry]))) ''head_entry_sha256'' (dget entry ''entry_sha256'')"
  have sha: "dget entry ''entry_sha256'' = PStr (the_str (dget entry ''entry_sha256''))" using entry(4) by (auto simp: is_str_iff)
  have "finite_json (PList (ledger_entries d @ [PDict entry]))"
    using finite_json_dget [OF finite, of "''entries''"] entries entry(2) by simp
  moreover have "finite_json (dget entry ''entry_sha256'')" by (subst sha) simp
  ultimately have fin: "finite_json (PDict (dpop ?b ''ledger_sha256''))" by (intro finite_json_dpop_dset finite)
  have hb: "header_ok ?b" using header by (simp add: header_ok_def)
  have kb: "insert ''ledger_sha256'' (set (dkeys ?b)) = set LEDGER_FIELDS"
  proof -
    have "''entries'' \<in> set (dkeys d)" "''head_entry_sha256'' \<in> set (dkeys d)" "''ledger_sha256'' \<in> set (dkeys d)"
      unfolding keys by (simp_all add: LEDGER_FIELDS_def)
    then show ?thesis by (simp add: insert_absorb keys)
  qed
  have lb: "is_list (dget ?b ''entries'')" by simp
  have rb: "replay_entries (profile_roles (dget ?b ''profile'')) (the_list (dget ?b ''entries'')) =
      Inr (s1\<lparr>head_sha256 := Some (the_str (dget entry ''entry_sha256''))\<rparr>)"
    using entry(3) by simp
  obtain h' where h': "dget entry ''entry_sha256'' = PStr h'" using sha by blast
  have ehb: "dget ?b ''head_entry_sha256'' = opt_str (head_sha256 (s1\<lparr>head_sha256 := Some (the_str (dget entry ''entry_sha256''))\<rparr>))"
    by (simp add: h')
  from seal_ledger_accepts [OF hb kb fin lb rb ehb]
  obtain sealed where sealed: "seal_ledger ?b = Inr sealed" "\<forall>k. k \<noteq> ''ledger_sha256'' \<longrightarrow> dget sealed k = dget ?b k"
    by blast
  have "plan_append request now d = Inr (entry, sealed)"
    unfolding plan_append_def detail rbind_Inr entry(1) Let_def
    using entry(3) sealed(1) by (simp add: ledger_entries_def)
  moreover have "ledger_entries sealed = ledger_entries d @ [PDict entry]"
    using sealed(2) by (simp add: ledger_entries_def)
  ultimately show ?thesis using entry(3) by auto
qed

lemma ledger_append_accepts:
  assumes "load_ledger st = Inr d" and "audit_file st = Some audit"
    and "replay_entries (profile_roles (dget d ''profile'')) (ledger_entries d) = Inr s"
    and "\<not> replay_terminal s" and "req_event request \<in> set ACTIVATION_EVENTS" and "finite_json (PDict (req_detail request))"
    and "replay_event (profile_roles (dget d ''profile'')) (req_event request) (opt_str (req_role request))
           (opt_str (req_intent_id request)) (opt_str (req_subject_id request)) s = Inr s1"
    and "io_lock io = None" "io_replace io = Replaced" "io_audit io = Audited"
  shows "\<exists>entry d'. fst (ledger_append io request st) = Inr entry \<and> load_ledger (snd (ledger_append io request st)) = Inr d'
    \<and> audit_file (snd (ledger_append io request st)) = Some (audit @ audit_line entry)
    \<and> ledger_entries d' = ledger_entries d @ [PDict entry] \<and> extends d d' \<and> entry_of request entry
    \<and> replay_entries (profile_roles (dget d' ''profile'')) (ledger_entries d')
        = Inr (s1\<lparr>head_sha256 := Some (the_str (dget entry ''entry_sha256''))\<rparr>)"
proof -
  have ok: "ledger_ok d" using assms(1) by (simp add: load_ledger_Inr)
  obtain entry sealed where plan: "plan_append request (io_now io) d = Inr (entry, sealed)"
    and replayed: "replay_entries (profile_roles (dget d ''profile'')) (ledger_entries sealed)
        = Inr (s1\<lparr>head_sha256 := Some (the_str (dget entry ''entry_sha256''))\<rparr>)"
    using plan_append_accepts [OF ok assms(3-7)] by blast
  have run: "ledger_append io request st = (Inr entry, st\<lparr>ledger_file := Some (PDict sealed), audit_file := Some (audit @ audit_line entry)\<rparr>)"
    using assms(1,2,5,6,8-10) plan by (simp add: ledger_append_def canonical_activation_sha256_def del: finite_json.simps)
  have "dget sealed ''profile'' = dget d ''profile''"
    using plan_append_Inr [OF plan] by (simp add: extends_def HEADER_NAMES_def)
  then show ?thesis using run plan_append_Inr [OF plan] replayed by (simp add: load_ledger_Inr)
qed

section \<open>Properties\<close>

text \<open>
  C7: Refinement of the activation script: the entries of every ledger that the validator accepts are a
  prefix of the fixed script of its profile (claim, approval, dispatch, then the calibration thread and
  its turn, the worker threads, the worker turns), possibly cut short by one final terminal event.  So no
  role is allocated twice or out of order, no worker runs before the calibration turn is bound, and
  nothing follows the terminal event.
\<close>

theorem ledger_follows_script:
  assumes "validate_activation_ledger (PDict d) = []"
  shows "prefix (map entry_label (ledger_entries d)) (activation_script (profile_roles (dget d ''profile'')))
    \<or> (\<exists>p. p \<noteq> [] \<and> prefix p (activation_script (profile_roles (dget d ''profile'')))
        \<and> map entry_label (ledger_entries d) = p @ [(''terminal'', PNone)])"
proof -
  have ok: "ledger_ok d" using assms by (simp add: validate_activation_ledger_Nil)
  from ledger_ok_position [OF ok] obtain s where shape: "profile_shape (profile_roles (dget d ''profile''))"
    and pos: "position_inv (profile_roles (dget d ''profile'')) s (map entry_label (ledger_entries d))" by blast
  show ?thesis
  proof (cases "replay_phase s = Ended")
    case True
    then show ?thesis using pos unfolding position_inv_def at_position_def by simp
  next
    case False
    then show ?thesis using position_prefix [OF pos _ shape] by blast
  qed
qed

text \<open>
  In every accepted ledger a turn is intended only on the thread that an earlier entry bound to the
  same role.
\<close>

theorem ledger_turns_on_bound_threads:
  assumes "validate_activation_ledger (PDict d) = []" and "ledger_entries d = before @ entry # after"
    and "dget (the_dict entry) ''event'' = PStr ''turn-intent''"
  shows "\<exists>bound\<in>set before. dget (the_dict bound) ''event'' = PStr ''thread-bound''
    \<and> dget (the_dict bound) ''role'' = dget (the_dict entry) ''role''
    \<and> dget (the_dict bound) ''subject_id'' = dget (the_dict entry) ''subject_id''"
proof -
  have "ledger_ok d" using assms(1) by (simp add: validate_activation_ledger_Nil)
  then have "turns_bound (ledger_entries d)" using ledger_ok_position replay_turns_bound by blast
  then show ?thesis using assms(2,3) unfolding turns_bound_def binds_thread_def by blast
qed


text \<open>
  C40: A terminated activation is final: once the last entry of the stored ledger is the terminal event,
  every append is refused and changes neither the ledger file nor the audit file.
\<close>

theorem ledger_terminal_is_final:
  assumes "load_ledger st = Inr d" and "ledger_entries d \<noteq> []" and "fst (entry_label (last (ledger_entries d))) = ''terminal''"
  shows "\<exists>e. ledger_append io request st = (Inl e, st)"
proof (cases rule: ledger_append_cases [of io request st])
  case (refused e)
  then show ?thesis by blast
next
  case (planned d1 entry sealed)
  have ok: "ledger_ok d" using assms(1) by (simp add: load_ledger_Inr)
  let ?roles = "profile_roles (dget d ''profile'')"
  from ledger_ok_position [OF ok] obtain s where shape: "profile_shape ?roles"
    and s: "replay_entries ?roles (ledger_entries d) = Inr s" "position_inv ?roles s (map entry_label (ledger_entries d))" by blast
  have "d1 = d" using planned(1) assms(1) by simp
  then obtain s' where "replay_entries ?roles (ledger_entries d @ [PDict entry]) = Inr s'"
    using plan_append_Inr [OF planned(2)] by blast
  then have "replay_entry ?roles s (length (ledger_entries d), PDict entry) = Inr s'"
    using replay_entries_append s(1) by fastforce
  then have "\<not> replay_terminal s" unfolding replay_entry_Inr by blast
  moreover have "replay_terminal s"
    by (rule terminal_position [OF s(2) _ _ shape]) (use assms(2,3) in \<open>simp_all add: last_map\<close>)
  ultimately show ?thesis by blast
qed

text \<open>
  An existing ledger is never overwritten: creating a ledger where one is stored raises and leaves
  both files as they are, whatever the arguments.
\<close>

theorem ledger_create_never_overwrites:
  assumes "ledger_file st \<noteq> None"
  shows "\<exists>e. create_ledger io ledger_id profile plan_sha256 claim_sha256 action_sha256 campaign_nonce created_at st = (Inl e, st)"
  using assms by (auto simp: create_ledger_def split: sum.splits)

lemma claim_replays:
  assumes "wf_claim i p a b c n"
  shows "replay_event (profile_roles (PStr p)) ''claim-acquired'' PNone PNone PNone replay_start
    = Inr (replay_start\<lparr>replay_phase := Claimed\<rparr>)"
  by (simp add: replay_event_def header_event_def replay_start_def ensure_def)

text \<open>
  In an empty directory, with well-formed digests and identifiers and no failure of the file system,
  creating a ledger stores an accepted ledger for the profile with the single entry claim-acquired, whose
  lifecycle summary is the claimed phase, and an audit trail with that entry's line.
\<close>

theorem ledger_create_claims:
  assumes "ledger_file st = None" and "audit_file st = None"
    and "wf_claim ledger_id profile plan_sha256 claim_sha256 action_sha256 campaign_nonce"
    and "io_lock io = None" "io_replace io = Replaced" "io_audit io = Audited"
  shows "\<exists>st' d entry. create_ledger io ledger_id profile plan_sha256 claim_sha256 action_sha256 campaign_nonce created_at st = (Inr (), st')
    \<and> load_ledger st' = Inr d \<and> ledger_entries d = [PDict entry] \<and> entry_label (PDict entry) = (''claim-acquired'', PNone)
    \<and> dget d ''profile'' = PStr profile \<and> audit_file st' = Some (audit_line entry)
    \<and> ledger_summary st' = Inr [(''phase'', PStr ''claimed''), (''pending_allocation'', PBool False),
        (''pending_turn'', PBool False), (''terminal'', PBool False)]"
proof -
  let ?now = "or_now created_at (io_now io)"
  let ?body = "empty_ledger ledger_id profile plan_sha256 claim_sha256 action_sha256 campaign_nonce ?now"
  obtain sealed where sealed: "seal_ledger ?body = Inr sealed" "ledger_ok sealed"
    "\<forall>k. k \<noteq> ''ledger_sha256'' \<longrightarrow> dget sealed k = dget ?body k"
    using seal_empty_ledger [OF assms(3)] by blast
  define st1 where "st1 = st\<lparr>ledger_file := Some (PDict sealed), audit_file := Some []\<rparr>"
  have fields: "dget sealed ''profile'' = PStr profile" "ledger_entries sealed = []"
    using sealed(3) by (simp_all add: empty_ledger_def ledger_entries_def)
  have "load_ledger st1 = Inr sealed" "audit_file st1 = Some []" using sealed(2) by (simp_all add: load_ledger_Inr st1_def)
  from ledger_append_accepts [OF this, of replay_start "claim_request claim_sha256" "replay_start\<lparr>replay_phase := Claimed\<rparr>" io]
  obtain entry d' where run: "fst (ledger_append io (claim_request claim_sha256) st1) = Inr entry"
    "load_ledger (snd (ledger_append io (claim_request claim_sha256) st1)) = Inr d'"
    "audit_file (snd (ledger_append io (claim_request claim_sha256) st1)) = Some (audit_line entry)"
    "ledger_entries d' = [PDict entry]" "extends sealed d'"
    "replay_entries (profile_roles (dget d' ''profile'')) (ledger_entries d')
        = Inr (replay_start\<lparr>replay_phase := Claimed, head_sha256 := Some (the_str (dget entry ''entry_sha256''))\<rparr>)"
    using claim_replays [OF assms(3)] assms(4-6) fields
    by (auto simp: claim_request_def ACTIVATION_EVENTS_def replay_entries_def replay_start_def)
  have profile: "dget d' ''profile'' = PStr profile"
    using run(5) fields(1) by (simp add: extends_def HEADER_NAMES_def)
  have create: "create_ledger io ledger_id profile plan_sha256 claim_sha256 action_sha256 campaign_nonce created_at st
      = (Inr (), snd (ledger_append io (claim_request claim_sha256) st1))"
    using assms(1-3) sealed(1) run(1)
    by (cases "ledger_append io (claim_request claim_sha256) st1") (simp add: create_ledger_def Let_def st1_def wf_claim_def)
  have "position_inv (profile_roles (PStr profile)) (replay_start\<lparr>replay_phase := Claimed, head_sha256 := Some (the_str (dget entry ''entry_sha256''))\<rparr>)
      [entry_label (PDict entry)]"
    using ledger_ok_position [of d'] run(2,4,6) profile by (auto simp: load_ledger_Inr)
  then have "entry_label (PDict entry) = (''claim-acquired'', PNone)"
    by (simp add: position_defs header_labels_def)
  moreover have "ledger_summary (snd (ledger_append io (claim_request claim_sha256) st1)) =
      Inr [(''phase'', PStr ''claimed''), (''pending_allocation'', PBool False), (''pending_turn'', PBool False), (''terminal'', PBool False)]"
    using run(2,4,6) profile by (simp add: ledger_summary_def ledger_entries_def ledger_phase_text_def replay_start_def)
  ultimately show ?thesis using create run(2,3,4) profile by auto
qed

section \<open>A concrete activation\<close>

definition demo_uuid :: string where
  "demo_uuid = ''00000000-0000-4000-8000-000000000000''"

definition demo_roles :: "string list" where
  "demo_roles = [''calibration'', ''read-only-0'']"

definition demo_io :: ledger_io where
  "demo_io = \<lparr>io_lock = None, io_replace = Replaced, io_audit = Audited, io_now = ''2026-01-01T00:00:00.000Z''\<rparr>"

lemma demo_uuid_text: "uuid_text demo_uuid"
  by code_simp

lemma demo_claim_ok: "wf_claim demo_uuid ''n1-read-only'' (text_sha256 ''p'') (text_sha256 ''c'') (text_sha256 ''a'') demo_uuid"
  by (simp add: wf_claim_def demo_uuid_text PROFILE_ROLES_def)

lemma demo_profile_roles: "profile_roles (PStr ''n1-read-only'') = demo_roles"
  by (simp add: profile_roles_def PROFILE_ROLES_def demo_roles_def)

definition event_facts :: "pyval \<Rightarrow> string \<times> pyval \<times> pyval" where
  "event_facts entry = (the_str (dget (the_dict entry) ''event''), dget (the_dict entry) ''role'', dget (the_dict entry) ''subject_id'')"

text \<open>A stored ledger of the profile whose replay is in a given state after given events.\<close>

definition demo_at :: "replay_state \<Rightarrow> (string \<times> pyval \<times> pyval) list \<Rightarrow> bool" where
  "demo_at s events \<longleftrightarrow> (\<exists>st d h. load_ledger st = Inr d \<and> audit_file st \<noteq> None
     \<and> dget d ''profile'' = PStr ''n1-read-only'' \<and> replay_entries demo_roles (ledger_entries d) = Inr (s\<lparr>head_sha256 := h\<rparr>)
     \<and> map event_facts (ledger_entries d) = events)"

lemma demo_at_start: "demo_at replay_start []"
proof -
  obtain sealed where sealed: "ledger_ok sealed" "\<forall>k. k \<noteq> ''ledger_sha256'' \<longrightarrow> dget sealed k =
      dget (empty_ledger demo_uuid ''n1-read-only'' (text_sha256 ''p'') (text_sha256 ''c'') (text_sha256 ''a'') demo_uuid ''t'') k"
    using seal_empty_ledger [OF demo_claim_ok] by blast
  have "dget sealed ''profile'' = PStr ''n1-read-only''" "ledger_entries sealed = []"
    using sealed(2) by (simp_all add: empty_ledger_def ledger_entries_def)
  then show ?thesis
    using sealed(1) unfolding demo_at_def
    by (intro exI [of _ "\<lparr>ledger_file = Some (PDict sealed), audit_file = Some []\<rparr>"] exI [of _ sealed] exI [of _ None])
       (simp add: load_ledger_Inr replay_entries_def replay_start_def)
qed

lemma demo_at_step:
  assumes "demo_at s events" and "\<not> replay_terminal s" and "event \<in> set ACTIVATION_EVENTS"
    and "\<And>h. replay_event demo_roles event (opt_str role) (opt_str intent_id) (opt_str subject_id) (s\<lparr>head_sha256 := h\<rparr>)
       = Inr (s1\<lparr>head_sha256 := h\<rparr>)"
  shows "demo_at s1 (events @ [(event, opt_str role, opt_str subject_id)])"
proof -
  obtain st d h where at: "load_ledger st = Inr d" "audit_file st \<noteq> None" "dget d ''profile'' = PStr ''n1-read-only''"
    "replay_entries demo_roles (ledger_entries d) = Inr (s\<lparr>head_sha256 := h\<rparr>)" "map event_facts (ledger_entries d) = events"
    using assms(1) unfolding demo_at_def by blast
  then obtain audit where audit: "audit_file st = Some audit" by blast
  let ?r = "\<lparr>req_event = event, req_role = role, req_intent_id = intent_id, req_subject_id = subject_id, req_detail = [],
      req_recorded_at = None\<rparr>"
  from ledger_append_accepts [OF at(1) audit, of "s\<lparr>head_sha256 := h\<rparr>" ?r "s1\<lparr>head_sha256 := h\<rparr>" demo_io]
  obtain entry d' where run: "load_ledger (snd (ledger_append demo_io ?r st)) = Inr d'"
    "audit_file (snd (ledger_append demo_io ?r st)) = Some (audit @ audit_line entry)"
    "ledger_entries d' = ledger_entries d @ [PDict entry]" "extends d d'" "entry_of ?r entry"
    "replay_entries (profile_roles (dget d' ''profile'')) (ledger_entries d')
       = Inr (s1\<lparr>head_sha256 := Some (the_str (dget entry ''entry_sha256''))\<rparr>)"
    using at(3,4) assms(2-4) by (auto simp: demo_io_def demo_profile_roles)
  have "dget d' ''profile'' = PStr ''n1-read-only''" using run(4) at(3) by (simp add: extends_def HEADER_NAMES_def)
  moreover have "event_facts (PDict entry) = (event, opt_str role, opt_str subject_id)"
    using run(5) by (simp add: event_facts_def entry_of_def)
  ultimately show ?thesis
    using run at(5) unfolding demo_at_def by (intro exI [of _ "snd (ledger_append demo_io ?r st)"] exI [of _ d'])
      (auto simp: demo_profile_roles)
qed

text \<open>The first seven events: the claim up to the intent of the calibration turn.\<close>

definition demo_turning :: replay_state where
  "demo_turning = replay_start\<lparr>replay_phase := CalibrationTurning, allocation_index := 1,
     thread_by_role := [''calibration'' \<mapsto> demo_uuid],
     pending_turn := Some (Some ''calibration'', Some demo_uuid, Some demo_uuid)\<rparr>"

definition demo_events :: "(string \<times> pyval \<times> pyval) list" where
  "demo_events =
     [(''claim-acquired'', PNone, PNone), (''approval-consume-intent'', PNone, PNone), (''approval-verified'', PNone, PNone),
      (''activation-dispatch-intent'', PNone, PNone), (''allocation-intent'', PStr ''calibration'', PNone),
      (''thread-bound'', PStr ''calibration'', PStr demo_uuid), (''turn-intent'', PStr ''calibration'', PStr demo_uuid)]"

lemmas demo_replay_defs = replay_event_def header_event_def replay_allocation_intent_def replay_thread_bound_def
  replay_turn_intent_def replay_terminal_event_def replay_start_def ensure_def demo_roles_def is_uuid_def demo_uuid_text
  thread_of_def name_text_def Let_def

lemma demo_at_turning: "demo_at demo_turning demo_events"
proof -
  have e: "x \<in> set ACTIVATION_EVENTS" if "x \<in> {''claim-acquired'', ''approval-consume-intent'', ''approval-verified'',
      ''activation-dispatch-intent'', ''allocation-intent'', ''thread-bound'', ''turn-intent'', ''terminal''}" for x
    using that by (auto simp: ACTIVATION_EVENTS_def)
  let ?s = "\<lambda>phase. replay_start\<lparr>replay_phase := phase\<rparr>"
  have 1: "demo_at (?s Claimed) [(''claim-acquired'', PNone, PNone)]"
    using demo_at_step [OF demo_at_start, of "''claim-acquired''" None None None "?s Claimed"]
    by (simp add: demo_replay_defs ACTIVATION_EVENTS_def)
  have 2: "demo_at (?s ApprovalIntent) (take 2 demo_events)"
    using demo_at_step [OF 1, of "''approval-consume-intent''" None None None "?s ApprovalIntent"]
    by (simp add: demo_replay_defs ACTIVATION_EVENTS_def demo_events_def)
  have 3: "demo_at (?s ApprovalVerified) (take 3 demo_events)"
    using demo_at_step [OF 2, of "''approval-verified''" None None None "?s ApprovalVerified"]
    by (simp add: demo_replay_defs ACTIVATION_EVENTS_def demo_events_def)
  have 4: "demo_at (?s Allocating) (take 4 demo_events)"
    using demo_at_step [OF 3, of "''activation-dispatch-intent''" None None None "?s Allocating"]
    by (simp add: demo_replay_defs ACTIVATION_EVENTS_def demo_events_def)
  have 5: "demo_at ((?s Allocating)\<lparr>pending_allocation := Some (''calibration'', demo_uuid)\<rparr>) (take 5 demo_events)"
    using demo_at_step [OF 4, of "''allocation-intent''" "Some ''calibration''" "Some demo_uuid" None
        "(?s Allocating)\<lparr>pending_allocation := Some (''calibration'', demo_uuid)\<rparr>"]
    by (simp add: demo_replay_defs ACTIVATION_EVENTS_def demo_events_def)
  have 6: "demo_at (demo_turning\<lparr>pending_turn := None\<rparr>) (take 6 demo_events)"
    using demo_at_step [OF 5, of "''thread-bound''" "Some ''calibration''" "Some demo_uuid" "Some demo_uuid"
        "demo_turning\<lparr>pending_turn := None\<rparr>"]
    by (simp add: demo_replay_defs ACTIVATION_EVENTS_def demo_events_def demo_turning_def)
  show ?thesis
    using demo_at_step [OF 6, of "''turn-intent''" "Some ''calibration''" "Some demo_uuid" "Some demo_uuid" demo_turning]
    by (simp add: demo_replay_defs ACTIVATION_EVENTS_def demo_events_def demo_turning_def)
qed

lemma demo_at_ended:
  "demo_at (demo_turning\<lparr>replay_terminal := True, replay_phase := Ended\<rparr>) (demo_events @ [(''terminal'', PNone, PNone)])"
  using demo_at_step [OF demo_at_turning, of "''terminal''" None None None "demo_turning\<lparr>replay_terminal := True, replay_phase := Ended\<rparr>"]
  by (simp add: demo_replay_defs ACTIVATION_EVENTS_def demo_turning_def)

section \<open>Witnesses\<close>

definition demo_run :: "replay_state \<Rightarrow> (string \<times> pyval \<times> pyval) list \<Rightarrow> ledger_store \<Rightarrow> pydict \<Rightarrow> bool" where
  "demo_run s events st d \<longleftrightarrow> load_ledger st = Inr d \<and> audit_file st \<noteq> None \<and> map event_facts (ledger_entries d) = events
     \<and> (\<exists>h. replay_entries (profile_roles (dget d ''profile'')) (ledger_entries d) = Inr (s\<lparr>head_sha256 := h\<rparr>))"

lemma demo_run_exists: "demo_at s events \<Longrightarrow> \<exists>st d. demo_run s events st d"
  unfolding demo_at_def demo_run_def using demo_profile_roles by fastforce

lemma demo_run_valid: "demo_run s events st d \<Longrightarrow> validate_activation_ledger (PDict d) = []"
  by (simp add: demo_run_def load_ledger_Inr validate_activation_ledger_Nil)

theorem ledger_follows_script_witness:
  "\<exists>d. validate_activation_ledger (PDict d) = [] \<and> map event_facts (ledger_entries d) = demo_events
    \<and> (prefix (map entry_label (ledger_entries d)) (activation_script (profile_roles (dget d ''profile'')))
       \<or> (\<exists>p. p \<noteq> [] \<and> prefix p (activation_script (profile_roles (dget d ''profile'')))
          \<and> map entry_label (ledger_entries d) = p @ [(''terminal'', PNone)]))"
proof -
  obtain st d where run: "demo_run demo_turning demo_events st d" using demo_run_exists [OF demo_at_turning] by blast
  show ?thesis
    using ledger_follows_script [OF demo_run_valid [OF run]] demo_run_valid [OF run] run unfolding demo_run_def by blast
qed

theorem ledger_turns_on_bound_threads_witness:
  "\<exists>d before entry. ledger_entries d = before @ [entry] \<and> dget (the_dict entry) ''event'' = PStr ''turn-intent''
    \<and> (\<exists>bound\<in>set before. dget (the_dict bound) ''event'' = PStr ''thread-bound''
        \<and> dget (the_dict bound) ''role'' = dget (the_dict entry) ''role''
        \<and> dget (the_dict bound) ''subject_id'' = dget (the_dict entry) ''subject_id'')"
proof -
  obtain st d where run: "demo_run demo_turning demo_events st d" using demo_run_exists [OF demo_at_turning] by blast
  then have facts: "map event_facts (ledger_entries d) = demo_events" by (simp add: demo_run_def)
  then have "ledger_entries d \<noteq> []" by (auto simp: demo_events_def)
  then obtain before entry where split: "ledger_entries d = before @ entry # []" by (metis append_butlast_last_id)
  have "event_facts entry = last demo_events" unfolding facts [symmetric] split by simp
  then have the: "the_str (dget (the_dict entry) ''event'') = ''turn-intent''" by (simp add: event_facts_def demo_events_def)
  obtain s' where "replay_entries (profile_roles (dget d ''profile'')) (before @ [entry]) = Inr s'"
    using run split by (auto simp: demo_run_def)
  from replay_entries_append [OF this] obtain s where
    "replay_entry (profile_roles (dget d ''profile'')) s (length before, entry) = Inr s'" by blast
  then have "in_strs (dget (the_dict entry) ''event'') ACTIVATION_EVENTS"
    unfolding replay_entry_Inr entry_ok_def by auto
  then have event: "dget (the_dict entry) ''event'' = PStr ''turn-intent''" using in_strs_the_str the by metis
  show ?thesis
    using ledger_turns_on_bound_threads [OF demo_run_valid [OF run] split event] split event by blast
qed

lemma demo_turning_run: "\<exists>st d. demo_run demo_turning demo_events st d \<and> load_ledger st = Inr d \<and> length (ledger_entries d) = 7"
proof -
  obtain st d where run: "demo_run demo_turning demo_events st d" using demo_run_exists [OF demo_at_turning] by blast
  then have load: "load_ledger st = Inr d" and facts: "map event_facts (ledger_entries d) = demo_events" unfolding demo_run_def by blast+
  have "length (ledger_entries d) = length demo_events" unfolding facts [symmetric] by simp
  then have "length (ledger_entries d) = 7" by (simp add: demo_events_def)
  then show ?thesis using run load by blast
qed


theorem ledger_terminal_is_final_witness:
  "\<exists>st d e. load_ledger st = Inr d \<and> fst (entry_label (last (ledger_entries d))) = ''terminal''
    \<and> ledger_append demo_io (claim_request ''c'') st = (Inl e, st)"
proof -
  obtain st d where run: "demo_run (demo_turning\<lparr>replay_terminal := True, replay_phase := Ended\<rparr>)
      (demo_events @ [(''terminal'', PNone, PNone)]) st d" using demo_run_exists [OF demo_at_ended] by blast
  then have facts: "map event_facts (ledger_entries d) = demo_events @ [(''terminal'', PNone, PNone)]" and load: "load_ledger st = Inr d"
    by (simp_all add: demo_run_def)
  then have nonempty: "ledger_entries d \<noteq> []" by auto
  have "event_facts (last (ledger_entries d)) = (''terminal'', PNone, PNone)"
    using facts nonempty by (metis last_map last_snoc)
  then have last: "fst (entry_label (last (ledger_entries d))) = ''terminal''" by (simp add: event_facts_def entry_label_def)
  show ?thesis using ledger_terminal_is_final [OF load nonempty last] load last by blast
qed

theorem ledger_create_never_overwrites_witness:
  "\<exists>e. create_ledger demo_io demo_uuid ''n1-read-only'' [] [] [] [] None \<lparr>ledger_file = Some PNone, audit_file = None\<rparr>
     = (Inl e, \<lparr>ledger_file = Some PNone, audit_file = None\<rparr>)"
  by (rule ledger_create_never_overwrites) simp

theorem ledger_create_claims_witness:
  "\<exists>st' d entry. create_ledger demo_io demo_uuid ''n1-read-only'' (text_sha256 ''p'') (text_sha256 ''c'') (text_sha256 ''a'')
       demo_uuid None \<lparr>ledger_file = None, audit_file = None\<rparr> = (Inr (), st')
    \<and> load_ledger st' = Inr d \<and> ledger_entries d = [PDict entry]"
  using ledger_create_claims [of "\<lparr>ledger_file = None, audit_file = None\<rparr>", OF _ _ demo_claim_ok, of demo_io None]
  by (auto simp: demo_io_def)

text \<open>
  C33: With a working file system an append succeeds exactly when the event is known, the detail is
  canonical JSON and the phase machine accepts the event after the stored entries; otherwise it raises.
\<close>

theorem ledger_append_exact:
  assumes "load_ledger st = Inr d" and "audit_file st = Some audit"
    and "io_lock io = None" "io_replace io = Replaced" "io_audit io = Audited"
  shows "(\<exists>entry. fst (ledger_append io request st) = Inr entry) \<longleftrightarrow>
    (req_event request \<in> set ACTIVATION_EVENTS \<and> finite_json (PDict (req_detail request))
     \<and> (\<exists>s s1. replay_entries (profile_roles (dget d ''profile'')) (ledger_entries d) = Inr s \<and> \<not> replay_terminal s
          \<and> replay_event (profile_roles (dget d ''profile'')) (req_event request) (opt_str (req_role request))
              (opt_str (req_intent_id request)) (opt_str (req_subject_id request)) s = Inr s1))"
proof
  assume "\<exists>entry. fst (ledger_append io request st) = Inr entry"
  then obtain entry where success: "fst (ledger_append io request st) = Inr entry" by blast
  then have known: "req_event request \<in> set ACTIVATION_EVENTS" and finite: "finite_json (PDict (req_detail request))"
    by (auto simp: ledger_append_def ensure_def canonical_activation_sha256_def simp del: finite_json.simps split: if_splits)
  show "req_event request \<in> set ACTIVATION_EVENTS \<and> finite_json (PDict (req_detail request))
     \<and> (\<exists>s s1. replay_entries (profile_roles (dget d ''profile'')) (ledger_entries d) = Inr s \<and> \<not> replay_terminal s
          \<and> replay_event (profile_roles (dget d ''profile'')) (req_event request) (opt_str (req_role request))
              (opt_str (req_intent_id request)) (opt_str (req_subject_id request)) s = Inr s1)"
  proof (cases rule: ledger_append_cases [of io request st])
    case (refused e)
    then show ?thesis using success by simp
  next
    case (planned d1 entry1 sealed)
    have "d1 = d" using planned(1) assms(1) by simp
    from plan_append_Inr [OF planned(2)] obtain s' where "entry_of request entry1"
      "replay_entries (profile_roles (dget d ''profile'')) (ledger_entries d @ [PDict entry1]) = Inr s'"
      unfolding \<open>d1 = d\<close> by blast
    moreover from replay_entries_append [OF this(2)] obtain s where
      "replay_entries (profile_roles (dget d ''profile'')) (ledger_entries d) = Inr s"
      "replay_entry (profile_roles (dget d ''profile'')) s (length (ledger_entries d), PDict entry1) = Inr s'" by blast
    ultimately show ?thesis using known finite unfolding replay_entry_Inr entry_of_def by auto
  qed
next
  assume "req_event request \<in> set ACTIVATION_EVENTS \<and> finite_json (PDict (req_detail request))
     \<and> (\<exists>s s1. replay_entries (profile_roles (dget d ''profile'')) (ledger_entries d) = Inr s \<and> \<not> replay_terminal s
          \<and> replay_event (profile_roles (dget d ''profile'')) (req_event request) (opt_str (req_role request))
              (opt_str (req_intent_id request)) (opt_str (req_subject_id request)) s = Inr s1)"
  then show "\<exists>entry. fst (ledger_append io request st) = Inr entry"
    using ledger_append_accepts [OF assms(1,2) _ _ _ _ _ assms(3-5)] by blast
qed

theorem ledger_append_exact_witness:
  "\<exists>st d. load_ledger st = Inr d \<and> length (ledger_entries d) = 7
    \<and> \<not> (\<exists>entry. fst (ledger_append demo_io \<lparr>req_event = ''unknown'', req_role = None, req_intent_id = None,
           req_subject_id = None, req_detail = [], req_recorded_at = None\<rparr> st) = Inr entry)"
proof -
  obtain st d where run: "demo_run demo_turning demo_events st d" and load: "load_ledger st = Inr d" "length (ledger_entries d) = 7"
    using demo_turning_run by blast
  obtain audit where audit: "audit_file st = Some audit" using run by (auto simp: demo_run_def)
  have "\<not> (\<exists>entry. fst (ledger_append demo_io \<lparr>req_event = ''unknown'', req_role = None, req_intent_id = None,
           req_subject_id = None, req_detail = [], req_recorded_at = None\<rparr> st) = Inr entry)"
    using ledger_append_exact [OF load(1) audit, of demo_io "\<lparr>req_event = ''unknown'', req_role = None, req_intent_id = None,
           req_subject_id = None, req_detail = [], req_recorded_at = None\<rparr>"]
    by (simp add: demo_io_def ACTIVATION_EVENTS_def)
  then show ?thesis using load by blast
qed

end
