(* ===== verification/CanonJsonUnique.thy ===== *)
theory CanonJsonUnique
  imports CanonJson
begin

text \<open>
  The canonical JSON text determines the value: a value without floating-point numbers has the text of
  another value exactly when they are the same up to the order of keys.  A text is read from left to right; what
  may follow a value is the end, a comma or a closing bracket.
\<close>

section \<open>Characters and strings\<close>

lemma json_char_cases:
  obtains (plain) "json_char a c = [c]" "code c \<noteq> 34" "code c \<noteq> 92"
  | (short) e where "json_char a c = [CHR 0x5C, e]" "short_escape c = Some [CHR 0x5C, e]" "e \<noteq> CHR ''u''"
  | (long) "json_char a c = [CHR 0x5C, CHR ''u''] @ hex4 (code c)"
proof (cases "short_escape c")
  case None
  then have "code c \<noteq> 34" "code c \<noteq> 92" by (auto simp: short_escape_def split: if_splits)
  then show thesis
    using plain long None by (cases "code c < 32 \<or> a \<and> 126 < code c") (simp_all add: json_char_def)
next
  case (Some e)
  then obtain x where "e = [CHR 0x5C, x]" "x \<noteq> CHR ''u''" by (auto simp: short_escape_def split: if_splits)
  then show thesis using short [of x] Some by (simp add: json_char_def)
qed

definition hex_value :: "char \<Rightarrow> nat" where
  "hex_value c = (if is_digit c then code c - 48 else code c - 87)"

lemma hex_value_digit: "n < 16 \<Longrightarrow> hex_value (hex_digit n) = n"
  by (auto simp: hex_value_def hex_digit_def is_digit_def)

lemma hex_digits_unique: "m < 16 ^ k \<Longrightarrow> n < 16 ^ k \<Longrightarrow> hex_digits k m = hex_digits k n \<Longrightarrow> m = n"
proof (induction k arbitrary: m n)
  case (Suc k)
  have tail: "hex_digits k (m div 16) = hex_digits k (n div 16)" and last: "hex_digit (m mod 16) = hex_digit (n mod 16)"
    using Suc.prems(3) by simp_all
  have "m div 16 < 16 ^ k" "n div 16 < 16 ^ k"
    using Suc.prems(1,2) by (simp_all add: less_mult_imp_div_less mult.commute)
  then have "m div 16 = n div 16" by (rule Suc.IH) (rule tail)
  moreover have "m mod 16 = n mod 16"
    using arg_cong [OF last, of hex_value] by (simp add: hex_value_digit)
  ultimately show ?case by (metis div_mult_mod_eq)
qed simp

lemma length_hex4 [simp]: "length (hex4 n) = 4"
  by (simp add: hex4_def)

lemma code_less: "code c < 256"
  by (rule nat_of_char_less_256)

lemma hex4_unique: "hex4 (code c) = hex4 (code d) \<Longrightarrow> c = d"
  using hex_digits_unique [of "code c" 4 "code d"] code_less [of c] code_less [of d] by (simp add: hex4_def)

lemma short_escape_unique: "short_escape c = Some e \<Longrightarrow> short_escape d = Some e \<Longrightarrow> c = d"
proof -
  assume "short_escape c = Some e" "short_escape d = Some e"
  then have "code c = code d" by (auto simp: short_escape_def simp del: of_char_eq_iff split: if_splits)
  then show ?thesis by simp
qed

lemma json_char_not_quote: "json_char a c @ x \<noteq> CHR 0x22 # y"
  by (cases a c rule: json_char_cases) auto

lemma json_char_unique: "json_char a c @ x = json_char a d @ y \<Longrightarrow> c = d \<and> x = y"
proof (cases a c rule: json_char_cases)
  case plain
  assume eq: "json_char a c @ x = json_char a d @ y"
  then show ?thesis using plain by (cases a d rule: json_char_cases) auto
next
  case (short e)
  assume eq: "json_char a c @ x = json_char a d @ y"
  then show ?thesis using short short_escape_unique by (cases a d rule: json_char_cases) auto
next
  case long
  assume eq: "json_char a c @ x = json_char a d @ y"
  then show ?thesis using long hex4_unique [of c d] by (cases a d rule: json_char_cases) (auto simp: append_eq_append_conv)
qed

lemma json_body_unique:
  "concat (map (json_char a) s) @ CHR 0x22 # x = concat (map (json_char a) t) @ CHR 0x22 # y \<Longrightarrow> s = t \<and> x = y"
proof (induction s arbitrary: t)
  case Nil
  then show ?case using json_char_not_quote [of a] by (cases t) (simp_all, metis)
next
  case (Cons c s)
  show ?case
  proof (cases t)
    case Nil
    then show ?thesis using Cons.prems json_char_not_quote [of a c] by simp
  next
    case (Cons d t')
    then show ?thesis using Cons.prems Cons.IH json_char_unique [of a c _ d] by simp blast
  qed
qed

lemma json_str_unique: "json_str a s @ x = json_str a t @ y \<Longrightarrow> s = t \<and> x = y"
  using json_body_unique [of a s x t y] by (simp add: json_str_def)

section \<open>Numbers\<close>

definition delim :: "string \<Rightarrow> bool" where
  "delim r \<longleftrightarrow> r = [] \<or> hd r \<in> {CHR '','', CHR '']'', CHR ''}''}"

lemma delim_not_digit: "delim r \<Longrightarrow> takeWhile is_digit r = []"
  by (cases r) (auto simp: delim_def is_digit_def)

lemma str_of_nat_unique: "delim x \<Longrightarrow> delim y \<Longrightarrow> str_of_nat m @ x = str_of_nat n @ y \<Longrightarrow> m = n \<and> x = y"
proof -
  assume d: "delim x" "delim y" and eq: "str_of_nat m @ x = str_of_nat n @ y"
  have "takeWhile is_digit (str_of_nat k @ z) = str_of_nat k" if "delim z" for k z
    using str_of_nat_digits [of k] delim_not_digit [OF that] by (simp add: takeWhile_append)
  then have "str_of_nat m = str_of_nat n" using d eq by metis
  then show ?thesis using eq by simp
qed

lemma hd_str_of_nat: "is_digit (hd (str_of_nat n @ x))"
  using str_of_nat_digits [of n] by (simp add: hd_append)

lemma minus_not_digit: "\<not> is_digit CHR ''-''"
  by (simp add: is_digit_def)

lemma str_of_int_unique: "delim x \<Longrightarrow> delim y \<Longrightarrow> str_of_int i @ x = str_of_int j @ y \<Longrightarrow> i = j \<and> x = y"
proof -
  assume d: "delim x" "delim y" and eq: "str_of_int i @ x = str_of_int j @ y"
  have minus: "CHR ''-'' # u \<noteq> str_of_nat n @ v" for u n v
    using hd_str_of_nat [of n v] minus_not_digit by (metis list.sel(1))
  have minus': "str_of_nat n @ v \<noteq> CHR ''-'' # u" for u n v using minus by metis
  show ?thesis
  proof (cases "i < 0"; cases "j < 0")
    assume "i < 0" "j < 0"
    then show ?thesis using eq str_of_nat_unique [OF d, of "nat (- i)" "nat (- j)"] by (auto simp: str_of_int_def)
  next
    assume "\<not> i < 0" "\<not> j < 0"
    then show ?thesis using eq str_of_nat_unique [OF d, of "nat i" "nat j"] by (auto simp: str_of_int_def)
  qed (use eq minus minus' in \<open>simp_all add: str_of_int_def\<close>)
qed

section \<open>Sequences\<close>

lemma py_join_Cons: "py_join sep (x # xs) = x @ concat (map (\<lambda>y. sep @ y) xs)"
  by (induction xs arbitrary: x) auto

definition readable :: "('a \<Rightarrow> string) \<Rightarrow> 'a set \<Rightarrow> 'a set \<Rightarrow> bool" where
  "readable t X Y \<longleftrightarrow> (\<forall>x\<in>X. \<forall>y\<in>Y. \<forall>r r'. delim r \<longrightarrow> delim r' \<longrightarrow> t x @ r = t y @ r' \<longrightarrow> x = y \<and> r = r')"

lemma tails_unique:
  assumes "readable t (set xs) (set ys)" and "close \<in> {CHR '']'', CHR ''}''}"
    and "concat (map (\<lambda>x. '','' @ t x) xs) @ close # r = concat (map (\<lambda>x. '','' @ t x) ys) @ close # r'"
  shows "xs = ys \<and> r = r'"
  using assms
proof (induction xs arbitrary: ys)
  case Nil
  then show ?case by (cases ys) auto
next
  case (Cons x xs)
  show ?case
  proof (cases ys)
    case Nil
    then show ?thesis using Cons.prems(2,3) by auto
  next
    case ys: (Cons y ys')
    let ?tail = "\<lambda>zs q. concat (map (\<lambda>x. '','' @ t x) zs) @ close # q"
    have eq: "t x @ ?tail xs r = t y @ ?tail ys' r'" using Cons.prems(3) ys by simp
    have d: "delim (?tail zs q)" for zs q using Cons.prems(2) by (cases zs) (auto simp: delim_def)
    have "x = y \<and> ?tail xs r = ?tail ys' r'"
      using Cons.prems(1) eq d [of xs r] d [of ys' r'] ys unfolding readable_def by (metis list.set_intros(1))
    moreover have "readable t (set xs) (set ys')" using Cons.prems(1) ys unfolding readable_def by auto
    ultimately show ?thesis using Cons.IH [OF _ Cons.prems(2)] ys by blast
  qed
qed

lemma sequence_unique:
  assumes "readable t (set xs) (set ys)" and "close \<in> {CHR '']'', CHR ''}''}"
    and start: "\<And>x. x \<in> set xs \<union> set ys \<Longrightarrow> t x \<noteq> [] \<and> hd (t x) \<noteq> close"
    and "py_join '','' (map t xs) @ close # r = py_join '','' (map t ys) @ close # r'"
  shows "xs = ys \<and> r = r'"
proof (cases xs)
  case Nil
  show ?thesis
  proof (cases ys)
    case Nil2: Nil
    then show ?thesis using Nil assms(4) by simp
  next
    case (Cons y ys')
    then have "hd (py_join '','' (map t ys) @ close # r') = hd (t y)" using start [of y] by (auto simp: py_join_Cons)
    moreover have "hd (t y) \<noteq> close" using start [of y] Cons by simp
    ultimately show ?thesis using Nil assms(4) by (metis append_Nil list.sel(1) list.simps(8) py_join.simps(1))
  qed
next
  case xs: (Cons x xs')
  show ?thesis
  proof (cases ys)
    case Nil
    have "hd (py_join '','' (map t xs) @ close # r) = hd (t x)" using start [of x] xs by (auto simp: py_join_Cons)
    moreover have "hd (t x) \<noteq> close" using start [of x] xs by simp
    ultimately show ?thesis using Nil assms(4) by (metis append_Nil list.sel(1) list.simps(8) py_join.simps(1))
  next
    case ys: (Cons y ys')
    let ?tail = "\<lambda>zs q. concat (map (\<lambda>x. '','' @ t x) zs) @ close # q"
    have eq: "t x @ ?tail xs' r = t y @ ?tail ys' r'" using assms(4) xs ys by (simp add: py_join_Cons comp_def)
    have d: "delim (?tail zs q)" for zs q using assms(2) by (cases zs) (auto simp: delim_def)
    have "x = y \<and> ?tail xs' r = ?tail ys' r'"
      using assms(1) eq d [of xs' r] d [of ys' r'] xs ys unfolding readable_def by (metis list.set_intros(1))
    moreover have "readable t (set xs') (set ys')" using assms(1) xs ys unfolding readable_def by auto
    ultimately show ?thesis using tails_unique [OF _ assms(2)] xs ys by blast
  qed
qed

section \<open>Values\<close>

fun float_free :: "pyval \<Rightarrow> bool" where
  "float_free (PFloat x) = False"
| "float_free (PList xs) = (\<forall>v\<in>set xs. float_free v)"
| "float_free (PDict d) = (\<forall>(k, v)\<in>set d. float_free v)"
| "float_free _ = True"

text \<open>The text with the keys in the order they are stored, and the value with sorted keys.\<close>

fun plain_text :: "bool \<Rightarrow> pyval \<Rightarrow> string" where
  "plain_text a PNone = ''null''"
| "plain_text a (PBool b) = (if b then ''true'' else ''false'')"
| "plain_text a (PInt i) = str_of_int i"
| "plain_text a (PFloat x) = json_float x"
| "plain_text a (PStr s) = json_str a s"
| "plain_text a (PList xs) = ''['' @ py_join '','' (map (plain_text a) xs) @ '']''"
| "plain_text a (PDict d) = ''{'' @ py_join '','' (map (\<lambda>(k, v). json_str a k @ '':'' @ plain_text a v) d) @ ''}''"

fun sort_keys :: "pyval \<Rightarrow> pyval" where
  "sort_keys (PList xs) = PList (map sort_keys xs)"
| "sort_keys (PDict d) = PDict (sort_key fst (map (\<lambda>(k, v). (k, sort_keys v)) d))"
| "sort_keys v = v"

lemma sort_key_map_snd:
  "sort_key fst (map (\<lambda>(k, v). (k, f v)) d) = map (\<lambda>(k, v). (k, f v)) (sort_key fst (d :: ('k::linorder \<times> 'a) list))"
proof (induction d)
  case (Cons p d)
  have "insort_key fst (k, f v) (map (\<lambda>(k, v). (k, f v)) xs) = map (\<lambda>(k, v). (k, f v)) (insort_key fst (k, v) xs)"
    for k :: 'k and v and xs :: "('k \<times> 'a) list"
    by (induction xs) auto
  then show ?case using Cons by (cases p) simp
qed simp

lemma json_text_sorted: "json_text a v = plain_text a (sort_keys v)"
proof (induction v)
  case (PList xs)
  then have "map (json_text a) xs = map (\<lambda>x. plain_text a (sort_keys x)) xs" by simp
  then show ?case by (simp only: json_text.simps sort_keys.simps plain_text.simps map_map comp_def)
next
  case (PDict d)
  have "map (\<lambda>(k, v). (k, json_text a v)) d = map (\<lambda>(k, v). (k, plain_text a (sort_keys v))) d"
    using PDict by (fastforce simp: snds.simps)
  then have "sort_key fst (map (\<lambda>(k, v). (k, json_text a v)) d)
      = map (\<lambda>(k, v). (k, plain_text a v)) (sort_key fst (map (\<lambda>(k, v). (k, sort_keys v)) d))"
    by (simp only: sort_key_map_snd map_map) (simp add: case_prod_unfold comp_def)
  then have "map (\<lambda>(k, t). json_str a k @ '':'' @ t) (sort_key fst (map (\<lambda>(k, v). (k, json_text a v)) d))
      = map (\<lambda>(k, v). json_str a k @ '':'' @ plain_text a v) (sort_key fst (map (\<lambda>(k, v). (k, sort_keys v)) d))"
    by (simp add: case_prod_unfold comp_def)
  then show ?case by (simp only: json_text.simps sort_keys.simps plain_text.simps)
qed simp_all

lemma finite_json_sort_keys: "finite_json v \<Longrightarrow> finite_json (sort_keys v)"
  by (induction v) (auto simp: snds.simps split: pyfloat.splits)

lemma float_free_finite: "float_free v \<Longrightarrow> finite_json v"
  by (induction v) (auto simp: snds.simps)

lemma float_free_sort_keys: "float_free v \<Longrightarrow> float_free (sort_keys v)"
  by (induction v) (auto simp: snds.simps)

text \<open>The first character of a text tells what kind of value follows.\<close>

definition kind_of_char :: "char \<Rightarrow> nat" where
  "kind_of_char c = (if c = CHR ''n'' then 0 else if c = CHR ''t'' \<or> c = CHR ''f'' then 1 else if c = CHR 0x22 then 2
     else if c = CHR ''['' then 3 else if c = CHR ''{'' then 4 else if c = CHR '']'' \<or> c = CHR ''}'' then 6 else 5)"

fun value_kind :: "pyval \<Rightarrow> nat" where
  "value_kind PNone = 0"
| "value_kind (PBool _) = 1"
| "value_kind (PStr _) = 2"
| "value_kind (PList _) = 3"
| "value_kind (PDict _) = 4"
| "value_kind _ = 5"

lemma not_digits:
  "\<not> is_digit CHR ''n''" "\<not> is_digit CHR ''t''" "\<not> is_digit CHR ''f''" "\<not> is_digit CHR 0x22" "\<not> is_digit CHR ''[''"
  "\<not> is_digit CHR ''{''" "\<not> is_digit CHR '']''" "\<not> is_digit CHR ''}''"
  by (simp_all add: is_digit_def)

lemma kind_of_digit: "is_digit c \<Longrightarrow> kind_of_char c = 5"
  using not_digits unfolding kind_of_char_def by (intro if_not_P trans [OF if_not_P]) metis+

lemma kind_of_literals:
  "kind_of_char CHR ''n'' = 0" "kind_of_char CHR ''t'' = 1" "kind_of_char CHR ''f'' = 1" "kind_of_char CHR 0x22 = 2"
  "kind_of_char CHR ''['' = 3" "kind_of_char CHR ''{'' = 4" "kind_of_char CHR ''-'' = 5"
  "kind_of_char CHR '']'' = 6" "kind_of_char CHR ''}'' = 6"
  by code_simp+

text \<open>The text of a finite float has numeric characters only, and a point or an exponent among them.\<close>

definition numeric :: "char \<Rightarrow> bool" where
  "numeric c \<longleftrightarrow> is_digit c \<or> c = CHR ''-'' \<or> c = CHR ''+'' \<or> c = CHR ''.'' \<or> c = CHR ''e''"

lemma numeric_literals [simp]: "numeric CHR ''-''" "numeric CHR ''+''" "numeric CHR ''.''" "numeric CHR ''e''" "numeric CHR ''0''"
  by (simp_all add: numeric_def is_digit_def)

lemma numeric_str_of_nat: "\<forall>c\<in>set (str_of_nat n). numeric c"
  using str_of_nat_digits [of n] by (auto simp: numeric_def)

definition fractional :: "string \<Rightarrow> bool" where
  "fractional s \<longleftrightarrow> (\<forall>c\<in>set s. numeric c) \<and> (CHR ''.'' \<in> set s \<or> CHR ''e'' \<in> set s)"

lemma fractional_repr_positive: "fractional (repr_positive q)"
proof -
  obtain ds k where ds: "shortest_digits q = (ds, k)" by (cases "shortest_digits q")
  then obtain m where "ds = rev (dropWhile (\<lambda>c. c = CHR ''0'') (rev (str_of_nat m)))"
    by (auto simp: shortest_digits_def split: prod.splits)
  then have "set ds \<subseteq> set (str_of_nat m)" by (auto dest: set_dropWhileD)
  then have "\<forall>c\<in>set ds. numeric c" using numeric_str_of_nat by blast
  then show ?thesis
    using numeric_str_of_nat by (auto simp: fractional_def repr_positive_def ds dest: in_set_takeD in_set_dropD)
qed

lemma fractional_float: "fractional (json_float (FFin q))"
  using fractional_repr_positive [of q] fractional_repr_positive [of "- q"]
  by (auto simp: json_float_def fractional_def)

lemma kind_of_marks: "kind_of_char CHR ''-'' = 5" "kind_of_char CHR ''+'' = 5" "kind_of_char CHR ''.'' = 5" "kind_of_char CHR ''e'' = 5"
  by code_simp+

lemma kind_of_numeric: "numeric c \<Longrightarrow> kind_of_char c = 5"
  unfolding numeric_def by (elim disjE) (simp_all add: kind_of_digit kind_of_marks)

lemma delim_not_numeric: "delim r \<Longrightarrow> takeWhile numeric r = []"
  by (cases r) (auto simp: delim_def numeric_def is_digit_def)

lemma int_not_float: "delim r \<Longrightarrow> delim r' \<Longrightarrow> str_of_int i @ r \<noteq> json_float (FFin q) @ r'"
proof
  assume d: "delim r" "delim r'" and eq: "str_of_int i @ r = json_float (FFin q) @ r'"
  have int: "\<forall>c\<in>set (str_of_int i). numeric c \<and> c \<noteq> CHR ''.'' \<and> c \<noteq> CHR ''e''"
    using str_of_nat_digits [of "nat i"] str_of_nat_digits [of "nat (- i)"]
    by (auto simp: str_of_int_def numeric_def is_digit_def)
  have "takeWhile numeric (str_of_int i @ r) = str_of_int i"
    using int delim_not_numeric [OF d(1)] by (simp add: takeWhile_append)
  moreover have "takeWhile numeric (json_float (FFin q) @ r') = json_float (FFin q)"
    using fractional_float [of q] delim_not_numeric [OF d(2)] by (simp add: takeWhile_append fractional_def)
  ultimately show False using eq int fractional_float [of q] by (auto simp: fractional_def)
qed

lemma plain_text_kind: "finite_json v \<Longrightarrow> plain_text a v \<noteq> [] \<and> kind_of_char (hd (plain_text a v @ r)) = value_kind v"
proof (cases v)
  case (PInt i)
  then show ?thesis
    using hd_str_of_nat [of _ r] by (simp add: str_of_int_def kind_of_literals kind_of_digit)
next
  case (PFloat x)
  moreover assume "finite_json v"
  ultimately obtain q where v: "v = PFloat (FFin q)" by (cases x) simp_all
  have frac: "fractional (json_float (FFin q))" by (rule fractional_float)
  then have nonempty: "json_float (FFin q) \<noteq> []" by (auto simp: fractional_def)
  then have "hd (json_float (FFin q)) \<in> set (json_float (FFin q))" by (rule list.set_sel)
  then show ?thesis using v frac nonempty kind_of_numeric by (simp add: fractional_def)
qed (simp_all add: kind_of_literals json_str_def)

lemma same_kind:
  "plain_text a v @ r = plain_text a w @ r' \<Longrightarrow> float_free v \<Longrightarrow> finite_json w \<Longrightarrow> value_kind v = value_kind w"
  using plain_text_kind [OF float_free_finite, of v a r] plain_text_kind [of w a r'] by metis

lemma start_of_value: "finite_json v \<Longrightarrow> plain_text a v \<noteq> [] \<and> hd (plain_text a v) \<noteq> CHR '']''"
proof -
  assume v: "finite_json v"
  have "kind_of_char (hd (plain_text a v)) \<noteq> 6" using plain_text_kind [OF v, of a "[]"] by (cases v) auto
  then show ?thesis using plain_text_kind [OF v, of a "[]"] kind_of_literals(8) by metis
qed

lemma plain_text_unique:
  "float_free v \<Longrightarrow> finite_json w \<Longrightarrow> delim r \<Longrightarrow> delim r' \<Longrightarrow> plain_text a v @ r = plain_text a w @ r' \<Longrightarrow> v = w \<and> r = r'"
proof (induction v arbitrary: w r r')
  case PNone
  then have "value_kind w = 0" using same_kind [OF PNone.prems(5)] by simp
  then show ?case using PNone by (cases w) simp_all
next
  case (PBool b)
  then have "value_kind w = 1" using same_kind [OF PBool.prems(5)] by simp
  then obtain c where "w = PBool c" by (cases w) simp_all
  then show ?case using PBool by (cases b; cases c) simp_all
next
  case (PInt i)
  then have "value_kind w = 5" using same_kind [OF PInt.prems(5)] by simp
  then consider (int) j where "w = PInt j" | (float) q where "w = PFloat (FFin q)"
    using PInt.prems(2) by (cases w) (auto split: pyfloat.splits)
  then show ?case
  proof cases
    case int
    then show ?thesis using PInt.prems str_of_int_unique [of r r' i j] by simp
  next
    case float
    then show ?thesis using PInt.prems int_not_float [of r r' i q] by simp
  qed
next
  case (PFloat x)
  then show ?case by simp
next
  case (PStr s)
  then have "value_kind w = 2" using same_kind [OF PStr.prems(5)] by simp
  then obtain t where "w = PStr t" by (cases w) simp_all
  then show ?case using PStr.prems(5) json_str_unique [of a s r t r'] by simp
next
  case (PList xs)
  then have "value_kind w = 3" using same_kind [OF PList.prems(5)] by simp
  then obtain ys where w: "w = PList ys" by (cases w) simp_all
  have free: "\<forall>v\<in>set xs. float_free v" "\<forall>v\<in>set ys. finite_json v" using PList.prems w by simp_all
  have "readable (plain_text a) (set xs) (set ys)"
    unfolding readable_def using PList.IH free by blast
  then have "xs = ys \<and> r = r'"
  proof (rule sequence_unique [where close = "CHR '']''"])
    show "plain_text a x \<noteq> [] \<and> hd (plain_text a x) \<noteq> CHR '']''" if "x \<in> set xs \<union> set ys" for x
      using that free start_of_value float_free_finite by blast
  qed (use PList.prems(5) w in simp_all)
  then show ?case using w by simp
next
  case (PDict d)
  then have "value_kind w = 4" using same_kind [OF PDict.prems(5)] by simp
  then obtain e where w: "w = PDict e" by (cases w) simp_all
  let ?t = "\<lambda>(k, v). json_str a k @ '':'' @ plain_text a v"
  have free: "\<forall>p\<in>set d. float_free (snd p)" "\<forall>p\<in>set e. finite_json (snd p)" using PDict.prems w by auto
  have "readable ?t (set d) (set e)"
    unfolding readable_def
  proof (intro ballI allI impI)
    fix p q s s' assume pq: "p \<in> set d" "q \<in> set e" and delims: "delim s" "delim s'" and eq: "?t p @ s = ?t q @ s'"
    obtain k v l u where kv: "p = (k, v)" "q = (l, u)" by (cases p; cases q)
    have texts: "json_str a k @ '':'' @ plain_text a v @ s = json_str a l @ '':'' @ plain_text a u @ s'" using eq kv by simp
    have "k = l \<and> plain_text a v @ s = plain_text a u @ s'" using json_str_unique [OF texts] by simp
    moreover have "float_free v" "finite_json u" using free pq kv by auto
    moreover have "v \<in> Basic_BNFs.snds p" using kv by (simp add: snds.simps)
    ultimately show "p = q \<and> s = s'" using PDict.IH [OF pq(1)] delims kv by blast
  qed
  then have "d = e \<and> r = r'"
    by (rule sequence_unique [where close = "CHR ''}''"]) (use PDict.prems w in \<open>auto simp: json_str_def\<close>)
  then show ?case using w by simp
qed

lemma text_eq_sorted:
  "float_free v \<Longrightarrow> finite_json w \<Longrightarrow> json_text a v = json_text a w \<longleftrightarrow> sort_keys v = sort_keys w"
  using plain_text_unique [OF float_free_sort_keys finite_json_sort_keys, of v w "[]" "[]" a]
  by (auto simp: json_text_sorted delim_def)



lemma sort_keys_dget: "sort_keys (PDict d) = sort_keys (PDict e) \<Longrightarrow> sort_keys (dget d k) = sort_keys (dget e k)"
proof -
  assume eq: "sort_keys (PDict d) = sort_keys (PDict e)"
  have "map_of (map (\<lambda>(k, v). (k, sort_keys v)) x) k = map_option sort_keys (map_of x k)" for x :: pydict
    by (induction x) auto
  then have "map_option sort_keys (map_of d k) = map_option sort_keys (map_of e k)"
    using eq map_of_sort_key [of "map (\<lambda>(k, v). (k, sort_keys v)) d" k]
      map_of_sort_key [of "map (\<lambda>(k, v). (k, sort_keys v)) e" k] by simp
  then show ?thesis by (cases "map_of d k"; cases "map_of e k") (simp_all add: dget_def dget_or_def)
qed

lemma map_of_sorted_values: "map_of (sort_key fst (map (\<lambda>(k, v). (k, sort_keys v)) d)) k = map_option sort_keys (map_of d k)"
  unfolding map_of_sort_key by (induction d) auto

lemma sort_keys_dict_eq:
  assumes "wf_dict d" and "wf_dict e"
  shows "sort_keys (PDict d) = sort_keys (PDict e) \<longleftrightarrow>
     set (dkeys d) = set (dkeys e) \<and> (\<forall>k\<in>set (dkeys d). sort_keys (dget d k) = sort_keys (dget e k))"
    (is "?same \<longleftrightarrow> ?fields")
proof
  assume same: ?same
  then have "map_option sort_keys (map_of d k) = map_option sort_keys (map_of e k)" for k
    using map_of_sorted_values [of d k] map_of_sorted_values [of e k] by simp
  then have "set (dkeys d) = set (dkeys e)" unfolding set_eq_iff in_dkeys_iff_map_of by (metis option.map_disc_iff)
  then show ?fields using sort_keys_dget [OF same] by blast
next
  assume fields: ?fields
  let ?f = "\<lambda>(k, v). (k, sort_keys v)"
  have keys: "map fst (map ?f x) = dkeys x" for x by (simp add: dkeys_def case_prod_unfold)
  have "map_of (map ?f d) k = map_of (map ?f e) k" for k
  proof -
    have each: "map_of (map ?f x) k = map_option sort_keys (map_of x k)" for x by (induction x) auto
    show ?thesis
    proof (cases "k \<in> set (dkeys d)")
      case True
      then obtain v w where "map_of d k = Some v" "map_of e k = Some w"
        using fields in_dkeys_iff_map_of [of k d] in_dkeys_iff_map_of [of k e] by auto
      moreover have "sort_keys (dget d k) = sort_keys (dget e k)" using True fields by blast
      ultimately show ?thesis by (simp add: each dget_def dget_or_def)
    next
      case False
      then show ?thesis using fields in_dkeys_iff_map_of [of k d] in_dkeys_iff_map_of [of k e] by (auto simp: each)
    qed
  qed
  then have "set (map ?f d) = set (map ?f e)"
    using assms by (intro set_eq_of_map_of_eq ext) (simp_all only: keys wf_dict_def)
  then have "sort_key fst (map ?f d) = sort_key fst (map ?f e)"
    using assms by (intro sorted_map_unique) (simp_all only: keys wf_dict_def)
  then show ?same by simp
qed

section \<open>Values with sorted keys\<close>

lemma sort_keys_scalar [simp]:
  "sort_keys v = PBool b \<longleftrightarrow> v = PBool b" "sort_keys v = PInt i \<longleftrightarrow> v = PInt i" "sort_keys v = PStr s \<longleftrightarrow> v = PStr s"
  "PBool b = sort_keys v \<longleftrightarrow> v = PBool b" "PInt i = sort_keys v \<longleftrightarrow> v = PInt i" "PStr s = sort_keys v \<longleftrightarrow> v = PStr s"
  by (cases v; auto)+

lemma sort_keys_set: "sort_keys (PDict d) = sort_keys (PDict e) \<Longrightarrow> set (dkeys d) = set (dkeys e)"
proof -
  assume eq: "sort_keys (PDict d) = sort_keys (PDict e)"
  have keys: "fst ` set (sort_key fst (map (\<lambda>(k, v). (k, sort_keys v)) x)) = set (dkeys x)" for x :: pydict
    by (force simp: dkeys_def image_image)
  show ?thesis using eq keys [of d] keys [of e] by simp
qed

lemma sort_keys_PDict_cases: "sort_keys v = sort_keys (PDict d) \<Longrightarrow> \<exists>e. v = PDict e"
  by (cases v) auto

lemma dget_sorted: "dget (the_dict (sort_keys (PDict d))) k = sort_keys (dget d k)"
proof -
  have "map_of (map (\<lambda>(k, v). (k, sort_keys v)) d) k = map_option sort_keys (map_of d k)" by (induction d) auto
  then show ?thesis by (simp add: dget_def dget_or_def map_of_sort_key split: option.splits)
qed

lemma sorted_str: "is_str v \<Longrightarrow> sort_keys v = v"
  by (auto simp: is_str_iff)

lemma canonical_sha256_sorted: "sort_keys v = sort_keys w \<Longrightarrow> canonical_sha256 v = canonical_sha256 w"
  by (simp add: canonical_sha256_def json_text_sorted)

lemma sort_keys_idem [simp]: "sort_keys (sort_keys v) = sort_keys v"
proof (induction v)
  case (PDict d)
  have again: "map ((\<lambda>(k, v). (k, sort_keys v)) \<circ> (\<lambda>(k, v). (k, sort_keys v))) d = map (\<lambda>(k, v). (k, sort_keys v)) d"
    using PDict by (fastforce simp: snds.simps)
  have "sort_keys (PDict (sort_key fst (map (\<lambda>(k, v). (k, sort_keys v)) d)))
      = PDict (sort_key fst (sort_key fst (map (\<lambda>(k, v). (k, sort_keys v)) (map (\<lambda>(k, v). (k, sort_keys v)) d))))"
    by (simp only: sort_keys.simps sort_key_map_snd)
  also have "\<dots> = PDict (sort_key fst (map (\<lambda>(k, v). (k, sort_keys v)) d))"
    unfolding map_map again by (simp add: sort_key_id_if_sorted)
  finally show ?case by (simp only: sort_keys.simps)
qed (simp_all add: comp_def)

lemma wf_sorted: "wf_dict d \<Longrightarrow> wf_dict (the_dict (sort_keys (PDict d)))"
proof -
  assume "wf_dict d"
  moreover have "mset (map fst (sort_key fst (map (\<lambda>(k, v). (k, sort_keys v)) d))) = mset (map fst d)"
    by (simp add: case_prod_unfold comp_def multiset.map_comp)
  ultimately have "distinct (map fst (sort_key fst (map (\<lambda>(k, v). (k, sort_keys v)) d)))"
    by (metis mset_eq_imp_distinct_iff wf_dict_def dkeys_def)
  then show ?thesis by (simp add: wf_dict_def dkeys_def)
qed

lemma sort_keys_dpop:
  assumes "sort_keys (PDict d) = sort_keys (PDict e)" and "wf_dict d" "wf_dict e"
  shows "sort_keys (PDict (dpop d k)) = sort_keys (PDict (dpop e k))"
  using assms(1) unfolding sort_keys_dict_eq [OF assms(2,3)] sort_keys_dict_eq [OF wf_dict_dpop [OF assms(2)] wf_dict_dpop [OF assms(3)]]
  by auto

end
