(* ===== verification/RecoveryPolicy.thy ===== *)
theory RecoveryPolicy
  imports CanonJsonUnique PoolContracts
begin

text \<open>
  \<^verbatim>\<open>scripts/cwo_core/native_recovery_policy.py\<close>: classification of recovery signals by a
  frozen precedence, and the audit decision built from it.  A decision is evidence only: the builder
  fixes the fields that would authorize anything, and the validator accepts nothing but what the builder
  would have built from the same inputs.  The arguments of the builder are arbitrary JSON values, because
  the validator passes on what an artifact contains.
\<close>

datatype recovery_error = RecoveryPolicyError string

definition RECOVERY_DECISION_TYPE :: string where
  "RECOVERY_DECISION_TYPE = ''cwo-native-recovery-decision''"

definition RECOVERY_DECISION_SCHEMA :: string where
  "RECOVERY_DECISION_SCHEMA = ''schemas/native-recovery-decision.schema.json''"

definition RECOVERY_CLASSES :: "string list" where
  "RECOVERY_CLASSES =
     [''deterministic-construction-failure'', ''pre-dispatch-transport-failure'', ''contained-semantic-no-op'',
      ''individual-child-failure'', ''control-security-failure'', ''contradictory-authority-changing-validation'']"

definition RECOVERY_ACTIONS :: "string list" where
  "RECOVERY_ACTIONS =
     [''reconstruct-same-admitted-bead'', ''replace-same-admitted-bead'', ''return-same-admitted-bead-to-main-thread'',
      ''stop-execution-path'', ''await-operator-input'']"

definition RECOVERY_DECISION_FIELDS :: "string list" where
  "RECOVERY_DECISION_FIELDS =
     [''decision_type'', ''version'', ''schema'', ''recovery_class'', ''action'', ''replacement_budget'', ''replacement_count'',
      ''replacements_remaining'', ''construction_attempt_budget'', ''construction_attempt_count'',
      ''construction_attempts_remaining'', ''stop_scope'', ''required_authority'', ''signals'',
      ''classification_evidence_sha256'', ''evidence_sha256'', ''fixed_cohort_sha256'', ''admitted_bead_id'',
      ''admitted_child_sha256'', ''admission_grade'', ''dispatch_authorized'', ''newly_ready_refill_allowed'',
      ''fixed_cohort_required'', ''decision_sha256'']"

definition RECOVERY_SIGNAL_FIELDS :: "string list" where
  "RECOVERY_SIGNAL_FIELDS =
     [''deterministic_construction_failure'', ''pre_dispatch_transport_failure'', ''contained_semantic_no_op'',
      ''individual_child_failure'', ''control_security_failure'', ''failed_ambiguous_dispatch'',
      ''contradictory_authority_changing_validation'']"

definition RECOVERY_PRECEDENCE :: "(string \<times> string) list" where
  "RECOVERY_PRECEDENCE =
     [(''contradictory_authority_changing_validation'', ''contradictory-authority-changing-validation''),
      (''failed_ambiguous_dispatch'', ''control-security-failure''),
      (''control_security_failure'', ''control-security-failure''),
      (''individual_child_failure'', ''individual-child-failure''),
      (''contained_semantic_no_op'', ''contained-semantic-no-op''),
      (''pre_dispatch_transport_failure'', ''pre-dispatch-transport-failure''),
      (''deterministic_construction_failure'', ''deterministic-construction-failure'')]"

definition PROVISIONAL_ADMISSION_GRADE :: string where
  "PROVISIONAL_ADMISSION_GRADE = ''provisional-fixed-cohort''"

record recovery_contract =
  initial_action :: string
  exhausted_action :: string
  contract_replacement_budget :: nat
  contract_stop_scope :: string
  contract_required_authority :: string

definition RECOVERY_CLASS_MATRIX :: "(string \<times> recovery_contract) list" where
  "RECOVERY_CLASS_MATRIX =
     [(''deterministic-construction-failure'',
        \<lparr>initial_action = ''reconstruct-same-admitted-bead'', exhausted_action = ''return-same-admitted-bead-to-main-thread'',
         contract_replacement_budget = 0, contract_stop_scope = ''child'',
         contract_required_authority = ''verified-project-manager''\<rparr>),
      (''pre-dispatch-transport-failure'',
        \<lparr>initial_action = ''replace-same-admitted-bead'', exhausted_action = ''return-same-admitted-bead-to-main-thread'',
         contract_replacement_budget = 1, contract_stop_scope = ''child'',
         contract_required_authority = ''pm-controller-plus-supervisor-policy''\<rparr>),
      (''contained-semantic-no-op'',
        \<lparr>initial_action = ''replace-same-admitted-bead'', exhausted_action = ''return-same-admitted-bead-to-main-thread'',
         contract_replacement_budget = 1, contract_stop_scope = ''child'',
         contract_required_authority = ''pm-controller-plus-verified-containment''\<rparr>),
      (''individual-child-failure'',
        \<lparr>initial_action = ''replace-same-admitted-bead'', exhausted_action = ''return-same-admitted-bead-to-main-thread'',
         contract_replacement_budget = 1, contract_stop_scope = ''child'',
         contract_required_authority = ''pm-controller-plus-verified-containment''\<rparr>),
      (''control-security-failure'',
        \<lparr>initial_action = ''stop-execution-path'', exhausted_action = ''stop-execution-path'',
         contract_replacement_budget = 0, contract_stop_scope = ''execution-path'',
         contract_required_authority = ''supervisor-policy''\<rparr>),
      (''contradictory-authority-changing-validation'',
        \<lparr>initial_action = ''await-operator-input'', exhausted_action = ''await-operator-input'',
         contract_replacement_budget = 0, contract_stop_scope = ''complete-task'',
         contract_required_authority = ''verified-operator-directive''\<rparr>)]"

definition canonical_recovery_json :: "pyval \<Rightarrow> (recovery_error, string) res" where
  "canonical_recovery_json value =
     (if finite_json value then Inr (json_text False value)
      else Inl (RecoveryPolicyError ''recovery-value-not-canonical-json''))"

definition canonical_recovery_sha256 :: "pyval \<Rightarrow> string \<Rightarrow> (recovery_error, string) res" where
  "canonical_recovery_sha256 value domain =
     rbind (ensure (py_strip domain \<noteq> []) (RecoveryPolicyError ''recovery-hash-domain-invalid'')) (\<lambda>_.
     rbind (canonical_recovery_json (PDict [(''domain'', PStr domain), (''value'', value)])) (\<lambda>text.
     Inr (text_sha256 text)))"

definition signal_of :: "pydict \<Rightarrow> string \<Rightarrow> (recovery_error, string \<times> pyval) res" where
  "signal_of signals field =
     (case dget signals field of
        PBool b \<Rightarrow> Inr (field, PBool b)
      | _ \<Rightarrow> Inl (RecoveryPolicyError (''recovery-signal-not-boolean:'' @ field)))"

definition validated_signals :: "pyval \<Rightarrow> (recovery_error, pydict) res" where
  "validated_signals signals =
     (case signals of
        PDict d \<Rightarrow>
          (let missing = missing_fields RECOVERY_SIGNAL_FIELDS d; unknown = unknown_fields RECOVERY_SIGNAL_FIELDS d;
               details = err_if (missing \<noteq> []) (''missing='' @ py_join '','' missing)
                 @ err_if (unknown \<noteq> []) (''unknown='' @ py_join '','' unknown)
           in rbind (ensure (set (dkeys d) = set RECOVERY_SIGNAL_FIELDS)
                (RecoveryPolicyError (''recovery-signal-fields-invalid''
                   @ (if details \<noteq> [] then '':'' @ py_join '';'' details else [])))) (\<lambda>_.
              rbind (mapM (signal_of d) RECOVERY_SIGNAL_FIELDS) (\<lambda>normalized.
              rbind (ensure (\<exists>(field, value)\<in>set normalized. py_truth value) (RecoveryPolicyError ''recovery-signal-required'')) (\<lambda>_.
              Inr normalized))))
      | _ \<Rightarrow> Inl (RecoveryPolicyError ''recovery-signals-must-be-object''))"

definition classify_normalized :: "pydict \<Rightarrow> (recovery_error, string) res" where
  "classify_normalized normalized =
     (case find (\<lambda>(field, _). py_truth (dget normalized field)) RECOVERY_PRECEDENCE of
        Some (_, recovery_class) \<Rightarrow> Inr recovery_class
      | None \<Rightarrow> Inl (RecoveryPolicyError ''recovery-classification-unreachable''))"

definition classify_recovery_signals :: "pyval \<Rightarrow> (recovery_error, string) res" where
  "classify_recovery_signals signals = rbind (validated_signals signals) classify_normalized"

text \<open>\<^verbatim>\<open>type(value) is int and value in {0, 1}\<close>.\<close>

definition zero_or_one :: "pyval \<Rightarrow> bool" where
  "zero_or_one value \<longleftrightarrow> value = PInt 0 \<or> value = PInt 1"

definition is_exhausted :: "string \<Rightarrow> int \<Rightarrow> int \<Rightarrow> bool" where
  "is_exhausted recovery_class replacement_count construction_attempt_count =
     (if recovery_class = ''deterministic-construction-failure'' then replacement_count \<noteq> 0 \<or> construction_attempt_count \<noteq> 0
      else if recovery_class \<in> {''pre-dispatch-transport-failure'', ''contained-semantic-no-op'', ''individual-child-failure''}
      then replacement_count = 1
      else False)"

definition decision_body ::
    "pydict \<Rightarrow> string \<Rightarrow> recovery_contract \<Rightarrow> int \<Rightarrow> int \<Rightarrow> string \<Rightarrow> pyval \<Rightarrow> pyval \<Rightarrow> pyval \<Rightarrow> pyval \<Rightarrow> pydict" where
  "decision_body normalized recovery_class matrix replacement_count construction_attempt_count classification_evidence
       evidence_sha256 fixed_cohort_sha256 admitted_bead_id admitted_child_sha256 =
     (let replacement_budget = int (contract_replacement_budget matrix);
          construction_attempt_budget = (if recovery_class = ''deterministic-construction-failure'' then 1 else 0 :: int)
      in [(''decision_type'', PStr RECOVERY_DECISION_TYPE), (''version'', PInt 1), (''schema'', PStr RECOVERY_DECISION_SCHEMA),
          (''recovery_class'', PStr recovery_class),
          (''action'', PStr (if is_exhausted recovery_class replacement_count construction_attempt_count
             then exhausted_action matrix else initial_action matrix)),
          (''replacement_budget'', PInt replacement_budget), (''replacement_count'', PInt replacement_count),
          (''replacements_remaining'', PInt (max 0 (replacement_budget - replacement_count))),
          (''construction_attempt_budget'', PInt construction_attempt_budget),
          (''construction_attempt_count'', PInt construction_attempt_count),
          (''construction_attempts_remaining'', PInt (max 0 (construction_attempt_budget - construction_attempt_count))),
          (''stop_scope'', PStr (contract_stop_scope matrix)),
          (''required_authority'', PStr (contract_required_authority matrix)),
          (''signals'', PDict normalized), (''classification_evidence_sha256'', PStr classification_evidence),
          (''evidence_sha256'', evidence_sha256), (''fixed_cohort_sha256'', fixed_cohort_sha256),
          (''admitted_bead_id'', admitted_bead_id), (''admitted_child_sha256'', admitted_child_sha256),
          (''admission_grade'', PStr PROVISIONAL_ADMISSION_GRADE), (''dispatch_authorized'', PBool False),
          (''newly_ready_refill_allowed'', PBool False), (''fixed_cohort_required'', PBool True)])"

definition build_recovery_audit_decision ::
    "pyval \<Rightarrow> pyval \<Rightarrow> pyval \<Rightarrow> pyval \<Rightarrow> pyval \<Rightarrow> pyval \<Rightarrow> pyval \<Rightarrow> (recovery_error, pydict) res" where
  "build_recovery_audit_decision signals replacement_count construction_attempt_count evidence_sha256
       fixed_cohort_sha256 admitted_bead_id admitted_child_sha256 =
     rbind (validated_signals signals) (\<lambda>normalized.
     rbind (classify_recovery_signals (PDict normalized)) (\<lambda>recovery_class.
     rbind (ensure (zero_or_one replacement_count) (RecoveryPolicyError ''recovery-replacement-count-invalid'')) (\<lambda>_.
     rbind (ensure (zero_or_one construction_attempt_count) (RecoveryPolicyError ''recovery-construction-attempt-count-invalid'')) (\<lambda>_.
     rbind (ensure (is_sha256 evidence_sha256) (RecoveryPolicyError ''recovery-evidence-sha256-invalid'')) (\<lambda>_.
     rbind (ensure (is_sha256 fixed_cohort_sha256) (RecoveryPolicyError ''recovery-fixed-cohort-sha256-invalid'')) (\<lambda>_.
     rbind (ensure (nonempty_text admitted_bead_id) (RecoveryPolicyError ''recovery-admitted-bead-id-invalid'')) (\<lambda>_.
     rbind (ensure (is_sha256 admitted_child_sha256) (RecoveryPolicyError ''recovery-admitted-child-sha256-invalid'')) (\<lambda>_.
     rbind (canonical_recovery_sha256 (PDict normalized) ''native-recovery-classification-evidence-v1'') (\<lambda>classification.
     let body = decision_body normalized recovery_class (the (map_of RECOVERY_CLASS_MATRIX recovery_class))
           (the_int replacement_count) (the_int construction_attempt_count) classification evidence_sha256
           fixed_cohort_sha256 admitted_bead_id admitted_child_sha256
     in rbind (canonical_recovery_sha256 (PDict body) ''native-recovery-audit-decision-v1'') (\<lambda>sha256.
        Inr (dset body ''decision_sha256'' (PStr sha256))))))))))))"

definition rebuild_decision :: "pydict \<Rightarrow> (recovery_error, pydict) res" where
  "rebuild_decision d =
     build_recovery_audit_decision (dget d ''signals'') (dget d ''replacement_count'') (dget d ''construction_attempt_count'')
       (dget d ''evidence_sha256'') (dget d ''fixed_cohort_sha256'') (dget d ''admitted_bead_id'') (dget d ''admitted_child_sha256'')"

text \<open>The comparison of the encodings is outside the handler: it may raise.\<close>

definition validate_recovery_audit_decision :: "pyval \<Rightarrow> (recovery_error, string list) res" where
  "validate_recovery_audit_decision value =
     (case value of
        PDict d \<Rightarrow>
          if set (dkeys d) \<noteq> set RECOVERY_DECISION_FIELDS then Inr [''recovery-decision-fields-invalid'']
          else (case rebuild_decision d of
             Inl _ \<Rightarrow> Inr [''recovery-decision-invalid'']
           | Inr expected \<Rightarrow>
               rbind (canonical_recovery_json (PDict d)) (\<lambda>observed.
               rbind (canonical_recovery_json (PDict expected)) (\<lambda>rebuilt.
               Inr (err_if (observed \<noteq> rebuilt) ''recovery-decision-mismatch''))))
      | _ \<Rightarrow> Inr [''recovery-decision-must-be-object''])"

end
