(* ===== verification/RecoveryPolicyProperties.thy ===== *)
theory RecoveryPolicyProperties
  imports RecoveryPolicy
begin

text \<open>
  Classification follows the precedence and is total on well-formed signals; a built decision passes the
  validator; an accepted decision is the one that its own inputs rebuild, so it authorizes nothing.
\<close>

section \<open>Signals and classes\<close>

lemma signal_of_Inr: "signal_of d f = Inr p \<longleftrightarrow> is_bool (dget d f) \<and> p = (f, dget d f)"
  by (cases "dget d f") (auto simp: signal_of_def is_bool_def)

lemma mapM_signal_of: "mapM (signal_of d) fs = Inr n \<longleftrightarrow> (\<forall>f\<in>set fs. is_bool (dget d f)) \<and> n = map (\<lambda>f. (f, dget d f)) fs"
  by (induction fs arbitrary: n) (auto simp: rbind_eq_Inr signal_of_Inr)

definition signals_ok :: "pydict \<Rightarrow> bool" where
  "signals_ok d \<longleftrightarrow> set (dkeys d) = set RECOVERY_SIGNAL_FIELDS \<and> (\<forall>f\<in>set RECOVERY_SIGNAL_FIELDS. is_bool (dget d f))
     \<and> (\<exists>f\<in>set RECOVERY_SIGNAL_FIELDS. dget d f = PBool True)"

definition normal_signals :: "pydict \<Rightarrow> pydict" where
  "normal_signals d = map (\<lambda>f. (f, dget d f)) RECOVERY_SIGNAL_FIELDS"

lemma is_bool_truth: "is_bool v \<Longrightarrow> py_truth v \<longleftrightarrow> v = PBool True"
  by (cases v) (simp_all add: is_bool_def)

lemma validated_signals_Inr:
  "validated_signals s = Inr n \<longleftrightarrow> (\<exists>d. s = PDict d \<and> signals_ok d \<and> n = normal_signals d)"
proof (cases s)
  case (PDict d)
  have "(\<exists>(field, value)\<in>set (normal_signals d). py_truth value) \<longleftrightarrow> (\<exists>f\<in>set RECOVERY_SIGNAL_FIELDS. dget d f = PBool True)"
    if "\<forall>f\<in>set RECOVERY_SIGNAL_FIELDS. is_bool (dget d f)"
    using that is_bool_truth by (auto simp: normal_signals_def)
  then show ?thesis
    unfolding PDict validated_signals_def Let_def rbind_eq_Inr ensure_eq_Inr mapM_signal_of pyval.case signals_ok_def
    by (auto simp: normal_signals_def)
qed (simp_all add: validated_signals_def)

lemma dget_normal: "f \<in> set RECOVERY_SIGNAL_FIELDS \<Longrightarrow> dget (normal_signals d) f = dget d f"
proof -
  have "dget (map (\<lambda>f. (f, dget d f)) fs) f = dget d f" if "f \<in> set fs" for fs
    using that by (induction fs) auto
  then show "f \<in> set RECOVERY_SIGNAL_FIELDS \<Longrightarrow> ?thesis" by (simp add: normal_signals_def)
qed

lemma dkeys_normal: "dkeys (normal_signals d) = RECOVERY_SIGNAL_FIELDS"
  by (simp add: normal_signals_def dkeys_def comp_def)

lemma normal_idempotent: "normal_signals (normal_signals d) = normal_signals d"
  using dget_normal [of _ d] by (simp add: normal_signals_def [of "normal_signals d"]) (simp add: normal_signals_def)

lemma signals_ok_normal: "signals_ok (normal_signals d) \<longleftrightarrow>
    (\<forall>f\<in>set RECOVERY_SIGNAL_FIELDS. is_bool (dget d f)) \<and> (\<exists>f\<in>set RECOVERY_SIGNAL_FIELDS. dget d f = PBool True)"
  unfolding signals_ok_def dkeys_normal using dget_normal by auto

lemma validated_normal: "signals_ok d \<Longrightarrow> validated_signals (PDict (normal_signals d)) = Inr (normal_signals d)"
  unfolding validated_signals_Inr using signals_ok_normal [of d] normal_idempotent [of d] by (auto simp: signals_ok_def)

lemma precedence_fields: "fst ` set RECOVERY_PRECEDENCE = set RECOVERY_SIGNAL_FIELDS"
  by (auto simp: RECOVERY_PRECEDENCE_def RECOVERY_SIGNAL_FIELDS_def)

lemma precedence_classes: "snd ` set RECOVERY_PRECEDENCE \<subseteq> set RECOVERY_CLASSES"
  by (auto simp: RECOVERY_PRECEDENCE_def RECOVERY_CLASSES_def)

lemma find_first: "find P xs = Some x \<longleftrightarrow> (\<exists>i<length xs. P (xs ! i) \<and> x = xs ! i \<and> (\<forall>j<i. \<not> P (xs ! j)))"
  by (auto simp: find_Some_iff)

text \<open>The specification of the class of a set of raised signals.\<close>

definition class_by_precedence :: "pydict \<Rightarrow> string \<Rightarrow> bool" where
  "class_by_precedence d recovery_class \<longleftrightarrow>
     (\<exists>i<length RECOVERY_PRECEDENCE. dget d (fst (RECOVERY_PRECEDENCE ! i)) = PBool True
        \<and> recovery_class = snd (RECOVERY_PRECEDENCE ! i)
        \<and> (\<forall>j<i. dget d (fst (RECOVERY_PRECEDENCE ! j)) = PBool False))"

lemma classify_normalized_Inr:
  assumes "signals_ok d"
  shows "classify_normalized (normal_signals d) = Inr c \<longleftrightarrow> class_by_precedence d c"
proof -
  have field: "fst p \<in> set RECOVERY_SIGNAL_FIELDS" if "p \<in> set RECOVERY_PRECEDENCE" for p
    using that precedence_fields by blast
  have truth: "py_truth (dget (normal_signals d) (fst (RECOVERY_PRECEDENCE ! i))) \<longleftrightarrow> dget d (fst (RECOVERY_PRECEDENCE ! i)) = PBool True"
    "\<not> py_truth (dget (normal_signals d) (fst (RECOVERY_PRECEDENCE ! i))) \<longleftrightarrow> dget d (fst (RECOVERY_PRECEDENCE ! i)) = PBool False"
    if "i < length RECOVERY_PRECEDENCE" for i
    using field [OF nth_mem [OF that]] assms dget_normal is_bool_truth unfolding signals_ok_def
    by (auto simp: is_bool_iff)
  let ?P = "\<lambda>p. py_truth (dget (normal_signals d) (fst p))"
  have pred: "(\<lambda>(field, _). py_truth (dget (normal_signals d) field)) = ?P" by auto
  have "classify_normalized (normal_signals d) = Inr c \<longleftrightarrow> (\<exists>p. find ?P RECOVERY_PRECEDENCE = Some p \<and> snd p = c)"
    unfolding classify_normalized_def pred by (auto split: option.splits)
  also have "\<dots> \<longleftrightarrow> (\<exists>i<length RECOVERY_PRECEDENCE. ?P (RECOVERY_PRECEDENCE ! i) \<and> c = snd (RECOVERY_PRECEDENCE ! i)
      \<and> (\<forall>j<i. \<not> ?P (RECOVERY_PRECEDENCE ! j)))"
    unfolding find_first by blast
  also have "\<dots> \<longleftrightarrow> class_by_precedence d c"
    unfolding class_by_precedence_def by (intro ex_cong1 conj_cong refl all_cong) (use truth less_trans in blast)+
  finally show ?thesis .
qed

lemma classify_total: "signals_ok d \<Longrightarrow> \<exists>c. class_by_precedence d c"
proof -
  assume ok: "signals_ok d"
  then obtain f where f: "f \<in> set RECOVERY_SIGNAL_FIELDS" "dget d f = PBool True" unfolding signals_ok_def by blast
  then obtain p where "p \<in> set RECOVERY_PRECEDENCE" "fst p = f" using precedence_fields by (metis imageE)
  moreover have "py_truth (dget (normal_signals d) f)" using f(2) dget_normal [OF f(1), of d] by simp
  ultimately have "find (\<lambda>(field, _). py_truth (dget (normal_signals d) field)) RECOVERY_PRECEDENCE \<noteq> None"
    unfolding find_None_iff by (metis (no_types, lifting) case_prod_unfold)
  then have "\<exists>c. classify_normalized (normal_signals d) = Inr c" by (auto simp: classify_normalized_def)
  then show ?thesis using classify_normalized_Inr [OF ok] by blast
qed

lemma classify_recovery_signals_Inr:
  "classify_recovery_signals s = Inr c \<longleftrightarrow> (\<exists>d. s = PDict d \<and> signals_ok d \<and> class_by_precedence d c)"
  unfolding classify_recovery_signals_def rbind_eq_Inr validated_signals_Inr
  using classify_normalized_Inr by blast

lemma class_in_classes: "class_by_precedence d c \<Longrightarrow> c \<in> set RECOVERY_CLASSES"
  using precedence_classes nth_mem unfolding class_by_precedence_def by blast

section \<open>Decisions\<close>

text \<open>The fields of a decision, once for all proofs.\<close>

lemma dget_decision_body [simp]:
  fixes n c m r a k e f b h
  defines "d \<equiv> decision_body n c m r a k e f b h"
  shows "dget d ''recovery_class'' = PStr c"
    "dget d ''action'' = PStr (if is_exhausted c r a then exhausted_action m else initial_action m)"
    "dget d ''replacement_budget'' = PInt (int (contract_replacement_budget m))" "dget d ''replacement_count'' = PInt r"
    "dget d ''replacements_remaining'' = PInt (max 0 (int (contract_replacement_budget m) - r))"
    "dget d ''construction_attempt_budget'' = PInt (if c = ''deterministic-construction-failure'' then 1 else 0)"
    "dget d ''construction_attempt_count'' = PInt a"
    "dget d ''construction_attempts_remaining'' = PInt (max 0 ((if c = ''deterministic-construction-failure'' then 1 else 0) - a))"
    "dget d ''stop_scope'' = PStr (contract_stop_scope m)" "dget d ''signals'' = PDict n"
    "dget d ''evidence_sha256'' = e" "dget d ''fixed_cohort_sha256'' = f" "dget d ''admitted_bead_id'' = b"
    "dget d ''admitted_child_sha256'' = h" "dget d ''dispatch_authorized'' = PBool False"
    "dget d ''newly_ready_refill_allowed'' = PBool False" "dget d ''fixed_cohort_required'' = PBool True"
  by (simp_all add: d_def decision_body_def Let_def)

lemma dkeys_decision_body:
  "insert ''decision_sha256'' (set (dkeys (decision_body n c m r a k e f b h))) = set RECOVERY_DECISION_FIELDS"
  by (simp add: decision_body_def Let_def dkeys_def RECOVERY_DECISION_FIELDS_def insert_commute)

lemma float_free_normal: "signals_ok d \<Longrightarrow> float_free (PDict (normal_signals d))"
  by (auto simp: signals_ok_def normal_signals_def is_bool_iff)

lemma float_free_decision_body:
  "float_free (PDict n) \<Longrightarrow> float_free e \<Longrightarrow> float_free f \<Longrightarrow> float_free b \<Longrightarrow> float_free h \<Longrightarrow>
     float_free (PDict (decision_body n c m r a k e f b h))"
  by (simp add: decision_body_def Let_def)

lemma canonical_recovery_sha256_Inr:
  "float_free v \<Longrightarrow> py_strip label \<noteq> [] \<Longrightarrow>
     canonical_recovery_sha256 v label = Inr (text_sha256 (json_text False (PDict [(''domain'', PStr label), (''value'', v)])))"
  using float_free_finite [of v] by (simp add: canonical_recovery_sha256_def canonical_recovery_json_def)

definition classification_domain :: string where
  "classification_domain = ''native-recovery-classification-evidence-v1''"

definition decision_domain :: string where
  "decision_domain = ''native-recovery-audit-decision-v1''"

definition domain_sha256 :: "string \<Rightarrow> pyval \<Rightarrow> string" where
  "domain_sha256 label v = text_sha256 (json_text False (PDict [(''domain'', PStr label), (''value'', v)]))"

lemma domains_nonempty: "py_strip ''native-recovery-classification-evidence-v1'' \<noteq> []" "py_strip ''native-recovery-audit-decision-v1'' \<noteq> []"
  by code_simp+

text \<open>The decision that accepted inputs give.\<close>

definition decision_of_inputs :: "pydict \<Rightarrow> string \<Rightarrow> int \<Rightarrow> int \<Rightarrow> pyval \<Rightarrow> pyval \<Rightarrow> pyval \<Rightarrow> pyval \<Rightarrow> pydict" where
  "decision_of_inputs n c r a e f b h =
     (let body = decision_body n c (the (map_of RECOVERY_CLASS_MATRIX c)) r a (domain_sha256 classification_domain (PDict n)) e f b h
      in dset body ''decision_sha256'' (PStr (domain_sha256 decision_domain (PDict body))))"

lemma is_sha256_float_free: "is_sha256 v \<Longrightarrow> float_free v"
  by (auto simp: is_sha256_iff)

lemma nonempty_float_free: "nonempty_text v \<Longrightarrow> float_free v"
  by (auto simp: nonempty_text_iff)

lemma build_decision_Inr:
  "build_recovery_audit_decision s rc cc e f b h = Inr d \<longleftrightarrow>
     (\<exists>g c. s = PDict g \<and> signals_ok g \<and> class_by_precedence g c \<and> zero_or_one rc \<and> zero_or_one cc
        \<and> is_sha256 e \<and> is_sha256 f \<and> nonempty_text b \<and> is_sha256 h
        \<and> d = decision_of_inputs (normal_signals g) c (the_int rc) (the_int cc) e f b h)"
  (is "?built \<longleftrightarrow> ?spec")
proof
  assume ?built
  then obtain n c k z where n: "validated_signals s = Inr n" "classify_recovery_signals (PDict n) = Inr c"
    and inputs: "zero_or_one rc" "zero_or_one cc" "is_sha256 e" "is_sha256 f" "nonempty_text b" "is_sha256 h"
    and k: "canonical_recovery_sha256 (PDict n) ''native-recovery-classification-evidence-v1'' = Inr k"
    and z: "canonical_recovery_sha256 (PDict (decision_body n c (the (map_of RECOVERY_CLASS_MATRIX c)) (the_int rc) (the_int cc) k e f b h))
        ''native-recovery-audit-decision-v1'' = Inr z"
    and d: "d = dset (decision_body n c (the (map_of RECOVERY_CLASS_MATRIX c)) (the_int rc) (the_int cc) k e f b h) ''decision_sha256'' (PStr z)"
    unfolding build_recovery_audit_decision_def Let_def rbind_eq_Inr ensure_eq_Inr sum.inject by blast
  from n(1) obtain g where g: "s = PDict g" "signals_ok g" "n = normal_signals g" unfolding validated_signals_Inr by blast
  have "classify_normalized n = Inr c"
    using n(2) validated_normal [OF g(2)] by (simp add: classify_recovery_signals_def g(3))
  then have c: "class_by_precedence g c" using classify_normalized_Inr [OF g(2)] g(3) by blast
  have free: "float_free (PDict n)" using float_free_normal [OF g(2)] g(3) by simp
  then have kd: "k = domain_sha256 classification_domain (PDict n)"
    using k domains_nonempty by (simp add: canonical_recovery_sha256_Inr domain_sha256_def classification_domain_def del: float_free.simps)
  have "float_free (PDict (decision_body n c (the (map_of RECOVERY_CLASS_MATRIX c)) (the_int rc) (the_int cc) k e f b h))"
    using inputs by (intro float_free_decision_body free is_sha256_float_free nonempty_float_free)
  then have "d = decision_of_inputs n c (the_int rc) (the_int cc) e f b h"
    using z d kd domains_nonempty
    by (simp add: canonical_recovery_sha256_Inr domain_sha256_def decision_domain_def decision_of_inputs_def Let_def del: float_free.simps)
  then show ?spec using g c inputs by blast
next
  assume ?spec
  then obtain g c where g: "s = PDict g" "signals_ok g" "class_by_precedence g c"
    and inputs: "zero_or_one rc" "zero_or_one cc" "is_sha256 e" "is_sha256 f" "nonempty_text b" "is_sha256 h"
    and d: "d = decision_of_inputs (normal_signals g) c (the_int rc) (the_int cc) e f b h" by blast
  let ?n = "normal_signals g"
  have n: "validated_signals s = Inr ?n" using g unfolding validated_signals_Inr by blast
  have c: "classify_recovery_signals (PDict ?n) = Inr c"
    using validated_normal [OF g(2)] classify_normalized_Inr [OF g(2), of c] g(3) by (simp add: classify_recovery_signals_def)
  have free: "float_free (PDict ?n)" using float_free_normal [OF g(2)] .
  have k: "canonical_recovery_sha256 (PDict ?n) ''native-recovery-classification-evidence-v1'' = Inr (domain_sha256 classification_domain (PDict ?n))"
    using canonical_recovery_sha256_Inr [OF free domains_nonempty(1)] by (simp add: domain_sha256_def classification_domain_def)
  let ?b = "decision_body ?n c (the (map_of RECOVERY_CLASS_MATRIX c)) (the_int rc) (the_int cc)
      (domain_sha256 classification_domain (PDict ?n)) e f b h"
  have "float_free (PDict ?b)"
    using inputs by (intro float_free_decision_body free is_sha256_float_free nonempty_float_free)
  then have z: "canonical_recovery_sha256 (PDict ?b) ''native-recovery-audit-decision-v1'' = Inr (domain_sha256 decision_domain (PDict ?b))"
    using canonical_recovery_sha256_Inr [OF _ domains_nonempty(2)] by (simp add: domain_sha256_def decision_domain_def)
  show ?built
    unfolding build_recovery_audit_decision_def n rbind_Inr c Let_def
    using inputs by (simp only: ensure_True rbind_Inr k z d decision_of_inputs_def Let_def)
qed

section \<open>What the validator accepts\<close>

lemma sorted_signal: "sort_keys (PDict g) = sort_keys (PDict h) \<Longrightarrow> is_bool (dget g f) \<Longrightarrow> dget h f = dget g f"
  by (drule sort_keys_dget [of _ _ f]) (clarsimp simp: is_bool_iff simp del: sort_keys.simps(2))

lemma signals_ok_cong:
  "set (dkeys g) = set (dkeys h) \<Longrightarrow> (\<And>f. f \<in> set RECOVERY_SIGNAL_FIELDS \<Longrightarrow> dget h f = dget g f) \<Longrightarrow> signals_ok g = signals_ok h"
  unfolding signals_ok_def by simp

lemma normal_signals_sorted:
  assumes "sort_keys (PDict g) = sort_keys (PDict h)" and "signals_ok g"
  shows "signals_ok h \<and> normal_signals h = normal_signals g"
proof -
  have field: "dget h f = dget g f" if "f \<in> set RECOVERY_SIGNAL_FIELDS" for f
    using sorted_signal [OF assms(1)] assms(2) that unfolding signals_ok_def by blast
  moreover have "normal_signals h = normal_signals g" unfolding normal_signals_def using field by (intro map_cong refl) simp
  ultimately show ?thesis using assms(2) signals_ok_cong [OF sort_keys_set [OF assms(1)]] by blast
qed

lemma decision_of_inputs_fields [simp]:
  assumes "k \<noteq> ''decision_sha256''"
  shows "dget (decision_of_inputs n c r a e f b h) k =
    dget (decision_body n c (the (map_of RECOVERY_CLASS_MATRIX c)) r a (domain_sha256 classification_domain (PDict n)) e f b h) k"
  using assms by (simp add: decision_of_inputs_def Let_def)

lemma decision_of_inputs_keys: "set (dkeys (decision_of_inputs n c r a e f b h)) = set RECOVERY_DECISION_FIELDS"
  using dkeys_decision_body by (simp add: decision_of_inputs_def Let_def set_dkeys_dset)

lemma float_free_dset: "float_free (PDict d) \<Longrightarrow> float_free v \<Longrightarrow> float_free (PDict (dset d k v))"
  by (induction d) (auto split: if_splits)

lemma float_free_decision_of_inputs:
  assumes "float_free (PDict n)" "is_sha256 e" "is_sha256 f" "nonempty_text b" "is_sha256 h"
  shows "float_free (PDict (decision_of_inputs n c r a e f b h))"
  unfolding decision_of_inputs_def Let_def
  using assms is_sha256_float_free nonempty_float_free
  by (intro float_free_dset float_free_decision_body) (simp_all del: float_free.simps(3))

text \<open>A decision is accepted exactly when its inputs rebuild it, up to the order of keys.\<close>

lemma validate_decision_accepts:
  "validate_recovery_audit_decision v = Inr [] \<longleftrightarrow>
     (\<exists>d expected. v = PDict d \<and> set (dkeys d) = set RECOVERY_DECISION_FIELDS \<and> rebuild_decision d = Inr expected
        \<and> finite_json (PDict d) \<and> sort_keys (PDict d) = sort_keys (PDict expected))"
proof (cases v)
  case (PDict d)
  show ?thesis
  proof (cases "rebuild_decision d")
    case (Inr expected)
    have free: "float_free (PDict expected)"
      using Inr float_free_normal unfolding rebuild_decision_def build_decision_Inr
      by (auto intro: float_free_decision_of_inputs simp del: float_free.simps)
    have texts: "json_text False (PDict d) = json_text False (PDict expected) \<longleftrightarrow> sort_keys (PDict d) = sort_keys (PDict expected)"
      if "finite_json (PDict d)"
      using plain_text_unique [OF float_free_sort_keys [OF free] finite_json_sort_keys [OF that], of "[]" "[]" False]
      by (auto simp: json_text_sorted delim_def)
    show ?thesis
      using texts float_free_finite [OF free]
      by (simp add: PDict Inr validate_recovery_audit_decision_def canonical_recovery_json_def err_if_def
        del: finite_json.simps sort_keys.simps json_text.simps)
  qed (simp add: PDict validate_recovery_audit_decision_def)
qed (simp_all add: validate_recovery_audit_decision_def)

lemma accepted_decision:
  assumes "validate_recovery_audit_decision v = Inr []"
  obtains d g c r a where "v = PDict d" "dget d ''signals'' = PDict g" "signals_ok g" "class_by_precedence g c"
    "dget d ''replacement_count'' = PInt r" "dget d ''construction_attempt_count'' = PInt a" "r \<in> {0, 1}" "a \<in> {0, 1}"
    "\<And>k. sort_keys (dget d k) = sort_keys (dget (decision_of_inputs (normal_signals g) c r a (dget d ''evidence_sha256'')
        (dget d ''fixed_cohort_sha256'') (dget d ''admitted_bead_id'') (dget d ''admitted_child_sha256'')) k)"
proof -
  from assms obtain d expected where d: "v = PDict d" "rebuild_decision d = Inr expected"
    "sort_keys (PDict d) = sort_keys (PDict expected)" unfolding validate_decision_accepts by blast
  from d(2) obtain g c where g: "dget d ''signals'' = PDict g" "signals_ok g" "class_by_precedence g c"
    and counts: "zero_or_one (dget d ''replacement_count'')" "zero_or_one (dget d ''construction_attempt_count'')"
    and expected: "expected = decision_of_inputs (normal_signals g) c (the_int (dget d ''replacement_count''))
      (the_int (dget d ''construction_attempt_count'')) (dget d ''evidence_sha256'') (dget d ''fixed_cohort_sha256'')
      (dget d ''admitted_bead_id'') (dget d ''admitted_child_sha256'')"
    unfolding rebuild_decision_def build_decision_Inr by blast
  from counts obtain r a where ra: "dget d ''replacement_count'' = PInt r" "dget d ''construction_attempt_count'' = PInt a"
    "r \<in> {0, 1}" "a \<in> {0, 1}" unfolding zero_or_one_def by blast
  show thesis
    using that [OF d(1) g ra] sort_keys_dget [OF d(3)] unfolding expected ra by simp
qed

section \<open>What a class allows\<close>

lemma class_unique: "class_by_precedence g c \<Longrightarrow> class_by_precedence g c' \<Longrightarrow> c = c'"
  unfolding class_by_precedence_def by (metis linorder_neqE_nat pyval.inject(1))

definition actions_within :: "string \<Rightarrow> int \<Rightarrow> int \<Rightarrow> bool" where
  "actions_within c r a \<longleftrightarrow>
     (let m = the (map_of RECOVERY_CLASS_MATRIX c); budget = int (contract_replacement_budget m);
          attempts = (if c = ''deterministic-construction-failure'' then 1 else 0 :: int);
          action = (if is_exhausted c r a then exhausted_action m else initial_action m)
      in action \<in> set RECOVERY_ACTIONS \<and> budget \<le> 1
         \<and> (action = ''replace-same-admitted-bead'' \<longrightarrow> budget = 1 \<and> r = 0)
         \<and> (action = ''reconstruct-same-admitted-bead'' \<longrightarrow> attempts = 1 \<and> a = 0 \<and> r = 0))"

lemma all_actions_within: "list_all (\<lambda>c. list_all (\<lambda>r. list_all (actions_within c r) [0, 1]) [0, 1]) RECOVERY_CLASSES"
  by code_simp

lemma class_actions_within: "class_by_precedence g c \<Longrightarrow> r \<in> {0, 1} \<Longrightarrow> a \<in> {0, 1} \<Longrightarrow> actions_within c r a"
  using all_actions_within class_in_classes [of g c] by (auto simp: list_all_iff)

definition protected_class :: "string \<Rightarrow> bool" where
  "protected_class c \<longleftrightarrow>
     (let m = the (map_of RECOVERY_CLASS_MATRIX c)
      in contract_replacement_budget m = 0 \<and> contract_stop_scope m \<noteq> ''child'' \<and> c \<noteq> ''deterministic-construction-failure''
         \<and> initial_action m \<in> {''stop-execution-path'', ''await-operator-input''}
         \<and> exhausted_action m \<in> {''stop-execution-path'', ''await-operator-input''})"

definition protected_signals :: "string list" where
  "protected_signals = [''contradictory_authority_changing_validation'', ''failed_ambiguous_dispatch'', ''control_security_failure'']"

lemma protected_prefix:
  "map fst (take 3 RECOVERY_PRECEDENCE) = protected_signals" "list_all (protected_class \<circ> snd) (take 3 RECOVERY_PRECEDENCE)"
  "length RECOVERY_PRECEDENCE = 7" "length protected_signals = 3"
  by code_simp+

lemma protected_signal_class:
  assumes "class_by_precedence g c" and "f \<in> set protected_signals" and "dget g f = PBool True"
  shows "protected_class c"
proof -
  obtain j where j: "j < 3" "f = protected_signals ! j" using assms(2) protected_prefix(4) by (metis in_set_conv_nth)
  then have "fst (RECOVERY_PRECEDENCE ! j) = f"
    using protected_prefix(1,3) by (metis length_map nth_map nth_take protected_prefix(4))
  moreover obtain i where i: "i < length RECOVERY_PRECEDENCE" "c = snd (RECOVERY_PRECEDENCE ! i)"
    "\<forall>k<i. dget g (fst (RECOVERY_PRECEDENCE ! k)) = PBool False" using assms(1) unfolding class_by_precedence_def by blast
  ultimately have "i < 3" using assms(3) j(1) by (metis less_trans linorder_neqE_nat pyval.inject(1))
  then have "RECOVERY_PRECEDENCE ! i \<in> set (take 3 RECOVERY_PRECEDENCE)"
    using protected_prefix(3) by (force simp: in_set_conv_nth)
  then show ?thesis using protected_prefix(2) i(2) by (auto simp: list_all_iff)
qed

section \<open>Properties\<close>

definition demo_signals :: pydict where
  "demo_signals = map (\<lambda>f. (f, PBool (f \<in> {''contained_semantic_no_op'', ''pre_dispatch_transport_failure''}))) RECOVERY_SIGNAL_FIELDS"

definition demo_digest :: pyval where
  "demo_digest = PStr (replicate 64 CHR ''a'')"

definition demo_decision :: pydict where
  "demo_decision = decision_of_inputs (normal_signals demo_signals) ''contained-semantic-no-op'' 0 0 demo_digest demo_digest (PStr ''bead-1'') demo_digest"

lemma demo_signals_ok: "signals_ok demo_signals"
  unfolding signals_ok_def by code_simp

lemma demo_class: "class_by_precedence demo_signals ''contained-semantic-no-op''"
  unfolding class_by_precedence_def by (rule exI [of _ 4]) code_simp

lemma demo_inputs: "is_sha256 demo_digest" "nonempty_text (PStr ''bead-1'')" "zero_or_one (PInt 0)"
  by code_simp+

lemma demo_built:
  "build_recovery_audit_decision (PDict demo_signals) (PInt 0) (PInt 0) demo_digest demo_digest (PStr ''bead-1'') demo_digest = Inr demo_decision"
  unfolding build_decision_Inr demo_decision_def using demo_signals_ok demo_class demo_inputs by auto

lemma demo_normal: "normal_signals demo_signals = demo_signals"
  by code_simp

lemma demo_accepted: "validate_recovery_audit_decision (PDict demo_decision) = Inr []"
proof -
  have "float_free (PDict demo_decision)"
    unfolding demo_decision_def using float_free_normal [OF demo_signals_ok] demo_inputs by (intro float_free_decision_of_inputs)
  moreover have "rebuild_decision demo_decision = Inr demo_decision"
    unfolding rebuild_decision_def build_decision_Inr demo_decision_def using demo_inputs demo_class demo_signals_ok
    by (auto simp: demo_normal)
  moreover have "set (dkeys demo_decision) = set RECOVERY_DECISION_FIELDS"
    unfolding demo_decision_def by (rule decision_of_inputs_keys)
  ultimately show ?thesis unfolding validate_decision_accepts using float_free_finite by metis
qed

text \<open>
  The class of a set of signals is the one of the first raised signal in the frozen precedence, and
  every well-formed set of signals has one.
\<close>

theorem recovery_class_first_raised:
  "(classify_recovery_signals s = Inr c \<longleftrightarrow> (\<exists>d. s = PDict d \<and> signals_ok d \<and> class_by_precedence d c))
   \<and> ((\<exists>c. classify_recovery_signals s = Inr c) \<longleftrightarrow> (\<exists>d. s = PDict d \<and> signals_ok d))"
  using classify_recovery_signals_Inr classify_total by metis

text \<open>
  C37: a decision that was built is accepted by the validator, and so is every value with the same canonical
  text, in whatever order its keys are stored.
\<close>

theorem recovery_decision_roundtrip:
  assumes "build_recovery_audit_decision s rc cc e f b h = Inr d"
    and "finite_json v" and "json_text False v = json_text False (PDict d)"
  shows "validate_recovery_audit_decision v = Inr []"
proof -
  from assms(1) obtain g c where g: "s = PDict g" "signals_ok g" "class_by_precedence g c"
    and inputs: "zero_or_one rc" "zero_or_one cc" "is_sha256 e" "is_sha256 f" "nonempty_text b" "is_sha256 h"
    and d: "d = decision_of_inputs (normal_signals g) c (the_int rc) (the_int cc) e f b h"
    unfolding build_decision_Inr by blast
  have "float_free (PDict d)" unfolding d using float_free_normal [OF g(2)] inputs by (intro float_free_decision_of_inputs)
  then have sorted: "sort_keys (PDict d) = sort_keys v"
    using plain_text_unique [OF float_free_sort_keys finite_json_sort_keys [OF assms(2)], of "PDict d" "[]" "[]" False] assms(3)
    by (simp add: json_text_sorted delim_def del: sort_keys.simps float_free.simps)
  then obtain d' where v: "v = PDict d'" using sort_keys_PDict_cases by metis
  note field = sort_keys_dget [OF sorted [unfolded v]]
  have "sort_keys (dget d' ''signals'') = sort_keys (PDict (normal_signals g))" using field [of "''signals''"] by (simp add: d del: sort_keys.simps)
  then obtain g' where g': "dget d' ''signals'' = PDict g'" "sort_keys (PDict (normal_signals g)) = sort_keys (PDict g')"
    using sort_keys_PDict_cases by metis
  have ok: "signals_ok (normal_signals g)" using g(2) signals_ok_normal unfolding signals_ok_def by blast
  have n: "signals_ok g'" "normal_signals g' = normal_signals g"
    using normal_signals_sorted [OF g'(2) ok] normal_idempotent by simp_all
  have "class_by_precedence g' c"
    using classify_normalized_Inr [OF n(1)] classify_normalized_Inr [OF g(2)] g(3) n(2) by simp
  moreover have "dget d' ''replacement_count'' = rc" "dget d' ''construction_attempt_count'' = cc"
    "dget d' ''evidence_sha256'' = e" "dget d' ''fixed_cohort_sha256'' = f" "dget d' ''admitted_bead_id'' = b" "dget d' ''admitted_child_sha256'' = h"
    using field [of "''replacement_count''"] field [of "''construction_attempt_count''"] field [of "''evidence_sha256''"]
      field [of "''fixed_cohort_sha256''"] field [of "''admitted_bead_id''"] field [of "''admitted_child_sha256''"] inputs
    by (auto simp: d zero_or_one_def is_sha256_iff nonempty_text_iff)
  ultimately have "rebuild_decision d' = Inr d" unfolding rebuild_decision_def build_decision_Inr using g'(1) n inputs d by auto
  moreover have "set (dkeys d') = set RECOVERY_DECISION_FIELDS"
    using sort_keys_set [OF sorted [unfolded v]] decision_of_inputs_keys unfolding d by metis
  ultimately show ?thesis unfolding validate_decision_accepts using assms(2) sorted v by metis
qed

theorem recovery_decision_roundtrip_witness: "validate_recovery_audit_decision (PDict demo_decision) = Inr []"
proof (rule recovery_decision_roundtrip [OF demo_built _ refl])
  show "finite_json (PDict demo_decision)"
    unfolding demo_decision_def using float_free_normal [OF demo_signals_ok] demo_inputs
    by (intro float_free_finite float_free_decision_of_inputs)
qed

text \<open>
  C22: an accepted decision authorizes no dispatch and no refill, keeps the fixed cohort, and carries the class
  that the precedence gives to the signals stored in it.
\<close>

theorem recovery_accepted_never_authorizes:
  assumes "validate_recovery_audit_decision (PDict d) = Inr []"
  shows "dget d ''dispatch_authorized'' = PBool False \<and> dget d ''newly_ready_refill_allowed'' = PBool False
    \<and> dget d ''fixed_cohort_required'' = PBool True
    \<and> (\<exists>g c. dget d ''signals'' = PDict g \<and> signals_ok g \<and> class_by_precedence g c \<and> dget d ''recovery_class'' = PStr c)"
proof (rule accepted_decision [OF assms])
  fix d' g c r a
  assume d: "PDict d = PDict d'" "dget d' ''signals'' = PDict g" "signals_ok g" "class_by_precedence g c"
    and field: "\<And>k. sort_keys (dget d' k) = sort_keys (dget (decision_of_inputs (normal_signals g) c r a (dget d' ''evidence_sha256'')
        (dget d' ''fixed_cohort_sha256'') (dget d' ''admitted_bead_id'') (dget d' ''admitted_child_sha256'')) k)"
  show ?thesis
    using d field [of "''dispatch_authorized''"] field [of "''newly_ready_refill_allowed''"]
      field [of "''fixed_cohort_required''"] field [of "''recovery_class''"] by auto
qed

theorem recovery_accepted_never_authorizes_witness:
  "dget demo_decision ''dispatch_authorized'' = PBool False"
  using recovery_accepted_never_authorizes [OF demo_accepted] by blast

text \<open>
  In an accepted decision the budgets are at most one, the remaining amounts are what the counts leave,
  never below zero, and a replacement or a reconstruction is only chosen while one is left.
\<close>

theorem recovery_within_budget:
  assumes "validate_recovery_audit_decision (PDict d) = Inr []"
  shows "\<exists>budget used left attempts tried untried action.
     dget d ''replacement_budget'' = PInt budget \<and> dget d ''replacement_count'' = PInt used \<and> dget d ''replacements_remaining'' = PInt left
     \<and> dget d ''construction_attempt_budget'' = PInt attempts \<and> dget d ''construction_attempt_count'' = PInt tried
     \<and> dget d ''construction_attempts_remaining'' = PInt untried \<and> dget d ''action'' = PStr action
     \<and> 0 \<le> left \<and> left \<le> budget \<and> budget \<le> 1 \<and> 0 \<le> untried \<and> untried \<le> attempts \<and> attempts \<le> 1
     \<and> left = max 0 (budget - used) \<and> untried = max 0 (attempts - tried) \<and> action \<in> set RECOVERY_ACTIONS
     \<and> (action \<noteq> ''replace-same-admitted-bead'' \<or> left = 1)
     \<and> (action \<noteq> ''reconstruct-same-admitted-bead'' \<or> untried = 1 \<and> used = 0)"
proof (rule accepted_decision [OF assms])
  fix d' g c r a
  assume d: "PDict d = PDict d'" and c: "class_by_precedence g c" and ra: "r \<in> {0, 1}" "a \<in> {0, 1}"
    and counts: "dget d' ''replacement_count'' = PInt r" "dget d' ''construction_attempt_count'' = PInt a"
    and field: "\<And>k. sort_keys (dget d' k) = sort_keys (dget (decision_of_inputs (normal_signals g) c r a (dget d' ''evidence_sha256'')
        (dget d' ''fixed_cohort_sha256'') (dget d' ''admitted_bead_id'') (dget d' ''admitted_child_sha256'')) k)"
  let ?m = "the (map_of RECOVERY_CLASS_MATRIX c)"
  obtain budget attempts action where names: "budget = int (contract_replacement_budget ?m)"
    "attempts = (if c = ''deterministic-construction-failure'' then 1 else 0 :: int)"
    "action = (if is_exhausted c r a then exhausted_action ?m else initial_action ?m)" by blast
  have fields: "dget d ''replacement_budget'' = PInt budget" "dget d ''replacements_remaining'' = PInt (max 0 (budget - r))"
    "dget d ''construction_attempt_budget'' = PInt attempts"
    "dget d ''construction_attempts_remaining'' = PInt (max 0 (attempts - a))" "dget d ''action'' = PStr action"
    using d field [of "''replacement_budget''"] field [of "''replacements_remaining''"] field [of "''construction_attempt_budget''"]
      field [of "''construction_attempts_remaining''"] field [of "''action''"] by (simp_all add: names)
  have "actions_within c r a" using class_actions_within c ra by blast
  then have within: "action \<in> set RECOVERY_ACTIONS" "budget \<le> 1"
    "action = ''replace-same-admitted-bead'' \<Longrightarrow> budget = 1 \<and> r = 0"
    "action = ''reconstruct-same-admitted-bead'' \<Longrightarrow> attempts = 1 \<and> a = 0 \<and> r = 0"
    unfolding actions_within_def Let_def names [symmetric] by blast+
  have bounds: "0 \<le> budget" "0 \<le> attempts" "attempts \<le> 1" "0 \<le> r" "0 \<le> a" using ra names by auto
  show ?thesis
  proof (intro exI conjI)
    show "action \<noteq> ''replace-same-admitted-bead'' \<or> max 0 (budget - r) = 1" using within(3) by fastforce
    show "action \<noteq> ''reconstruct-same-admitted-bead'' \<or> max 0 (attempts - a) = 1 \<and> r = 0" using within(4) by fastforce
  qed (use fields counts d within(1,2) bounds in simp_all)
qed

theorem recovery_within_budget_witness: "\<exists>budget used. dget demo_decision ''replacement_budget'' = PInt budget
    \<and> dget demo_decision ''replacement_count'' = PInt used \<and> budget \<le> 1"
  using recovery_within_budget [OF demo_accepted] by blast

text \<open>
  C23: once a control, ambiguous-dispatch or contradictory-validation signal is raised, an accepted decision
  neither replaces nor reconstructs the child: it stops the path or waits for the operator, has no budget
  and its stop scope is wider than the child.
\<close>

theorem recovery_protected_never_replaced:
  assumes "validate_recovery_audit_decision (PDict d) = Inr []" and "dget d ''signals'' = PDict g"
    and "f \<in> {''contradictory_authority_changing_validation'', ''failed_ambiguous_dispatch'', ''control_security_failure''}"
    and "dget g f = PBool True"
  shows "dget d ''action'' \<in> {PStr ''stop-execution-path'', PStr ''await-operator-input''}
    \<and> dget d ''replacement_budget'' = PInt 0 \<and> dget d ''construction_attempt_budget'' = PInt 0 \<and> dget d ''stop_scope'' \<noteq> PStr ''child''"
proof (rule accepted_decision [OF assms(1)])
  fix d' g' c r a
  assume d: "PDict d = PDict d'" and g: "dget d' ''signals'' = PDict g'" and c: "class_by_precedence g' c"
    and field: "\<And>k. sort_keys (dget d' k) = sort_keys (dget (decision_of_inputs (normal_signals g') c r a (dget d' ''evidence_sha256'')
        (dget d' ''fixed_cohort_sha256'') (dget d' ''admitted_bead_id'') (dget d' ''admitted_child_sha256'')) k)"
  have "g' = g" using d g assms(2) by simp
  then have "protected_class c"
    using protected_signal_class [OF c, of f] assms(3,4) by (simp add: protected_signals_def)
  then show ?thesis
    using d field [of "''action''"] field [of "''replacement_budget''"] field [of "''construction_attempt_budget''"] field [of "''stop_scope''"]
    unfolding protected_class_def Let_def by (auto split: if_splits)
qed

definition demo_protected_signals :: pydict where
  "demo_protected_signals = map (\<lambda>f. (f, PBool (f \<in> {''failed_ambiguous_dispatch'', ''pre_dispatch_transport_failure''}))) RECOVERY_SIGNAL_FIELDS"

definition demo_protected :: pydict where
  "demo_protected = decision_of_inputs demo_protected_signals ''control-security-failure'' 0 0 demo_digest demo_digest (PStr ''bead-1'') demo_digest"

lemma demo_protected_signals: "signals_ok demo_protected_signals" "normal_signals demo_protected_signals = demo_protected_signals"
  "class_by_precedence demo_protected_signals ''control-security-failure''"
proof -
  show "class_by_precedence demo_protected_signals ''control-security-failure''"
    unfolding class_by_precedence_def by (rule exI [of _ 1]) code_simp
qed (unfold signals_ok_def, code_simp+)

lemma demo_protected_accepted: "validate_recovery_audit_decision (PDict demo_protected) = Inr []"
proof -
  note facts = demo_inputs demo_protected_signals
  have "float_free (PDict demo_protected)"
    unfolding demo_protected_def using float_free_normal [of demo_protected_signals] facts by (intro float_free_decision_of_inputs) simp_all
  moreover have "rebuild_decision demo_protected = Inr demo_protected"
    unfolding rebuild_decision_def build_decision_Inr demo_protected_def using facts by auto
  moreover have "set (dkeys demo_protected) = set RECOVERY_DECISION_FIELDS"
    unfolding demo_protected_def by (rule decision_of_inputs_keys)
  ultimately show ?thesis unfolding validate_decision_accepts using float_free_finite by metis
qed

theorem recovery_protected_never_replaced_witness: "dget demo_protected ''stop_scope'' \<noteq> PStr ''child''"
proof -
  have "dget demo_protected ''signals'' = PDict demo_protected_signals" by (simp add: demo_protected_def)
  moreover have "dget demo_protected_signals ''failed_ambiguous_dispatch'' = PBool True" by code_simp
  ultimately show ?thesis
    using recovery_protected_never_replaced [OF demo_protected_accepted, of demo_protected_signals "''failed_ambiguous_dispatch''"] by simp
qed

end
