(* ===== verification/Hmac.thy ===== *)
theory Hmac
  imports CanonJson
begin

text \<open>
  \<^verbatim>\<open>hmac.new(key, message, hashlib.sha256)\<close> as RFC 2104 states it, over lists of bytes, and
  \<^verbatim>\<open>hmac.compare_digest\<close>, which refuses text outside ASCII.  Nothing is assumed of its strength:
  the theorems say which text a signature has to be the code of, not who could have computed it.
\<close>

definition sha256_digest :: "nat list \<Rightarrow> nat list" where
  "sha256_digest bytes =
     (let ws = words_of_bytes (sha_pad bytes); s = sha_blocks (length ws) sha_initial ws
      in concat (map (\<lambda>w. big_endian 4 (unat w))
           [sha_a s, sha_b s, sha_c s, sha_d s, sha_e s, sha_f s, sha_g s, sha_h s]))"

text \<open>The key as one block of 64 bytes, combined with the byte of a pad.\<close>

definition hmac_block :: "nat list \<Rightarrow> nat list" where
  "hmac_block key =
     (let short = (if 64 < length key then sha256_digest key else key)
      in short @ replicate (64 - length short) 0)"

definition xor_byte :: "nat \<Rightarrow> nat \<Rightarrow> nat" where
  "xor_byte pad byte = unat ((of_nat pad :: 8 word) XOR of_nat byte)"

definition hmac_input :: "nat list \<Rightarrow> nat list \<Rightarrow> nat list" where
  "hmac_input key message =
     map (xor_byte 92) (hmac_block key) @ sha256_digest (map (xor_byte 54) (hmac_block key) @ message)"

definition hmac_digest :: "nat list \<Rightarrow> nat list \<Rightarrow> nat list" where
  "hmac_digest key message = sha256_digest (hmac_input key message)"

definition hmac_hex :: "nat list \<Rightarrow> nat list \<Rightarrow> string" where
  "hmac_hex key message = sha256_hex (hmac_input key message)"

definition ascii_text :: "string \<Rightarrow> bool" where
  "ascii_text s \<longleftrightarrow> list_all (\<lambda>c. code c < 128) s"

lemma hex64_hmac_hex [simp]: "hex64 (hmac_hex key message)"
  by (simp add: hmac_hex_def)

end
