(* ===== verification/Authority.thy ===== *)
theory Authority
  imports CanonJsonUnique PoolContracts Hmac
begin

text \<open>
  \<^verbatim>\<open>scripts/cwo_core/native_authority.py\<close>, first part: the provenance record behind every
  authority, its validator, and the constructors, which derive authority from repository policy, from a
  trusted runtime role or from an operator directive under a verified code.  An opaque
  \<^verbatim>\<open>VerifiedAuthority\<close> is a record that only these constructors produce.  The errors are the
  exception of the module, the \<^verbatim>\<open>TypeError\<close> of a membership test on a list or dictionary, and
  the \<^verbatim>\<open>ValueError\<close> of \<^verbatim>\<open>json.dumps\<close> on a number that is not finite.
\<close>

datatype authority_error = AuthorityProvenanceError string | PyTypeError | PyValueError

section \<open>Constants\<close>

definition AUTHORITY_SOURCE_TYPES :: "string list" where
  "AUTHORITY_SOURCE_TYPES =
     [''worker-discovery'', ''pm-observation'', ''architect-judgment'', ''operator-directive'', ''policy-enforcement'']"

definition AUTHORIZED_SCOPES :: "string list" where
  "AUTHORIZED_SCOPES = [''child'', ''cohort'', ''execution-path'', ''complete-task'', ''publication'']"

definition AUTHORIZED_SCOPE_RANK :: "string \<Rightarrow> nat option" where
  "AUTHORIZED_SCOPE_RANK scope = first_index (\<lambda>s. s = scope) AUTHORIZED_SCOPES"

definition ACTOR_SCOPE_CAPS :: "string \<Rightarrow> string option" where
  "ACTOR_SCOPE_CAPS = map_of
     [(''operative-worker'', ''child''), (''critic'', ''cohort''), (''project-manager'', ''execution-path''),
      (''architect'', ''complete-task''), (''supervisor-policy'', ''complete-task''), (''operator'', ''publication'')]"

definition SOURCE_ROLE_BINDINGS :: "string \<Rightarrow> string list option" where
  "SOURCE_ROLE_BINDINGS = map_of
     [(''worker-discovery'', [''operative-worker'', ''critic'']), (''pm-observation'', [''project-manager'']),
      (''architect-judgment'', [''architect'']), (''operator-directive'', [''operator'']),
      (''policy-enforcement'', [''supervisor-policy''])]"

definition AUTHORITY_LEVEL_RANK :: "string \<Rightarrow> nat option" where
  "AUTHORITY_LEVEL_RANK = map_of [(''worker'', 0), (''pm'', 1), (''architect'', 2), (''operator'', 3)]"

definition ACTOR_AUTHORITY_LEVEL :: "string \<Rightarrow> string option" where
  "ACTOR_AUTHORITY_LEVEL = map_of
     [(''operative-worker'', ''worker''), (''project-manager'', ''pm''), (''architect'', ''architect''), (''operator'', ''operator'')]"

definition AUTHORITY_PROVENANCE_FIELDS :: "string list" where
  "AUTHORITY_PROVENANCE_FIELDS =
     [''version'', ''source_type'', ''source_id'', ''source_sha256'', ''actor_id'', ''actor_role'', ''identity_source'',
      ''authorized_scope'', ''parent_receipt_sha256'', ''verification'', ''authority_sha256'']"

definition VERIFICATION_FIELDS :: "string list" where
  "VERIFICATION_FIELDS = [''method'', ''evidence_sha256'']"

definition OPERATOR_DIRECTIVE_FIELDS :: "string list" where
  "OPERATOR_DIRECTIVE_FIELDS =
     [''version'', ''directive_id'', ''action_sha256'', ''actor_id'', ''identity_source'', ''authorized_scope'',
      ''parent_receipt_sha256'', ''issued_at'', ''nonce'', ''signature'']"

definition OPERATOR_VERIFICATION_METHODS :: "string list" where
  "OPERATOR_VERIFICATION_METHODS = [''hmac-sha256-operator-directive-v1'', ''hmac-sha256-protected-change-v1'']"

section \<open>Text and JSON\<close>

text \<open>\<^verbatim>\<open>text.replace(old, new)\<close> for a nonempty pattern.\<close>

function py_replace :: "string \<Rightarrow> string \<Rightarrow> string \<Rightarrow> string" where
  "py_replace old new [] = []"
| "py_replace old new (c # cs) =
     (if old \<noteq> [] \<and> take (length old) (c # cs) = old then new @ py_replace old new (drop (length old) (c # cs))
      else c # py_replace old new cs)"
  by pat_completeness auto
termination by (relation "measure (\<lambda>(_, _, s). length s)") auto

text \<open>The labels of the numbers that are not finite, in the order of the traversal.\<close>

lemma in_index_from_snd [termination_simp]: "(i, v) \<in> set (index_from n xs) \<Longrightarrow> size v < Suc (size_list size xs)"
proof (induction xs arbitrary: n)
  case (Cons x xs)
  then show ?case by (cases "(i, v) = (n, x)") (auto dest: Cons.IH)
qed simp

fun non_finite_labels :: "string \<Rightarrow> pyval \<Rightarrow> string list" where
  "non_finite_labels label (PFloat x) = (case x of FFin _ \<Rightarrow> [] | _ \<Rightarrow> [label])"
| "non_finite_labels label (PDict d) = concat (map (\<lambda>(k, v). non_finite_labels (label @ ''.'' @ k) v) d)"
| "non_finite_labels label (PList xs) =
     concat (map (\<lambda>(i, v). non_finite_labels (label @ ''['' @ str_of_nat i @ '']'') v) (index_from 0 xs))"
| "non_finite_labels label _ = []"

definition ordinary_json :: "pyval \<Rightarrow> string \<Rightarrow> (authority_error, pyval) res" where
  "ordinary_json value label =
     (case non_finite_labels label value of [] \<Rightarrow> Inr value
      | l # _ \<Rightarrow> Inl (AuthorityProvenanceError (l @ ''-non-finite-number'')))"

definition canonical_json_object :: "pyval \<Rightarrow> string \<Rightarrow> (authority_error, pydict) res" where
  "canonical_json_object value label =
     rbind (ordinary_json value label) (\<lambda>result.
       (case result of PDict d \<Rightarrow> Inr d
        | _ \<Rightarrow> Inl (AuthorityProvenanceError (label @ ''-must-be-object''))))"

definition canonical_authority_sha256 :: "pyval \<Rightarrow> (authority_error, string) res" where
  "canonical_authority_sha256 value =
     rbind (ordinary_json value ''canonical-json'') (\<lambda>canonical. Inr (text_sha256 (json_text False canonical)))"

text \<open>\<^verbatim>\<open>value in mapping\<close> and \<^verbatim>\<open>mapping[value]\<close>: only hashable values can be looked up.\<close>

definition dict_lookup :: "(string \<Rightarrow> 'a option) \<Rightarrow> pyval \<Rightarrow> (authority_error, 'a option) res" where
  "dict_lookup mapping value =
     (case value of PStr s \<Rightarrow> Inr (mapping s) | PList _ \<Rightarrow> Inl PyTypeError | PDict _ \<Rightarrow> Inl PyTypeError | _ \<Rightarrow> Inr None)"

definition require_scope :: "pyval \<Rightarrow> string \<Rightarrow> (authority_error, string) res" where
  "require_scope value label =
     rbind (dict_lookup AUTHORIZED_SCOPE_RANK value) (\<lambda>rank.
       if rank = None then Inl (AuthorityProvenanceError (label @ ''-invalid'')) else Inr (the_str value))"

section \<open>Provenance records\<close>

definition verification_errors :: "pyval \<Rightarrow> string list" where
  "verification_errors verification =
     (case verification of
        PDict v \<Rightarrow>
          if set (dkeys v) \<noteq> set VERIFICATION_FIELDS then [''authority-provenance-verification-fields-invalid'']
          else err_if (\<not> nonempty_text (dget v ''method'')) ''authority-provenance-verification-method-invalid''
            @ err_if (\<not> is_sha256 (dget v ''evidence_sha256'')) ''authority-provenance-verification-evidence-invalid''
      | _ \<Rightarrow> [''authority-provenance-verification-fields-invalid''])"

text \<open>The error codes, given the outcomes of the lookups and of the digest of the body.\<close>

definition provenance_error_list ::
    "pydict \<Rightarrow> string option \<Rightarrow> string list option \<Rightarrow> nat option \<Rightarrow> string \<Rightarrow> unit option \<Rightarrow> string list" where
  "provenance_error_list payload cap roles rank expected operator_method =
     (let source_type = dget payload ''source_type''; parent = dget payload ''parent_receipt_sha256''
      in err_if (dget payload ''version'' \<noteq> PInt 1) ''authority-provenance-version-invalid''
           @ err_if (\<not> in_strs source_type AUTHORITY_SOURCE_TYPES) ''authority-provenance-source-type-invalid''
           @ (if cap = None then [''authority-provenance-actor-role-invalid'']
              else err_if (case roles of None \<Rightarrow> False | Some rs \<Rightarrow> the_str (dget payload ''actor_role'') \<notin> set rs)
                ''authority-provenance-source-role-mismatch'')
           @ concat (map (\<lambda>field. err_if (\<not> nonempty_text (dget payload field))
               (''authority-provenance-'' @ dashed field @ ''-invalid'')) [''source_id'', ''actor_id'', ''identity_source''])
           @ concat (map (\<lambda>field. err_if (\<not> is_sha256 (dget payload field))
               (''authority-provenance-'' @ dashed field @ ''-invalid'')) [''source_sha256'', ''authority_sha256''])
           @ err_if (parent \<noteq> PNone \<and> \<not> is_sha256 parent) ''authority-provenance-parent-receipt-sha256-invalid''
           @ (case rank of None \<Rightarrow> [''authority-provenance-authorized-scope-invalid'']
              | Some r \<Rightarrow> err_if (case cap of None \<Rightarrow> False | Some c \<Rightarrow> the (AUTHORIZED_SCOPE_RANK c) < r)
                  ''authority-provenance-exceeds-role-cap'')
           @ verification_errors (dget payload ''verification'')
           @ err_if (is_sha256 (dget payload ''authority_sha256'') \<and> dget payload ''authority_sha256'' \<noteq> PStr expected)
               ''authority-provenance-sha256-mismatch''
           @ err_if (operator_method = None) ''operator-authority-provenance-verification-invalid''
           @ err_if (dget payload ''authorized_scope'' = PStr ''publication'' \<and> source_type \<noteq> PStr ''operator-directive'')
               ''publication-scope-requires-operator-directive'')"

definition provenance_errors :: "pydict \<Rightarrow> (authority_error, string list) res" where
  "provenance_errors payload =
     (let source_type = dget payload ''source_type''; actor_role = dget payload ''actor_role'';
          scope = dget payload ''authorized_scope''; verification = dget payload ''verification''
      in rbind (dict_lookup ACTOR_SCOPE_CAPS actor_role) (\<lambda>cap.
         rbind (if cap = None then Inr None else dict_lookup SOURCE_ROLE_BINDINGS source_type) (\<lambda>roles.
         rbind (dict_lookup AUTHORIZED_SCOPE_RANK scope) (\<lambda>rank.
         rbind (if is_sha256 (dget payload ''authority_sha256'')
             then canonical_authority_sha256 (PDict (dpop payload ''authority_sha256'')) else Inr []) (\<lambda>expected.
         rbind (if source_type = PStr ''operator-directive'' \<and> is_dict verification
             then dict_lookup (\<lambda>m. if m \<in> set OPERATOR_VERIFICATION_METHODS then Some () else None)
               (dget (the_dict verification) ''method'')
             else Inr (Some ())) (\<lambda>operator_method.
         Inr (provenance_error_list payload cap roles rank expected operator_method)))))))"

definition validate_authority_provenance :: "pyval \<Rightarrow> (authority_error, string list) res" where
  "validate_authority_provenance value =
     (if \<not> is_dict value then Inr [''authority-provenance-must-be-object'']
      else (case canonical_json_object value ''authority-provenance'' of
         Inl (AuthorityProvenanceError message) \<Rightarrow> Inr [message]
       | Inl e \<Rightarrow> Inl e
       | Inr payload \<Rightarrow>
           if set (dkeys payload) \<noteq> set AUTHORITY_PROVENANCE_FIELDS
           then Inr (field_errors AUTHORITY_PROVENANCE_FIELDS ''authority-provenance'' payload)
           else provenance_errors payload))"

section \<open>Verified authority\<close>

record verified_authority =
  authority_payload :: pydict

definition sealed_authority :: "pydict \<Rightarrow> (authority_error, pydict) res" where
  "sealed_authority payload =
     (let value = dpop payload ''authority_sha256''
      in rbind (canonical_authority_sha256 (PDict value)) (\<lambda>sha256. Inr (dset value ''authority_sha256'' (PStr sha256))))"

definition VerifiedAuthority :: "pydict \<Rightarrow> (authority_error, verified_authority) res" where
  "VerifiedAuthority payload =
     rbind (sealed_authority payload) (\<lambda>sealed.
     rbind (validate_authority_provenance (PDict sealed)) (\<lambda>errors.
       if errors \<noteq> [] then Inl (AuthorityProvenanceError (''authority-provenance-invalid:'' @ py_join '';'' errors))
       else Inr \<lparr>authority_payload = sealed\<rparr>))"

definition authorized_scope :: "verified_authority \<Rightarrow> string" where
  "authorized_scope authority = the_str (dget (authority_payload authority) ''authorized_scope'')"

definition actor_role :: "verified_authority \<Rightarrow> string" where
  "actor_role authority = the_str (dget (authority_payload authority) ''actor_role'')"

definition authority_level :: "verified_authority \<Rightarrow> string option" where
  "authority_level authority = ACTOR_AUTHORITY_LEVEL (actor_role authority)"

definition make_authority ::
    "string \<Rightarrow> string \<Rightarrow> string \<Rightarrow> string \<Rightarrow> string \<Rightarrow> string \<Rightarrow> string \<Rightarrow> pyval \<Rightarrow> string \<Rightarrow> string
       \<Rightarrow> (authority_error, verified_authority) res" where
  "make_authority source_type source_id source_sha256 actor_id role identity_source scope parent_receipt_sha256
       verification_method verification_evidence_sha256 =
     VerifiedAuthority
       [(''version'', PInt 1), (''source_type'', PStr source_type), (''source_id'', PStr source_id),
        (''source_sha256'', PStr source_sha256), (''actor_id'', PStr actor_id), (''actor_role'', PStr role),
        (''identity_source'', PStr identity_source), (''authorized_scope'', PStr scope),
        (''parent_receipt_sha256'', parent_receipt_sha256),
        (''verification'', PDict [(''method'', PStr verification_method), (''evidence_sha256'', PStr verification_evidence_sha256)])]"

text \<open>An absent or empty text, as \<^verbatim>\<open>value or default\<close> reads it.\<close>

definition text_or :: "string option \<Rightarrow> string \<Rightarrow> string" where
  "text_or value fallback = (case value of None \<Rightarrow> fallback | Some s \<Rightarrow> if s = [] then fallback else s)"

definition policy_authority ::
    "string \<Rightarrow> string \<Rightarrow> string option \<Rightarrow> string \<Rightarrow> string option \<Rightarrow> (authority_error, verified_authority) res" where
  "policy_authority source_id scope_name source_sha256 identity_source compatibility_evidence_sha256 =
     rbind (require_scope (PStr scope_name) ''authorized-scope'') (\<lambda>scope.
     rbind (ensure (the (AUTHORIZED_SCOPE_RANK scope) \<le> the (AUTHORIZED_SCOPE_RANK ''complete-task''))
       (AuthorityProvenanceError ''policy-publication-authority-forbidden'')) (\<lambda>_.
     rbind (ensure (py_strip source_id \<noteq> [] \<and> py_strip identity_source \<noteq> [])
       (AuthorityProvenanceError ''policy-authority-identity-invalid'')) (\<lambda>_.
     rbind (canonical_authority_sha256 (PDict [(''source_id'', PStr source_id), (''identity_source'', PStr identity_source),
       (''version'', PInt 1)])) (\<lambda>identity_hash.
     let source_hash = text_or source_sha256 identity_hash
     in rbind (ensure (hex64 source_hash) (AuthorityProvenanceError ''policy-authority-source-sha256-invalid'')) (\<lambda>_.
        let evidence_hash = text_or compatibility_evidence_sha256 source_hash
        in rbind (ensure (hex64 evidence_hash) (AuthorityProvenanceError ''policy-authority-evidence-sha256-invalid'')) (\<lambda>_.
           make_authority ''policy-enforcement'' source_id source_hash ''native-supervisor-policy'' ''supervisor-policy''
             identity_source scope PNone
             (if compatibility_evidence_sha256 \<noteq> None then ''legacy-compatible-read-v1'' else ''repository-policy-v1'')
             evidence_hash))))))"

definition optional_text :: "string option \<Rightarrow> pyval" where
  "optional_text value = (case value of None \<Rightarrow> PNone | Some s \<Rightarrow> PStr s)"

definition trusted_actor_authority ::
    "string \<Rightarrow> string \<Rightarrow> string \<Rightarrow> string \<Rightarrow> string \<Rightarrow> string \<Rightarrow> string option \<Rightarrow> (authority_error, verified_authority) res" where
  "trusted_actor_authority source_type source_id source_sha256 actor_id role identity_source parent_receipt_sha256 =
     rbind (ensure (role \<noteq> ''operator'' \<and> source_type \<noteq> ''operator-directive'')
       (AuthorityProvenanceError ''operator-authority-requires-verified-directive'')) (\<lambda>_.
     rbind (ensure (source_type \<noteq> ''policy-enforcement'' \<and> role \<noteq> ''supervisor-policy'')
       (AuthorityProvenanceError ''policy-authority-requires-policy-constructor'')) (\<lambda>_.
     rbind (ensure (case SOURCE_ROLE_BINDINGS source_type of None \<Rightarrow> False | Some roles \<Rightarrow> role \<in> set roles)
       (AuthorityProvenanceError ''authority-source-role-mismatch'')) (\<lambda>_.
     rbind (ensure (py_strip source_id \<noteq> [] \<and> py_strip actor_id \<noteq> [] \<and> py_strip identity_source \<noteq> [])
       (AuthorityProvenanceError ''authority-identity-invalid'')) (\<lambda>_.
     rbind (ensure (hex64 source_sha256) (AuthorityProvenanceError ''authority-source-sha256-invalid'')) (\<lambda>_.
     rbind (ensure (case parent_receipt_sha256 of None \<Rightarrow> True | Some parent \<Rightarrow> hex64 parent)
       (AuthorityProvenanceError ''authority-parent-receipt-invalid'')) (\<lambda>_.
     make_authority source_type source_id source_sha256 actor_id role identity_source (the (ACTOR_SCOPE_CAPS role))
       (optional_text parent_receipt_sha256) ''trusted-runtime-role-binding-v1'' source_sha256))))))"

text \<open>\<^verbatim>\<open>hmac.compare_digest\<close> of a JSON value with an expected text.\<close>

definition compare_digest :: "pyval \<Rightarrow> string \<Rightarrow> (authority_error, bool) res" where
  "compare_digest supplied expected =
     (case supplied of PStr s \<Rightarrow> if ascii_text s then Inr (s = expected) else Inl PyTypeError | _ \<Rightarrow> Inr False)"

definition signed_text :: "pyval \<Rightarrow> (authority_error, string) res" where
  "signed_text value = (if finite_json value then Inr (json_text False value) else Inl PyValueError)"

definition verify_operator_directive ::
    "pyval \<Rightarrow> nat list \<Rightarrow> string \<Rightarrow> string \<Rightarrow> string \<Rightarrow> (authority_error, verified_authority) res" where
  "verify_operator_directive value verification_key expected_actor_id expected_identity_source expected_action_sha256 =
     (let receipt = the_dict value; body = dpop receipt ''signature'' in
      rbind (ensure (is_dict value \<and> set (dkeys receipt) = set OPERATOR_DIRECTIVE_FIELDS)
        (AuthorityProvenanceError ''operator-directive-fields-invalid'')) (\<lambda>_.
      rbind (ensure (verification_key \<noteq> []) (AuthorityProvenanceError ''operator-directive-verification-key-invalid'')) (\<lambda>_.
      rbind (signed_text (PDict body)) (\<lambda>text.
      rbind (compare_digest (dget receipt ''signature'') (hmac_hex verification_key (utf8 text))) (\<lambda>genuine.
      rbind (ensure genuine (AuthorityProvenanceError ''operator-directive-signature-invalid'')) (\<lambda>_.
      rbind (ensure (py_eq (dget receipt ''version'') (PInt 1)) (AuthorityProvenanceError ''operator-directive-version-invalid'')) (\<lambda>_.
      rbind (ensure (dget receipt ''actor_id'' = PStr expected_actor_id)
        (AuthorityProvenanceError ''operator-directive-actor-mismatch'')) (\<lambda>_.
      rbind (ensure (dget receipt ''identity_source'' = PStr expected_identity_source)
        (AuthorityProvenanceError ''operator-directive-identity-source-mismatch'')) (\<lambda>_.
      rbind (ensure (dget receipt ''action_sha256'' = PStr expected_action_sha256 \<and> hex64 expected_action_sha256)
        (AuthorityProvenanceError ''operator-directive-action-mismatch'')) (\<lambda>_.
      rbind (mapM (\<lambda>field. ensure (nonempty_text (dget receipt field))
          (AuthorityProvenanceError (''operator-directive-'' @ dashed field @ ''-invalid'')))
        [''directive_id'', ''actor_id'', ''identity_source'', ''issued_at'', ''nonce'']) (\<lambda>_.
      rbind (require_scope (dget receipt ''authorized_scope'') ''operator-directive-scope'') (\<lambda>scope.
      rbind (ensure (dget receipt ''parent_receipt_sha256'' = PNone \<or> is_sha256 (dget receipt ''parent_receipt_sha256''))
        (AuthorityProvenanceError ''operator-directive-parent-receipt-invalid'')) (\<lambda>_.
      rbind (canonical_authority_sha256 (PDict body)) (\<lambda>source_hash.
      rbind (canonical_authority_sha256 (PDict receipt)) (\<lambda>evidence_hash.
      make_authority ''operator-directive'' (the_str (dget receipt ''directive_id'')) source_hash expected_actor_id ''operator''
        expected_identity_source scope (dget receipt ''parent_receipt_sha256'') ''hmac-sha256-operator-directive-v1''
        evidence_hash)))))))))))))))"

text \<open>\<^verbatim>\<open>None\<close> stands for an argument that is not a verified authority.\<close>

definition require_minimum_authority ::
    "verified_authority option \<Rightarrow> string \<Rightarrow> string \<Rightarrow> (authority_error, verified_authority) res" where
  "require_minimum_authority supplied minimum_level action =
     (case supplied of
        None \<Rightarrow> Inl (AuthorityProvenanceError (action @ ''-verified-authority-required''))
      | Some authority \<Rightarrow>
          (case AUTHORITY_LEVEL_RANK minimum_level of
             None \<Rightarrow> Inl (AuthorityProvenanceError ''minimum-authority-level-invalid'')
           | Some minimum \<Rightarrow>
               if (case authority_level authority of None \<Rightarrow> True
                   | Some observed \<Rightarrow> the (AUTHORITY_LEVEL_RANK observed) < minimum)
               then Inl (AuthorityProvenanceError (action @ ''-insufficient-authority:''
                 @ text_or (authority_level authority) (actor_role authority)))
               else Inr authority))"

text \<open>\<^verbatim>\<open>list(value)\<close>: a dictionary gives its keys.\<close>

definition list_of :: "pyval \<Rightarrow> pyval list option" where
  "list_of value = (case value of PList xs \<Rightarrow> Some xs | PDict d \<Rightarrow> Some (map PStr (dkeys d)) | _ \<Rightarrow> None)"

definition build_reason_records ::
    "pyval \<Rightarrow> verified_authority + pyval \<Rightarrow> pyval \<Rightarrow> (authority_error, pydict list) res" where
  "build_reason_records reasons authority detected_by =
     rbind (ensure (\<not> is_str reasons \<and> nonempty_text detected_by)
       (AuthorityProvenanceError ''authority-reason-record-input-invalid'')) (\<lambda>_.
     (case list_of reasons of
        None \<Rightarrow> Inl (AuthorityProvenanceError ''authority-reason-record-input-invalid'')
      | Some reason_values \<Rightarrow>
          rbind (ensure (list_all nonempty_text reason_values)
            (AuthorityProvenanceError ''authority-reason-record-reason-invalid'')) (\<lambda>_.
          let provenance = (case authority of Inl a \<Rightarrow> PDict (authority_payload a)
                | Inr v \<Rightarrow> if is_dict v then v else PNone)
          in rbind (validate_authority_provenance provenance) (\<lambda>errors.
             rbind (ensure (errors = [])
               (AuthorityProvenanceError (''authority-reason-record-provenance-invalid:'' @ py_join '';'' errors))) (\<lambda>_.
             Inr (map (\<lambda>reason. [(''reason'', reason), (''authority_provenance'', provenance), (''detected_by'', detected_by)])
               reason_values))))))"

end
