(* ===== verification/StopScope.thy ===== *)
theory StopScope
  imports Authority
begin

text \<open>
  \<^verbatim>\<open>scripts/cwo_core/native_stop_scope.py\<close>: the stop metadata of an artifact, which is a scope,
  the continuation paths that stay open and the authority behind the scope; its validator, the builder,
  which cuts the requested scope down to the authorized one, the reader of older artifacts, and the merge,
  which keeps the widest scope.  The hashes of paths and authorities are taken of values without numbers
  that are not finite, so they cannot raise.
\<close>

definition STOP_SCOPES :: "string list" where
  "STOP_SCOPES = AUTHORIZED_SCOPES"

definition STOP_SCOPE_RANK :: "string \<Rightarrow> nat option" where
  "STOP_SCOPE_RANK scope = first_index (\<lambda>s. s = scope) STOP_SCOPES"

definition CONTINUATION_PATHS :: "string list" where
  "CONTINUATION_PATHS =
     [''retry-child'', ''replace-child'', ''continue-cohort'', ''retry-cohort'', ''alternate-execution-path'', ''resume-task'',
      ''task-remediation'', ''publication-review'', ''operator-adjudication'']"

definition STOP_METADATA_FIELDS :: "string list" where
  "STOP_METADATA_FIELDS = [''stop_scope'', ''authorized_continuation_paths'', ''scope_authority'']"

definition CONTINUATION_PATH_FIELDS :: "string list" where
  "CONTINUATION_PATH_FIELDS = [''path'', ''target_id'', ''conditions'']"

definition scope_sha256 :: "pyval \<Rightarrow> string" where
  "scope_sha256 value = (case canonical_authority_sha256 value of Inr h \<Rightarrow> h | Inl _ \<Rightarrow> [])"

definition continuation_path :: "pyval \<Rightarrow> pyval \<Rightarrow> pyval \<Rightarrow> (authority_error, pydict) res" where
  "continuation_path path target_id conditions =
     rbind (ensure (in_strs path CONTINUATION_PATHS) (AuthorityProvenanceError ''continuation-path-invalid'')) (\<lambda>_.
     rbind (ensure (target_id = PNone \<or> nonempty_text target_id)
       (AuthorityProvenanceError ''continuation-target-id-invalid'')) (\<lambda>_.
     (case list_of conditions of
        None \<Rightarrow> Inl (AuthorityProvenanceError ''continuation-conditions-invalid'')
      | Some condition_values \<Rightarrow>
          rbind (ensure (list_all nonempty_text condition_values)
            (AuthorityProvenanceError ''continuation-conditions-invalid'')) (\<lambda>_.
          Inr [(''path'', path), (''target_id'', target_id),
            (''conditions'', PList (map PStr (sorted_set (map the_str condition_values))))]))))"

definition validate_scope_authority :: "pyval \<Rightarrow> (authority_error, string list) res" where
  "validate_scope_authority value =
     rbind (validate_authority_provenance value) (\<lambda>errors.
       Inr (map (\<lambda>error. py_replace ''authority-provenance'' ''scope-authority''
         (py_replace ''operator-authority-provenance'' ''operator-scope-authority'' error)) errors))"

text \<open>One item of the list: its errors and the path it contributes.\<close>

definition continuation_item :: "nat \<Rightarrow> pyval \<Rightarrow> string list \<times> pydict list" where
  "continuation_item index item =
     (let place = ''continuation-path['' @ str_of_nat index @ '']''; d = the_dict item in
      if \<not> is_dict item \<or> set (dkeys d) \<noteq> set CONTINUATION_PATH_FIELDS then ([place @ ''-fields-invalid''], [])
      else (case continuation_path (dget d ''path'') (dget d ''target_id'') (dget d ''conditions'') of
          Inl _ \<Rightarrow> ([place @ ''-invalid''], [])
        | Inr normalized \<Rightarrow> (err_if (\<not> py_eq item (PDict normalized)) (place @ ''-not-canonical''), [normalized])))"

definition validate_continuation_paths :: "pyval \<Rightarrow> string list" where
  "validate_continuation_paths value =
     (case value of
        PList items \<Rightarrow>
          (let checked = map (\<lambda>(index, item). continuation_item index item) (index_from 0 items);
               normalized = concat (map snd checked);
               canonical = sort_key (\<lambda>d. scope_sha256 (PDict d)) normalized
           in concat (map fst checked)
              @ err_if (normalized \<noteq> canonical) ''authorized-continuation-paths-not-canonical''
              @ err_if (\<not> distinct (map (\<lambda>d. scope_sha256 (PDict d)) normalized)) ''authorized-continuation-paths-duplicate'')
      | _ \<Rightarrow> [''authorized-continuation-paths-must-be-array''])"

definition validate_stop_metadata :: "pyval \<Rightarrow> (authority_error, string list) res" where
  "validate_stop_metadata value =
     (case value of
        PDict d \<Rightarrow>
          if set (dkeys d) \<noteq> set STOP_METADATA_FIELDS then Inr (field_errors STOP_METADATA_FIELDS ''stop-metadata'' d)
          else
            (let scope = dget d ''stop_scope''; authority = dget d ''scope_authority'' in
             rbind (dict_lookup STOP_SCOPE_RANK scope) (\<lambda>rank.
             rbind (validate_scope_authority authority) (\<lambda>authority_errors.
             rbind (if rank \<noteq> None \<and> is_dict authority
                 then dict_lookup STOP_SCOPE_RANK (dget (the_dict authority) ''authorized_scope'') else Inr None) (\<lambda>allowed.
             Inr (err_if (rank = None) ''stop-scope-invalid'' @ authority_errors
               @ validate_continuation_paths (dget d ''authorized_continuation_paths'')
               @ err_if (case allowed of None \<Rightarrow> False | Some a \<Rightarrow> a < the rank) ''stop-scope-exceeds-authority'')))))
      | _ \<Rightarrow> Inr [''stop-metadata-must-be-object''])"

text \<open>\<^verbatim>\<open>None\<close> stands for an authority argument that is not a verified authority.\<close>

definition path_of_item :: "pyval \<Rightarrow> (authority_error, pydict) res" where
  "path_of_item item =
     (case item of
        PDict d \<Rightarrow> continuation_path (dget d ''path'') (dget d ''target_id'') (dget_or d ''conditions'' (PList []))
      | _ \<Rightarrow> Inl (AuthorityProvenanceError ''authorized-continuation-path-must-be-object''))"

definition build_stop_metadata ::
    "pyval \<Rightarrow> verified_authority option \<Rightarrow> pyval list \<Rightarrow> (authority_error, pydict) res" where
  "build_stop_metadata requested_scope verified authorized_continuation_paths =
     rbind (require_scope requested_scope ''requested-stop-scope'') (\<lambda>requested.
     (case verified of
        None \<Rightarrow> Inl (AuthorityProvenanceError ''verified-scope-authority-required'')
      | Some authority \<Rightarrow>
          (let effective = STOP_SCOPES ! min (the (STOP_SCOPE_RANK requested)) (the (STOP_SCOPE_RANK (authorized_scope authority)))
           in rbind (mapM path_of_item authorized_continuation_paths) (\<lambda>unsorted.
              let paths = sort_key (\<lambda>d. scope_sha256 (PDict d)) unsorted in
              rbind (ensure (distinct (map (\<lambda>d. scope_sha256 (PDict d)) paths))
                (AuthorityProvenanceError ''authorized-continuation-paths-duplicate'')) (\<lambda>_.
              let value = [(''stop_scope'', PStr effective), (''authorized_continuation_paths'', PList (map PDict paths)),
                    (''scope_authority'', PDict (authority_payload authority))] in
              rbind (validate_stop_metadata (PDict value)) (\<lambda>errors.
              rbind (ensure (errors = []) (AuthorityProvenanceError (''stop-metadata-invalid:'' @ py_join '';'' errors))) (\<lambda>_.
              Inr value)))))))"

text \<open>\<^verbatim>\<open>str(item)\<close> is one of the two reasons only for the text itself.\<close>

definition legacy_scope :: "pydict \<Rightarrow> string" where
  "legacy_scope value =
     (if dget value ''control_loss_scope'' = PStr ''pool''
         \<or> (\<exists>item\<in>set (the_list (dget value ''reasons'')). in_strs item [''aggregate-budget-exhausted'', ''cohort-exhausted''])
      then ''cohort'' else ''child'')"

definition read_stop_metadata :: "pyval \<Rightarrow> string \<Rightarrow> (authority_error, pydict) res" where
  "read_stop_metadata value legacy_source_id =
     (case value of
        PDict d \<Rightarrow>
          (let present = filter (\<lambda>f. f \<in> set (dkeys d)) STOP_METADATA_FIELDS in
           if present \<noteq> [] then
             rbind (ensure (present = STOP_METADATA_FIELDS) (AuthorityProvenanceError ''partial-stop-metadata-forbidden'')) (\<lambda>_.
             let metadata = map (\<lambda>f. (f, dget d f)) STOP_METADATA_FIELDS in
             rbind (validate_stop_metadata (PDict metadata)) (\<lambda>errors.
             rbind (ensure (errors = []) (AuthorityProvenanceError (''stop-metadata-invalid:'' @ py_join '';'' errors))) (\<lambda>_.
             Inr metadata)))
           else
             rbind (canonical_authority_sha256 (PDict d)) (\<lambda>evidence_hash.
             let scope = legacy_scope d in
             rbind (policy_authority legacy_source_id scope None ''legacy-compatible-read'' (Some evidence_hash)) (\<lambda>authority.
             build_stop_metadata (PStr scope) (Some authority) [])))
      | _ \<Rightarrow> Inl (AuthorityProvenanceError ''stop-artifact-must-be-object''))"

definition checked_metadata :: "pyval \<Rightarrow> (authority_error, pydict) res" where
  "checked_metadata value =
     rbind (validate_stop_metadata value) (\<lambda>errors.
     rbind (ensure (errors = []) (AuthorityProvenanceError (''stop-metadata-invalid:'' @ py_join '';'' errors))) (\<lambda>_.
     Inr (the_dict value)))"

definition metadata_rank :: "pydict \<Rightarrow> nat" where
  "metadata_rank value = the (STOP_SCOPE_RANK (the_str (dget value ''stop_scope'')))"

definition merge_stop_metadata :: "pyval list \<Rightarrow> (authority_error, pydict) res" where
  "merge_stop_metadata values =
     rbind (ensure (values \<noteq> []) (AuthorityProvenanceError ''stop-metadata-merge-requires-input'')) (\<lambda>_.
     rbind (mapM checked_metadata values) (\<lambda>normalized.
     let maximum = Max (set (map metadata_rank normalized));
         winners = sort_key (\<lambda>d. scope_sha256 (dget d ''scope_authority''))
           (filter (\<lambda>d. metadata_rank d = maximum) normalized);
         selected = hd winners;
         paths_by_hash = concat (map (\<lambda>d. map (\<lambda>path. (scope_sha256 path, path))
           (the_list (dget d ''authorized_continuation_paths''))) winners)
     in Inr [(''stop_scope'', PStr (STOP_SCOPES ! maximum)),
          (''authorized_continuation_paths'',
            PList (map (\<lambda>key. the (map_of (rev paths_by_hash) key)) (sorted_set (map fst paths_by_hash)))),
          (''scope_authority'', dget selected ''scope_authority'')]))"

end
