(* ===== verification/AuthorityProvenance.thy ===== *)
theory AuthorityProvenance
  imports Authority
begin

text \<open>
  What the provenance validator accepts, as a list of facts on the fields, and what the three constructors
  issue: valid records, publication only under the operator's code.
\<close>

section \<open>What the provenance validator accepts\<close>

lemma no_non_finite: "non_finite_labels label v = [] \<longleftrightarrow> finite_json v"
proof (induction label v rule: non_finite_labels.induct)
  case (3 label xs)
  have elems: "set xs = snd ` set (index_from 0 xs)" by (metis map_snd_index_from set_map)
  from 3 show ?case unfolding finite_json.simps elems by (auto simp: case_prod_unfold)
qed (auto split: pyfloat.splits)

lemma ordinary_json_finite: "ordinary_json v label = Inr w \<longleftrightarrow> finite_json v \<and> w = v"
  using no_non_finite [of label v] by (auto simp: ordinary_json_def split: list.splits)

lemma canonical_authority_finite:
  "canonical_authority_sha256 v = Inr h \<longleftrightarrow> finite_json v \<and> h = text_sha256 (json_text False v)"
  unfolding canonical_authority_sha256_def rbind_eq_Inr ordinary_json_finite by auto

lemma canonical_json_object_finite:
  "canonical_json_object v label = Inr d \<longleftrightarrow> v = PDict d \<and> finite_json v"
  unfolding canonical_json_object_def rbind_eq_Inr ordinary_json_finite by (auto split: pyval.splits simp del: finite_json.simps)

lemma dict_lookup_Some: "dict_lookup m v = Inr (Some x) \<longleftrightarrow> (\<exists>s. v = PStr s \<and> m s = Some x)"
  by (cases v) (auto simp: dict_lookup_def)

lemma finite_body: "finite_json (PDict d) \<Longrightarrow> finite_json (PDict (dpop d k))"
  by (auto simp: dpop_def)

definition provenance_ok :: "pydict \<Rightarrow> string \<Rightarrow> string \<Rightarrow> string \<Rightarrow> nat \<Rightarrow> bool" where
  "provenance_ok p source role scope r \<longleftrightarrow>
     finite_json (PDict p) \<and> set (dkeys p) = set AUTHORITY_PROVENANCE_FIELDS \<and> dget p ''version'' = PInt 1
     \<and> dget p ''source_type'' = PStr source \<and> source \<in> set AUTHORITY_SOURCE_TYPES
     \<and> dget p ''actor_role'' = PStr role \<and> (\<exists>roles. SOURCE_ROLE_BINDINGS source = Some roles \<and> role \<in> set roles)
     \<and> dget p ''authorized_scope'' = PStr scope \<and> AUTHORIZED_SCOPE_RANK scope = Some r
     \<and> (\<exists>cap. ACTOR_SCOPE_CAPS role = Some cap \<and> r \<le> the (AUTHORIZED_SCOPE_RANK cap))
     \<and> nonempty_text (dget p ''source_id'') \<and> nonempty_text (dget p ''actor_id'') \<and> nonempty_text (dget p ''identity_source'')
     \<and> is_sha256 (dget p ''source_sha256'')
     \<and> (dget p ''parent_receipt_sha256'' = PNone \<or> is_sha256 (dget p ''parent_receipt_sha256''))
     \<and> verification_errors (dget p ''verification'') = []
     \<and> dget p ''authority_sha256'' = PStr (text_sha256 (json_text False (PDict (dpop p ''authority_sha256''))))
     \<and> (source = ''operator-directive'' \<longrightarrow>
          (\<exists>m\<in>set OPERATOR_VERIFICATION_METHODS. dget (the_dict (dget p ''verification'')) ''method'' = PStr m))
     \<and> (scope = ''publication'' \<longrightarrow> source = ''operator-directive'')"

lemma bindings_domain: "source \<in> set AUTHORITY_SOURCE_TYPES \<Longrightarrow> \<exists>roles. SOURCE_ROLE_BINDINGS source = Some roles"
  by (auto simp: AUTHORITY_SOURCE_TYPES_def SOURCE_ROLE_BINDINGS_def)

lemma verification_is_dict: "verification_errors v = [] \<Longrightarrow> is_dict v"
  by (cases v) (auto simp: verification_errors_def)

lemma provenance_error_list_Nil:
  "provenance_error_list p cap roles rank expected chosen = [] \<longleftrightarrow>
     dget p ''version'' = PInt 1 \<and> in_strs (dget p ''source_type'') AUTHORITY_SOURCE_TYPES \<and> cap \<noteq> None
     \<and> (case roles of None \<Rightarrow> True | Some rs \<Rightarrow> the_str (dget p ''actor_role'') \<in> set rs)
     \<and> nonempty_text (dget p ''source_id'') \<and> nonempty_text (dget p ''actor_id'') \<and> nonempty_text (dget p ''identity_source'')
     \<and> is_sha256 (dget p ''source_sha256'') \<and> is_sha256 (dget p ''authority_sha256'')
     \<and> (dget p ''parent_receipt_sha256'' = PNone \<or> is_sha256 (dget p ''parent_receipt_sha256''))
     \<and> rank \<noteq> None \<and> the rank \<le> the (AUTHORIZED_SCOPE_RANK (the cap))
     \<and> verification_errors (dget p ''verification'') = [] \<and> dget p ''authority_sha256'' = PStr expected \<and> chosen \<noteq> None
     \<and> (dget p ''authorized_scope'' = PStr ''publication'' \<longrightarrow> dget p ''source_type'' = PStr ''operator-directive'')"
  by (cases cap; cases roles; cases rank) (auto simp: provenance_error_list_def Let_def not_less)

lemma provenance_errors_Nil:
  assumes "finite_json (PDict p)" and "set (dkeys p) = set AUTHORITY_PROVENANCE_FIELDS"
  shows "provenance_errors p = Inr [] \<longleftrightarrow> (\<exists>source role scope r. provenance_ok p source role scope r)" (is "?accepted \<longleftrightarrow> ?ok")
proof
  note fin = finite_body [OF assms(1), of "''authority_sha256''"]
  assume ?accepted
  then obtain cap roles rank expected chosen where
    cap: "dict_lookup ACTOR_SCOPE_CAPS (dget p ''actor_role'') = Inr cap"
    and roles: "(if cap = None then Inr None else dict_lookup SOURCE_ROLE_BINDINGS (dget p ''source_type'')) = Inr roles"
    and rank: "dict_lookup AUTHORIZED_SCOPE_RANK (dget p ''authorized_scope'') = Inr rank"
    and expected: "(if is_sha256 (dget p ''authority_sha256'')
        then canonical_authority_sha256 (PDict (dpop p ''authority_sha256'')) else Inr []) = Inr expected"
    and chosen: "(if dget p ''source_type'' = PStr ''operator-directive'' \<and> is_dict (dget p ''verification'')
        then dict_lookup (\<lambda>m. if m \<in> set OPERATOR_VERIFICATION_METHODS then Some () else None)
          (dget (the_dict (dget p ''verification'')) ''method'') else Inr (Some ())) = Inr chosen"
    and none: "provenance_error_list p cap roles rank expected chosen = []"
    unfolding provenance_errors_def Let_def rbind_eq_Inr sum.inject by blast
  note errors = none [unfolded provenance_error_list_Nil]
  have some: "cap \<noteq> None" "rank \<noteq> None" "chosen \<noteq> None" "in_strs (dget p ''source_type'') AUTHORITY_SOURCE_TYPES"
    "is_sha256 (dget p ''authority_sha256'')" "verification_errors (dget p ''verification'') = []"
    using errors by blast+
  obtain source where source: "dget p ''source_type'' = PStr source" "source \<in> set AUTHORITY_SOURCE_TYPES"
    using some(4) by (auto simp: in_strs_iff)
  obtain role c where role: "dget p ''actor_role'' = PStr role" "ACTOR_SCOPE_CAPS role = Some c" "cap = Some c"
    using cap some(1) dict_lookup_Some [of ACTOR_SCOPE_CAPS "dget p ''actor_role''"] by force
  obtain scope r where scope: "dget p ''authorized_scope'' = PStr scope" "AUTHORIZED_SCOPE_RANK scope = Some r" "rank = Some r"
    using rank some(2) dict_lookup_Some [of AUTHORIZED_SCOPE_RANK "dget p ''authorized_scope''"] by force
  obtain rs where rs: "SOURCE_ROLE_BINDINGS source = Some rs" using bindings_domain [OF source(2)] by blast
  then have "roles = Some rs" using roles role(3) source(1) by (simp add: dict_lookup_def)
  moreover have "expected = text_sha256 (json_text False (PDict (dpop p ''authority_sha256'')))"
    using expected some(5) canonical_authority_finite by simp
  moreover have "\<exists>m\<in>set OPERATOR_VERIFICATION_METHODS. dget (the_dict (dget p ''verification'')) ''method'' = PStr m"
    if "source = ''operator-directive''"
  proof -
    have "dict_lookup (\<lambda>m. if m \<in> set OPERATOR_VERIFICATION_METHODS then Some () else None)
        (dget (the_dict (dget p ''verification'')) ''method'') = Inr (Some ())"
      using chosen some(3) that source(1) verification_is_dict [OF some(6)] by auto
    then show ?thesis unfolding dict_lookup_Some by (auto split: if_splits)
  qed
  ultimately have "provenance_ok p source role scope r"
    unfolding provenance_ok_def source(1) role(1) scope(1) pyval.inject
    using assms errors [unfolded source(1) role(1) scope(1) pyval.inject] source(2) role(2,3) scope(2,3) rs
    by (intro conjI impI exI [of _ rs] exI [of _ c] refl) simp_all
  then show ?ok by blast
next
  note fin = finite_body [OF assms(1), of "''authority_sha256''"]
  assume ?ok
  then obtain source role scope r where ok: "provenance_ok p source role scope r" by blast
  then obtain roles cap where lookups: "SOURCE_ROLE_BINDINGS source = Some roles" "ACTOR_SCOPE_CAPS role = Some cap"
    unfolding provenance_ok_def by blast
  let ?digest = "text_sha256 (json_text False (PDict (dpop p ''authority_sha256'')))"
  have "provenance_error_list p (Some cap) (Some roles) (Some r) ?digest (Some ()) = []"
    using ok lookups unfolding provenance_ok_def provenance_error_list_Nil by auto
  moreover have "canonical_authority_sha256 (PDict (dpop p ''authority_sha256'')) = Inr ?digest"
    using fin canonical_authority_finite by blast
  ultimately show ?accepted
    using ok lookups verification_is_dict [of "dget p ''verification''"]
    unfolding provenance_ok_def provenance_errors_def Let_def
    by (auto simp: dict_lookup_def simp del: finite_json.simps)
qed

lemma provenance_accepted:
  "validate_authority_provenance (PDict p) = Inr [] \<longleftrightarrow> (\<exists>source role scope r. provenance_ok p source role scope r)"
proof (cases "finite_json (PDict p)")
  case True
  then have "canonical_json_object (PDict p) label = Inr p" for label using canonical_json_object_finite by blast
  then show ?thesis
    using provenance_errors_Nil [OF True] field_errors_Nil_iff [of AUTHORITY_PROVENANCE_FIELDS "''authority-provenance''" p]
    by (auto simp: validate_authority_provenance_def provenance_ok_def simp del: finite_json.simps)
next
  case False
  then obtain l ls where "non_finite_labels ''authority-provenance'' (PDict p) = l # ls"
    using no_non_finite by (metis list.exhaust)
  then have "canonical_json_object (PDict p) ''authority-provenance'' = Inl (AuthorityProvenanceError (l @ ''-non-finite-number''))"
    unfolding canonical_json_object_def ordinary_json_def by simp
  then show ?thesis using False by (auto simp: validate_authority_provenance_def provenance_ok_def simp del: finite_json.simps)
qed

section \<open>Issued authorities\<close>

lemma VerifiedAuthority_Inr:
  "VerifiedAuthority p = Inr a \<longleftrightarrow>
     finite_json (PDict (dpop p ''authority_sha256'')) \<and> validate_authority_provenance (PDict (authority_payload a)) = Inr []
     \<and> authority_payload a = dset (dpop p ''authority_sha256'') ''authority_sha256''
         (PStr (text_sha256 (json_text False (PDict (dpop p ''authority_sha256'')))))"
  by (cases a) (auto simp: VerifiedAuthority_def sealed_authority_def Let_def rbind_eq_Inr canonical_authority_finite
      split: if_splits simp del: finite_json.simps)

text \<open>The three ways in which the module issues an authority, with the key of its operator.\<close>

inductive issued :: "nat list \<Rightarrow> verified_authority \<Rightarrow> bool" for key where
  policy: "policy_authority source_id scope source_sha256 identity_source evidence = Inr a \<Longrightarrow> issued key a"
| trusted: "trusted_actor_authority source_type source_id source_sha256 actor_id role identity_source parent = Inr a \<Longrightarrow> issued key a"
| directive: "verify_operator_directive receipt key actor_id identity_source action_sha256 = Inr a \<Longrightarrow> issued key a"

lemma issued_valid: "issued key a \<Longrightarrow> validate_authority_provenance (PDict (authority_payload a)) = Inr []"
proof (induction rule: issued.induct)
  case (policy source_id scope source_sha256 identity_source evidence a)
  then show ?case by (auto simp: policy_authority_def make_authority_def Let_def rbind_eq_Inr VerifiedAuthority_Inr)
next
  case (trusted source_type source_id source_sha256 actor_id role identity_source parent a)
  then show ?case by (auto simp: trusted_actor_authority_def make_authority_def rbind_eq_Inr VerifiedAuthority_Inr)
next
  case (directive receipt actor_id identity_source action_sha256 a)
  then show ?case by (auto simp: verify_operator_directive_def make_authority_def Let_def rbind_eq_Inr VerifiedAuthority_Inr)
qed

lemma make_authority_scope:
  "make_authority st sid sh aid role ids scope parent m e = Inr a \<Longrightarrow> authorized_scope a = scope \<and> actor_role a = role"
  by (auto simp: make_authority_def VerifiedAuthority_Inr authorized_scope_def actor_role_def dpop_def)

lemma require_scope_Inr: "require_scope v label = Inr s \<longleftrightarrow> v = PStr s \<and> AUTHORIZED_SCOPE_RANK s \<noteq> None"
  by (cases v) (auto simp: require_scope_def dict_lookup_def)

lemma scope_ranks:
  "AUTHORIZED_SCOPE_RANK ''child'' = Some 0" "AUTHORIZED_SCOPE_RANK ''cohort'' = Some 1" "AUTHORIZED_SCOPE_RANK ''execution-path'' = Some 2"
  "AUTHORIZED_SCOPE_RANK ''complete-task'' = Some 3" "AUTHORIZED_SCOPE_RANK ''publication'' = Some 4"
  by code_simp+

lemma caps_ranked: "ACTOR_SCOPE_CAPS role = Some cap \<Longrightarrow> \<exists>c. AUTHORIZED_SCOPE_RANK cap = Some c"
  by (auto simp: ACTOR_SCOPE_CAPS_def scope_ranks split: if_splits)

lemma publication_cap: "ACTOR_SCOPE_CAPS role = Some ''publication'' \<Longrightarrow> role = ''operator''"
  by (auto simp: ACTOR_SCOPE_CAPS_def split: if_splits)

lemma compare_digest_True: "compare_digest v expected = Inr True \<Longrightarrow> v = PStr expected"
  by (cases v) (auto simp: compare_digest_def split: if_splits)

lemma published_by_directive:
  assumes "issued key a" and "authorized_scope a = ''publication''"
  shows "key \<noteq> [] \<and> (\<exists>receipt. set (dkeys receipt) = set OPERATOR_DIRECTIVE_FIELDS \<and> dget receipt ''authorized_scope'' = PStr ''publication''
    \<and> dget receipt ''signature'' = PStr (hmac_hex key (utf8 (json_text False (PDict (dpop receipt ''signature''))))))"
  using assms
proof (induction rule: issued.induct)
  case (policy source_id scope source_sha256 identity_source evidence a)
  then have "the (AUTHORIZED_SCOPE_RANK scope) \<le> 3" "authorized_scope a = scope"
    by (auto simp: policy_authority_def Let_def rbind_eq_Inr require_scope_Inr scope_ranks dest!: make_authority_scope)
  then show ?case using policy.prems scope_ranks by simp
next
  case (trusted source_type source_id source_sha256 actor_id role identity_source parent a)
  then obtain rs where "role \<noteq> ''operator''" "authorized_scope a = the (ACTOR_SCOPE_CAPS role)"
    "SOURCE_ROLE_BINDINGS source_type = Some rs" "role \<in> set rs"
    by (auto simp: trusted_actor_authority_def rbind_eq_Inr split: option.splits dest!: make_authority_scope)
  moreover from this(3,4) have "ACTOR_SCOPE_CAPS role \<noteq> None"
    by (auto simp: SOURCE_ROLE_BINDINGS_def ACTOR_SCOPE_CAPS_def split: if_splits)
  ultimately show ?case using trusted.prems publication_cap by (metis option.collapse)
next
  case (directive v actor_id identity_source action_sha256 a)
  let ?r = "the_dict v"
  from directive.hyps obtain t where r: "set (dkeys ?r) = set OPERATOR_DIRECTIVE_FIELDS" "key \<noteq> []"
    "signed_text (PDict (dpop ?r ''signature'')) = Inr t"
    "compare_digest (dget ?r ''signature'') (hmac_hex key (utf8 t)) = Inr True"
    "require_scope (dget ?r ''authorized_scope'') ''operator-directive-scope'' = Inr (authorized_scope a)"
    unfolding verify_operator_directive_def Let_def rbind_eq_Inr ensure_eq_Inr by (auto dest!: make_authority_scope)
  then have "t = json_text False (PDict (dpop ?r ''signature''))" by (auto simp: signed_text_def split: if_splits)
  then show ?case using r directive.prems compare_digest_True [OF r(4)] require_scope_Inr by metis
qed

end
