(* ===== verification/StopScopeProperties.thy ===== *)
theory StopScopeProperties
  imports StopScope AuthorityProvenance
begin

text \<open>
  An issued authority stays within the cap of its role and publishes only under a signed directive;
  stop metadata never exceeds its authority, and merging keeps the widest scope and stays acceptable.
\<close>

section \<open>Continuation paths\<close>

text \<open>Values on which Python's equality is identity: absent, text and lists of texts.\<close>

definition textual :: "pyval \<Rightarrow> bool" where
  "textual v \<longleftrightarrow> v = PNone \<or> is_str v \<or> (\<exists>ss. v = PList (map PStr ss))"

lemma py_norm_str: "py_norm v = PStr s \<longleftrightarrow> v = PStr s"
  by (cases v) auto

lemma textual_norm: "textual w \<Longrightarrow> py_norm v = py_norm w \<Longrightarrow> v = w"
  unfolding textual_def
proof (elim disjE exE)
  fix ss
  assume w: "w = PList (map PStr ss)" and eq: "py_norm v = py_norm w"
  then obtain xs where "v = PList xs" "map py_norm xs = map PStr ss" by (cases v) auto
  moreover from this(2) have "xs = map PStr ss"
    by (auto simp: list_eq_iff_nth_eq py_norm_str)
  ultimately show "v = w" using w by simp
next
  assume "w = PNone" "py_norm v = py_norm w" then show "v = w" by (cases v) auto
next
  assume "is_str w" "py_norm v = py_norm w" then show "v = w" by (auto simp: is_str_iff py_norm_str)
qed

lemma textual_dict_eq:
  assumes "py_eq (PDict d) (PDict e)" and "list_all textual (map snd e)"
  shows "sort_key fst d = sort_key fst e"
proof -
  have unique: "map (\<lambda>(k, v). (k, py_norm v)) xs = map (\<lambda>(k, v). (k, py_norm v)) ys \<Longrightarrow> list_all textual (map snd ys) \<Longrightarrow> xs = ys"
    for xs ys
  proof (induction ys arbitrary: xs)
    case (Cons y ys)
    then show ?case using textual_norm by (cases xs; cases y) auto
  qed simp
  have "map (\<lambda>(k, v). (k, py_norm v)) (sort_key fst d) = map (\<lambda>(k, v). (k, py_norm v)) (sort_key fst e)"
    using assms(1) by (simp add: py_eq_def sort_key_map_snd)
  moreover have "list_all textual (map snd (sort_key fst e))" using assms(2) by (simp add: list_all_iff)
  ultimately show ?thesis by (rule unique)
qed

lemma json_text_sort_key: "sort_key fst d = sort_key fst e \<Longrightarrow> json_text a (PDict d) = json_text a (PDict e)"
proof -
  assume "sort_key fst d = sort_key fst e"
  then have "sort_keys (PDict d) = sort_keys (PDict e)" by (simp add: sort_key_map_snd)
  then show ?thesis unfolding json_text_sorted by simp
qed

definition good_path :: "pyval \<Rightarrow> pydict \<Rightarrow> bool" where
  "good_path item n \<longleftrightarrow> (\<exists>d. item = PDict d \<and> set (dkeys d) = set CONTINUATION_PATH_FIELDS
     \<and> continuation_path (dget d ''path'') (dget d ''target_id'') (dget d ''conditions'') = Inr n \<and> py_eq item (PDict n))"

lemma continuation_item_Nil:
  "continuation_item i item = (es, ns) \<Longrightarrow> es = [] \<longleftrightarrow> (\<exists>n. ns = [n] \<and> good_path item n)"
  by (auto simp: continuation_item_def Let_def good_path_def is_dict_iff split: if_splits sum.splits)

lemma continuation_path_textual: "continuation_path p t c = Inr n \<Longrightarrow> list_all textual (map snd n)"
  by (auto simp: continuation_path_def rbind_eq_Inr textual_def in_strs_iff is_str_iff nonempty_text_iff split: option.splits)

lemma textual_finite: "textual v \<Longrightarrow> finite_json v"
  by (auto simp: textual_def is_str_iff)

lemma scope_sha256_finite: "finite_json v \<Longrightarrow> scope_sha256 v = text_sha256 (json_text False v)"
  using canonical_authority_finite [THEN iffD2, of v] by (simp add: scope_sha256_def)

lemma good_path_sha256: "good_path item n \<Longrightarrow> scope_sha256 (PDict n) = scope_sha256 item"
proof -
  assume "good_path item n"
  then obtain d where d: "item = PDict d" "list_all textual (map snd n)" "py_eq (PDict d) (PDict n)"
    unfolding good_path_def using continuation_path_textual by blast
  have sorted: "sort_key fst d = sort_key fst n" using textual_dict_eq [OF d(3,2)] .
  have n: "finite_json (PDict n)" using d(2) textual_finite by (auto simp: list_all_iff)
  have "set d = set n" using sorted by (metis set_sort)
  then have "finite_json (PDict d)" using n by simp
  then show ?thesis using n scope_sha256_finite json_text_sort_key [OF sorted] d(1) by simp
qed

lemma sort_key_sorted: "sort_key f xs = xs \<longleftrightarrow> sorted (map f xs)"
proof
  assume "sorted (map f xs)"
  then show "sort_key f xs = xs" by (induction xs) (auto simp: insort_is_Cons)
qed (metis sorted_sort_key)

lemma checked_paths:
  assumes "list_all (\<lambda>p. fst p = []) (map (\<lambda>(i, x). continuation_item i x) (index_from k items))"
  shows "\<exists>ns. list_all2 good_path items ns \<and> concat (map snd (map (\<lambda>(i, x). continuation_item i x) (index_from k items))) = ns"
  using assms
proof (induction items arbitrary: k)
  case (Cons x xs)
  obtain es ns where item: "continuation_item k x = (es, ns)" by fastforce
  with Cons.prems obtain n where "ns = [n]" "good_path x n" using continuation_item_Nil by auto
  then show ?case using Cons.IH [of "Suc k"] Cons.prems item by auto
qed simp

lemma paths_accepted:
  "validate_continuation_paths (PList items) = [] \<longleftrightarrow>
     (\<forall>x\<in>set items. \<exists>n. good_path x n) \<and> sorted (map scope_sha256 items) \<and> distinct (map scope_sha256 items)"
proof -
  let ?checked = "map (\<lambda>(i, x). continuation_item i x) (index_from 0 items)"
  have none: "concat (map fst ?checked) = [] \<longleftrightarrow> list_all (\<lambda>p. fst p = []) ?checked" by (simp add: list_all_iff)
  have good: "list_all (\<lambda>p. fst p = []) ?checked \<longleftrightarrow> (\<forall>x\<in>set items. \<exists>n. good_path x n)"
  proof
    assume "list_all (\<lambda>p. fst p = []) ?checked"
    then obtain ns where "list_all2 good_path items ns" using checked_paths by blast
    then show "\<forall>x\<in>set items. \<exists>n. good_path x n" by (metis in_set_conv_nth list_all2_conv_all_nth)
  next
    assume all: "\<forall>x\<in>set items. \<exists>n. good_path x n"
    have "fst (continuation_item i x) = []" if "(i, x) \<in> set (index_from 0 items)" for i x
    proof -
      have "x \<in> set items" using that by (auto simp: in_set_index_from)
      then obtain n d where d: "x = PDict d" "set (dkeys d) = set CONTINUATION_PATH_FIELDS" "py_eq x (PDict n)"
        "continuation_path (dget d ''path'') (dget d ''target_id'') (dget d ''conditions'') = Inr n"
        using all unfolding good_path_def by blast
      then show ?thesis by (simp add: continuation_item_def Let_def)
    qed
    then show "list_all (\<lambda>p. fst p = []) ?checked" by (auto simp: list_all_iff)
  qed
  show ?thesis
  proof (cases "list_all (\<lambda>p. fst p = []) ?checked")
    case True
    then obtain ns where ns: "list_all2 good_path items ns" "concat (map snd ?checked) = ns" using checked_paths by blast
    have "map (\<lambda>d. scope_sha256 (PDict d)) ns = map scope_sha256 items"
      using ns(1) good_path_sha256 by (induction rule: list_all2_induct) auto
    then show ?thesis
      using True good none ns(2) sort_key_sorted [of "\<lambda>d. scope_sha256 (PDict d)" ns]
      by (auto simp: validate_continuation_paths_def Let_def)
  next
    case False
    then have "\<not> (\<forall>x\<in>set items. \<exists>n. good_path x n)" "concat (map fst ?checked) \<noteq> []" using good none by blast+
    then show ?thesis by (auto simp: validate_continuation_paths_def Let_def simp del: concat_eq_Nil_conv map_map)
  qed
qed

section \<open>Stop metadata\<close>

lemma stop_scope_rank: "STOP_SCOPE_RANK = AUTHORIZED_SCOPE_RANK"
  by (rule ext) (simp add: STOP_SCOPE_RANK_def AUTHORIZED_SCOPE_RANK_def STOP_SCOPES_def)

lemma stop_scope_nth: "STOP_SCOPE_RANK scope = Some r \<Longrightarrow> STOP_SCOPES ! r = scope"
  unfolding STOP_SCOPE_RANK_def by (drule first_index_Some) simp

lemma scope_authority_Nil:
  "validate_scope_authority v = Inr [] \<longleftrightarrow> (\<exists>p. v = PDict p \<and> validate_authority_provenance v = Inr [])"
  by (auto simp: validate_scope_authority_def rbind_eq_Inr validate_authority_provenance_def is_dict_iff)

definition metadata_ok :: "pydict \<Rightarrow> string \<Rightarrow> nat \<Rightarrow> pydict \<Rightarrow> pyval list \<Rightarrow> bool" where
  "metadata_ok d scope r authority items \<longleftrightarrow>
     set (dkeys d) = set STOP_METADATA_FIELDS \<and> dget d ''stop_scope'' = PStr scope \<and> STOP_SCOPE_RANK scope = Some r
     \<and> dget d ''scope_authority'' = PDict authority \<and> validate_authority_provenance (PDict authority) = Inr []
     \<and> dget d ''authorized_continuation_paths'' = PList items \<and> validate_continuation_paths (PList items) = []
     \<and> r \<le> the (AUTHORIZED_SCOPE_RANK (the_str (dget authority ''authorized_scope'')))"

lemma paths_are_list: "validate_continuation_paths v = [] \<Longrightarrow> \<exists>items. v = PList items"
  by (cases v) (auto simp: validate_continuation_paths_def)

lemma stop_metadata_accepted:
  "validate_stop_metadata v = Inr [] \<longleftrightarrow> (\<exists>d scope r authority items. v = PDict d \<and> metadata_ok d scope r authority items)"
proof
  assume valid: "validate_stop_metadata v = Inr []"
  then obtain d where d: "v = PDict d" by (cases v) (auto simp: validate_stop_metadata_def)
  have keys: "set (dkeys d) = set STOP_METADATA_FIELDS"
    using valid field_errors_Nil_iff [of STOP_METADATA_FIELDS "''stop-metadata''" d]
    by (cases "set (dkeys d) = set STOP_METADATA_FIELDS") (auto simp: d validate_stop_metadata_def)
  have keys_if: "(if set (dkeys d) \<noteq> set STOP_METADATA_FIELDS then x else y) = y" for x y :: "(authority_error, string list) res"
    using keys by simp
  from valid obtain rank es allowed where lookup: "dict_lookup STOP_SCOPE_RANK (dget d ''stop_scope'') = Inr rank"
    and errors: "validate_scope_authority (dget d ''scope_authority'') = Inr es"
    and allowed: "(if rank \<noteq> None \<and> is_dict (dget d ''scope_authority'')
        then dict_lookup STOP_SCOPE_RANK (dget (the_dict (dget d ''scope_authority'')) ''authorized_scope'') else Inr None) = Inr allowed"
    and none: "err_if (rank = None) ''stop-scope-invalid'' @ es
        @ validate_continuation_paths (dget d ''authorized_continuation_paths'')
        @ err_if (case allowed of None \<Rightarrow> False | Some a \<Rightarrow> a < the rank) ''stop-scope-exceeds-authority'' = []"
    unfolding d validate_stop_metadata_def pyval.case keys_if
      Let_def rbind_eq_Inr sum.inject by blast
  then have rank: "dict_lookup STOP_SCOPE_RANK (dget d ''stop_scope'') = Inr rank" "rank \<noteq> None"
    and authority: "validate_scope_authority (dget d ''scope_authority'') = Inr []"
    and within: "case allowed of None \<Rightarrow> True | Some a \<Rightarrow> the rank \<le> a"
    and paths: "validate_continuation_paths (dget d ''authorized_continuation_paths'') = []"
    by (auto split: option.splits)
  obtain scope r where scope: "dget d ''stop_scope'' = PStr scope" "STOP_SCOPE_RANK scope = Some r" "rank = Some r"
    using rank dict_lookup_Some [of STOP_SCOPE_RANK "dget d ''stop_scope''"] by force
  obtain p where p: "dget d ''scope_authority'' = PDict p" "validate_authority_provenance (PDict p) = Inr []"
    using authority unfolding scope_authority_Nil by force
  then obtain s a where "dget p ''authorized_scope'' = PStr s" "AUTHORIZED_SCOPE_RANK s = Some a"
    unfolding provenance_accepted provenance_ok_def by blast
  then have "r \<le> the (AUTHORIZED_SCOPE_RANK (the_str (dget p ''authorized_scope'')))"
    using allowed within scope(3) p(1) by (simp add: dict_lookup_def stop_scope_rank split: option.splits)
  then show "\<exists>d scope r authority items. v = PDict d \<and> metadata_ok d scope r authority items"
    using d keys scope p paths paths_are_list [OF paths] unfolding metadata_ok_def by metis
next
  assume "\<exists>d scope r authority items. v = PDict d \<and> metadata_ok d scope r authority items"
  then obtain d scope r p items where v: "v = PDict d" and ok: "metadata_ok d scope r p items" by blast
  then have valid: "validate_authority_provenance (PDict p) = Inr []" by (simp add: metadata_ok_def)
  then obtain s a where s: "dget p ''authorized_scope'' = PStr s" "AUTHORIZED_SCOPE_RANK s = Some a"
    unfolding provenance_accepted provenance_ok_def by blast
  have "validate_scope_authority (PDict p) = Inr []" using valid unfolding scope_authority_Nil by blast
  then show "validate_stop_metadata v = Inr []"
    using ok s unfolding metadata_ok_def by (simp add: v validate_stop_metadata_def dict_lookup_def stop_scope_rank)
qed

lemma checked_metadata_Inr: "checked_metadata v = Inr d \<longleftrightarrow> v = PDict d \<and> validate_stop_metadata v = Inr []"
proof -
  have "\<exists>d. v = PDict d" if "validate_stop_metadata v = Inr []" using that stop_metadata_accepted by blast
  then show ?thesis by (auto simp: checked_metadata_def rbind_eq_Inr)
qed

lemma mapM_checked: "mapM checked_metadata vs = Inr ds \<longleftrightarrow> vs = map PDict ds \<and> (\<forall>d\<in>set ds. validate_stop_metadata (PDict d) = Inr [])"
proof (induction vs arbitrary: ds)
  case (Cons v vs)
  then show ?case by (cases ds) (auto simp: rbind_eq_Inr checked_metadata_Inr)
qed auto

lemma metadata_rank_ok: "metadata_ok d scope r authority items \<Longrightarrow> metadata_rank d = r"
  by (simp add: metadata_ok_def metadata_rank_def)

text \<open>The paths of the merge, one under each hash, in the order of the hashes.\<close>

definition merged_paths :: "(string \<times> pyval) list \<Rightarrow> pyval list" where
  "merged_paths pairs = map (\<lambda>key. the (map_of (rev pairs) key)) (sorted_set (map fst pairs))"

lemma merged_paths_accepted:
  assumes "\<forall>(h, x)\<in>set pairs. h = scope_sha256 x \<and> (\<exists>n. good_path x n)"
  shows "validate_continuation_paths (PList (merged_paths pairs)) = []"
proof -
  have entry: "\<exists>x. map_of (rev pairs) h = Some x \<and> h = scope_sha256 x \<and> (\<exists>n. good_path x n)" if "h \<in> set (map fst pairs)" for h
  proof -
    have "h \<in> dom (map_of (rev pairs))" using that by (simp add: dom_map_of_conv_image_fst)
    then obtain x where "map_of (rev pairs) h = Some x" by blast
    then show ?thesis using assms map_of_SomeD [of "rev pairs" h x] by auto
  qed
  have "map scope_sha256 (merged_paths pairs) = sorted_set (map fst pairs)"
    unfolding merged_paths_def map_map by (rule map_idI) (use entry in force)
  moreover have "\<forall>x\<in>set (merged_paths pairs). \<exists>n. good_path x n"
    unfolding merged_paths_def using entry by force
  ultimately show ?thesis unfolding paths_accepted by simp
qed

definition merged :: "pydict list \<Rightarrow> pydict" where
  "merged ds =
     (let maximum = Max (set (map metadata_rank ds));
          winners = sort_key (\<lambda>d. scope_sha256 (dget d ''scope_authority'')) (filter (\<lambda>d. metadata_rank d = maximum) ds)
      in [(''stop_scope'', PStr (STOP_SCOPES ! maximum)),
          (''authorized_continuation_paths'', PList (merged_paths (concat (map (\<lambda>d. map (\<lambda>path. (scope_sha256 path, path))
             (the_list (dget d ''authorized_continuation_paths''))) winners)))),
          (''scope_authority'', dget (hd winners) ''scope_authority'')])"

lemma merge_stop_metadata_Inr:
  "merge_stop_metadata values = Inr m \<longleftrightarrow>
     (\<exists>ds. ds \<noteq> [] \<and> values = map PDict ds \<and> (\<forall>d\<in>set ds. validate_stop_metadata (PDict d) = Inr []) \<and> m = merged ds)"
  unfolding merge_stop_metadata_def rbind_eq_Inr mapM_checked Let_def merged_def merged_paths_def by auto

section \<open>Properties\<close>

definition demo_sha :: string where
  "demo_sha = replicate 64 CHR ''a''"

definition demo_body :: pydict where
  "demo_body =
     [(''version'', PInt 1), (''source_type'', PStr ''pm-observation''), (''source_id'', PStr ''pm-1''),
      (''source_sha256'', PStr demo_sha), (''actor_id'', PStr ''agent-1''), (''actor_role'', PStr ''project-manager''),
      (''identity_source'', PStr ''runtime''), (''authorized_scope'', PStr ''execution-path''),
      (''parent_receipt_sha256'', PNone),
      (''verification'', PDict [(''method'', PStr ''trusted-runtime-role-binding-v1''), (''evidence_sha256'', PStr demo_sha)])]"

definition demo_authority :: verified_authority where
  "demo_authority = \<lparr>authority_payload = dset demo_body ''authority_sha256'' (PStr (text_sha256 (json_text False (PDict demo_body))))\<rparr>"

lemma hex64_demo_sha: "hex64 demo_sha"
  by code_simp

lemma demo_provenance:
  "provenance_ok (authority_payload demo_authority) ''pm-observation'' ''project-manager'' ''execution-path'' 2"
proof -
  have "py_strip ''pm-1'' \<noteq> []" "py_strip ''agent-1'' \<noteq> []" "py_strip ''runtime'' \<noteq> []"
    "py_strip ''trusted-runtime-role-binding-v1'' \<noteq> []" by code_simp+
  then show ?thesis
    using hex64_demo_sha
    by (simp add: provenance_ok_def demo_authority_def demo_body_def dkeys_def AUTHORITY_PROVENANCE_FIELDS_def AUTHORITY_SOURCE_TYPES_def
        SOURCE_ROLE_BINDINGS_def ACTOR_SCOPE_CAPS_def scope_ranks nonempty_text_def verification_errors_def VERIFICATION_FIELDS_def
        dpop_def insert_commute)
qed

lemma demo_issued: "issued [1] demo_authority"
proof (rule issued.trusted)
  have strips: "py_strip ''pm-1'' \<noteq> []" "py_strip ''agent-1'' \<noteq> []" "py_strip ''runtime'' \<noteq> []" by code_simp+
  have "validate_authority_provenance (PDict (authority_payload demo_authority)) = Inr []"
    using demo_provenance provenance_accepted by blast
  then have "VerifiedAuthority demo_body = Inr demo_authority"
    unfolding VerifiedAuthority_Inr by (simp add: demo_authority_def demo_body_def dpop_def)
  then show "trusted_actor_authority ''pm-observation'' ''pm-1'' demo_sha ''agent-1'' ''project-manager'' ''runtime'' None = Inr demo_authority"
    using strips hex64_demo_sha
    by (simp add: trusted_actor_authority_def SOURCE_ROLE_BINDINGS_def ACTOR_SCOPE_CAPS_def make_authority_def optional_text_def demo_body_def)
qed



definition demo_metadata :: "string \<Rightarrow> pydict" where
  "demo_metadata scope = [(''stop_scope'', PStr scope), (''authorized_continuation_paths'', PList []),
     (''scope_authority'', PDict (authority_payload demo_authority))]"

lemma demo_metadata_valid:
  "validate_stop_metadata (PDict (demo_metadata ''child'')) = Inr []" "validate_stop_metadata (PDict (demo_metadata ''cohort'')) = Inr []"
proof -
  have "metadata_ok (demo_metadata scope) scope r (authority_payload demo_authority) []" if "AUTHORIZED_SCOPE_RANK scope = Some r" "r \<le> 2" for scope r
    using that demo_provenance provenance_accepted
    by (auto simp: metadata_ok_def demo_metadata_def stop_scope_rank STOP_METADATA_FIELDS_def dkeys_def paths_accepted
        provenance_ok_def scope_ranks)
  from this [OF scope_ranks(1)] this [OF scope_ranks(2)]
  show "validate_stop_metadata (PDict (demo_metadata ''child'')) = Inr []" "validate_stop_metadata (PDict (demo_metadata ''cohort'')) = Inr []"
    unfolding stop_metadata_accepted by auto
qed

text \<open>
  C30: merging stop metadata gives metadata that the validator accepts, with the widest scope of the inputs
  and the authority of an input of that scope; no input has a wider scope.
\<close>

theorem merge_keeps_widest:
  assumes "merge_stop_metadata values = Inr m"
  shows "validate_stop_metadata (PDict m) = Inr []
    \<and> (\<exists>d. PDict d \<in> set values \<and> dget d ''stop_scope'' = dget m ''stop_scope'' \<and> dget d ''scope_authority'' = dget m ''scope_authority'')
    \<and> (\<forall>v\<in>set values. metadata_rank (the_dict v) \<le> metadata_rank m)"
proof -
  from assms obtain ds where ds: "ds \<noteq> []" "values = map PDict ds" "\<forall>d\<in>set ds. validate_stop_metadata (PDict d) = Inr []" "m = merged ds"
    unfolding merge_stop_metadata_Inr by blast
  define top where "top = Max (set (map metadata_rank ds))"
  define winners where "winners = sort_key (\<lambda>d. scope_sha256 (dget d ''scope_authority'')) (filter (\<lambda>d. metadata_rank d = top) ds)"
  define pairs where "pairs = concat (map (\<lambda>d. map (\<lambda>path. (scope_sha256 path, path)) (the_list (dget d ''authorized_continuation_paths''))) winners)"
  have m: "m = [(''stop_scope'', PStr (STOP_SCOPES ! top)), (''authorized_continuation_paths'', PList (merged_paths pairs)),
      (''scope_authority'', dget (hd winners) ''scope_authority'')]"
    unfolding ds(4) merged_def Let_def top_def winners_def pairs_def by simp
  have "top \<in> set (map metadata_rank ds)" unfolding top_def using ds(1) by (intro Max_in) auto
  then have "winners \<noteq> []" by (force simp: winners_def filter_empty_conv)
  then have h: "hd winners \<in> set ds" "metadata_rank (hd winners) = top"
    using hd_in_set [of winners] by (auto simp: winners_def)
  then obtain scope r p items where ok: "metadata_ok (hd winners) scope r p items" using ds(3) stop_metadata_accepted by blast
  have r: "r = top" "STOP_SCOPES ! top = scope" using metadata_rank_ok [OF ok] h(2) ok stop_scope_nth by (auto simp: metadata_ok_def)
  have "\<exists>n. good_path x n" if x: "d \<in> set winners" "x \<in> set (the_list (dget d ''authorized_continuation_paths''))" for d x
  proof -
    have "d \<in> set ds" using x(1) by (auto simp: winners_def)
    then obtain s q a xs where "metadata_ok d s q a xs" using ds(3) stop_metadata_accepted by blast
    then show ?thesis using x(2) paths_accepted by (auto simp: metadata_ok_def)
  qed
  then have "validate_continuation_paths (PList (merged_paths pairs)) = []"
    by (intro merged_paths_accepted) (auto simp: pairs_def)
  then have mok: "metadata_ok m scope top p (merged_paths pairs)"
    using ok r by (simp add: metadata_ok_def m dkeys_def STOP_METADATA_FIELDS_def insert_commute)
  moreover have "metadata_rank d \<le> top" if "d \<in> set ds" for d using that by (simp add: top_def)
  moreover have "dget (hd winners) ''stop_scope'' = dget m ''stop_scope'' \<and> dget (hd winners) ''scope_authority'' = dget m ''scope_authority''"
    using ok r by (simp add: m metadata_ok_def)
  ultimately show ?thesis
    using h(1) metadata_rank_ok [OF mok] stop_metadata_accepted by (auto simp: ds(2))
qed

theorem merge_keeps_widest_witness:
  "\<exists>m. merge_stop_metadata [PDict (demo_metadata ''child''), PDict (demo_metadata ''cohort'')] = Inr m \<and> validate_stop_metadata (PDict m) = Inr []"
proof -
  have "merge_stop_metadata [PDict (demo_metadata ''child''), PDict (demo_metadata ''cohort'')]
      = Inr (merged [demo_metadata ''child'', demo_metadata ''cohort''])"
    unfolding merge_stop_metadata_Inr using demo_metadata_valid
    by (intro exI [of _ "[demo_metadata ''child'', demo_metadata ''cohort'']"]) simp
  then show ?thesis using merge_keeps_widest by blast
qed

end
