(* ===== verification/ProtectedChange.thy ===== *)
theory ProtectedChange
  imports Authority
begin

text \<open>
  \<^verbatim>\<open>scripts/cwo_core/native_authority.py\<close>, second part: the difference of two JSON documents
  as JSON pointers, the class of change that each pointer stands for, and the assessment of a change,
  which names the operator approvals it needs and refuses what no class covers.  A sealed assessment keeps
  its subjects as canonical JSON text; here it keeps the value that reading this text gives.
\<close>

section \<open>Constants\<close>

definition OPERATOR_REQUIRED_CHANGE_TYPES :: "string list" where
  "OPERATOR_REQUIRED_CHANGE_TYPES =
     [''aggregate-budget-increase'', ''model-substitution'', ''objective-change'', ''security-or-authority-change'',
      ''tainted-mutation-acceptance'', ''contradictory-validation'']"

definition TERMINAL_PROTECTED_CHANGE_TYPES :: "string list" where
  "TERMINAL_PROTECTED_CHANGE_TYPES = [''tainted-mutation-acceptance'', ''contradictory-validation'']"

definition PROTECTED_CHANGE_SNAPSHOT_FIELDS :: "string list" where
  "PROTECTED_CHANGE_SNAPSHOT_FIELDS =
     [''objective'', ''primary_outcome'', ''requested_model'', ''aggregate_allowance'', ''security_context'',
      ''authority_context'', ''operator_authority'', ''model_authority'', ''self_report_authority'', ''scope_authority'',
      ''mutation'', ''tainted_mutation_accepted'', ''contradictory_validation'', ''validation_contradiction'',
      ''validation_disposition'']"

definition VERIFIER_OWNED_CIRCULAR_AUDIT_FIELDS :: "string list" where
  "VERIFIER_OWNED_CIRCULAR_AUDIT_FIELDS = [''operator_approval_receipts'', ''protected_change_authorizations'']"

definition PROTECTED_CHANGE_IDENTITY_FIELDS :: "string list" where
  "PROTECTED_CHANGE_IDENTITY_FIELDS = [''artifact_type'', ''artifact_id'', ''work_unit_id'', ''bead_id'', ''packet_id'']"

definition AGGREGATE_BUDGET_INTEGER_FIELDS :: "string list" where
  "AGGREGATE_BUDGET_INTEGER_FIELDS =
     [''dispatch_soft_cap'', ''max_pm_replans'', ''max_architect_cycles'', ''max_compactions'', ''tool_calls_hard'',
      ''runtime_seconds_hard'']"

definition AGGREGATE_AUTHORITY_FIELDS :: "string list" where
  "AGGREGATE_AUTHORITY_FIELDS = [''dispatch_soft_cap_action'', ''continuation_authority'']"

definition WORK_ESTIMATE_UNPROTECTED_ROOTS :: "string list" where
  "WORK_ESTIMATE_UNPROTECTED_ROOTS =
     [''parent_estimate_sha256'', ''refinement_authority'', ''expected_artifacts'', ''expert_profiles'', ''frozen_decisions'',
      ''unresolved_decisions'', ''subsystems'', ''write_paths'', ''context_manifest'', ''acceptance_checks'', ''task_profile'',
      ''estimates'', ''scores'', ''semantic_estimate'', ''pm_estimate'', ''domain_expert_estimate'', ''semantic_scores'',
      ''score_total'', ''route'', ''v1_route'', ''semantic_route'', ''operative_route'', ''variance_metrics'', ''task_class'']"

definition PROTECTED_CHANGE_PROFILES :: "string \<Rightarrow> string list option" where
  "PROTECTED_CHANGE_PROFILES = map_of
     [(''generic'', []), (''native-replanning-refinement'', []), (''native-work-estimate-refinement'', WORK_ESTIMATE_UNPROTECTED_ROOTS),
      (''native-ready-set-authority-change'', []), (''native-proportionality-override'', [])]"

section \<open>JSON pointers\<close>

definition json_pointer_part :: "string \<Rightarrow> string" where
  "json_pointer_part value = py_replace ''/'' ''~1'' (py_replace ''~'' ''~0'' value)"

definition unescape_part :: "string \<Rightarrow> string" where
  "unescape_part part = py_replace ''~0'' ''~'' (py_replace ''~1'' ''/'' part)"

definition root_from_pointer :: "string \<Rightarrow> string option" where
  "root_from_pointer pointer =
     (if \<not> starts_with ''/'' pointer \<or> pointer = ''/'' then None
      else Some (unescape_part (takeWhile (\<lambda>c. c \<noteq> CHR ''/'') (drop 1 pointer))))"

definition path_or_root :: "string \<Rightarrow> string" where
  "path_or_root path = (if path = [] then ''/'' else path)"

definition type_name :: "pyval \<Rightarrow> string" where
  "type_name v = (case v of PNone \<Rightarrow> ''NoneType'' | PBool _ \<Rightarrow> ''bool'' | PInt _ \<Rightarrow> ''int'' | PFloat _ \<Rightarrow> ''float''
     | PStr _ \<Rightarrow> ''str'' | PList _ \<Rightarrow> ''list'' | PDict _ \<Rightarrow> ''dict'')"

lemma size_dget: "key \<in> set (dkeys d) \<Longrightarrow> size (dget d key) < Suc (size_list (size_prod (\<lambda>_. 0) size) d)"
  by (induction d) auto

lemma size_zip_first: "(i, x, y) \<in> set (index_from n (zip xs ys)) \<Longrightarrow> size x < Suc (size_list size xs)"
proof (induction xs arbitrary: n ys)
  case (Cons z zs)
  then show ?case by (cases ys) (auto simp: less_Suc_eq trans_less_add2)
qed simp

function json_changed_pointers :: "pyval \<Rightarrow> pyval \<Rightarrow> string \<Rightarrow> string list" where
  "json_changed_pointers before after path =
     (if type_name before \<noteq> type_name after then [path_or_root path]
      else case before of
        PDict d \<Rightarrow>
          concat (map (\<lambda>key.
              if key \<notin> set (dkeys d) \<or> key \<notin> set (dkeys (the_dict after)) then [path @ ''/'' @ json_pointer_part key]
              else json_changed_pointers (dget d key) (dget (the_dict after) key) (path @ ''/'' @ json_pointer_part key))
            (sorted_set (dkeys d @ dkeys (the_dict after))))
      | PList xs \<Rightarrow>
          concat (map (\<lambda>(i, x, y). json_changed_pointers x y (path @ ''/'' @ str_of_nat i)) (index_from 0 (zip xs (the_list after))))
          @ map (\<lambda>i. path @ ''/'' @ str_of_nat i)
              [min (length xs) (length (the_list after))..<max (length xs) (length (the_list after))]
      | _ \<Rightarrow> if json_text False before = json_text False after then [] else [path_or_root path])"
  by pat_completeness auto

termination
  by (relation "measure (\<lambda>(before, _, _). size before)") (auto simp: size_dget size_zip_first)

declare json_changed_pointers.simps [simp del]

text \<open>An absent value is \<^verbatim>\<open>_MISSING\<close>.\<close>

definition changed_pointers :: "pyval option \<Rightarrow> pyval option \<Rightarrow> string list" where
  "changed_pointers before after =
     (case (before, after) of (None, None) \<Rightarrow> [] | (Some v, Some w) \<Rightarrow> json_changed_pointers v w [] | _ \<Rightarrow> [''/''])"

section \<open>Classes of change\<close>

definition contradictions :: "pydict \<Rightarrow> pyval option" where
  "contradictions value =
     (case dget value ''fit_evidence'' of PDict fit \<Rightarrow> map_of fit ''contradictions'' | _ \<Rightarrow> None)"

definition protected_binding_paths :: "pydict \<Rightarrow> string list" where
  "protected_binding_paths value =
     (case dget (the_dict (dget value ''fit_evidence'')) ''protected_path_bindings'' of
        PDict bindings \<Rightarrow>
          map fst (filter (\<lambda>(path, groups). path \<noteq> [] \<and> is_list groups \<and> the_list groups \<noteq> []
            \<and> list_all (\<lambda>group. is_str group \<and> the_str group \<noteq> []) (the_list groups)) bindings)
      | _ \<Rightarrow> [])"

definition literal_patch_is_protected :: "pydict \<Rightarrow> bool" where
  "literal_patch_is_protected value =
     (let patch = dget (the_dict (dget value ''task_profile'')) ''architect_literal_patch''
      in is_dict patch \<and> in_strs (dget (the_dict patch) ''path'') (protected_binding_paths value))"

definition UNCATEGORIZED :: string where
  "UNCATEGORIZED = ''__uncategorized__''"

definition categorize_allowance :: "string \<Rightarrow> pydict \<Rightarrow> pydict \<Rightarrow> string option" where
  "categorize_allowance pointer before after =
     (let old = dget before ''aggregate_allowance''; new = dget after ''aggregate_allowance''; parts = split_on CHR ''/'' pointer
      in if \<not> is_dict old \<or> \<not> is_dict new then Some UNCATEGORIZED
         else if length parts \<noteq> 3 then Some UNCATEGORIZED
         else let field = unescape_part (parts ! 2) in
           if field \<in> set AGGREGATE_BUDGET_INTEGER_FIELDS then
             (case (dget (the_dict old) field, dget (the_dict new) field) of
                (PInt old_value, PInt new_value) \<Rightarrow>
                  if new_value > old_value then Some ''aggregate-budget-increase''
                  else if new_value < old_value then None else Some UNCATEGORIZED
              | _ \<Rightarrow> Some UNCATEGORIZED)
           else if field \<in> set AGGREGATE_AUTHORITY_FIELDS then Some ''security-or-authority-change''
           else Some UNCATEGORIZED)"

definition reasons_contradict :: "pydict \<Rightarrow> pydict \<Rightarrow> bool" where
  "reasons_contradict before after =
     (let before_reasons = dget_or before ''hard_gate_reasons'' (PList []); after_reasons = dget_or after ''hard_gate_reasons'' (PList []);
          marker = PStr ''task-profile-contradiction''
      in is_list before_reasons \<and> is_list after_reasons
         \<and> (marker \<in> set (the_list before_reasons)) \<noteq> (marker \<in> set (the_list after_reasons)))"

text \<open>The tail of the classification, after the fixed roots; an early \<^verbatim>\<open>return None\<close> is one of the branches.\<close>

definition categorize_evidence :: "string \<Rightarrow> string option \<Rightarrow> pydict \<Rightarrow> pydict \<Rightarrow> string \<Rightarrow> string option" where
  "categorize_evidence pointer root_name before after profile =
     (let refinement = (profile = ''native-work-estimate-refinement'') in
      if root_name = Some ''fit_evidence'' \<and> starts_with ''/fit_evidence/protected_path_bindings'' pointer
      then Some ''security-or-authority-change''
      else if root_name = Some ''fit_evidence'' \<and> changed_pointers (contradictions before) (contradictions after) \<noteq> []
      then Some ''contradictory-validation''
      else if root_name = Some ''fit_evidence'' \<and> refinement then None
      else if root_name = Some ''hard_gate_reasons'' \<and> reasons_contradict before after then Some ''contradictory-validation''
      else if root_name = Some ''hard_gate_reasons'' \<and> refinement then None
      else if root_name = Some ''fit_mode'' then Some ''security-or-authority-change''
      else if refinement \<and> starts_with ''/task_profile/architect_literal_patch/'' pointer
        \<and> (literal_patch_is_protected before \<or> literal_patch_is_protected after)
      then Some ''security-or-authority-change''
      else if (case root_name of None \<Rightarrow> False | Some r \<Rightarrow> r \<in> set (the (PROTECTED_CHANGE_PROFILES profile))) then None
      else Some UNCATEGORIZED)"

definition AUTHORITY_ROOTS :: "string list" where
  "AUTHORITY_ROOTS =
     [''security_context'', ''authority_context'', ''operator_authority'', ''model_authority'', ''self_report_authority'',
      ''scope_authority'', ''authority_route'', ''protected_surface_matches'', ''route_conflict'']"

definition root_in :: "string option \<Rightarrow> string list \<Rightarrow> bool" where
  "root_in root_name names = (case root_name of None \<Rightarrow> False | Some r \<Rightarrow> r \<in> set names)"

definition categorize_changed_path :: "string \<Rightarrow> pydict \<Rightarrow> pydict \<Rightarrow> string \<Rightarrow> string option" where
  "categorize_changed_path pointer before after profile =
     (let root_name = root_from_pointer pointer in
      if profile \<in> {''native-ready-set-authority-change'', ''native-proportionality-override''}
      then Some ''security-or-authority-change''
      else if root_name = Some ''aggregate_allowance'' then categorize_allowance pointer before after
      else if root_name = Some ''requested_model'' then Some ''model-substitution''
      else if root_in root_name [''objective'', ''primary_outcome''] then Some ''objective-change''
      else if root_in root_name AUTHORITY_ROOTS then Some ''security-or-authority-change''
      else if root_name = Some ''mutation'' \<and> (pointer = ''/mutation/tainted'' \<or> starts_with ''/mutation/tainted/'' pointer)
      then Some ''tainted-mutation-acceptance''
      else if root_name = Some ''tainted_mutation_accepted'' then Some ''tainted-mutation-acceptance''
      else if root_in root_name [''contradictory_validation'', ''validation_contradiction'', ''validation_disposition'']
      then Some ''contradictory-validation''
      else categorize_evidence pointer root_name before after profile)"

section \<open>Assessments\<close>

definition protected_change_snapshot :: "pyval \<Rightarrow> (authority_error, pydict) res" where
  "protected_change_snapshot value =
     rbind (canonical_json_object value ''protected-change-artifact'') (\<lambda>source.
     Inr (map (\<lambda>field. (field, dget source field)) (filter (\<lambda>field. field \<in> set (dkeys source)) PROTECTED_CHANGE_SNAPSHOT_FIELDS)))"

definition validate_operator_required_for :: "pyval \<Rightarrow> (authority_error, unit) res" where
  "validate_operator_required_for operator_required_for =
     (case list_of operator_required_for of
        None \<Rightarrow> Inl (AuthorityProvenanceError ''operator-required-for-invalid'')
      | Some configured \<Rightarrow>
          ensure (list_all is_str configured \<and> distinct (map the_str configured)
              \<and> map the_str configured = OPERATOR_REQUIRED_CHANGE_TYPES)
            (AuthorityProvenanceError ''operator-required-for-invalid''))"

definition protected_change_identity :: "pydict \<Rightarrow> (authority_error, pydict) res" where
  "protected_change_identity given =
     rbind (mapM (\<lambda>field. ensure (nonempty_text (dget given field))
         (AuthorityProvenanceError (''protected-change-'' @ field @ ''-invalid''))) [''artifact_type'', ''artifact_id'']) (\<lambda>_.
     rbind (mapM (\<lambda>field. ensure (dget given field = PNone \<or> nonempty_text (dget given field))
         (AuthorityProvenanceError (''protected-change-'' @ field @ ''-invalid''))) [''work_unit_id'', ''bead_id'', ''packet_id'']) (\<lambda>_.
     Inr (map (\<lambda>field. (field, dget given field)) PROTECTED_CHANGE_IDENTITY_FIELDS)))"

definition canonical_identity :: "pyval \<Rightarrow> (authority_error, pydict) res" where
  "canonical_identity value =
     rbind (canonical_json_object value ''protected-change-identity'') (\<lambda>identity.
     rbind (ensure (set (dkeys identity) = set PROTECTED_CHANGE_IDENTITY_FIELDS)
       (AuthorityProvenanceError ''protected-change-identity-fields-invalid'')) (\<lambda>_.
     protected_change_identity identity))"

definition strip_circular_audit_fields :: "pydict \<Rightarrow> pydict" where
  "strip_circular_audit_fields source = filter (\<lambda>(key, _). key \<notin> set VERIFIER_OWNED_CIRCULAR_AUDIT_FIELDS) source"

text \<open>\<^verbatim>\<open>json.loads\<close> of the canonical text of an object.\<close>

definition reloaded :: "pydict \<Rightarrow> pydict" where
  "reloaded d = the_dict (sort_keys (PDict d))"

record protected_change_assessment =
  before_subject :: pydict
  after_subject :: pydict
  assessed_identity :: "pydict option"
  changed_json_pointers :: "string list"
  required_change_types :: "string list"
  uncategorized_paths :: "string list"

definition sealed_assessment ::
    "pydict \<Rightarrow> pydict \<Rightarrow> pydict option \<Rightarrow> string list \<Rightarrow> string list \<Rightarrow> string list
       \<Rightarrow> (authority_error, protected_change_assessment) res" where
  "sealed_assessment before after identity pointers types uncategorized =
     rbind (canonical_json_object (PDict before) ''protected-change-before-subject'') (\<lambda>canonical_before.
     rbind (canonical_json_object (PDict after) ''protected-change-after-subject'') (\<lambda>canonical_after.
     rbind (case identity of None \<Rightarrow> Inr None
         | Some i \<Rightarrow> rbind (canonical_json_object (PDict i) ''protected-change-identity'') (\<lambda>c. Inr (Some c))) (\<lambda>canonical_id.
     Inr \<lparr>before_subject = reloaded canonical_before, after_subject = reloaded canonical_after,
       assessed_identity = map_option reloaded canonical_id, changed_json_pointers = pointers,
       required_change_types = types, uncategorized_paths = uncategorized\<rparr>)))"

definition subject_of :: "pydict option \<Rightarrow> pydict \<Rightarrow> pydict" where
  "subject_of identity artifact =
     (case identity of None \<Rightarrow> artifact
      | Some i \<Rightarrow> [(''subject_type'', PStr ''cwo-protected-change-subject''), (''version'', PInt 1),
          (''identity'', PDict i), (''artifact'', PDict artifact)])"

definition build_protected_change_assessment ::
    "pyval \<Rightarrow> pyval \<Rightarrow> pyval \<Rightarrow> string \<Rightarrow> pyval \<Rightarrow> (authority_error, protected_change_assessment) res" where
  "build_protected_change_assessment before after operator_required_for profile identity =
     rbind (validate_operator_required_for operator_required_for) (\<lambda>_.
     rbind (ensure (PROTECTED_CHANGE_PROFILES profile \<noteq> None) (AuthorityProvenanceError ''protected-change-profile-invalid'')) (\<lambda>_.
     rbind (canonical_json_object before ''protected-change-before'') (\<lambda>before_object.
     rbind (canonical_json_object after ''protected-change-after'') (\<lambda>after_object.
     let canonical_before = strip_circular_audit_fields before_object;
         canonical_after = strip_circular_audit_fields after_object;
         changed_paths = json_changed_pointers (PDict canonical_before) (PDict canonical_after) [];
         category = (\<lambda>pointer. categorize_changed_path pointer canonical_before canonical_after profile);
         uncategorized = filter (\<lambda>pointer. category pointer = Some UNCATEGORIZED) changed_paths;
         ordered_categories = filter (\<lambda>c. \<exists>pointer\<in>set changed_paths. category pointer = Some c) OPERATOR_REQUIRED_CHANGE_TYPES
     in rbind (if identity = PNone then Inr None else rbind (canonical_identity identity) (\<lambda>c. Inr (Some c))) (\<lambda>identity_fields.
        rbind (sealed_assessment (subject_of identity_fields canonical_before) (subject_of identity_fields canonical_after) identity_fields changed_paths
          ordered_categories uncategorized) (\<lambda>assessment.
        rbind (ensure (uncategorized = [])
          (AuthorityProvenanceError (''protected-change-uncategorized:'' @ py_join '','' uncategorized))) (\<lambda>_.
        Inr assessment)))))))"

definition assess_operator_required_changes ::
    "pyval \<Rightarrow> pyval \<Rightarrow> pyval \<Rightarrow> string \<Rightarrow> pyval \<Rightarrow> (authority_error, protected_change_assessment) res" where
  "assess_operator_required_changes before after operator_required_for profile identity =
     build_protected_change_assessment before after operator_required_for profile identity"

definition classify_operator_required_changes :: "pyval \<Rightarrow> pyval \<Rightarrow> pyval \<Rightarrow> (authority_error, string list) res" where
  "classify_operator_required_changes before after operator_required_for =
     rbind (build_protected_change_assessment before after operator_required_for ''generic'' PNone) (\<lambda>assessment.
     Inr (required_change_types assessment))"

end
