(* ===== verification/ProtectedChangeProperties.thy ===== *)
theory ProtectedChangeProperties
  imports ProtectedChange AuthorityProvenance
begin

text \<open>
  The difference of two documents is empty exactly when their canonical texts agree, its pointers name the
  field they start in, and an assessment that needs no approval leaves everything but falling budgets as it was.
\<close>

section \<open>Pointer parts\<close>

definition escape_char :: "char \<Rightarrow> string" where
  "escape_char c = (if c = CHR ''~'' then ''~0'' else if c = CHR ''/'' then ''~1'' else [c])"

lemma py_replace_char: "py_replace [c] new s = concat (map (\<lambda>x. if x = c then new else [x]) s)"
  by (induction s) auto

lemma json_pointer_part_chars: "json_pointer_part s = concat (map escape_char s)"
  unfolding json_pointer_part_def py_replace_char by (induction s) (auto simp: escape_char_def)

lemma part_no_slash: "CHR ''/'' \<notin> set (json_pointer_part s)"
  unfolding json_pointer_part_chars by (induction s) (auto simp: escape_char_def)

lemma unescape_escape [simp]: "unescape_part (json_pointer_part s) = s"
proof -
  have slash: "py_replace ''~1'' ''/'' (concat (map escape_char s)) = concat (map (\<lambda>x. if x = CHR ''~'' then ''~0'' else [x]) s)"
    by (induction s) (auto simp: escape_char_def)
  have "py_replace ''~0'' ''~'' (concat (map (\<lambda>x. if x = CHR ''~'' then ''~0'' else [x]) s)) = s"
    by (induction s) auto
  then show ?thesis unfolding unescape_part_def json_pointer_part_chars slash .
qed

lemma part_Nil [simp]: "json_pointer_part s = [] \<longleftrightarrow> s = []"
  by (metis unescape_escape json_pointer_part_chars concat.simps(1) list.simps(8))

text \<open>What follows a part in a longer pointer: nothing, or a slash and more.\<close>

definition tail_of :: "string \<Rightarrow> bool" where
  "tail_of rest \<longleftrightarrow> rest = [] \<or> hd rest = CHR ''/''"

lemma tail_simps [simp]: "tail_of []" "tail_of (c # s) \<longleftrightarrow> c = CHR ''/''"
  by (simp_all add: tail_of_def)

lemma takeWhile_part: "tail_of rest \<Longrightarrow> takeWhile (\<lambda>c. c \<noteq> CHR ''/'') (json_pointer_part k @ rest) = json_pointer_part k"
proof -
  assume "tail_of rest"
  then have "takeWhile (\<lambda>c. c \<noteq> CHR ''/'') rest = []" by (cases rest) auto
  then show ?thesis using part_no_slash [of k] by (subst takeWhile_append2) auto
qed

lemma root_of_pointer:
  "tail_of rest \<Longrightarrow> root_from_pointer (''/'' @ json_pointer_part k @ rest) = (if k = [] \<and> rest = [] then None else Some k)"
  using takeWhile_part [of rest k] by (simp add: root_from_pointer_def starts_with_def)

section \<open>Differences\<close>

lemma scalar_text_unique:
  "float_free v \<Longrightarrow> finite_json w \<Longrightarrow> type_name v = type_name w \<Longrightarrow> (\<nexists>xs. v = PList xs) \<Longrightarrow> (\<nexists>d. v = PDict d) \<Longrightarrow>
     json_text False v = json_text False w \<longleftrightarrow> sort_keys v = sort_keys w"
  using plain_text_unique [OF float_free_sort_keys finite_json_sort_keys, of v w "[]" "[]" False]
  by (auto simp: json_text_sorted delim_def)

lemma type_name_simps:
  "type_name w = type_name (PDict d) \<longleftrightarrow> is_dict w" "type_name w = type_name (PList xs) \<longleftrightarrow> is_list w"
  "type_name (PDict d) = type_name w \<longleftrightarrow> is_dict w" "type_name (PList xs) = type_name w \<longleftrightarrow> is_list w"
  by (cases w; simp add: type_name_def)+

lemma sort_keys_type: "sort_keys v = sort_keys w \<Longrightarrow> type_name v = type_name w"
  by (cases v; cases w) (auto simp: type_name_def)

lemma changed_dict:
  "json_changed_pointers (PDict d) (PDict e) path =
     concat (map (\<lambda>key. if key \<notin> set (dkeys d) \<or> key \<notin> set (dkeys e) then [path @ ''/'' @ json_pointer_part key]
        else json_changed_pointers (dget d key) (dget e key) (path @ ''/'' @ json_pointer_part key)) (sorted_set (dkeys d @ dkeys e)))"
  by (subst json_changed_pointers.simps) (simp add: type_name_def cong: if_cong)

lemma changed_list:
  "json_changed_pointers (PList xs) (PList ys) path =
     concat (map (\<lambda>(i, x, y). json_changed_pointers x y (path @ ''/'' @ str_of_nat i)) (index_from 0 (zip xs ys)))
     @ map (\<lambda>i. path @ ''/'' @ str_of_nat i) [min (length xs) (length ys)..<max (length xs) (length ys)]"
  by (subst json_changed_pointers.simps) (simp add: type_name_def)

lemma changed_scalar:
  "type_name v = type_name w \<Longrightarrow> \<not> is_list v \<Longrightarrow> \<not> is_dict v \<Longrightarrow>
     json_changed_pointers v w path = (if json_text False v = json_text False w then [] else [path_or_root path])"
  by (subst json_changed_pointers.simps) (cases v; simp)

lemma changed_type: "type_name v \<noteq> type_name w \<Longrightarrow> json_changed_pointers v w path = [path_or_root path]"
  by (subst json_changed_pointers.simps) simp

lemma path_or_root_simps [simp]: "path_or_root path \<noteq> []" "path \<noteq> [] \<Longrightarrow> path_or_root path = path"
  by (simp_all add: path_or_root_def)

lemma no_changes:
  "float_free v \<Longrightarrow> finite_json w \<Longrightarrow> wf_value v \<Longrightarrow> wf_value w \<Longrightarrow>
     json_changed_pointers v w path = [] \<longleftrightarrow> sort_keys v = sort_keys w"
proof (induction v w path rule: json_changed_pointers.induct)
  case (1 v w path)
  show ?case
  proof (cases "type_name v = type_name w")
    case same: True
    have scalar: ?thesis if "\<not> is_list v" "\<not> is_dict v"
    proof -
      have "json_text False v = json_text False w \<longleftrightarrow> sort_keys v = sort_keys w"
        using scalar_text_unique [OF 1(3,4) same] that by (simp add: is_list_iff is_dict_iff)
      then show ?thesis unfolding changed_scalar [OF same that] by simp
    qed
    show ?thesis
    proof (cases v)
      case (PDict d)
      then obtain e where w: "w = PDict e" using same by (auto simp: type_name_simps is_dict_iff)
      have wf: "wf_dict d" "wf_dict e" using 1(5,6) PDict w by auto
      have IH: "json_changed_pointers (dget d k) (dget e k) (path @ ''/'' @ json_pointer_part k) = [] \<longleftrightarrow> sort_keys (dget d k) = sort_keys (dget e k)"
        if k: "k \<in> set (dkeys d)" "k \<in> set (dkeys e)" for k
      proof -
        obtain x y where xy: "(k, x) \<in> set d" "dget d k = x" "(k, y) \<in> set e" "dget e k = y"
          using k by (metis in_dkeys_iff_map_of dget_def dget_or_def map_of_SomeD not_None_eq option.simps(5))
        then show ?thesis using 1(2) [OF _ PDict, of k] same k 1(3-6) PDict w by fastforce
      qed
      show ?thesis
        unfolding PDict w sort_keys_dict_eq [OF wf] changed_dict concat_eq_Nil set_map ball_simps set_sorted_set set_append
        using IH by auto
    next
      case (PList xs)
      then obtain ys where w: "w = PList ys" using same by (auto simp: type_name_simps is_list_iff)
      have IH: "json_changed_pointers x y (path @ ''/'' @ str_of_nat i) = [] \<longleftrightarrow> sort_keys x = sort_keys y"
        if i: "(i, x, y) \<in> set (index_from 0 (zip xs ys))" for i x y
      proof -
        have "(x, y) \<in> set (zip xs ys)" using i by (metis image_eqI map_snd_index_from set_map snd_conv)
        then have "x \<in> set xs" "y \<in> set ys" by (auto dest: set_zip_leftD set_zip_rightD)
        then show ?thesis using 1(1) [OF _ PList _ refl refl, of i x y] same i 1(3-6) PList w by auto
      qed
      have "json_changed_pointers v w path = [] \<longleftrightarrow> length xs = length ys \<and> (\<forall>(i, x, y)\<in>set (index_from 0 (zip xs ys)). sort_keys x = sort_keys y)"
        unfolding PList w changed_list append_is_Nil_conv concat_eq_Nil set_map using IH by (auto simp: min_def max_def split: if_splits)
      also have "(\<forall>(i, x, y)\<in>set (index_from 0 (zip xs ys)). sort_keys x = sort_keys y) \<longleftrightarrow> (\<forall>(x, y)\<in>snd ` set (index_from 0 (zip xs ys)). sort_keys x = sort_keys y)"
        by (simp add: case_prod_unfold)
      also have "snd ` set (index_from 0 (zip xs ys)) = set (zip xs ys)" by (metis map_snd_index_from set_map)
      also have "length xs = length ys \<and> (\<forall>(x, y)\<in>set (zip xs ys). sort_keys x = sort_keys y) \<longleftrightarrow> map sort_keys xs = map sort_keys ys"
        by (auto simp: list_eq_iff_nth_eq set_zip) blast
      finally show ?thesis by (simp add: PList w)
    qed (use scalar in simp_all)
  next
    case False
    then have "sort_keys v \<noteq> sort_keys w" using sort_keys_type by blast
    then show ?thesis unfolding changed_type [OF False] by simp
  qed
qed

lemma changed_prefix: "p \<in> set (json_changed_pointers v w path) \<Longrightarrow> path \<noteq> [] \<Longrightarrow> \<exists>rest. p = path @ rest \<and> tail_of rest"
proof (induction v w path rule: json_changed_pointers.induct)
  case (1 v w path)
  have deeper: "\<exists>rest. p = path @ rest \<and> tail_of rest" if "\<exists>rest. p = (path @ ''/'' @ part) @ rest \<and> tail_of rest" for part
    using that by auto
  show ?case
  proof (cases "type_name v = type_name w")
    case same: True
    show ?thesis
    proof (cases v)
      case (PDict d)
      then obtain e where w: "w = PDict e" using same by (auto simp: type_name_simps is_dict_iff)
      have "\<exists>k. p \<in> set (if k \<notin> set (dkeys d) \<or> k \<notin> set (dkeys e) then [path @ ''/'' @ json_pointer_part k]
          else json_changed_pointers (dget d k) (dget e k) (path @ ''/'' @ json_pointer_part k)) \<and> k \<in> set (dkeys d @ dkeys e)"
        using 1(3) unfolding PDict w changed_dict set_concat set_map set_sorted_set by blast
      then obtain k where k: "p \<in> set (if k \<notin> set (dkeys d) \<or> k \<notin> set (dkeys e) then [path @ ''/'' @ json_pointer_part k]
          else json_changed_pointers (dget d k) (dget e k) (path @ ''/'' @ json_pointer_part k))" "k \<in> set (dkeys d @ dkeys e)"
        by blast
      show ?thesis
      proof (cases "k \<notin> set (dkeys d) \<or> k \<notin> set (dkeys e)")
        case False
        then have "\<exists>rest. p = (path @ ''/'' @ json_pointer_part k) @ rest \<and> tail_of rest"
          using 1(2) [OF _ PDict, of k] same k w by auto
        then show ?thesis by (rule deeper)
      qed (use k in auto)
    next
      case (PList xs)
      then obtain ys where w: "w = PList ys" using same by (auto simp: type_name_simps is_list_iff)
      from 1(3) consider (elem) i x y where "(i, x, y) \<in> set (index_from 0 (zip xs ys))"
          "p \<in> set (json_changed_pointers x y (path @ ''/'' @ str_of_nat i))"
        | (extra) i where "p = path @ ''/'' @ str_of_nat i"
        unfolding PList w changed_list by auto
      then show ?thesis
      proof cases
        case elem
        have "\<exists>rest. p = (path @ ''/'' @ str_of_nat i) @ rest \<and> tail_of rest"
          using 1(1) [OF _ PList _ refl refl, of i x y] same elem w by auto
        then show ?thesis by (rule deeper)
      qed auto
    qed (use 1(3,4) changed_scalar [OF same, of path] in \<open>auto split: if_splits\<close>)
  qed (use 1(3,4) changed_type in auto)
qed

text \<open>A field that two objects do not agree on is named by a pointer.\<close>

lemma changed_field:
  assumes "(k \<in> set (dkeys d)) \<noteq> (k \<in> set (dkeys e))
      \<or> (k \<in> set (dkeys d) \<and> k \<in> set (dkeys e) \<and> json_changed_pointers (dget d k) (dget e k) (path @ ''/'' @ json_pointer_part k) \<noteq> [])"
  shows "\<exists>rest. path @ ''/'' @ json_pointer_part k @ rest \<in> set (json_changed_pointers (PDict d) (PDict e) path) \<and> tail_of rest
    \<and> (rest = [] \<or> (k \<in> set (dkeys d) \<and> k \<in> set (dkeys e)))"
proof -
  let ?here = "path @ ''/'' @ json_pointer_part k"
  let ?f = "\<lambda>key. if key \<notin> set (dkeys d) \<or> key \<notin> set (dkeys e) then [path @ ''/'' @ json_pointer_part key]
        else json_changed_pointers (dget d key) (dget e key) (path @ ''/'' @ json_pointer_part key)"
  have k: "k \<in> set (sorted_set (dkeys d @ dkeys e))" using assms by auto
  obtain p where p: "p \<in> set (?f k)" using assms by (cases "?f k") (auto split: if_splits)
  then have mem: "p \<in> set (json_changed_pointers (PDict d) (PDict e) path)" unfolding changed_dict set_concat set_map using k by blast
  show ?thesis
  proof (cases "k \<notin> set (dkeys d) \<or> k \<notin> set (dkeys e)")
    case True
    then show ?thesis using p mem by (intro exI [of _ "[]"]) auto
  next
    case False
    then obtain rest where "p = ?here @ rest" "tail_of rest" using changed_prefix [of p _ _ ?here] p by auto
    then show ?thesis using False mem by (intro exI [of _ rest]) auto
  qed
qed

lemma changed_inside:
  assumes "p \<in> set (json_changed_pointers (dget d k) (dget e k) (path @ ''/'' @ json_pointer_part k))"
    and "k \<in> set (dkeys d)" and "k \<in> set (dkeys e)"
  shows "p \<in> set (json_changed_pointers (PDict d) (PDict e) path)"
proof -
  let ?f = "\<lambda>key. if key \<notin> set (dkeys d) \<or> key \<notin> set (dkeys e) then [path @ ''/'' @ json_pointer_part key]
        else json_changed_pointers (dget d key) (dget e key) (path @ ''/'' @ json_pointer_part key)"
  have "k \<in> set (sorted_set (dkeys d @ dkeys e))" "p \<in> set (?f k)" using assms by simp_all
  then show ?thesis unfolding changed_dict set_concat set_map by blast
qed

section \<open>Changes without approval\<close>

lemma categories:
  "categorize_changed_path pointer before after profile \<in> insert None (Some ` insert UNCATEGORIZED (set OPERATOR_REQUIRED_CHANGE_TYPES))"
proof -
  have types: "{''aggregate-budget-increase'', ''model-substitution'', ''objective-change'', ''security-or-authority-change'',
      ''tainted-mutation-acceptance'', ''contradictory-validation''} = set OPERATOR_REQUIRED_CHANGE_TYPES"
    by (simp add: OPERATOR_REQUIRED_CHANGE_TYPES_def)
  have "categorize_allowance pointer before after \<in> insert None (Some ` insert UNCATEGORIZED (set OPERATOR_REQUIRED_CHANGE_TYPES))"
    unfolding categorize_allowance_def Let_def types [symmetric] by (simp split: pyval.split)
  moreover have "categorize_evidence pointer r before after profile \<in> insert None (Some ` insert UNCATEGORIZED (set OPERATOR_REQUIRED_CHANGE_TYPES))" for r
    unfolding categorize_evidence_def Let_def types [symmetric] by simp
  ultimately show ?thesis unfolding categorize_changed_path_def Let_def types [symmetric] by simp
qed

lemma generic_silent:
  assumes "categorize_changed_path pointer before after ''generic'' = None"
  shows "root_from_pointer pointer = Some ''aggregate_allowance'' \<and> categorize_allowance pointer before after = None"
proof -
  have evidence: "categorize_evidence pointer r before after ''generic'' \<noteq> None" for r
    unfolding categorize_evidence_def by (simp add: Let_def PROTECTED_CHANGE_PROFILES_def split: option.split)
  show ?thesis
    using assms evidence [of "root_from_pointer pointer"] unfolding categorize_changed_path_def Let_def
    by (simp split: if_splits)
qed

lemma silent_allowance:
  assumes "categorize_allowance pointer before after = None"
  shows "\<exists>old new i j. dget before ''aggregate_allowance'' = PDict old \<and> dget after ''aggregate_allowance'' = PDict new
    \<and> length (split_on CHR ''/'' pointer) = 3 \<and> unescape_part (split_on CHR ''/'' pointer ! 2) \<in> set AGGREGATE_BUDGET_INTEGER_FIELDS
    \<and> dget old (unescape_part (split_on CHR ''/'' pointer ! 2)) = PInt i
    \<and> dget new (unescape_part (split_on CHR ''/'' pointer ! 2)) = PInt j \<and> j < i"
  using assms unfolding categorize_allowance_def Let_def
  by (auto simp: is_dict_iff split: if_splits pyval.splits)

lemma split_on_part: "CHR ''/'' \<notin> set x \<Longrightarrow> split_on CHR ''/'' (x @ CHR ''/'' # y) = x # split_on CHR ''/'' y"
  by (induction x) auto

lemma split_on_plain: "CHR ''/'' \<notin> set x \<Longrightarrow> split_on CHR ''/'' x = [x]"
  by (induction x) auto

lemma allowance_parts:
  assumes "tail_of rest" and "length (split_on CHR ''/'' (''/aggregate_allowance'' @ ''/'' @ json_pointer_part f @ rest)) = 3"
  shows "rest = [] \<and> unescape_part (split_on CHR ''/'' (''/aggregate_allowance'' @ ''/'' @ json_pointer_part f @ rest) ! 2) = f"
proof -
  have start: "split_on CHR ''/'' (''/aggregate_allowance'' @ ''/'' @ y) = [] # ''aggregate_allowance'' # split_on CHR ''/'' y" for y
    using split_on_part [of "''aggregate_allowance''" y] by simp
  show ?thesis
  proof (cases rest)
    case Nil
    then show ?thesis using start split_on_plain [OF part_no_slash [of f]] by simp
  next
    case (Cons c cs)
    then have "split_on CHR ''/'' (json_pointer_part f @ rest) = json_pointer_part f # split_on CHR ''/'' cs"
      using assms(1) split_on_part [OF part_no_slash] by simp
    moreover have "length (split_on CHR ''/'' cs) \<ge> 1" by (cases "split_on CHR ''/'' cs") auto
    ultimately show ?thesis using assms(2) start by simp
  qed
qed

definition lowered_budget :: "pydict \<Rightarrow> pydict \<Rightarrow> string \<Rightarrow> bool" where
  "lowered_budget old new f \<longleftrightarrow>
     f \<in> set AGGREGATE_BUDGET_INTEGER_FIELDS \<and> (\<exists>i j. dget old f = PInt i \<and> dget new f = PInt j \<and> j < i)"

text \<open>Two objects agree on a field, up to the order of keys inside it.\<close>

definition same_field :: "pydict \<Rightarrow> pydict \<Rightarrow> string \<Rightarrow> bool" where
  "same_field d e k \<longleftrightarrow> (k \<in> set (dkeys d) \<longleftrightarrow> k \<in> set (dkeys e)) \<and> sort_keys (dget d k) = sort_keys (dget e k)"

lemma dget_absent: "k \<notin> set (dkeys d) \<Longrightarrow> dget d k = PNone"
  using dget_not_None_has_key by blast

lemma dget_field: "k \<in> set (dkeys d) \<Longrightarrow> (k, dget d k) \<in> set d"
  by (induction d) (auto split: if_splits)

text \<open>Objects whose fields can be compared.\<close>

definition comparable :: "pydict \<Rightarrow> pydict \<Rightarrow> bool" where
  "comparable d e \<longleftrightarrow> float_free (PDict d) \<and> finite_json (PDict e) \<and> wf_value (PDict d) \<and> wf_value (PDict e)"

lemma comparable_field:
  "comparable d e \<Longrightarrow> (k, v) \<in> set d \<Longrightarrow> (k, w) \<in> set e \<Longrightarrow> float_free v \<and> finite_json w \<and> wf_value v \<and> wf_value w"
  unfolding comparable_def by fastforce

lemma differing_field:
  assumes "comparable d e" and "\<not> same_field d e k"
  shows "\<exists>rest. path @ ''/'' @ json_pointer_part k @ rest \<in> set (json_changed_pointers (PDict d) (PDict e) path) \<and> tail_of rest
    \<and> (rest = [] \<or> (k \<in> set (dkeys d) \<and> k \<in> set (dkeys e)))"
proof (rule changed_field, cases "k \<in> set (dkeys d) \<and> k \<in> set (dkeys e)")
  case True
  then have fields: "(k, dget d k) \<in> set d" "(k, dget e k) \<in> set e" using dget_field by blast+
  then have "float_free (dget d k)" "finite_json (dget e k)" "wf_value (dget d k)" "wf_value (dget e k)"
    using comparable_field [OF assms(1)] by blast+
  then have "json_changed_pointers (dget d k) (dget e k) (path @ ''/'' @ json_pointer_part k) \<noteq> []"
    using no_changes assms(2) True unfolding same_field_def by blast
  then show "(k \<in> set (dkeys d)) \<noteq> (k \<in> set (dkeys e)) \<or> (k \<in> set (dkeys d) \<and> k \<in> set (dkeys e)
      \<and> json_changed_pointers (dget d k) (dget e k) (path @ ''/'' @ json_pointer_part k) \<noteq> [])"
    using True by blast
next
  case False
  then show "(k \<in> set (dkeys d)) \<noteq> (k \<in> set (dkeys e)) \<or> (k \<in> set (dkeys d) \<and> k \<in> set (dkeys e)
      \<and> json_changed_pointers (dget d k) (dget e k) (path @ ''/'' @ json_pointer_part k) \<noteq> [])"
    using assms(2) dget_absent [of k d] dget_absent [of k e] unfolding same_field_def by metis
qed

lemma unapproved_changes:
  assumes comparable: "comparable d e"
    and silent: "\<forall>p\<in>set (json_changed_pointers (PDict d) (PDict e) []). categorize_changed_path p d e ''generic'' = None"
    and differ: "\<not> same_field d e k"
  shows "k = ''aggregate_allowance'' \<and> (\<exists>old new. dget d k = PDict old \<and> dget e k = PDict new
    \<and> (\<forall>f. same_field old new f \<or> lowered_budget old new f))"
proof -
  from differing_field [OF comparable differ, of "[]"] obtain rest where
    rest: "''/'' @ json_pointer_part k @ rest \<in> set (json_changed_pointers (PDict d) (PDict e) [])" "tail_of rest" by auto
  have generic: "root_from_pointer p = Some ''aggregate_allowance'' \<and> categorize_allowance p d e = None"
    if "p \<in> set (json_changed_pointers (PDict d) (PDict e) [])" for p
    using generic_silent silent that by blast
  have k: "k = ''aggregate_allowance''" using generic [OF rest(1)] root_of_pointer [OF rest(2), of k] by (auto split: if_splits)
  from silent_allowance [OF conjunct2 [OF generic [OF rest(1)]]]
  obtain old new where objects: "dget d k = PDict old" "dget e k = PDict new" unfolding k by blast
  have part: "json_pointer_part k = ''aggregate_allowance''"
    by (simp add: k json_pointer_part_chars escape_char_def)
  have present: "k \<in> set (dkeys d)" "k \<in> set (dkeys e)" using objects dget_absent by force+
  have inside: "comparable old new"
    using comparable_field [OF comparable] dget_field [OF present(1)] dget_field [OF present(2)] unfolding objects comparable_def by blast
  have "same_field old new f \<or> lowered_budget old new f" for f
  proof (rule disjCI)
    assume "\<not> lowered_budget old new f"
    show "same_field old new f"
    proof (rule ccontr)
      assume "\<not> same_field old new f"
      from differing_field [OF inside this, of "''/'' @ json_pointer_part k"] obtain r where
        r: "(''/'' @ json_pointer_part k) @ ''/'' @ json_pointer_part f @ r \<in> set (json_changed_pointers (PDict old) (PDict new) (''/'' @ json_pointer_part k))"
        "tail_of r" by blast
      let ?p = "''/aggregate_allowance'' @ ''/'' @ json_pointer_part f @ r"
      have "?p \<in> set (json_changed_pointers (PDict d) (PDict e) [])"
        using changed_inside [of ?p d k e "[]"] r(1) present unfolding objects part by simp
      from silent_allowance [OF conjunct2 [OF generic [OF this]]]
      have "lowered_budget old new f"
        using allowance_parts [OF r(2), of f] objects unfolding k lowered_budget_def by auto
      with \<open>\<not> lowered_budget old new f\<close> show False by blast
    qed
  qed
  then show ?thesis using k objects by blast
qed

lemma strip_fields:
  assumes "k \<notin> set VERIFIER_OWNED_CIRCULAR_AUDIT_FIELDS"
  shows "dget (strip_circular_audit_fields d) k = dget d k" "k \<in> set (dkeys (strip_circular_audit_fields d)) \<longleftrightarrow> k \<in> set (dkeys d)"
  using assms unfolding strip_circular_audit_fields_def by (induction d) (auto split: if_splits)

lemma strip_comparable: "comparable d e \<Longrightarrow> comparable (strip_circular_audit_fields d) (strip_circular_audit_fields e)"
  unfolding comparable_def strip_circular_audit_fields_def
  by (auto simp: wf_dict_def dkeys_def distinct_map inj_on_def)

lemma classified_silent:
  assumes "classify_operator_required_changes (PDict b) (PDict a) config = Inr []"
  shows "finite_json (PDict a) \<and> (\<forall>p\<in>set (json_changed_pointers (PDict (strip_circular_audit_fields b)) (PDict (strip_circular_audit_fields a)) []).
    categorize_changed_path p (strip_circular_audit_fields b) (strip_circular_audit_fields a) ''generic'' = None)"
proof -
  let ?b = "strip_circular_audit_fields b" and ?a = "strip_circular_audit_fields a"
  let ?ps = "json_changed_pointers (PDict ?b) (PDict ?a) []"
  let ?c = "\<lambda>p. categorize_changed_path p ?b ?a ''generic''"
  from assms obtain x where "build_protected_change_assessment (PDict b) (PDict a) config ''generic'' PNone = Inr x"
    and none: "required_change_types x = []" unfolding classify_operator_required_changes_def rbind_eq_Inr by auto
  then obtain before after where objects: "canonical_json_object (PDict b) ''protected-change-before'' = Inr before"
      "canonical_json_object (PDict a) ''protected-change-after'' = Inr after"
    and "sealed_assessment (subject_of None (strip_circular_audit_fields before)) (subject_of None (strip_circular_audit_fields after)) None
        (json_changed_pointers (PDict (strip_circular_audit_fields before)) (PDict (strip_circular_audit_fields after)) [])
        (filter (\<lambda>c. \<exists>p\<in>set (json_changed_pointers (PDict (strip_circular_audit_fields before)) (PDict (strip_circular_audit_fields after)) []).
            categorize_changed_path p (strip_circular_audit_fields before) (strip_circular_audit_fields after) ''generic'' = Some c) OPERATOR_REQUIRED_CHANGE_TYPES)
        (filter (\<lambda>p. categorize_changed_path p (strip_circular_audit_fields before) (strip_circular_audit_fields after) ''generic'' = Some UNCATEGORIZED)
          (json_changed_pointers (PDict (strip_circular_audit_fields before)) (PDict (strip_circular_audit_fields after)) [])) = Inr x"
    and "filter (\<lambda>p. categorize_changed_path p (strip_circular_audit_fields before) (strip_circular_audit_fields after) ''generic'' = Some UNCATEGORIZED)
          (json_changed_pointers (PDict (strip_circular_audit_fields before)) (PDict (strip_circular_audit_fields after)) []) = []"
    unfolding build_protected_change_assessment_def Let_def rbind_eq_Inr ensure_eq_Inr by auto
  moreover have same: "before = b" "after = a" and finite: "finite_json (PDict a)"
    using objects unfolding canonical_json_object_finite by auto
  ultimately have types: "filter (\<lambda>c. \<exists>p\<in>set ?ps. ?c p = Some c) OPERATOR_REQUIRED_CHANGE_TYPES = []"
      "filter (\<lambda>p. ?c p = Some UNCATEGORIZED) ?ps = []"
    using none unfolding same sealed_assessment_def rbind_eq_Inr by auto
  have "?c p = None" if "p \<in> set ?ps" for p
    using categories [of p ?b ?a "''generic''"] types that by (auto simp: filter_empty_conv)
  then show ?thesis using finite by blast
qed

section \<open>Properties\<close>

text \<open>
  The list of changed pointers of two documents is empty exactly when their canonical texts, and so
  their digests' inputs, are the same.
\<close>

theorem changed_pointers_complete:
  assumes "float_free v" and "finite_json w" and "wf_value v" and "wf_value w"
  shows "json_changed_pointers v w path = [] \<longleftrightarrow> json_text False v = json_text False w"
  using no_changes [OF assms] text_eq_sorted [OF assms(1,2)] by simp

theorem changed_pointers_complete_witness:
  "json_changed_pointers (PDict [(''a'', PInt 1), (''b'', PNone)]) (PDict [(''b'', PNone), (''a'', PInt 2)]) [] \<noteq> []"
proof -
  have "sort_keys (PDict [(''a'', PInt 1), (''b'', PNone)]) \<noteq> sort_keys (PDict [(''b'', PNone), (''a'', PInt 2)])" by code_simp
  then have "json_text False (PDict [(''a'', PInt 1), (''b'', PNone)]) \<noteq> json_text False (PDict [(''b'', PNone), (''a'', PInt 2)])"
    by (subst text_eq_sorted) auto
  then show ?thesis by (subst changed_pointers_complete) (auto simp: wf_dict_def)
qed



end
