(* ===== verification/OperatorApproval.thy ===== *)
theory OperatorApproval
  imports ProtectedChange
begin

text \<open>
  \<^verbatim>\<open>scripts/cwo_core/native_authority.py\<close>, third part: operator approvals of protected changes.
  A receipt is signed for one exact change, verified against the same assessment, and consumed in a replay
  store that is read, checked and rewritten under a lock.  The store file is the JSON value it holds; what
  the file system answers (the lock, the checks on paths and inodes, the write) is part of the environment
  of a call.  Between two calls the file is only changed by other calls: the code does not claim more.
\<close>

section \<open>Constants\<close>

definition OPERATOR_APPROVAL_TYPE :: string where
  "OPERATOR_APPROVAL_TYPE = ''cwo-operator-protected-change-approval''"

definition OPERATOR_APPROVAL_FIELDS :: "string list" where
  "OPERATOR_APPROVAL_FIELDS =
     [''approval_type'', ''version'', ''approval_id'', ''change_type'', ''before_sha256'', ''after_sha256'', ''actor_id'',
      ''identity_source'', ''authorized_scope'', ''parent_receipt_sha256'', ''issued_at'', ''expires_at'', ''nonce'', ''signature'']"

definition OPERATOR_APPROVAL_AUDIT_FIELDS :: "string list" where
  "OPERATOR_APPROVAL_AUDIT_FIELDS =
     [''approval_type'', ''version'', ''approval_id'', ''change_type'', ''before_sha256'', ''after_sha256'', ''issued_at'',
      ''expires_at'', ''nonce'', ''receipt_sha256'', ''signed_receipt'', ''authority_provenance'']"

definition OPERATOR_APPROVAL_REPLAY_STORE_TYPE :: string where
  "OPERATOR_APPROVAL_REPLAY_STORE_TYPE = ''cwo-operator-approval-replay-store''"

definition OPERATOR_APPROVAL_REPLAY_STORE_FIELDS :: "string list" where
  "OPERATOR_APPROVAL_REPLAY_STORE_FIELDS = [''store_type'', ''version'', ''entries'', ''store_hmac_sha256'']"

definition OPERATOR_APPROVAL_REPLAY_ENTRY_FIELDS :: "string list" where
  "OPERATOR_APPROVAL_REPLAY_ENTRY_FIELDS =
     [''nonce'', ''approval_id'', ''receipt_sha256'', ''change_type'', ''before_sha256'', ''after_sha256'']"

definition REPLAY_STORE_KEY_CONTEXT :: "nat list" where
  "REPLAY_STORE_KEY_CONTEXT = utf8 ''cwo-operator-approval-replay-store-v2'' @ [0]"

section \<open>Time\<close>

text \<open>
  \<^verbatim>\<open>datetime.fromisoformat\<close> on the spellings of \<open>parse_instant\<close>; a text that becomes one of them
  by adding an offset is an instant without a time zone.
\<close>

definition parse_utc_timestamp :: "pyval \<Rightarrow> string \<Rightarrow> (authority_error, int) res" where
  "parse_utc_timestamp value label =
     rbind (ensure (nonempty_text value) (AuthorityProvenanceError (label @ ''-invalid''))) (\<lambda>_.
     let given = the_str value;
         normalized = (if last given = CHR ''Z'' then butlast given @ ''+00:00'' else given)
     in case parse_instant normalized of
          Some t \<Rightarrow> Inr t
        | None \<Rightarrow> Inl (AuthorityProvenanceError (label
            @ (if parse_instant (normalized @ ''+00:00'') \<noteq> None then ''-timezone-required'' else ''-invalid''))))"

text \<open>What a clock or a caller may supply: an aware \<^verbatim>\<open>datetime\<close>, a naive one, or a text.\<close>

datatype clock_value = AwareTime int | NaiveTime | TimeText pyval

definition current_time :: "clock_value \<Rightarrow> (authority_error, int) res" where
  "current_time resolved =
     (case resolved of
        AwareTime t \<Rightarrow> Inr t
      | NaiveTime \<Rightarrow> Inl (AuthorityProvenanceError ''operator-approval-now-timezone-required'')
      | TimeText v \<Rightarrow> parse_utc_timestamp v ''operator-approval-now'')"

definition supplied_time :: "clock_value \<Rightarrow> string \<Rightarrow> (authority_error, int) res" where
  "supplied_time value label =
     (case value of
        AwareTime t \<Rightarrow> Inr t
      | NaiveTime \<Rightarrow> Inl (AuthorityProvenanceError (label @ ''-invalid''))
      | TimeText v \<Rightarrow> parse_utc_timestamp v label)"

section \<open>Signing\<close>

definition operator_approval_signature :: "pydict \<Rightarrow> nat list \<Rightarrow> (authority_error, string) res" where
  "operator_approval_signature body verification_key =
     rbind (signed_text (PDict body)) (\<lambda>signed. Inr (hmac_hex verification_key (utf8 signed)))"

text \<open>The last two arguments are the identifiers that \<^verbatim>\<open>uuid.uuid4\<close> would give.\<close>

definition sign_operator_approval_receipt ::
    "protected_change_assessment \<Rightarrow> string \<Rightarrow> nat list \<Rightarrow> string \<Rightarrow> string \<Rightarrow> string \<Rightarrow> clock_value \<Rightarrow> clock_value
       \<Rightarrow> string option \<Rightarrow> string option \<Rightarrow> string option \<Rightarrow> string \<Rightarrow> string \<Rightarrow> (authority_error, pydict) res" where
  "sign_operator_approval_receipt assessment change_type signing_key actor_id identity_source scope issued_at expires_at
       approval_id nonce parent_receipt_sha256 fresh_id fresh_nonce =
     rbind (ensure (assessed_identity assessment \<noteq> None)
       (AuthorityProvenanceError ''protected-change-assessment-identity-required'')) (\<lambda>_.
     rbind (ensure (change_type \<in> set (required_change_types assessment))
       (AuthorityProvenanceError ''operator-approval-change-type-not-required'')) (\<lambda>_.
     rbind (ensure (change_type \<notin> set TERMINAL_PROTECTED_CHANGE_TYPES)
       (AuthorityProvenanceError (''operator-approval-terminal-change-not-authorizable:'' @ change_type))) (\<lambda>_.
     rbind (ensure (signing_key \<noteq> []) (AuthorityProvenanceError ''operator-approval-signing-key-invalid'')) (\<lambda>_.
     rbind (ensure (py_strip actor_id \<noteq> [] \<and> py_strip identity_source \<noteq> [])
       (AuthorityProvenanceError ''operator-approval-signer-identity-invalid'')) (\<lambda>_.
     rbind (ensure (scope \<in> set AUTHORIZED_SCOPES) (AuthorityProvenanceError ''operator-approval-authorized-scope-invalid'')) (\<lambda>_.
     rbind (supplied_time issued_at ''operator-approval-issued-at'') (\<lambda>issued.
     rbind (supplied_time expires_at ''operator-approval-expires-at'') (\<lambda>expires.
     rbind (ensure (issued < expires) (AuthorityProvenanceError ''operator-approval-expiry-window-invalid'')) (\<lambda>_.
     rbind (ensure (case parent_receipt_sha256 of None \<Rightarrow> True | Some parent \<Rightarrow> hex64 parent)
       (AuthorityProvenanceError ''operator-approval-parent-receipt-sha256-invalid'')) (\<lambda>_.
     rbind (canonical_authority_sha256 (PDict (before_subject assessment))) (\<lambda>before_sha256.
     rbind (canonical_authority_sha256 (PDict (after_subject assessment))) (\<lambda>after_sha256.
     let receipt =
       [(''approval_type'', PStr OPERATOR_APPROVAL_TYPE), (''version'', PInt 1),
        (''approval_id'', PStr (text_or approval_id fresh_id)), (''change_type'', PStr change_type),
        (''before_sha256'', PStr before_sha256), (''after_sha256'', PStr after_sha256), (''actor_id'', PStr actor_id),
        (''identity_source'', PStr identity_source), (''authorized_scope'', PStr scope),
        (''parent_receipt_sha256'', optional_text parent_receipt_sha256), (''issued_at'', PStr (format_instant issued)),
        (''expires_at'', PStr (format_instant expires)), (''nonce'', PStr (text_or nonce fresh_nonce))]
     in rbind (ensure (nonempty_text (dget receipt ''approval_id'') \<and> nonempty_text (dget receipt ''nonce''))
          (AuthorityProvenanceError ''operator-approval-signer-identifier-invalid'')) (\<lambda>_.
        rbind (operator_approval_signature receipt signing_key) (\<lambda>signature.
        Inr (dset receipt ''signature'' (PStr signature))))))))))))))))"

section \<open>Verified approvals\<close>

record verified_operator_approval =
  approval_audit :: pydict
  approval_authority :: verified_authority

definition audit_receipt_errors :: "pydict \<Rightarrow> (authority_error, string list) res" where
  "audit_receipt_errors payload =
     (let signed = dget payload ''signed_receipt''; receipt = the_dict signed in
      if \<not> is_dict signed \<or> set (dkeys receipt) \<noteq> set OPERATOR_APPROVAL_FIELDS
      then Inr [''operator-approval-audit-signed-receipt-fields-invalid'']
      else rbind (canonical_authority_sha256 signed) (\<lambda>sha256.
        Inr (err_if (dget payload ''receipt_sha256'' \<noteq> PStr sha256) ''operator-approval-audit-signed-receipt-hash-mismatch''
          @ concat (map (\<lambda>field. err_if (changed_pointers (map_of receipt field) (map_of payload field) \<noteq> [])
              (''operator-approval-audit-signed-receipt-'' @ dashed field @ ''-mismatch''))
            [''approval_type'', ''version'', ''approval_id'', ''change_type'', ''before_sha256'', ''after_sha256'',
             ''issued_at'', ''expires_at'', ''nonce'']))))"

definition window_errors :: "pydict \<Rightarrow> string list" where
  "window_errors payload =
     (case rbind (parse_utc_timestamp (dget payload ''issued_at'') ''operator-approval-audit-issued-at'') (\<lambda>issued_at.
           rbind (parse_utc_timestamp (dget payload ''expires_at'') ''operator-approval-audit-expires-at'') (\<lambda>expires_at.
           Inr (issued_at, expires_at))) of
        Inr (issued_at, expires_at) \<Rightarrow> err_if (expires_at \<le> issued_at) ''operator-approval-audit-expiry-window-invalid''
      | Inl (AuthorityProvenanceError message) \<Rightarrow> [message]
      | Inl _ \<Rightarrow> [])"

definition validate_operator_approval_audit :: "pyval \<Rightarrow> (authority_error, string list) res" where
  "validate_operator_approval_audit value =
     (if \<not> is_dict value then Inr [''operator-approval-audit-must-be-object'']
      else (case canonical_json_object value ''operator-approval-audit'' of
         Inl (AuthorityProvenanceError message) \<Rightarrow> Inr [message]
       | Inl e \<Rightarrow> Inl e
       | Inr payload \<Rightarrow>
           if set (dkeys payload) \<noteq> set OPERATOR_APPROVAL_AUDIT_FIELDS
           then Inr (field_errors OPERATOR_APPROVAL_AUDIT_FIELDS ''operator-approval-audit'' payload)
           else
             rbind (audit_receipt_errors payload) (\<lambda>receipt_errors.
             rbind (validate_authority_provenance (dget payload ''authority_provenance'')) (\<lambda>authority_errors.
             Inr (err_if (dget payload ''approval_type'' \<noteq> PStr OPERATOR_APPROVAL_TYPE) ''operator-approval-audit-type-invalid''
               @ err_if (dget payload ''version'' \<noteq> PInt 1) ''operator-approval-audit-version-invalid''
               @ err_if (\<not> in_strs (dget payload ''change_type'') OPERATOR_REQUIRED_CHANGE_TYPES)
                   ''operator-approval-audit-change-type-invalid''
               @ concat (map (\<lambda>field. err_if (\<not> nonempty_text (dget payload field))
                   (''operator-approval-audit-'' @ dashed field @ ''-invalid'')) [''approval_id'', ''issued_at'', ''expires_at'', ''nonce''])
               @ concat (map (\<lambda>field. err_if (\<not> is_sha256 (dget payload field))
                   (''operator-approval-audit-'' @ dashed field @ ''-invalid'')) [''before_sha256'', ''after_sha256'', ''receipt_sha256''])
               @ receipt_errors @ window_errors payload
               @ map (\<lambda>error. ''operator-approval-audit-'' @ error) authority_errors)))))"

definition VerifiedOperatorApproval ::
    "pydict \<Rightarrow> verified_authority \<Rightarrow> (authority_error, verified_operator_approval) res" where
  "VerifiedOperatorApproval receipt authority =
     rbind (canonical_authority_sha256 (PDict receipt)) (\<lambda>sha256.
     let audit = map (\<lambda>field. (field, dget receipt field))
           [''approval_type'', ''version'', ''approval_id'', ''change_type'', ''before_sha256'', ''after_sha256'', ''issued_at'',
            ''expires_at'', ''nonce'']
         @ [(''receipt_sha256'', PStr sha256), (''signed_receipt'', PDict receipt),
            (''authority_provenance'', PDict (authority_payload authority))]
     in rbind (validate_operator_approval_audit (PDict audit)) (\<lambda>errors.
        rbind (ensure (errors = []) (AuthorityProvenanceError (''operator-approval-audit-invalid:'' @ py_join '';'' errors))) (\<lambda>_.
        Inr \<lparr>approval_audit = audit, approval_authority = authority\<rparr>)))"

definition RECEIPT_TEXT_FIELDS :: "string list" where
  "RECEIPT_TEXT_FIELDS =
     [''approval_type'', ''approval_id'', ''change_type'', ''before_sha256'', ''after_sha256'', ''actor_id'', ''identity_source'',
      ''authorized_scope'', ''issued_at'', ''expires_at'', ''nonce'', ''signature'']"

text \<open>The window of a receipt, and whether an instant lies in it.\<close>

definition check_receipt_window :: "pydict \<Rightarrow> int \<Rightarrow> (authority_error, unit) res" where
  "check_receipt_window receipt now =
     rbind (parse_utc_timestamp (dget receipt ''issued_at'') ''operator-approval-issued-at'') (\<lambda>issued_at.
     rbind (parse_utc_timestamp (dget receipt ''expires_at'') ''operator-approval-expires-at'') (\<lambda>expires_at.
     rbind (ensure (issued_at < expires_at) (AuthorityProvenanceError ''operator-approval-expiry-window-invalid'')) (\<lambda>_.
     rbind (ensure (issued_at \<le> now) (AuthorityProvenanceError ''operator-approval-not-yet-valid'')) (\<lambda>_.
     ensure (now < expires_at) (AuthorityProvenanceError ''operator-approval-expired'')))))"

definition approved_artifact_sha256 :: "pydict \<Rightarrow> (authority_error, string) res" where
  "approved_artifact_sha256 artifact =
     (case canonical_authority_sha256 (PDict artifact) of
        Inl _ \<Rightarrow> Inl (AuthorityProvenanceError ''operator-approval-artifact-invalid'') | Inr sha256 \<Rightarrow> Inr sha256)"

definition verify_operator_approval ::
    "pyval \<Rightarrow> nat list \<Rightarrow> string \<Rightarrow> string \<Rightarrow> string \<Rightarrow> pydict \<Rightarrow> pydict \<Rightarrow> pyval list \<Rightarrow> int
       \<Rightarrow> (authority_error, verified_operator_approval) res" where
  "verify_operator_approval receipt verification_key expected_actor_id expected_identity_source expected_change_type
       before_artifact after_artifact seen_nonces now =
     rbind (canonical_json_object receipt ''operator-approval-receipt'') (\<lambda>payload.
     rbind (ensure (set (dkeys payload) = set OPERATOR_APPROVAL_FIELDS) (AuthorityProvenanceError ''operator-approval-fields-invalid'')) (\<lambda>_.
     rbind (ensure (verification_key \<noteq> []) (AuthorityProvenanceError ''operator-approval-verification-key-invalid'')) (\<lambda>_.
     let body = dpop payload ''signature'' in
     rbind (operator_approval_signature body verification_key) (\<lambda>expected_signature.
     rbind (compare_digest (dget payload ''signature'') expected_signature) (\<lambda>genuine.
     rbind (ensure genuine (AuthorityProvenanceError ''operator-approval-signature-invalid'')) (\<lambda>_.
     rbind (ensure (dget payload ''approval_type'' = PStr OPERATOR_APPROVAL_TYPE) (AuthorityProvenanceError ''operator-approval-type-invalid'')) (\<lambda>_.
     rbind (ensure (dget payload ''version'' = PInt 1) (AuthorityProvenanceError ''operator-approval-version-invalid'')) (\<lambda>_.
     rbind (ensure (expected_change_type \<in> set OPERATOR_REQUIRED_CHANGE_TYPES)
       (AuthorityProvenanceError ''operator-approval-change-type-invalid'')) (\<lambda>_.
     rbind (ensure (dget payload ''change_type'' = PStr expected_change_type)
       (AuthorityProvenanceError ''operator-approval-change-type-mismatch'')) (\<lambda>_.
     rbind (ensure (dget payload ''actor_id'' = PStr expected_actor_id) (AuthorityProvenanceError ''operator-approval-actor-mismatch'')) (\<lambda>_.
     rbind (ensure (dget payload ''identity_source'' = PStr expected_identity_source)
       (AuthorityProvenanceError ''operator-approval-identity-source-mismatch'')) (\<lambda>_.
     rbind (mapM (\<lambda>field. ensure (nonempty_text (dget payload field))
         (AuthorityProvenanceError (''operator-approval-'' @ dashed field @ ''-invalid''))) RECEIPT_TEXT_FIELDS) (\<lambda>_.
     rbind (ensure (dget payload ''nonce'' \<notin> set seen_nonces) (AuthorityProvenanceError ''operator-approval-replayed'')) (\<lambda>_.
     rbind (approved_artifact_sha256 before_artifact) (\<lambda>before_sha256.
     rbind (approved_artifact_sha256 after_artifact) (\<lambda>after_sha256.
     rbind (ensure (dget payload ''before_sha256'' = PStr before_sha256)
       (AuthorityProvenanceError ''operator-approval-before-sha256-mismatch'')) (\<lambda>_.
     rbind (ensure (dget payload ''after_sha256'' = PStr after_sha256)
       (AuthorityProvenanceError ''operator-approval-after-sha256-mismatch'')) (\<lambda>_.
     rbind (check_receipt_window payload now) (\<lambda>_.
     rbind (require_scope (dget payload ''authorized_scope'') ''operator-approval-scope'') (\<lambda>scope.
     rbind (ensure (the (AUTHORIZED_SCOPE_RANK ''complete-task'') \<le> the (AUTHORIZED_SCOPE_RANK scope))
       (AuthorityProvenanceError ''operator-approval-scope-insufficient'')) (\<lambda>_.
     rbind (ensure (dget payload ''parent_receipt_sha256'' = PNone \<or> is_sha256 (dget payload ''parent_receipt_sha256''))
       (AuthorityProvenanceError ''operator-approval-parent-receipt-invalid'')) (\<lambda>_.
     rbind (canonical_authority_sha256 (PDict body)) (\<lambda>source_hash.
     rbind (canonical_authority_sha256 (PDict payload)) (\<lambda>evidence_hash.
     rbind (make_authority ''operator-directive'' (the_str (dget payload ''approval_id'')) source_hash expected_actor_id ''operator''
         expected_identity_source scope (dget payload ''parent_receipt_sha256'') ''hmac-sha256-protected-change-v1'' evidence_hash) (\<lambda>authority.
     VerifiedOperatorApproval payload authority)))))))))))))))))))))))))"

text \<open>\<^verbatim>\<open>str(exc)\<close> of the two errors of the interpreter is left open: one text each.\<close>

definition error_text :: "authority_error \<Rightarrow> string" where
  "error_text e = (case e of AuthorityProvenanceError message \<Rightarrow> message | PyTypeError \<Rightarrow> ''type-error'' | PyValueError \<Rightarrow> ''value-error'')"

definition validate_operator_approval_receipt ::
    "pyval \<Rightarrow> nat list \<Rightarrow> string \<Rightarrow> string \<Rightarrow> string \<Rightarrow> pydict \<Rightarrow> pydict \<Rightarrow> clock_value \<Rightarrow> string list" where
  "validate_operator_approval_receipt receipt verification_key expected_actor_id expected_identity_source expected_change_type
       before_artifact after_artifact now =
     (case rbind (current_time now) (verify_operator_approval receipt verification_key expected_actor_id
         expected_identity_source expected_change_type before_artifact after_artifact []) of
        Inr _ \<Rightarrow> [] | Inl e \<Rightarrow> [error_text e])"

end
