(* ===== verification/ReplayStore.thy ===== *)
theory ReplayStore
  imports OperatorApproval
begin

text \<open>
  \<^verbatim>\<open>scripts/cwo_core/native_authority.py\<close>, fourth part: the replay store of consumed approvals and
  \<^verbatim>\<open>OperatorApprovalVerifier\<close>.  A file is absent, refused by one of the checks on it (with the
  message of that check), or holds a JSON value.
\<close>

datatype replay_file = Absent | Refused string | Holds pyval

datatype replay_write = Persisted | PersistFailed string | PersistedThenFailed string

record replay_env =
  lock_refused :: "string option"
  verifier_clock :: clock_value
  replay_write_result :: replay_write

section \<open>The stored value\<close>

definition entry_sha256 :: "pydict \<Rightarrow> string" where
  "entry_sha256 entry = the_str (dget entry ''receipt_sha256'')"

definition replay_store_body :: "pydict list \<Rightarrow> pydict" where
  "replay_store_body entries =
     [(''store_type'', PStr OPERATOR_APPROVAL_REPLAY_STORE_TYPE), (''version'', PInt 2),
      (''entries'', PList (map PDict (sort_key entry_sha256 entries)))]"

definition derive_replay_store_key :: "nat list \<Rightarrow> nat list" where
  "derive_replay_store_key verification_key = hmac_digest verification_key REPLAY_STORE_KEY_CONTEXT"

definition replay_store_hmac :: "pydict \<Rightarrow> nat list \<Rightarrow> (authority_error, string) res" where
  "replay_store_hmac body replay_key =
     rbind (ordinary_json (PDict body) ''operator-approval-replay-store-body'') (\<lambda>canonical.
     Inr (hmac_hex replay_key (utf8 (json_text False canonical))))"

definition sealed_replay_store :: "pydict list \<Rightarrow> nat list \<Rightarrow> (authority_error, pydict) res" where
  "sealed_replay_store entries replay_key =
     (let result = replay_store_body entries
      in rbind (replay_store_hmac result replay_key) (\<lambda>hmac. Inr (dset result ''store_hmac_sha256'' (PStr hmac))))"

text \<open>The entries seen so far: their nonces, approval ids, receipt digests, and the entries.\<close>

record replay_seen =
  seen_nonces :: "pyval list"
  seen_ids :: "pyval list"
  seen_hashes :: "pyval list"
  seen_entries :: "pydict list"

definition check_replay_entry :: "replay_seen \<Rightarrow> pyval \<Rightarrow> (authority_error, replay_seen) res" where
  "check_replay_entry seen value =
     (let entry = the_dict value; invalid = AuthorityProvenanceError ''operator-approval-replay-store-entry-invalid'' in
      rbind (ensure (is_dict value \<and> set (dkeys entry) = set OPERATOR_APPROVAL_REPLAY_ENTRY_FIELDS) invalid) (\<lambda>_.
      rbind (ensure (list_all (\<lambda>field. nonempty_text (dget entry field)) (dkeys entry)) invalid) (\<lambda>_.
      rbind (ensure (in_strs (dget entry ''change_type'') OPERATOR_REQUIRED_CHANGE_TYPES) invalid) (\<lambda>_.
      rbind (ensure (list_all (\<lambda>field. is_sha256 (dget entry field)) [''receipt_sha256'', ''before_sha256'', ''after_sha256'']) invalid) (\<lambda>_.
      rbind (ensure (dget entry ''nonce'' \<notin> set (seen_nonces seen) \<and> dget entry ''approval_id'' \<notin> set (seen_ids seen)
          \<and> dget entry ''receipt_sha256'' \<notin> set (seen_hashes seen))
        (AuthorityProvenanceError ''operator-approval-replay-store-duplicate-binding'')) (\<lambda>_.
      Inr \<lparr>seen_nonces = dget entry ''nonce'' # seen_nonces seen, seen_ids = dget entry ''approval_id'' # seen_ids seen,
        seen_hashes = dget entry ''receipt_sha256'' # seen_hashes seen, seen_entries = seen_entries seen @ [entry]\<rparr>))))))"

definition nothing_seen :: replay_seen where
  "nothing_seen = \<lparr>seen_nonces = [], seen_ids = [], seen_hashes = [], seen_entries = []\<rparr>"

definition validate_replay_store :: "pyval \<Rightarrow> nat list \<Rightarrow> (authority_error, pydict) res" where
  "validate_replay_store value replay_key =
     rbind (canonical_json_object value ''operator-approval-replay-store'') (\<lambda>payload.
     rbind (ensure (set (dkeys payload) = set OPERATOR_APPROVAL_REPLAY_STORE_FIELDS)
       (AuthorityProvenanceError ''operator-approval-replay-store-fields-invalid'')) (\<lambda>_.
     rbind (ensure (dget payload ''store_type'' = PStr OPERATOR_APPROVAL_REPLAY_STORE_TYPE)
       (AuthorityProvenanceError ''operator-approval-replay-store-type-invalid'')) (\<lambda>_.
     rbind (ensure (dget payload ''version'' = PInt 2) (AuthorityProvenanceError ''operator-approval-replay-store-version-invalid'')) (\<lambda>_.
     rbind (ensure (is_list (dget payload ''entries'')) (AuthorityProvenanceError ''operator-approval-replay-store-entries-invalid'')) (\<lambda>_.
     rbind (foldM check_replay_entry nothing_seen (the_list (dget payload ''entries''))) (\<lambda>seen.
     rbind (sealed_replay_store (seen_entries seen) replay_key) (\<lambda>expected.
     rbind (compare_digest (dget payload ''store_hmac_sha256'') (the_str (dget expected ''store_hmac_sha256''))) (\<lambda>genuine.
     rbind (ensure genuine (AuthorityProvenanceError ''operator-approval-replay-store-hmac-mismatch'')) (\<lambda>_.
     rbind (ensure (py_eq (PDict payload) (PDict expected)) (AuthorityProvenanceError ''operator-approval-replay-store-noncanonical'')) (\<lambda>_.
     Inr expected))))))))))"

definition read_replay_store :: "replay_file \<Rightarrow> nat list \<Rightarrow> (authority_error, pydict) res" where
  "read_replay_store file replay_key =
     (case file of
        Absent \<Rightarrow> sealed_replay_store [] replay_key
      | Refused message \<Rightarrow> Inl (AuthorityProvenanceError message)
      | Holds value \<Rightarrow> validate_replay_store value replay_key)"

text \<open>Writing checks the payload again; a failure before the replacement leaves the file.\<close>

definition write_replay_store ::
    "replay_env \<Rightarrow> pydict \<Rightarrow> nat list \<Rightarrow> replay_file \<Rightarrow> (authority_error, unit) res \<times> replay_file" where
  "write_replay_store env payload replay_key file =
     (case validate_replay_store (PDict payload) replay_key of
        Inl e \<Rightarrow> (Inl e, file)
      | Inr sealed \<Rightarrow>
          (let written = Holds (sort_keys (PDict sealed)) in
           case replay_write_result env of
             Persisted \<Rightarrow> (Inr (), written)
           | PersistFailed message \<Rightarrow> (Inl (AuthorityProvenanceError message), file)
           | PersistedThenFailed message \<Rightarrow> (Inl (AuthorityProvenanceError message), written)))"

definition store_entries :: "pydict \<Rightarrow> pydict list" where
  "store_entries store = map the_dict (the_list (dget store ''entries''))"

section \<open>The verifier\<close>

record operator_approval_verifier =
  verification_key :: "nat list"
  expected_actor_id :: string
  expected_identity_source :: string

definition OperatorApprovalVerifier :: "nat list \<Rightarrow> string \<Rightarrow> string \<Rightarrow> (authority_error, operator_approval_verifier) res" where
  "OperatorApprovalVerifier key actor_id identity_source =
     rbind (ensure (key \<noteq> []) (AuthorityProvenanceError ''operator-approval-verification-key-invalid'')) (\<lambda>_.
     rbind (ensure (py_strip actor_id \<noteq> [] \<and> py_strip identity_source \<noteq> [])
       (AuthorityProvenanceError ''operator-approval-verifier-identity-invalid'')) (\<lambda>_.
     Inr \<lparr>verification_key = key, expected_actor_id = actor_id, expected_identity_source = identity_source\<rparr>))"

definition replay_key_of :: "operator_approval_verifier \<Rightarrow> nat list" where
  "replay_key_of verifier = derive_replay_store_key (verification_key verifier)"

definition approval_replay_entry :: "verified_operator_approval \<Rightarrow> pydict" where
  "approval_replay_entry approval =
     map (\<lambda>field. (field, PStr (the_str (dget (approval_audit approval) field)))) OPERATOR_APPROVAL_REPLAY_ENTRY_FIELDS"

definition locked_replay_store :: "replay_env \<Rightarrow> replay_file \<Rightarrow> nat list \<Rightarrow> (authority_error, pydict) res" where
  "locked_replay_store env file replay_key =
     (case lock_refused env of Some message \<Rightarrow> Inl (AuthorityProvenanceError message) | None \<Rightarrow> read_replay_store file replay_key)"

definition consumed_nonces :: "operator_approval_verifier \<Rightarrow> replay_env \<Rightarrow> replay_file \<Rightarrow> (authority_error, pyval list) res" where
  "consumed_nonces verifier env file =
     rbind (locked_replay_store env file (replay_key_of verifier)) (\<lambda>store.
     Inr (map (\<lambda>entry. dget entry ''nonce'') (store_entries store)))"

definition validate_assessment :: "protected_change_assessment \<Rightarrow> (authority_error, string list) res" where
  "validate_assessment assessment =
     rbind (ensure (assessed_identity assessment \<noteq> None)
       (AuthorityProvenanceError ''protected-change-assessment-identity-required'')) (\<lambda>_.
     rbind (ensure (uncategorized_paths assessment = [])
       (AuthorityProvenanceError (''protected-change-uncategorized:'' @ py_join '','' (uncategorized_paths assessment)))) (\<lambda>_.
     let changed = required_change_types assessment;
         terminal = filter (\<lambda>c. c \<in> set TERMINAL_PROTECTED_CHANGE_TYPES) changed
     in rbind (ensure (terminal = [])
          (AuthorityProvenanceError (''operator-approval-terminal-change-not-authorizable:'' @ py_join '','' terminal))) (\<lambda>_.
        Inr changed)))"

text \<open>\<^verbatim>\<open>None\<close> or a mapping of receipts.\<close>

definition receipt_object :: "pyval \<Rightarrow> string \<Rightarrow> (authority_error, pydict) res" where
  "receipt_object value label = (if value = PNone then Inr [] else canonical_json_object value label)"

definition prior_nonce_values :: "pyval \<Rightarrow> (authority_error, pyval list) res" where
  "prior_nonce_values prior_nonces =
     (let invalid = AuthorityProvenanceError ''operator-approval-prior-nonces-invalid'' in
      rbind (ensure (\<not> is_str prior_nonces) invalid) (\<lambda>_.
      (case list_of prior_nonces of
         None \<Rightarrow> Inl invalid
       | Some values \<Rightarrow> rbind (ensure (list_all nonempty_text values) invalid) (\<lambda>_. Inr values))))"

record consumption =
  shadow_nonces :: "pyval list"
  shadow_ids :: "pyval list"
  shadow_hashes :: "pyval list"
  minted :: "verified_operator_approval list"

definition consume_receipt ::
    "operator_approval_verifier \<Rightarrow> protected_change_assessment \<Rightarrow> pydict \<Rightarrow> int \<Rightarrow> consumption \<Rightarrow> string
       \<Rightarrow> (authority_error, consumption) res" where
  "consume_receipt verifier assessment receipts now shadow change_type =
     rbind (verify_operator_approval (dget receipts change_type) (verification_key verifier) (expected_actor_id verifier)
         (expected_identity_source verifier) change_type (before_subject assessment) (after_subject assessment)
         (shadow_nonces shadow) now) (\<lambda>approval.
     let entry = approval_replay_entry approval in
     rbind (ensure (dget entry ''approval_id'' \<notin> set (shadow_ids shadow) \<and> dget entry ''receipt_sha256'' \<notin> set (shadow_hashes shadow))
       (AuthorityProvenanceError ''operator-approval-replayed'')) (\<lambda>_.
     Inr \<lparr>shadow_nonces = dget entry ''nonce'' # shadow_nonces shadow, shadow_ids = dget entry ''approval_id'' # shadow_ids shadow,
       shadow_hashes = dget entry ''receipt_sha256'' # shadow_hashes shadow, minted = minted shadow @ [approval]\<rparr>))"

definition mint_approvals ::
    "operator_approval_verifier \<Rightarrow> clock_value \<Rightarrow> protected_change_assessment \<Rightarrow> string list \<Rightarrow> pydict \<Rightarrow> pyval list \<Rightarrow> pydict
       \<Rightarrow> (authority_error, verified_operator_approval list \<times> pydict) res" where
  "mint_approvals verifier clock assessment changed receipts prior_values store =
     (let existing = store_entries store;
          shadow = \<lparr>shadow_nonces = map (\<lambda>e. dget e ''nonce'') existing @ prior_values, shadow_ids = map (\<lambda>e. dget e ''approval_id'') existing,
            shadow_hashes = map (\<lambda>e. dget e ''receipt_sha256'') existing, minted = []\<rparr>
      in rbind (current_time clock) (\<lambda>now.
         rbind (foldM (consume_receipt verifier assessment receipts now) shadow changed) (\<lambda>done_shadow.
         rbind (sealed_replay_store (existing @ map approval_replay_entry (minted done_shadow)) (replay_key_of verifier)) (\<lambda>updated.
         Inr (minted done_shadow, updated)))))"

definition authorize_assessment ::
    "operator_approval_verifier \<Rightarrow> replay_env \<Rightarrow> protected_change_assessment \<Rightarrow> pyval \<Rightarrow> pyval \<Rightarrow> replay_file
       \<Rightarrow> (authority_error, verified_operator_approval list) res \<times> replay_file" where
  "authorize_assessment verifier env assessment receipts prior_nonces file =
     (case rbind (validate_assessment assessment) (\<lambda>changed.
           rbind (receipt_object receipts ''operator-approval-receipts'') (\<lambda>payload. Inr (changed, payload))) of
        Inl e \<Rightarrow> (Inl e, file)
      | Inr (changed, payload) \<Rightarrow>
          if changed = []
          then (if payload \<noteq> [] then Inl (AuthorityProvenanceError ''operator-approval-unexpected'') else Inr [], file)
          else if dkeys payload \<noteq> changed
          then (Inl (AuthorityProvenanceError (''operator-approval-required-for:'' @ py_join '','' changed)), file)
          else (case rbind (prior_nonce_values prior_nonces) (\<lambda>prior_values.
                rbind (locked_replay_store env file (replay_key_of verifier)) (\<lambda>store.
                mint_approvals verifier (verifier_clock env) assessment changed payload prior_values store)) of
              Inl e \<Rightarrow> (Inl e, file)
            | Inr (approvals, updated) \<Rightarrow>
                returning (write_replay_store env updated (replay_key_of verifier) file) approvals))"

definition check_audit ::
    "operator_approval_verifier \<Rightarrow> protected_change_assessment \<Rightarrow> pydict \<Rightarrow> pydict option \<Rightarrow> pydict \<Rightarrow> string
       \<Rightarrow> (authority_error, unit) res" where
  "check_audit verifier assessment audits receipts store change_type =
     rbind (canonical_json_object (dget audits change_type) ''operator-approval-audit'') (\<lambda>audit.
     rbind (validate_operator_approval_audit (PDict audit)) (\<lambda>audit_errors.
     rbind (ensure (audit_errors = [])
       (AuthorityProvenanceError (''operator-approval-audit-invalid:'' @ py_join '';'' audit_errors))) (\<lambda>_.
     rbind (ensure (dget audit ''change_type'' = PStr change_type)
       (AuthorityProvenanceError ''operator-approval-audit-change-type-mismatch'')) (\<lambda>_.
     let signed = dget audit ''signed_receipt'' in
     rbind (case receipts of
         None \<Rightarrow> Inr ()
       | Some payload \<Rightarrow>
           rbind (canonical_authority_sha256 (dget payload change_type)) (\<lambda>supplied.
           rbind (canonical_authority_sha256 signed) (\<lambda>stored.
           ensure (supplied = stored) (AuthorityProvenanceError ''operator-approval-audit-receipt-mismatch'')))) (\<lambda>_.
     rbind (parse_utc_timestamp (dget (the_dict signed) ''issued_at'') ''operator-approval-issued-at'') (\<lambda>verification_time.
     rbind (verify_operator_approval signed (verification_key verifier) (expected_actor_id verifier) (expected_identity_source verifier)
         change_type (before_subject assessment) (after_subject assessment) [] verification_time) (\<lambda>approval.
     rbind (canonical_authority_sha256 (PDict (approval_audit approval))) (\<lambda>expected_audit.
     rbind (canonical_authority_sha256 (PDict audit)) (\<lambda>observed_audit.
     rbind (ensure (expected_audit = observed_audit) (AuthorityProvenanceError ''operator-approval-audit-mismatch'')) (\<lambda>_.
     let expected_entry = approval_replay_entry approval in
     ensure (\<exists>entry\<in>set (store_entries store). dget entry ''receipt_sha256'' = dget expected_entry ''receipt_sha256''
         \<and> py_eq (PDict entry) (PDict expected_entry))
       (AuthorityProvenanceError ''operator-approval-audit-not-durably-consumed'')))))))))))"

definition validate_assessment_audits ::
    "operator_approval_verifier \<Rightarrow> replay_env \<Rightarrow> protected_change_assessment \<Rightarrow> pyval \<Rightarrow> pyval \<Rightarrow> replay_file
       \<Rightarrow> (authority_error, unit) res" where
  "validate_assessment_audits verifier env assessment audits receipts file =
     rbind (validate_assessment assessment) (\<lambda>changed.
     rbind (receipt_object audits ''operator-approval-audits'') (\<lambda>audit_payload.
     rbind (if receipts = PNone then Inr None
         else rbind (canonical_json_object receipts ''operator-approval-receipts'') (\<lambda>r. Inr (Some r))) (\<lambda>receipt_payload.
     rbind (ensure (dkeys audit_payload = changed)
       (AuthorityProvenanceError (''operator-approval-audit-required-for:'' @ py_join '','' changed))) (\<lambda>_.
     rbind (ensure (case receipt_payload of None \<Rightarrow> True | Some r \<Rightarrow> dkeys r = changed)
       (AuthorityProvenanceError (''operator-approval-required-for:'' @ py_join '','' changed))) (\<lambda>_.
     rbind (locked_replay_store env file (replay_key_of verifier)) (\<lambda>store.
     rbind (mapM (check_audit verifier assessment audit_payload receipt_payload store) changed) (\<lambda>_.
     Inr ())))))))"

text \<open>\<^verbatim>\<open>None\<close> stands for an object that is not a verified approval.\<close>

definition check_exact_approval ::
    "string \<Rightarrow> string \<Rightarrow> verified_operator_approval option \<Rightarrow> string \<Rightarrow> (authority_error, verified_operator_approval) res" where
  "check_exact_approval expected_before expected_after supplied expected_category =
     (case supplied of
        None \<Rightarrow> Inl (AuthorityProvenanceError ''operator-approval-result-type-invalid'')
      | Some approval \<Rightarrow>
          (let audit = approval_audit approval; authority_payload = authority_payload (approval_authority approval) in
           rbind (validate_operator_approval_audit (PDict audit)) (\<lambda>errors.
           rbind (ensure (errors = []) (AuthorityProvenanceError (''operator-approval-result-audit-invalid:'' @ py_join '';'' errors))) (\<lambda>_.
           rbind (ensure (dget audit ''change_type'' = PStr expected_category \<and> dget audit ''before_sha256'' = PStr expected_before
               \<and> dget audit ''after_sha256'' = PStr expected_after
               \<and> py_eq (dget audit ''authority_provenance'') (PDict authority_payload))
             (AuthorityProvenanceError ''operator-approval-result-binding-invalid'')) (\<lambda>_.
           Inr approval)))))"

definition require_exact_operator_approval_results ::
    "verified_operator_approval option list \<Rightarrow> protected_change_assessment \<Rightarrow> (authority_error, verified_operator_approval list) res" where
  "require_exact_operator_approval_results approvals assessment =
     (let expected_categories = required_change_types assessment in
      rbind (ensure (length approvals = length expected_categories)
        (AuthorityProvenanceError ''operator-approval-result-set-invalid'')) (\<lambda>_.
      rbind (canonical_authority_sha256 (PDict (before_subject assessment))) (\<lambda>expected_before.
      rbind (canonical_authority_sha256 (PDict (after_subject assessment))) (\<lambda>expected_after.
      mapM (\<lambda>(approval, category). check_exact_approval expected_before expected_after approval category)
        (zip approvals expected_categories)))))"

end
