(* ===== verification/SignedReceipts.thy ===== *)
theory SignedReceipts
  imports OperatorApproval "AuthorityProvenance"
begin

text \<open>
  A receipt as \<open>sign_operator_approval_receipt\<close> builds it is accepted by the verification, inside its window:
  the two sides of the protocol agree on the fields, the digests and the signed bytes.
\<close>

lemma ascii_hex64: "hex64 s \<Longrightarrow> ascii_text s"
  by (force simp: hex64_def ascii_text_def is_hex_char_def is_digit_def list_all_iff)

lemma compare_digest_own: "ascii_text s \<Longrightarrow> compare_digest (PStr s) s = Inr True"
  by (simp add: compare_digest_def)

definition receipt_body ::
    "string \<Rightarrow> string \<Rightarrow> string \<Rightarrow> string \<Rightarrow> string \<Rightarrow> string \<Rightarrow> string \<Rightarrow> pyval \<Rightarrow> string \<Rightarrow> string \<Rightarrow> string \<Rightarrow> pydict" where
  "receipt_body approval_id change_type before_sha256 after_sha256 actor_id identity_source scope parent issued_at expires_at nonce =
     [(''approval_type'', PStr OPERATOR_APPROVAL_TYPE), (''version'', PInt 1), (''approval_id'', PStr approval_id),
      (''change_type'', PStr change_type), (''before_sha256'', PStr before_sha256), (''after_sha256'', PStr after_sha256),
      (''actor_id'', PStr actor_id), (''identity_source'', PStr identity_source), (''authorized_scope'', PStr scope),
      (''parent_receipt_sha256'', parent), (''issued_at'', PStr issued_at), (''expires_at'', PStr expires_at), (''nonce'', PStr nonce)]"

definition signed_receipt :: "pydict \<Rightarrow> nat list \<Rightarrow> pydict" where
  "signed_receipt body key = dset body ''signature'' (PStr (hmac_hex key (utf8 (json_text False (PDict body)))))"

text \<open>What a receipt needs to be accepted.\<close>

definition acceptable_body :: "pydict \<Rightarrow> string \<Rightarrow> string \<Rightarrow> string \<Rightarrow> pydict \<Rightarrow> pydict \<Rightarrow> pyval list \<Rightarrow> int \<Rightarrow> bool" where
  "acceptable_body body actor_id identity_source change_type before_artifact after_artifact nonces now \<longleftrightarrow>
     finite_json (PDict before_artifact) \<and> finite_json (PDict after_artifact) \<and> change_type \<in> set OPERATOR_REQUIRED_CHANGE_TYPES
     \<and> (\<exists>approval_id scope parent issued_at expires_at nonce issued expires.
          body = receipt_body approval_id change_type (text_sha256 (json_text False (PDict before_artifact)))
            (text_sha256 (json_text False (PDict after_artifact))) actor_id identity_source scope parent issued_at expires_at nonce
        \<and> (\<forall>s\<in>{approval_id, actor_id, identity_source, issued_at, expires_at, nonce}. py_strip s \<noteq> [])
        \<and> scope \<in> {''complete-task'', ''publication''} \<and> (parent = PNone \<or> is_sha256 parent) \<and> PStr nonce \<notin> set nonces
        \<and> parse_utc_timestamp (PStr issued_at) ''operator-approval-issued-at'' = Inr issued
        \<and> parse_utc_timestamp (PStr expires_at) ''operator-approval-expires-at'' = Inr expires
        \<and> issued \<le> now \<and> now < expires)"

lemma acceptable_bodyI:
  assumes "finite_json (PDict before_artifact)" "finite_json (PDict after_artifact)" "change_type \<in> set OPERATOR_REQUIRED_CHANGE_TYPES"
    and "\<forall>s\<in>{approval_id, actor_id, identity_source, issued_at, expires_at, nonce}. py_strip s \<noteq> []"
    and "scope \<in> {''complete-task'', ''publication''}" "parent = PNone \<or> is_sha256 parent" "PStr nonce \<notin> set nonces"
    and "parse_utc_timestamp (PStr issued_at) ''operator-approval-issued-at'' = Inr t0"
    and "parse_utc_timestamp (PStr expires_at) ''operator-approval-expires-at'' = Inr t1" and "t0 \<le> now" "now < t1"
  shows "acceptable_body (receipt_body approval_id change_type (text_sha256 (json_text False (PDict before_artifact)))
      (text_sha256 (json_text False (PDict after_artifact))) actor_id identity_source scope parent issued_at expires_at nonce)
    actor_id identity_source change_type before_artifact after_artifact nonces now"
  unfolding acceptable_body_def using assms by blast

lemma acceptable_authority:
  assumes "py_strip approval_id \<noteq> []" "py_strip actor_id \<noteq> []" "py_strip identity_source \<noteq> []"
    and "scope \<in> {''complete-task'', ''publication''}" and "parent = PNone \<or> is_sha256 parent"
    and "hex64 source_sha256" "hex64 evidence_sha256"
  shows "\<exists>a. make_authority ''operator-directive'' approval_id source_sha256 actor_id ''operator'' identity_source scope parent
      ''hmac-sha256-protected-change-v1'' evidence_sha256 = Inr a"
proof -
  let ?p = "[(''version'', PInt 1), (''source_type'', PStr ''operator-directive''), (''source_id'', PStr approval_id),
    (''source_sha256'', PStr source_sha256), (''actor_id'', PStr actor_id), (''actor_role'', PStr ''operator''),
    (''identity_source'', PStr identity_source), (''authorized_scope'', PStr scope), (''parent_receipt_sha256'', parent),
    (''verification'', PDict [(''method'', PStr ''hmac-sha256-protected-change-v1''), (''evidence_sha256'', PStr evidence_sha256)])]"
  let ?sealed = "dset ?p ''authority_sha256'' (PStr (text_sha256 (json_text False (PDict ?p))))"
  have known: "py_strip ''hmac-sha256-protected-change-v1'' \<noteq> []" by code_simp
  have pop: "dpop ?p ''authority_sha256'' = ?p" by (simp add: dpop_def)
  have parent: "finite_json parent" using assms(5) by (auto simp: is_sha256_iff)
  obtain rank where r: "AUTHORIZED_SCOPE_RANK scope = Some rank" "rank \<le> 4" using assms(4) scope_ranks by auto
  have "provenance_ok ?sealed ''operator-directive'' ''operator'' scope rank"
    using assms known r parent
    by (simp add: provenance_ok_def dkeys_def AUTHORITY_PROVENANCE_FIELDS_def AUTHORITY_SOURCE_TYPES_def SOURCE_ROLE_BINDINGS_def
        ACTOR_SCOPE_CAPS_def scope_ranks nonempty_text_def verification_errors_def VERIFICATION_FIELDS_def dpop_def insert_commute
        OPERATOR_VERIFICATION_METHODS_def)
  then have "validate_authority_provenance (PDict ?sealed) = Inr []" using provenance_accepted by blast
  moreover have "finite_json (PDict ?p)" using parent by simp
  ultimately have "VerifiedAuthority ?p = Inr \<lparr>authority_payload = ?sealed\<rparr>"
    unfolding VerifiedAuthority_Inr pop verified_authority.simps by blast
  then show ?thesis by (auto simp: make_authority_def)
qed

lemma changed_pointers_same: "changed_pointers (Some (PStr s)) (Some (PStr s)) = []" "changed_pointers (Some (PInt i)) (Some (PInt i)) = []"
  by (simp_all add: changed_pointers_def json_changed_pointers.simps)

lemma parse_utc_label: "parse_utc_timestamp v label = Inr t \<Longrightarrow> parse_utc_timestamp v label' = Inr t"
  by (cases "last (the_str v) = CHR ''Z''") (auto simp: parse_utc_timestamp_def Let_def rbind_eq_Inr split: option.splits)

lemma signed_receipt_fields: "set (dkeys (signed_receipt (receipt_body i ct b a ac ids sc p iss ex n) key)) = set OPERATOR_APPROVAL_FIELDS"
  by (auto simp: signed_receipt_def receipt_body_def OPERATOR_APPROVAL_FIELDS_def dkeys_def)

definition audit_of :: "pydict \<Rightarrow> verified_authority \<Rightarrow> pydict" where
  "audit_of receipt authority =
     map (\<lambda>field. (field, dget receipt field)) [''approval_type'', ''version'', ''approval_id'', ''change_type'', ''before_sha256'',
       ''after_sha256'', ''issued_at'', ''expires_at'', ''nonce'']
     @ [(''receipt_sha256'', PStr (text_sha256 (json_text False (PDict receipt)))), (''signed_receipt'', PDict receipt),
        (''authority_provenance'', PDict (authority_payload authority))]"

lemma finite_authority: "validate_authority_provenance (PDict p) = Inr [] \<Longrightarrow> finite_json (PDict p)"
  using provenance_accepted provenance_ok_def by blast

lemma acceptable_audit:
  assumes receipt: "receipt = signed_receipt (receipt_body approval_id change_type before_sha256 after_sha256 actor_id identity_source scope
      parent issued_at expires_at nonce) key"
    and texts: "py_strip approval_id \<noteq> []" "py_strip issued_at \<noteq> []" "py_strip expires_at \<noteq> []" "py_strip nonce \<noteq> []"
    and shas: "hex64 before_sha256" "hex64 after_sha256"
    and window: "parse_utc_timestamp (PStr issued_at) label = Inr t0" "parse_utc_timestamp (PStr expires_at) label' = Inr t1" "t0 < t1"
    and change: "change_type \<in> set OPERATOR_REQUIRED_CHANGE_TYPES"
    and parent: "finite_json parent"
    and authority: "validate_authority_provenance (PDict (authority_payload authority)) = Inr []"
  shows "VerifiedOperatorApproval receipt authority = Inr \<lparr>approval_audit = audit_of receipt authority, approval_authority = authority\<rparr>"
proof -
  note built = receipt signed_receipt_def receipt_body_def
  have finite: "finite_json (PDict receipt)" using parent by (simp add: built)
  then have sha: "canonical_authority_sha256 (PDict receipt) = Inr (text_sha256 (json_text False (PDict receipt)))"
    using canonical_authority_finite by blast
  have fields: "map_of receipt ''approval_type'' = Some (PStr OPERATOR_APPROVAL_TYPE)" "map_of receipt ''version'' = Some (PInt 1)"
    "map_of receipt ''approval_id'' = Some (PStr approval_id)" "map_of receipt ''change_type'' = Some (PStr change_type)"
    "map_of receipt ''before_sha256'' = Some (PStr before_sha256)" "map_of receipt ''after_sha256'' = Some (PStr after_sha256)"
    "map_of receipt ''issued_at'' = Some (PStr issued_at)" "map_of receipt ''expires_at'' = Some (PStr expires_at)"
    "map_of receipt ''nonce'' = Some (PStr nonce)" by (simp_all add: built)
  then have gets: "dget receipt f = the (map_of receipt f)" if "map_of receipt f \<noteq> None" for f
    using that by (auto simp: dget_def dget_or_def)
  have keys: "set (dkeys receipt) = set OPERATOR_APPROVAL_FIELDS" unfolding receipt by (rule signed_receipt_fields)
  let ?audit = "audit_of receipt authority"
  have audit_finite: "finite_json (PDict ?audit)"
    using finite finite_authority [OF authority] by (simp add: audit_of_def gets fields)
  have "window_errors ?audit = []"
    using parse_utc_label [OF window(1)] parse_utc_label [OF window(2)] window(3)
    by (simp add: window_errors_def audit_of_def gets fields)
  moreover have "audit_receipt_errors ?audit = Inr []"
    using sha changed_pointers_same keys
    by (simp add: audit_receipt_errors_def audit_of_def gets fields)
  moreover have "set (dkeys ?audit) = set OPERATOR_APPROVAL_AUDIT_FIELDS"
    by (auto simp: audit_of_def dkeys_def OPERATOR_APPROVAL_AUDIT_FIELDS_def)
  moreover have "canonical_json_object (PDict ?audit) label = Inr ?audit" for label
    using audit_finite canonical_json_object_finite by blast
  ultimately have "validate_operator_approval_audit (PDict ?audit) = Inr []"
    using texts shas change authority
    by (simp add: validate_operator_approval_audit_def audit_of_def gets fields nonempty_text_def in_strs_iff)
  then show ?thesis
    using sha by (simp add: VerifiedOperatorApproval_def audit_of_def Let_def)
qed

lemma hex_text: "hex64 s \<Longrightarrow> py_strip s \<noteq> []"
  using strip_hex by (auto simp: hex64_def)

lemma fixed_texts: "py_strip OPERATOR_APPROVAL_TYPE \<noteq> []" "py_strip ''complete-task'' \<noteq> []" "py_strip ''publication'' \<noteq> []"
  "\<forall>c\<in>set OPERATOR_REQUIRED_CHANGE_TYPES. py_strip c \<noteq> []"
  by code_simp+

lemma canonical_sha: "finite_json v \<Longrightarrow> canonical_authority_sha256 v = Inr (text_sha256 (json_text False v))"
  using canonical_authority_finite by blast

lemma mapM_ensure_all: "\<forall>x\<in>set xs. P x \<Longrightarrow> mapM (\<lambda>x. ensure (P x) (e x)) xs = Inr (map (\<lambda>_. ()) xs)"
  by (induction xs) auto

lemma signed_body_facts:
  assumes "receipt = signed_receipt (receipt_body approval_id change_type before_sha256 after_sha256 actor_id identity_source scope
      parent issued_at expires_at nonce) key" and "finite_json parent"
  shows "finite_json (PDict receipt)"
    and "dpop receipt ''signature'' = receipt_body approval_id change_type before_sha256 after_sha256 actor_id identity_source scope
      parent issued_at expires_at nonce"
    and "dget receipt ''signature'' = PStr (hmac_hex key (utf8 (json_text False (PDict (receipt_body approval_id change_type before_sha256
      after_sha256 actor_id identity_source scope parent issued_at expires_at nonce)))))"
    and "finite_json (PDict (receipt_body approval_id change_type before_sha256 after_sha256 actor_id identity_source scope
      parent issued_at expires_at nonce))"
  using assms(2) by (simp_all add: assms(1) signed_receipt_def receipt_body_def dpop_def)

lemma acceptable_receipt_verifies:
  assumes body: "acceptable_body body actor_id identity_source change_type before_artifact after_artifact nonces now"
    and key: "key \<noteq> []"
  shows "\<exists>authority. verify_operator_approval (PDict (signed_receipt body key)) key actor_id identity_source change_type
      before_artifact after_artifact nonces now
    = Inr \<lparr>approval_audit = audit_of (signed_receipt body key) authority, approval_authority = authority\<rparr>"
proof -
  let ?sha = "\<lambda>v. text_sha256 (json_text False (PDict v))"
  from body obtain approval_id scope parent issued_at expires_at nonce t0 t1 where
      b: "body = receipt_body approval_id change_type (?sha before_artifact) (?sha after_artifact) actor_id identity_source scope parent
        issued_at expires_at nonce"
    and texts: "\<forall>s\<in>{approval_id, actor_id, identity_source, issued_at, expires_at, nonce}. py_strip s \<noteq> []"
    and scope: "scope \<in> {''complete-task'', ''publication''}" and parent: "parent = PNone \<or> is_sha256 parent"
    and fresh: "PStr nonce \<notin> set nonces"
    and window: "parse_utc_timestamp (PStr issued_at) ''operator-approval-issued-at'' = Inr t0"
      "parse_utc_timestamp (PStr expires_at) ''operator-approval-expires-at'' = Inr t1" "t0 \<le> now" "now < t1"
    and finite: "finite_json (PDict before_artifact)" "finite_json (PDict after_artifact)"
    and change: "change_type \<in> set OPERATOR_REQUIRED_CHANGE_TYPES"
    unfolding acceptable_body_def by blast
  define receipt where "receipt = signed_receipt body key"
  have parent_finite: "finite_json parent" using parent by (auto simp: is_sha256_iff)
  note receipt = receipt_def [unfolded b]
  note facts = signed_body_facts [OF receipt parent_finite]
  have shas: "approved_artifact_sha256 before_artifact = Inr (?sha before_artifact)" "approved_artifact_sha256 after_artifact = Inr (?sha after_artifact)"
    using canonical_sha [OF finite(1)] canonical_sha [OF finite(2)] by (simp_all add: approved_artifact_sha256_def)
  have object: "canonical_json_object (PDict receipt) label = Inr receipt" for label
    using facts(1) canonical_json_object_finite by blast
  have keys: "set (dkeys receipt) = set OPERATOR_APPROVAL_FIELDS" unfolding receipt by (rule signed_receipt_fields)
  let ?code = "hmac_hex key (utf8 (json_text False (PDict body)))"
  have signed: "operator_approval_signature (dpop receipt ''signature'') key = Inr ?code"
    unfolding facts(2) operator_approval_signature_def signed_text_def b using facts(4) by simp
  have pop: "dpop receipt ''signature'' = body" unfolding b by (rule facts(2))
  have body_finite: "finite_json (PDict body)" unfolding b by (rule facts(4))
  have sig: "dget receipt ''signature'' = PStr ?code" unfolding b by (rule facts(3))
  have gets: "dget receipt ''approval_type'' = PStr OPERATOR_APPROVAL_TYPE" "dget receipt ''version'' = PInt 1"
    "dget receipt ''approval_id'' = PStr approval_id" "dget receipt ''change_type'' = PStr change_type"
    "dget receipt ''before_sha256'' = PStr (?sha before_artifact)" "dget receipt ''after_sha256'' = PStr (?sha after_artifact)"
    "dget receipt ''actor_id'' = PStr actor_id" "dget receipt ''identity_source'' = PStr identity_source"
    "dget receipt ''authorized_scope'' = PStr scope" "dget receipt ''parent_receipt_sha256'' = parent"
    "dget receipt ''issued_at'' = PStr issued_at" "dget receipt ''expires_at'' = PStr expires_at" "dget receipt ''nonce'' = PStr nonce"
    by (simp_all add: receipt signed_receipt_def receipt_body_def)
  have "\<forall>f\<in>set RECEIPT_TEXT_FIELDS. nonempty_text (dget receipt f)"
    using texts scope change fixed_texts hex_text [OF hex64_hmac_hex, of key "utf8 (json_text False (PDict body))"]
      hex_text [OF hex64_text_sha256, of "json_text False (PDict before_artifact)"]
      hex_text [OF hex64_text_sha256, of "json_text False (PDict after_artifact)"]
    by (auto simp: RECEIPT_TEXT_FIELDS_def gets sig nonempty_text_def simp del: json_text.simps)
  note texts_ok = mapM_ensure_all [OF this]
  have window_ok: "check_receipt_window receipt now = Inr ()"
    using window by (simp add: check_receipt_window_def gets)
  obtain rank where r: "AUTHORIZED_SCOPE_RANK scope = Some rank" "3 \<le> rank" using scope scope_ranks by auto
  then have scope_ok: "require_scope (PStr scope) ''operator-approval-scope'' = Inr scope" unfolding require_scope_Inr by simp
  obtain authority where authority: "make_authority ''operator-directive'' approval_id (?sha body) actor_id ''operator'' identity_source scope
      parent ''hmac-sha256-protected-change-v1'' (?sha receipt) = Inr authority"
    using acceptable_authority [OF _ _ _ scope parent hex64_text_sha256 hex64_text_sha256, of approval_id actor_id identity_source] texts
    by (meson insertCI)
  then have "validate_authority_provenance (PDict (authority_payload authority)) = Inr []"
    unfolding make_authority_def VerifiedAuthority_Inr by blast
  from acceptable_audit [OF receipt _ _ _ _ _ _ window(1,2) _ change parent_finite this]
  have x: "VerifiedOperatorApproval receipt authority = Inr \<lparr>approval_audit = audit_of receipt authority, approval_authority = authority\<rparr>"
    using texts window(3,4) by simp
  have "verify_operator_approval (PDict receipt) key actor_id identity_source change_type before_artifact after_artifact nonces now
      = Inr \<lparr>approval_audit = audit_of receipt authority, approval_authority = authority\<rparr>"
    using keys key change fresh r parent scope_ok authority x
    by (simp add: verify_operator_approval_def Let_def object pop signed [unfolded pop] sig gets compare_digest_own ascii_hex64 texts_ok shas
        window_ok scope_ranks canonical_sha [OF facts(1)] canonical_sha [OF body_finite] del: finite_json.simps json_text.simps)
  then show ?thesis unfolding receipt_def by blast
qed

lemma sign_Inr:
  assumes "sign_operator_approval_receipt assessment change_type key actor_id identity_source scope issued_at expires_at
      approval_id nonce parent fresh_id fresh_nonce = Inr receipt"
  shows "\<exists>i s0 s1 n. key \<noteq> [] \<and> change_type \<in> set (required_change_types assessment) \<and> py_strip i \<noteq> [] \<and> py_strip n \<noteq> []
    \<and> py_strip actor_id \<noteq> [] \<and> py_strip identity_source \<noteq> [] \<and> (parent = None \<or> (\<exists>p. parent = Some p \<and> hex64 p))
    \<and> finite_json (PDict (before_subject assessment)) \<and> finite_json (PDict (after_subject assessment))
    \<and> receipt = signed_receipt (receipt_body i change_type (text_sha256 (json_text False (PDict (before_subject assessment))))
        (text_sha256 (json_text False (PDict (after_subject assessment)))) actor_id identity_source scope (optional_text parent) s0 s1 n) key"
proof -
  let ?sha = "\<lambda>v. text_sha256 (json_text False (PDict v))"
  from assms obtain issued expires b a where g: "change_type \<in> set (required_change_types assessment)" "key \<noteq> []"
      "py_strip actor_id \<noteq> [] \<and> py_strip identity_source \<noteq> []" "case parent of None \<Rightarrow> True | Some p \<Rightarrow> hex64 p"
    and shas: "canonical_authority_sha256 (PDict (before_subject assessment)) = Inr b"
      "canonical_authority_sha256 (PDict (after_subject assessment)) = Inr a"
    and final: "(let receipt = receipt_body (text_or approval_id fresh_id) change_type b a actor_id identity_source scope (optional_text parent)
          (format_instant issued) (format_instant expires) (text_or nonce fresh_nonce)
        in rbind (ensure (nonempty_text (dget receipt ''approval_id'') \<and> nonempty_text (dget receipt ''nonce''))
          (AuthorityProvenanceError ''operator-approval-signer-identifier-invalid'')) (\<lambda>_.
        rbind (operator_approval_signature receipt key) (\<lambda>signature. Inr (dset receipt ''signature'' (PStr signature))))) = Inr receipt"
    unfolding sign_operator_approval_receipt_def rbind_eq_Inr ensure_eq_Inr receipt_body_def by blast
  let ?body = "receipt_body (text_or approval_id fresh_id) change_type b a actor_id identity_source scope (optional_text parent)
      (format_instant issued) (format_instant expires) (text_or nonce fresh_nonce)"
  from final obtain signature where sig: "nonempty_text (dget ?body ''approval_id'')" "nonempty_text (dget ?body ''nonce'')"
      "operator_approval_signature ?body key = Inr signature" "receipt = dset ?body ''signature'' (PStr signature)"
    unfolding Let_def rbind_eq_Inr ensure_eq_Inr sum.inject by blast
  have "signature = hmac_hex key (utf8 (json_text False (PDict ?body)))"
    using sig(3) unfolding operator_approval_signature_def rbind_eq_Inr signed_text_def by (auto split: if_splits simp del: json_text.simps)
  moreover have "py_strip (text_or approval_id fresh_id) \<noteq> []" "py_strip (text_or nonce fresh_nonce) \<noteq> []"
    using sig(1,2) by (simp_all add: receipt_body_def nonempty_text_def)
  ultimately show ?thesis
    using g shas sig(4) unfolding canonical_authority_finite
    by - (rule exI [of _ "text_or approval_id fresh_id"], rule exI [of _ "format_instant issued"],
        rule exI [of _ "format_instant expires"], rule exI [of _ "text_or nonce fresh_nonce"],
        simp add: signed_receipt_def split: option.splits del: json_text.simps finite_json.simps)
qed


text \<open>A change of the requested model, for the examples.\<close>

definition demo_change :: protected_change_assessment where
  "demo_change = \<lparr>before_subject = [(''requested_model'', PStr ''a'')], after_subject = [(''requested_model'', PStr ''b'')],
     assessed_identity = Some [], changed_json_pointers = [''/requested_model''], required_change_types = [''model-substitution''],
     uncategorized_paths = []\<rparr>"

lemma demo_finite: "finite_json (PDict (before_subject demo_change))" "finite_json (PDict (after_subject demo_change))"
  by (simp_all add: demo_change_def)

lemma demo_signed:
  "\<exists>receipt. sign_operator_approval_receipt demo_change ''model-substitution'' [1, 2, 3] ''operator-1'' ''console'' ''complete-task''
     (AwareTime 1767323045006000) (AwareTime 1767323045007000) (Some ''approval-1'') None None [] ''nonce-1'' = Inr receipt
   \<and> dget receipt ''issued_at'' = PStr ''2026-01-02T03:04:05.006Z'' \<and> dget receipt ''expires_at'' = PStr ''2026-01-02T03:04:05.007Z''"
proof -
  have texts: "py_strip ''approval-1'' \<noteq> []" "py_strip ''operator-1'' \<noteq> []" "py_strip ''console'' \<noteq> []" "py_strip ''nonce-1'' \<noteq> []"
    and times: "format_instant 1767323045006000 = ''2026-01-02T03:04:05.006Z''" "format_instant 1767323045007000 = ''2026-01-02T03:04:05.007Z''"
    by code_simp+
  have change: "assessed_identity demo_change = Some []" "required_change_types demo_change = [''model-substitution'']"
    by (simp_all add: demo_change_def)
  show ?thesis
    using texts
    by (simp add: sign_operator_approval_receipt_def change TERMINAL_PROTECTED_CHANGE_TYPES_def AUTHORIZED_SCOPES_def supplied_time_def
        canonical_sha [OF demo_finite(1)] canonical_sha [OF demo_finite(2)] times text_or_def optional_text_def nonempty_text_def Let_def
        operator_approval_signature_def signed_text_def del: json_text.simps)
qed


end
