(* ===== verification/ReplayStoreProperties.thy ===== *)
theory ReplayStoreProperties
  imports ReplayStore ProtectedChangeProperties SignedReceipts
begin

text \<open>
  The values that the stored entries hold only grow under any calls, and an approval is minted only with
  values that no entry holds, so that a nonce, an approval id and a receipt are used once.  Every approval
  answers exactly the change it was asked for.
\<close>

section \<open>Stored entries\<close>

definition stored_entries :: "replay_file \<Rightarrow> pydict list" where
  "stored_entries file = (case file of Holds v \<Rightarrow> store_entries (the_dict v) | _ \<Rightarrow> [])"

definition consumed :: "string \<Rightarrow> replay_file \<Rightarrow> pyval set" where
  "consumed f file = (\<lambda>e. dget e f) ` set (stored_entries file)"

lemma check_replay_entry_Inr:
  "check_replay_entry seen v = Inr seen' \<Longrightarrow>
     is_dict v \<and> set (dkeys (the_dict v)) = set OPERATOR_APPROVAL_REPLAY_ENTRY_FIELDS
     \<and> (\<forall>f\<in>set OPERATOR_APPROVAL_REPLAY_ENTRY_FIELDS. is_str (dget (the_dict v) f))
     \<and> seen_entries seen' = seen_entries seen @ [the_dict v]"
  by (auto simp: check_replay_entry_def Let_def rbind_eq_Inr list_all_iff nonempty_text_iff is_str_iff)

lemma foldM_check_entries:
  "foldM check_replay_entry seen vs = Inr seen' \<Longrightarrow>
     seen_entries seen' = seen_entries seen @ map the_dict vs \<and> vs = map PDict (map the_dict vs)
     \<and> (\<forall>v\<in>set vs. \<forall>f\<in>set OPERATOR_APPROVAL_REPLAY_ENTRY_FIELDS. is_str (dget (the_dict v) f))"
proof (induction vs arbitrary: seen)
  case (Cons v vs)
  then obtain mid where mid: "check_replay_entry seen v = Inr mid" "foldM check_replay_entry mid vs = Inr seen'"
    by (auto simp: rbind_eq_Inr)
  then show ?case using check_replay_entry_Inr [OF mid(1)] Cons.IH [OF mid(2)] by (auto simp: is_dict_iff)
qed simp

lemma sealed_replay_store_entries: "sealed_replay_store entries key = Inr s \<Longrightarrow> store_entries s = sort_key entry_sha256 entries"
  by (auto simp: sealed_replay_store_def Let_def rbind_eq_Inr replay_store_body_def store_entries_def comp_def)

lemma validate_replay_store_entries:
  assumes "validate_replay_store v key = Inr s"
  shows "set (store_entries s) = set (store_entries (the_dict v))
    \<and> (\<forall>e\<in>set (store_entries s). \<forall>f\<in>set OPERATOR_APPROVAL_REPLAY_ENTRY_FIELDS. is_str (dget e f))"
proof -
  from assms obtain d seen where d: "canonical_json_object v ''operator-approval-replay-store'' = Inr d"
    and seen: "foldM check_replay_entry nothing_seen (the_list (dget d ''entries'')) = Inr seen"
    and s: "sealed_replay_store (seen_entries seen) key = Inr s"
    unfolding validate_replay_store_def rbind_eq_Inr by blast
  have v: "v = PDict d" using d unfolding canonical_json_object_finite by blast
  have "seen_entries seen = store_entries d"
    using foldM_check_entries [OF seen] by (simp add: nothing_seen_def store_entries_def)
  then show ?thesis
    using sealed_replay_store_entries [OF s] foldM_check_entries [OF seen] by (auto simp: v store_entries_def)
qed

text \<open>What a written file holds.\<close>

lemma stored_written: "stored_entries (Holds (sort_keys (PDict s))) = map (\<lambda>v. the_dict (sort_keys v)) (the_list (dget s ''entries''))"
  unfolding stored_entries_def replay_file.case store_entries_def dget_sorted
  by (cases "dget s ''entries''") auto

lemma consumed_written:
  assumes "validate_replay_store (PDict p) key = Inr s" and "f \<in> set OPERATOR_APPROVAL_REPLAY_ENTRY_FIELDS"
  shows "consumed f (Holds (sort_keys (PDict s))) = (\<lambda>e. dget e f) ` set (store_entries p)"
proof -
  note entries = validate_replay_store_entries [OF assms(1)]
  from assms(1) obtain seen where "sealed_replay_store seen key = Inr s" unfolding validate_replay_store_def rbind_eq_Inr by blast
  then have "\<exists>es. dget s ''entries'' = PList (map PDict es)"
    by (auto simp: sealed_replay_store_def Let_def rbind_eq_Inr replay_store_body_def)
  then have "consumed f (Holds (sort_keys (PDict s))) = (\<lambda>e. dget (the_dict (sort_keys (PDict e))) f) ` set (store_entries s)"
    unfolding consumed_def stored_written by (auto simp: store_entries_def image_image)
  also have "\<dots> = (\<lambda>e. dget e f) ` set (store_entries s)"
    unfolding dget_sorted using entries assms(2) sorted_str by (intro image_cong refl) blast
  finally show ?thesis using entries by simp
qed

lemma read_store_entries:
  assumes "locked_replay_store env file key = Inr store"
  shows "set (store_entries store) = set (stored_entries file)"
  using assms validate_replay_store_entries sealed_replay_store_entries [of "[]" key store]
  by (auto simp: locked_replay_store_def read_replay_store_def stored_entries_def split: option.splits replay_file.splits)

section \<open>Minting\<close>

text \<open>The fields of an approval that bind it to one use.\<close>

definition BINDING_FIELDS :: "string list" where
  "BINDING_FIELDS = [''nonce'', ''approval_id'', ''receipt_sha256'']"

definition shadow_field :: "consumption \<Rightarrow> string \<Rightarrow> pyval list" where
  "shadow_field shadow f = (if f = ''nonce'' then shadow_nonces shadow else if f = ''approval_id'' then shadow_ids shadow
     else shadow_hashes shadow)"

lemma VerifiedOperatorApproval_Inr:
  "VerifiedOperatorApproval receipt authority = Inr x \<Longrightarrow>
     finite_json (PDict receipt) \<and> approval_authority x = authority
     \<and> approval_audit x = map (\<lambda>field. (field, dget receipt field))
         [''approval_type'', ''version'', ''approval_id'', ''change_type'', ''before_sha256'', ''after_sha256'', ''issued_at'',
          ''expires_at'', ''nonce'']
       @ [(''receipt_sha256'', PStr (text_sha256 (json_text False (PDict receipt)))), (''signed_receipt'', PDict receipt),
          (''authority_provenance'', PDict (authority_payload authority))]"
  unfolding VerifiedOperatorApproval_def rbind_eq_Inr canonical_authority_finite Let_def by auto

lemma mapM_ensure: "mapM (\<lambda>x. ensure (P x) (e x)) xs = Inr us \<Longrightarrow> \<forall>x\<in>set xs. P x"
  by (induction xs arbitrary: us) (auto simp: rbind_eq_Inr)

text \<open>Everything that the verification of one receipt establishes.\<close>

definition exact_approval ::
    "operator_approval_verifier \<Rightarrow> protected_change_assessment \<Rightarrow> int \<Rightarrow> string \<Rightarrow> verified_operator_approval \<Rightarrow> bool" where
  "exact_approval verifier assessment now change_type x \<longleftrightarrow>
     (\<exists>receipt issued_at expires_at.
        dget (approval_audit x) ''signed_receipt'' = PDict receipt
        \<and> dget receipt ''signature'' =
            PStr (hmac_hex (verification_key verifier) (utf8 (json_text False (PDict (dpop receipt ''signature'')))))
        \<and> dget receipt ''change_type'' = PStr change_type
        \<and> dget receipt ''actor_id'' = PStr (expected_actor_id verifier)
        \<and> dget receipt ''before_sha256'' = PStr (text_sha256 (json_text False (PDict (before_subject assessment))))
        \<and> dget receipt ''after_sha256'' = PStr (text_sha256 (json_text False (PDict (after_subject assessment))))
        \<and> parse_utc_timestamp (dget receipt ''issued_at'') ''operator-approval-issued-at'' = Inr issued_at
        \<and> parse_utc_timestamp (dget receipt ''expires_at'') ''operator-approval-expires-at'' = Inr expires_at
        \<and> issued_at \<le> now \<and> now < expires_at
        \<and> authorized_scope (approval_authority x) \<in> {''complete-task'', ''publication''}
        \<and> (\<forall>f\<in>set BINDING_FIELDS. is_str (dget (approval_audit x) f)))"

lemma wide_scope: "AUTHORIZED_SCOPE_RANK s = Some r \<Longrightarrow> 3 \<le> r \<Longrightarrow> s \<in> {''complete-task'', ''publication''}"
  by (auto simp: AUTHORIZED_SCOPE_RANK_def AUTHORIZED_SCOPES_def split: if_splits)

lemma approved_artifact_Inr: "approved_artifact_sha256 d = Inr h \<Longrightarrow> h = text_sha256 (json_text False (PDict d))"
  using canonical_authority_finite [of "PDict d"] by (auto simp: approved_artifact_sha256_def split: sum.splits)

lemma signed_text_Inr: "signed_text v = Inr t \<Longrightarrow> t = json_text False v"
  by (auto simp: signed_text_def split: if_splits)

lemma verified_approval:
  assumes "verify_operator_approval value (verification_key verifier) (expected_actor_id verifier) (expected_identity_source verifier)
      change_type (before_subject assessment) (after_subject assessment) nonces now = Inr x"
  shows "exact_approval verifier assessment now change_type x \<and> dget (approval_audit x) ''nonce'' \<notin> set nonces"
proof -
  from assms obtain p signed ok us b a u scope source evidence authority where p: "canonical_json_object value ''operator-approval-receipt'' = Inr p"
    and signed: "operator_approval_signature (dpop p ''signature'') (verification_key verifier) = Inr signed"
    and ok: "compare_digest (dget p ''signature'') signed = Inr ok" "ok"
    and type: "dget p ''change_type'' = PStr change_type" "dget p ''actor_id'' = PStr (expected_actor_id verifier)"
    and texts: "mapM (\<lambda>field. ensure (nonempty_text (dget p field))
         (AuthorityProvenanceError (''operator-approval-'' @ dashed field @ ''-invalid''))) RECEIPT_TEXT_FIELDS = Inr us"
    and fresh: "dget p ''nonce'' \<notin> set nonces"
    and shas: "approved_artifact_sha256 (before_subject assessment) = Inr b" "approved_artifact_sha256 (after_subject assessment) = Inr a"
      "dget p ''before_sha256'' = PStr b" "dget p ''after_sha256'' = PStr a"
    and window: "check_receipt_window p now = Inr u"
    and rank: "require_scope (dget p ''authorized_scope'') ''operator-approval-scope'' = Inr scope"
      "the (AUTHORIZED_SCOPE_RANK ''complete-task'') \<le> the (AUTHORIZED_SCOPE_RANK scope)"
    and authority: "make_authority ''operator-directive'' (the_str (dget p ''approval_id'')) source (expected_actor_id verifier) ''operator''
        (expected_identity_source verifier) scope (dget p ''parent_receipt_sha256'') ''hmac-sha256-protected-change-v1'' evidence = Inr authority"
    and x: "VerifiedOperatorApproval p authority = Inr x"
    unfolding verify_operator_approval_def Let_def rbind_eq_Inr ensure_eq_Inr by blast
  have genuine: "compare_digest (dget p ''signature'') signed = Inr True" using ok by simp
  obtain r where scope: "AUTHORIZED_SCOPE_RANK scope = Some r" "3 \<le> r"
    using rank unfolding require_scope_Inr scope_ranks by force
  have given: "authorized_scope authority = scope" using make_authority_scope [OF authority] by blast
  note x = VerifiedOperatorApproval_Inr [OF x]
  obtain issued_at expires_at where times: "parse_utc_timestamp (dget p ''issued_at'') ''operator-approval-issued-at'' = Inr issued_at"
      "parse_utc_timestamp (dget p ''expires_at'') ''operator-approval-expires-at'' = Inr expires_at" "issued_at \<le> now" "now < expires_at"
    using window unfolding check_receipt_window_def rbind_eq_Inr ensure_eq_Inr by blast
  have "signed = hmac_hex (verification_key verifier) (utf8 (json_text False (PDict (dpop p ''signature''))))"
    using signed signed_text_Inr unfolding operator_approval_signature_def rbind_eq_Inr by blast
  moreover have "nonempty_text (dget p ''nonce'')" "nonempty_text (dget p ''approval_id'')"
    using texts mapM_ensure by (fastforce simp: RECEIPT_TEXT_FIELDS_def)+
  ultimately have "exact_approval verifier assessment now change_type x"
    unfolding exact_approval_def
    using compare_digest_True [OF genuine] type shas(3,4) approved_artifact_Inr [OF shas(1)] approved_artifact_Inr [OF shas(2)] times x wide_scope [OF scope] given
    by (intro exI [of _ p] exI [of _ issued_at] exI [of _ expires_at]) (auto simp: BINDING_FIELDS_def is_str_iff nonempty_text_iff)
  then show ?thesis using fresh x by simp
qed

lemma dget_tabulated: "f \<in> set fs \<Longrightarrow> dget (map (\<lambda>f. (f, g f)) fs) f = g f"
  by (induction fs) (auto simp: dget_def dget_or_def)

lemma approval_replay_entry_field:
  "f \<in> set OPERATOR_APPROVAL_REPLAY_ENTRY_FIELDS \<Longrightarrow> is_str (dget (approval_audit x) f) \<Longrightarrow>
     dget (approval_replay_entry x) f = dget (approval_audit x) f"
  by (auto simp: approval_replay_entry_def dget_tabulated is_str_iff)

lemma binding_fields_stored: "f \<in> set BINDING_FIELDS \<Longrightarrow> f \<in> set OPERATOR_APPROVAL_REPLAY_ENTRY_FIELDS"
  by (auto simp: BINDING_FIELDS_def OPERATOR_APPROVAL_REPLAY_ENTRY_FIELDS_def)

lemma consume_receipt_Inr:
  assumes "consume_receipt verifier assessment receipts now shadow change_type = Inr after"
  shows "\<exists>x. exact_approval verifier assessment now change_type x \<and> minted after = minted shadow @ [x]
    \<and> (\<forall>f\<in>set BINDING_FIELDS. dget (approval_audit x) f \<notin> set (shadow_field shadow f)
          \<and> shadow_field after f = dget (approval_audit x) f # shadow_field shadow f)"
proof -
  from assms obtain x where x: "verify_operator_approval (dget receipts change_type) (verification_key verifier)
        (expected_actor_id verifier) (expected_identity_source verifier) change_type (before_subject assessment)
        (after_subject assessment) (shadow_nonces shadow) now = Inr x"
    and fresh: "dget (approval_replay_entry x) ''approval_id'' \<notin> set (shadow_ids shadow)
          \<and> dget (approval_replay_entry x) ''receipt_sha256'' \<notin> set (shadow_hashes shadow)"
    and after: "\<lparr>shadow_nonces = dget (approval_replay_entry x) ''nonce'' # shadow_nonces shadow,
       shadow_ids = dget (approval_replay_entry x) ''approval_id'' # shadow_ids shadow,
       shadow_hashes = dget (approval_replay_entry x) ''receipt_sha256'' # shadow_hashes shadow, minted = minted shadow @ [x]\<rparr> = after"
    unfolding consume_receipt_def Let_def rbind_eq_Inr ensure_eq_Inr sum.inject by blast
  note verified = verified_approval [OF x]
  then have "dget (approval_replay_entry x) f = dget (approval_audit x) f" if "f \<in> set BINDING_FIELDS" for f
    using approval_replay_entry_field [OF binding_fields_stored [OF that], of x] that unfolding exact_approval_def by blast
  then show ?thesis using verified fresh after [symmetric] by (intro exI [of _ x]) (simp add: BINDING_FIELDS_def shadow_field_def)
qed

lemma foldM_consume_receipt:
  "foldM (consume_receipt verifier assessment receipts now) shadow changed = Inr after \<Longrightarrow>
     \<exists>new. minted after = minted shadow @ new \<and> list_all2 (exact_approval verifier assessment now) changed new
       \<and> (\<forall>x\<in>set new. \<forall>f\<in>set BINDING_FIELDS. dget (approval_audit x) f \<notin> set (shadow_field shadow f))
       \<and> (\<forall>f\<in>set BINDING_FIELDS. distinct (map (\<lambda>x. dget (approval_audit x) f) new))"
proof (induction changed arbitrary: shadow)
  case (Cons change_type changed)
  then obtain mid where mid: "consume_receipt verifier assessment receipts now shadow change_type = Inr mid"
      "foldM (consume_receipt verifier assessment receipts now) mid changed = Inr after"
    by (auto simp: rbind_eq_Inr)
  obtain x where x: "exact_approval verifier assessment now change_type x" "minted mid = minted shadow @ [x]"
      "\<forall>f\<in>set BINDING_FIELDS. dget (approval_audit x) f \<notin> set (shadow_field shadow f)
          \<and> shadow_field mid f = dget (approval_audit x) f # shadow_field shadow f"
    using consume_receipt_Inr [OF mid(1)] by blast
  obtain new where new: "minted after = minted mid @ new" "list_all2 (exact_approval verifier assessment now) changed new"
      "\<forall>y\<in>set new. \<forall>f\<in>set BINDING_FIELDS. dget (approval_audit y) f \<notin> set (shadow_field mid f)"
      "\<forall>f\<in>set BINDING_FIELDS. distinct (map (\<lambda>x. dget (approval_audit x) f) new)"
    using Cons.IH [OF mid(2)] by blast
  show ?case using x new by (intro exI [of _ "x # new"]) fastforce
qed simp

text \<open>A successful call: what it minted, and what the file holds then.\<close>

lemma mint_approvals_Inr:
  assumes "mint_approvals verifier clock assessment changed receipts prior store = Inr (approvals, updated)"
  shows "\<exists>now. current_time clock = Inr now \<and> list_all2 (exact_approval verifier assessment now) changed approvals
    \<and> store_entries updated = sort_key entry_sha256 (store_entries store @ map approval_replay_entry approvals)
    \<and> (\<forall>f\<in>set BINDING_FIELDS. distinct (map (\<lambda>x. dget (approval_audit x) f) approvals)
        \<and> (\<forall>x\<in>set approvals. dget (approval_audit x) f \<notin> (\<lambda>e. dget e f) ` set (store_entries store)))"
proof -
  let ?shadow = "\<lparr>shadow_nonces = map (\<lambda>e. dget e ''nonce'') (store_entries store) @ prior,
    shadow_ids = map (\<lambda>e. dget e ''approval_id'') (store_entries store),
    shadow_hashes = map (\<lambda>e. dget e ''receipt_sha256'') (store_entries store), minted = []\<rparr>"
  from assms obtain now after where now: "current_time clock = Inr now"
    and after: "foldM (consume_receipt verifier assessment receipts now) ?shadow changed = Inr after"
    and updated: "sealed_replay_store (store_entries store @ map approval_replay_entry approvals) (replay_key_of verifier) = Inr updated"
    and minted: "minted after = approvals"
    unfolding mint_approvals_def Let_def rbind_eq_Inr sum.inject prod.inject by blast
  from foldM_consume_receipt [OF after] minted
  have exact: "list_all2 (exact_approval verifier assessment now) changed approvals"
    and fresh: "\<forall>x\<in>set approvals. \<forall>f\<in>set BINDING_FIELDS. dget (approval_audit x) f \<notin> set (shadow_field ?shadow f)"
    and different: "\<forall>f\<in>set BINDING_FIELDS. distinct (map (\<lambda>x. dget (approval_audit x) f) approvals)" by auto
  have grows: "(\<lambda>e. dget e f) ` set (store_entries store) \<subseteq> set (shadow_field ?shadow f)" if "f \<in> set BINDING_FIELDS" for f
    using that by (auto simp: BINDING_FIELDS_def shadow_field_def)
  show ?thesis
  proof (intro exI [of _ now] conjI ballI)
    show "dget (approval_audit x) f \<notin> (\<lambda>e. dget e f) ` set (store_entries store)"
      if "f \<in> set BINDING_FIELDS" and "x \<in> set approvals" for f x
      using fresh that grows [OF that(1)] by blast
  qed (use now exact different sealed_replay_store_entries [OF updated] in simp_all)
qed

lemma exact_approval_texts: "exact_approval verifier assessment now c x \<Longrightarrow> f \<in> set BINDING_FIELDS \<Longrightarrow> is_str (dget (approval_audit x) f)"
  unfolding exact_approval_def by blast

lemma returning_cases: "returning m x = (r, st) \<Longrightarrow> st = snd m \<and> (case r of Inr y \<Rightarrow> y = x \<and> (\<exists>u. fst m = Inr u) | Inl e \<Rightarrow> fst m = Inl e)"
  by (cases "fst m") (auto simp: returning_def)

lemma write_replay_store_cases:
  "write_replay_store env payload key file = (r, file') \<Longrightarrow>
     (file' = file \<and> (\<exists>e. r = Inl e)) \<or> (\<exists>s. validate_replay_store (PDict payload) key = Inr s \<and> file' = Holds (sort_keys (PDict s)))"
  unfolding write_replay_store_def Let_def
  by (cases "validate_replay_store (PDict payload) key"; cases "replay_write_result env") (simp_all del: sort_keys.simps, blast+)

text \<open>A call either leaves the file, and then mints nothing, or mints approvals and replaces the file.\<close>

lemma authorize_assessment_cases:
  assumes "authorize_assessment verifier env assessment receipts prior file = (r, file')"
  shows "(file' = file \<and> (\<forall>approvals. r = Inr approvals \<longrightarrow> approvals = [] \<and> required_change_types assessment = []))
    \<or> (\<exists>store payload values approvals updated s. locked_replay_store env file (replay_key_of verifier) = Inr store
        \<and> mint_approvals verifier (verifier_clock env) assessment (required_change_types assessment) payload values store
              = Inr (approvals, updated)
        \<and> validate_replay_store (PDict updated) (replay_key_of verifier) = Inr s \<and> file' = Holds (sort_keys (PDict s))
        \<and> (\<forall>x. r = Inr x \<longrightarrow> x = approvals))"
proof -
  from assms have "(file' = file \<and> (\<forall>approvals. r = Inr approvals \<longrightarrow> approvals = [] \<and> required_change_types assessment = []))
    \<or> (\<exists>store payload values approvals updated. locked_replay_store env file (replay_key_of verifier) = Inr store
        \<and> mint_approvals verifier (verifier_clock env) assessment (required_change_types assessment) payload values store
              = Inr (approvals, updated)
        \<and> returning (write_replay_store env updated (replay_key_of verifier) file) approvals = (r, file'))"
    unfolding authorize_assessment_def validate_assessment_def Let_def rbind_eq_Inr
    by (auto simp: rbind_eq_Inr rbind_eq_Inl split: sum.splits prod.splits if_splits)
  then show ?thesis
  proof (elim disjE exE conjE)
    fix store payload "values" approvals updated
    assume call: "locked_replay_store env file (replay_key_of verifier) = Inr store"
        "mint_approvals verifier (verifier_clock env) assessment (required_change_types assessment) payload values store
              = Inr (approvals, updated)"
      and r: "returning (write_replay_store env updated (replay_key_of verifier) file) approvals = (r, file')"
    define r' where "r' = fst (write_replay_store env updated (replay_key_of verifier) file)"
    have w: "write_replay_store env updated (replay_key_of verifier) file = (r', file')"
      using returning_cases [OF r] by (simp add: r'_def prod_eq_iff)
    have same: "case r of Inr y \<Rightarrow> y = approvals \<and> (\<exists>u. r' = Inr u) | Inl e \<Rightarrow> r' = Inl e"
      using returning_cases [OF r] unfolding r'_def by (rule conjunct2)
    show ?thesis
      using write_replay_store_cases [OF w]
    proof
      assume "file' = file \<and> (\<exists>e. r' = Inl e)"
      then show ?thesis using same by (auto split: sum.splits)
    next
      assume "\<exists>s. validate_replay_store (PDict updated) (replay_key_of verifier) = Inr s \<and> file' = Holds (sort_keys (PDict s))"
      moreover have "\<forall>x. r = Inr x \<longrightarrow> x = approvals" using same by auto
      ultimately show ?thesis using call by blast
    qed
  qed blast
qed

text \<open>What a call did to the stored values: it adds the values of the approvals it minted, which no entry held.\<close>

lemma list_all2_right: "list_all2 P xs ys \<Longrightarrow> y \<in> set ys \<Longrightarrow> \<exists>x. P x y"
  by (induction rule: list_all2_induct) auto

lemma disjoint_below: "A \<subseteq> C \<Longrightarrow> C \<inter> B = {} \<Longrightarrow> A \<inter> B = {}"
  by auto

lemma disjoint_image: "\<forall>x\<in>A. g x \<notin> B \<Longrightarrow> B \<inter> g ` A = {}"
  by auto

lemma consumed_by_call:
  assumes call: "authorize_assessment verifier env assessment receipts prior file = (r, file')"
    and f: "f \<in> set BINDING_FIELDS"
  shows "\<exists>approvals. (\<forall>x. r = Inr x \<longrightarrow> x = approvals)
    \<and> consumed f file' = consumed f file \<union> (\<lambda>x. dget (approval_audit x) f) ` set approvals
    \<and> consumed f file \<inter> (\<lambda>x. dget (approval_audit x) f) ` set approvals = {}
    \<and> distinct (map (\<lambda>x. dget (approval_audit x) f) approvals)"
  using authorize_assessment_cases [OF call]
proof (elim disjE exE conjE)
  fix store payload "values" approvals updated s
  assume store: "locked_replay_store env file (replay_key_of verifier) = Inr store"
    and mint: "mint_approvals verifier (verifier_clock env) assessment (required_change_types assessment) payload values store
        = Inr (approvals, updated)"
    and s: "validate_replay_store (PDict updated) (replay_key_of verifier) = Inr s" "file' = Holds (sort_keys (PDict s))"
    and r: "\<forall>x. r = Inr x \<longrightarrow> x = approvals"
  obtain now where now: "list_all2 (exact_approval verifier assessment now) (required_change_types assessment) approvals"
    and entries: "store_entries updated = sort_key entry_sha256 (store_entries store @ map approval_replay_entry approvals)"
    and fresh: "distinct (map (\<lambda>x. dget (approval_audit x) f) approvals)"
      "\<forall>x\<in>set approvals. dget (approval_audit x) f \<notin> (\<lambda>e. dget e f) ` set (store_entries store)"
    using mint_approvals_Inr [OF mint] f by blast
  have "is_str (dget (approval_audit x) f)" if "x \<in> set approvals" for x
    using list_all2_right [OF now that] exact_approval_texts [OF _ f] by blast
  then have "dget (approval_replay_entry x) f = dget (approval_audit x) f" if "x \<in> set approvals" for x
    using that approval_replay_entry_field [OF binding_fields_stored [OF f]] by blast
  then have "(\<lambda>e. dget e f) ` set (store_entries updated)
      = (\<lambda>e. dget e f) ` set (store_entries store) \<union> (\<lambda>x. dget (approval_audit x) f) ` set approvals"
    by (force simp: entries image_Un image_image)
  moreover have stored: "(\<lambda>e. dget e f) ` set (store_entries store) = consumed f file"
    by (simp add: read_store_entries [OF store] consumed_def)
  moreover have "consumed f file' = (\<lambda>e. dget e f) ` set (store_entries updated)"
    unfolding s(2) by (rule consumed_written [OF s(1) binding_fields_stored [OF f]])
  ultimately have "consumed f file' = consumed f file \<union> (\<lambda>x. dget (approval_audit x) f) ` set approvals"
    by (simp only:)
  moreover have "consumed f file \<inter> (\<lambda>x. dget (approval_audit x) f) ` set approvals = {}"
    using fresh(2) unfolding stored by (rule disjoint_image)
  ultimately show ?thesis using r fresh(1) by (intro exI [of _ approvals] conjI)
next
  assume "file' = file" and "\<forall>approvals. r = Inr approvals \<longrightarrow> approvals = [] \<and> required_change_types assessment = []"
  then show ?thesis by (intro exI [of _ "[]"]) simp
qed

lemma consumed_by_success:
  assumes "authorize_assessment verifier env assessment receipts prior file = (Inr approvals, file')"
    and "f \<in> set BINDING_FIELDS"
  shows "consumed f file' = consumed f file \<union> (\<lambda>x. dget (approval_audit x) f) ` set approvals
    \<and> consumed f file \<inter> (\<lambda>x. dget (approval_audit x) f) ` set approvals = {}
    \<and> distinct (map (\<lambda>x. dget (approval_audit x) f) approvals)"
  using consumed_by_call [OF assms] by (elim exE conjE) simp

section \<open>A first approval\<close>

text \<open>A store with one entry is sealed, read back and accepted.\<close>

lemma finite_entries: "\<forall>(k, v)\<in>set e. finite_json v \<Longrightarrow> finite_json (PDict (replay_store_body [e]))"
  by (auto simp: replay_store_body_def)

lemma seal_one:
  assumes "\<forall>(k, v)\<in>set e. finite_json v"
  shows "\<exists>h. sealed_replay_store [e] key = Inr (dset (replay_store_body [e]) ''store_hmac_sha256'' (PStr h)) \<and> hex64 h"
proof -
  have "ordinary_json (PDict (replay_store_body [e])) label = Inr (PDict (replay_store_body [e]))" for label
    using finite_entries [OF assms] ordinary_json_finite by blast
  then show ?thesis
    by (intro exI [of _ "hmac_hex key (utf8 (json_text False (PDict (replay_store_body [e]))))"])
      (simp add: sealed_replay_store_def Let_def replay_store_hmac_def del: json_text.simps)
qed

lemma sealed_one_valid:
  assumes entry: "check_replay_entry nothing_seen (PDict e) = Inr \<lparr>seen_nonces = [n], seen_ids = [i], seen_hashes = [h], seen_entries = [e]\<rparr>"
    and fin: "\<forall>(k, v)\<in>set e. finite_json v" and sealed: "sealed_replay_store [e] key = Inr s"
  shows "validate_replay_store (PDict s) key = Inr s"
proof -
  obtain code_text where s: "s = dset (replay_store_body [e]) ''store_hmac_sha256'' (PStr code_text)" "hex64 code_text"
    using seal_one [OF fin, of key] sealed by auto
  have "finite_json (PDict s)" using finite_entries [OF fin] by (simp add: s(1) replay_store_body_def)
  then have "canonical_json_object (PDict s) label = Inr s" for label using canonical_json_object_finite by blast
  moreover have "set (dkeys s) = set OPERATOR_APPROVAL_REPLAY_STORE_FIELDS"
    by (auto simp: s(1) replay_store_body_def dkeys_def OPERATOR_APPROVAL_REPLAY_STORE_FIELDS_def)
  moreover have "dget s ''store_type'' = PStr OPERATOR_APPROVAL_REPLAY_STORE_TYPE" "dget s ''version'' = PInt 2"
    "dget s ''entries'' = PList [PDict e]" "dget s ''store_hmac_sha256'' = PStr code_text"
    by (simp_all add: s(1) replay_store_body_def)
  ultimately show ?thesis
    using entry sealed s(2) by (simp add: validate_replay_store_def compare_digest_own ascii_hex64)
qed

section \<open>One use\<close>

text \<open>The files that later calls, with any verifier and any arguments, make of one.\<close>

inductive later :: "replay_file \<Rightarrow> replay_file \<Rightarrow> bool" where
  now_later: "later file file"
| call_later: "later file mid \<Longrightarrow> authorize_assessment verifier env assessment receipts prior mid = (r, file') \<Longrightarrow> later file file'"

lemma consumed_later: "later file file' \<Longrightarrow> f \<in> set BINDING_FIELDS \<Longrightarrow> consumed f file \<subseteq> consumed f file'"
proof (induction rule: later.induct)
  case (call_later "file" mid verifier env assessment receipts prior r file')
  then show ?case using consumed_by_call [OF call_later.hyps(2) call_later.prems] by auto
qed simp

text \<open>
  C3: An operator approval is used once.  When two calls of authorize_assessment succeed on one replay
  store, with any calls between them, by any verifiers, for any assessments, successful or not, then no
  approval of the second call has the nonce, the approval id or the receipt digest of an approval of the
  first, and within one call no two approvals share one.\<close>

theorem approvals_used_once:
  assumes "authorize_assessment verifier env assessment receipts prior file = (Inr approvals, file1)"
    and "later file1 file2"
    and "authorize_assessment verifier' env' assessment' receipts' prior' file2 = (Inr approvals', file3)"
    and "f \<in> set BINDING_FIELDS"
  shows "distinct (map (\<lambda>x. dget (approval_audit x) f) (approvals @ approvals'))"
proof -
  let ?field = "\<lambda>x. dget (approval_audit x) f"
  have first: "consumed f file1 = consumed f file \<union> ?field ` set approvals \<and> distinct (map ?field approvals)"
    using consumed_by_success [OF assms(1,4)] by (elim conjE) (intro conjI)
  have second: "consumed f file2 \<inter> ?field ` set approvals' = {} \<and> distinct (map ?field approvals')"
    using consumed_by_success [OF assms(3,4)] by (elim conjE) (intro conjI)
  have "?field ` set approvals \<subseteq> consumed f file1" using first by (elim conjE) simp
  also have "\<dots> \<subseteq> consumed f file2" by (rule consumed_later [OF assms(2,4)])
  finally have "?field ` set approvals \<inter> ?field ` set approvals' = {}" by (rule disjoint_below) (rule conjunct1 [OF second])
  then show ?thesis using first second by simp
qed

text \<open>
  C8: Approvals are exact.  When authorize_assessment returns approvals, there is one for every change type
  that the assessment requires, in that order, and each comes from a receipt that the verification key signed
  for that change type by the expected actor, over the digests of the assessment's own before and after
  subjects, in whose window the verifier's clock lies and whose scope reaches a complete task.\<close>

theorem approvals_are_exact:
  assumes "authorize_assessment verifier env assessment receipts prior file = (Inr approvals, file')"
    and "required_change_types assessment \<noteq> []"
  shows "\<exists>now. current_time (verifier_clock env) = Inr now
    \<and> list_all2 (exact_approval verifier assessment now) (required_change_types assessment) approvals"
  using authorize_assessment_cases [OF assms(1)]
proof (elim disjE exE conjE)
  fix store payload "values" minted updated s
  assume "mint_approvals verifier (verifier_clock env) assessment (required_change_types assessment) payload values store
      = Inr (minted, updated)" and "\<forall>x. Inr approvals = Inr x \<longrightarrow> x = minted"
  then show ?thesis using mint_approvals_Inr by simp blast
qed (use assms(2) in simp)

section \<open>A call that mints\<close>

definition demo_verifier :: operator_approval_verifier where
  "demo_verifier = \<lparr>verification_key = [1, 2, 3], expected_actor_id = ''operator-1'', expected_identity_source = ''console''\<rparr>"

definition demo_receipt_body :: pydict where
  "demo_receipt_body = receipt_body ''approval-1'' ''model-substitution''
     (text_sha256 (json_text False (PDict (before_subject demo_change)))) (text_sha256 (json_text False (PDict (after_subject demo_change))))
     ''operator-1'' ''console'' ''complete-task'' PNone ''2026-01-02T03:04:05.006Z'' ''2026-01-02T03:04:05.007Z'' ''nonce-1''"

definition demo_receipts :: pydict where
  "demo_receipts = [(''model-substitution'', PDict (signed_receipt demo_receipt_body [1, 2, 3]))]"

definition demo_replay_env :: replay_env where
  "demo_replay_env = \<lparr>lock_refused = None, verifier_clock = AwareTime 1767323045006000, replay_write_result = Persisted\<rparr>"

lemma demo_acceptable:
  "acceptable_body demo_receipt_body ''operator-1'' ''console'' ''model-substitution'' (before_subject demo_change)
     (after_subject demo_change) [] 1767323045006000"
proof -
  have times: "parse_utc_timestamp (PStr ''2026-01-02T03:04:05.006Z'') ''operator-approval-issued-at'' = Inr 1767323045006000"
    "parse_utc_timestamp (PStr ''2026-01-02T03:04:05.007Z'') ''operator-approval-expires-at'' = Inr 1767323045007000"
    by code_simp+
  have texts: "py_strip ''approval-1'' \<noteq> []" "py_strip ''operator-1'' \<noteq> []" "py_strip ''console'' \<noteq> []" "py_strip ''nonce-1'' \<noteq> []"
    "py_strip ''2026-01-02T03:04:05.006Z'' \<noteq> []" "py_strip ''2026-01-02T03:04:05.007Z'' \<noteq> []" by code_simp+
  have "finite_json (PDict (before_subject demo_change))" "finite_json (PDict (after_subject demo_change))"
    "''model-substitution'' \<in> set OPERATOR_REQUIRED_CHANGE_TYPES"
    by (simp_all add: demo_change_def OPERATOR_REQUIRED_CHANGE_TYPES_def)
  then show ?thesis
    unfolding demo_receipt_body_def using texts by (intro acceptable_bodyI [OF _ _ _ _ _ _ _ times]) simp_all
qed

lemma demo_minted:
  "\<exists>x. verify_operator_approval (PDict (signed_receipt demo_receipt_body [1, 2, 3])) [1, 2, 3] ''operator-1'' ''console''
     ''model-substitution'' (before_subject demo_change) (after_subject demo_change) [] 1767323045006000 = Inr x
   \<and> (\<exists>h. hex64 h \<and> approval_replay_entry x = [(''nonce'', PStr ''nonce-1''), (''approval_id'', PStr ''approval-1''), (''receipt_sha256'', PStr h),
       (''change_type'', PStr ''model-substitution''),
       (''before_sha256'', PStr (text_sha256 (json_text False (PDict (before_subject demo_change))))),
       (''after_sha256'', PStr (text_sha256 (json_text False (PDict (after_subject demo_change)))))])"
proof -
  obtain authority where v: "verify_operator_approval (PDict (signed_receipt demo_receipt_body [1, 2, 3])) [1, 2, 3] ''operator-1'' ''console''
     ''model-substitution'' (before_subject demo_change) (after_subject demo_change) [] 1767323045006000
     = Inr \<lparr>approval_audit = audit_of (signed_receipt demo_receipt_body [1, 2, 3]) authority, approval_authority = authority\<rparr>"
    using acceptable_receipt_verifies [OF demo_acceptable, of "[1, 2, 3]"] by blast
  show ?thesis
    unfolding v
    by (intro exI conjI, rule refl, rule hex64_text_sha256)
      (simp add: approval_replay_entry_def audit_of_def signed_receipt_def demo_receipt_body_def receipt_body_def
        OPERATOR_APPROVAL_REPLAY_ENTRY_FIELDS_def del: json_text.simps)
qed

lemma demo_call:
  "\<exists>x file'. authorize_assessment demo_verifier demo_replay_env demo_change (PDict demo_receipts) (PList []) Absent = (Inr [x], file')"
proof -
  let ?key = "replay_key_of demo_verifier"
  obtain x h where v: "verify_operator_approval (PDict (signed_receipt demo_receipt_body [1, 2, 3])) [1, 2, 3] ''operator-1'' ''console''
      ''model-substitution'' (before_subject demo_change) (after_subject demo_change) [] 1767323045006000 = Inr x" and h: "hex64 h"
    and e: "approval_replay_entry x = [(''nonce'', PStr ''nonce-1''), (''approval_id'', PStr ''approval-1''), (''receipt_sha256'', PStr h),
       (''change_type'', PStr ''model-substitution''),
       (''before_sha256'', PStr (text_sha256 (json_text False (PDict (before_subject demo_change))))),
       (''after_sha256'', PStr (text_sha256 (json_text False (PDict (after_subject demo_change)))))]"
    using demo_minted by blast
  let ?e = "approval_replay_entry x"
  have texts: "py_strip ''nonce-1'' \<noteq> []" "py_strip ''approval-1'' \<noteq> []" "py_strip ''model-substitution'' \<noteq> []" by code_simp+
  have "check_replay_entry nothing_seen (PDict ?e)
      = Inr \<lparr>seen_nonces = [PStr ''nonce-1''], seen_ids = [PStr ''approval-1''], seen_hashes = [PStr h], seen_entries = [?e]\<rparr>"
    using texts hex_text [OF h] h hex_text [OF hex64_text_sha256]
    by (simp add: check_replay_entry_def nothing_seen_def e dkeys_def OPERATOR_APPROVAL_REPLAY_ENTRY_FIELDS_def nonempty_text_def
        OPERATOR_REQUIRED_CHANGE_TYPES_def hex64_text_sha256 insert_commute del: json_text.simps)
  moreover have fin: "\<forall>(k, v)\<in>set ?e. finite_json v" by (simp add: e)
  moreover obtain s where s: "sealed_replay_store [?e] ?key = Inr s" using seal_one [OF fin] by blast
  ultimately have valid: "validate_replay_store (PDict s) ?key = Inr s" using sealed_one_valid by blast
  obtain s0 where s0: "sealed_replay_store [] ?key = Inr s0"
    by (simp add: sealed_replay_store_def replay_store_hmac_def replay_store_body_def Let_def ordinary_json_def)
  have "store_entries s0 = []" using sealed_replay_store_entries [OF s0] by simp
  then have mint: "mint_approvals demo_verifier (verifier_clock demo_replay_env) demo_change [''model-substitution''] demo_receipts [] s0
      = Inr ([x], s)"
    using v s by (simp add: mint_approvals_def demo_replay_env_def current_time_def consume_receipt_def demo_receipts_def demo_verifier_def Let_def
        del: json_text.simps)
  have "finite_json (PDict demo_receipts)"
    using signed_body_facts(1) [of "signed_receipt demo_receipt_body [1, 2, 3]"]
    by (simp add: demo_receipts_def demo_receipt_body_def del: json_text.simps)
  then have "canonical_json_object (PDict demo_receipts) label = Inr demo_receipts" for label using canonical_json_object_finite by blast
  moreover have "validate_assessment demo_change = Inr [''model-substitution'']"
    by (simp add: validate_assessment_def demo_change_def TERMINAL_PROTECTED_CHANGE_TYPES_def)
  moreover have "dkeys demo_receipts = [''model-substitution'']" by (simp add: demo_receipts_def dkeys_def)
  ultimately show ?thesis
    using mint s0 valid
    by (simp add: authorize_assessment_def receipt_object_def prior_nonce_values_def locked_replay_store_def
        read_replay_store_def write_replay_store_def demo_replay_env_def Let_def list_of_def returning_def)
qed

theorem approvals_used_once_witness:
  "\<exists>approvals file1. authorize_assessment demo_verifier demo_replay_env demo_change (PDict demo_receipts) (PList []) Absent = (Inr approvals, file1)
     \<and> approvals \<noteq> [] \<and> distinct (map (\<lambda>x. dget (approval_audit x) ''nonce'') approvals)"
proof -
  obtain x file1 where call: "authorize_assessment demo_verifier demo_replay_env demo_change (PDict demo_receipts) (PList []) Absent = (Inr [x], file1)"
    using demo_call by blast
  have "authorize_assessment demo_verifier demo_replay_env (demo_change\<lparr>required_change_types := []\<rparr>) (PDict []) (PList []) file1 = (Inr [], file1)"
    by (simp add: authorize_assessment_def validate_assessment_def receipt_object_def demo_change_def canonical_json_object_def ordinary_json_def)
  from approvals_used_once [OF call now_later this, of "''nonce''"]
  show ?thesis using call by (intro exI [of _ "[x]"] exI [of _ file1]) simp
qed

theorem approvals_are_exact_witness:
  "\<exists>now x. exact_approval demo_verifier demo_change now ''model-substitution'' x"
proof -
  obtain x file1 where call: "authorize_assessment demo_verifier demo_replay_env demo_change (PDict demo_receipts) (PList []) Absent = (Inr [x], file1)"
    using demo_call by blast
  from approvals_are_exact [OF call] show ?thesis by (auto simp: demo_change_def)
qed

end
