(* ===== verification/EpicConvergence.thy ===== *)
theory EpicConvergence
  imports CanonJsonUnique PoolContracts
begin

text \<open>
  \<^verbatim>\<open>scripts/cwo_core/epic_convergence.py\<close>: the append-only convergence ledger.  A record carries the
  digest of its predecessor and its own; the file holds one record per line.  A line is blank, or holds a
  JSON value, or text that is not JSON.  What the file system answers is part of the environment of an
  append: the lock or a directory may be refused, and a write may happen, fail before or after all of the
  line is in the file, or be cut inside the line or just before its newline.  The message of an unsupported
  category or disposition is kept without the \<^verbatim>\<open>repr\<close> of the value.
\<close>

datatype convergence_error =
  ConvergenceTypeError string | ConvergenceValueError string | ConvergenceOverflowError
| ConvergenceRuntimeError string | ConvergenceOSError

type_synonym 'a cres = "(convergence_error, 'a) res"

section \<open>Constants\<close>

definition RECORD_TYPE :: string where
  "RECORD_TYPE = ''cwo-epic-convergence-ledger-record''"

definition RECORD_VERSION :: int where
  "RECORD_VERSION = 1"

definition CALL_CATEGORIES :: "string list" where
  "CALL_CATEGORIES =
     [''productive'', ''validation'', ''attestation'', ''fit'', ''monitoring'', ''recovery'', ''pm'', ''architect'', ''unknown'']"

definition CLOSURE_DISPOSITIONS :: "string list" where
  "CLOSURE_DISPOSITIONS = [''retain'', ''correct'', ''quarantine'', ''defer'', ''close'']"

definition IDENTITY_FIELDS :: "string list" where
  "IDENTITY_FIELDS = [''epic_id'', ''work_unit_id'', ''bead_id'', ''packet_id'', ''session_id'', ''model'', ''phase'', ''event'']"

definition USAGE_FIELDS :: "string list" where
  "USAGE_FIELDS =
     [''tool_calls'', ''runtime_seconds'', ''input_tokens'', ''output_tokens'', ''total_tokens'', ''context_compactions'',
      ''full_suite_runs'']"

definition USAGE_INTEGER_FIELDS :: "string list" where
  "USAGE_INTEGER_FIELDS = filter (\<lambda>f. f \<noteq> ''runtime_seconds'') USAGE_FIELDS"

definition GRAPH_COUNTER_FIELDS :: "string list" where
  "GRAPH_COUNTER_FIELDS =
     [''beads_total'', ''beads_open'', ''beads_closed'', ''graph_depth'', ''work_units_total'', ''work_units_open'',
      ''work_units_closed'', ''routine_repair_children'', ''worker_sessions'']"

definition RECORD_FIELDS :: "string list" where
  "RECORD_FIELDS =
     [''record_type'', ''version''] @ IDENTITY_FIELDS
     @ [''call_category'', ''usage'', ''artifact_disposition'', ''graph_counters'', ''timestamp'', ''previous_record_sha256'',
        ''record_sha256'']"

section \<open>Fields of a record\<close>

definition nullable_text :: "pyval \<Rightarrow> string \<Rightarrow> pyval cres" where
  "nullable_text value path =
     (if value = PNone \<or> is_str value then Inr value else Inl (ConvergenceTypeError (path @ '' must be a string or null'')))"

text \<open>\<^verbatim>\<open>math.isfinite\<close> of an integer beyond the largest double raises \<^verbatim>\<open>OverflowError\<close>.\<close>

definition nonnegative_number :: "pyval \<Rightarrow> string \<Rightarrow> bool \<Rightarrow> pyval cres" where
  "nonnegative_number value path integer =
     (case value of
        PNone \<Rightarrow> Inr PNone
      | PInt i \<Rightarrow>
          if float_of_int i = None then Inl ConvergenceOverflowError
          else if i < 0 then Inl (ConvergenceValueError (path @ '' must be finite and non-negative''))
          else Inr value
      | PFloat x \<Rightarrow>
          if integer then Inl (ConvergenceTypeError (path @ '' must be a non-negative integer or null''))
          else if \<not> float_is_finite x \<or> finite_value x < 0
          then Inl (ConvergenceValueError (path @ '' must be finite and non-negative''))
          else Inr value
      | _ \<Rightarrow> Inl (ConvergenceTypeError (path @ '' must be a non-negative number or null'')))"

definition unknown_keys :: "pydict \<Rightarrow> string list \<Rightarrow> string list" where
  "unknown_keys d allowed = sorted_set (filter (\<lambda>k. k \<notin> set allowed) (dkeys d))"

definition missing_keys :: "pydict \<Rightarrow> string list \<Rightarrow> string list" where
  "missing_keys d required = sorted_set (filter (\<lambda>k. k \<notin> set (dkeys d)) required)"

definition metrics :: "pyval \<Rightarrow> string \<Rightarrow> string list \<Rightarrow> string list \<Rightarrow> bool \<Rightarrow> pyval cres" where
  "metrics value path names integer_names fill_missing =
     (case value of
        PNone \<Rightarrow> Inr PNone
      | PDict d \<Rightarrow>
          rbind (ensure (unknown_keys d names = [])
            (ConvergenceValueError (path @ '' has unknown fields: '' @ py_join '', '' (unknown_keys d names)))) (\<lambda>_.
          rbind (ensure (missing_keys d names = [] \<or> fill_missing)
            (ConvergenceValueError (path @ '' is missing fields: '' @ py_join '', '' (missing_keys d names)))) (\<lambda>_.
          rbind (mapM (\<lambda>field. rbind (nonnegative_number (dget d field) (path @ ''.'' @ field) (field \<in> set integer_names))
            (\<lambda>v. Inr (field, v))) names) (\<lambda>items.
          Inr (PDict items))))
      | _ \<Rightarrow> Inl (ConvergenceTypeError (path @ '' must be an object or null'')))"

definition convergence_timestamp :: "pyval \<Rightarrow> pyval cres" where
  "convergence_timestamp value =
     (case value of
        PNone \<Rightarrow> Inr PNone
      | PStr s \<Rightarrow>
          (let offset = concat (map (\<lambda>c. if c = CHR ''Z'' then ''+00:00'' else [c]) s) in
           if s = [] then Inl (ConvergenceTypeError ''timestamp must be a non-empty ISO-8601 string or null'')
           else if parse_instant offset \<noteq> None then Inr value
           else if parse_instant (offset @ ''+00:00'') \<noteq> None then Inl (ConvergenceValueError ''timestamp must include a timezone'')
           else Inl (ConvergenceValueError ''timestamp must be ISO-8601''))
      | _ \<Rightarrow> Inl (ConvergenceTypeError ''timestamp must be a non-empty ISO-8601 string or null''))"

definition convergence_sha256 :: "pyval \<Rightarrow> string \<Rightarrow> bool \<Rightarrow> pyval cres" where
  "convergence_sha256 value path nullable =
     (if value = PNone \<and> nullable then Inr PNone
      else case value of
        PStr s \<Rightarrow>
          if length s \<noteq> 64 then Inl (ConvergenceTypeError (path @ '' must be a lowercase SHA-256 digest''))
          else if \<not> list_all is_hex_char s then Inl (ConvergenceValueError (path @ '' must be a lowercase SHA-256 digest''))
          else Inr value
      | _ \<Rightarrow> Inl (ConvergenceTypeError (path @ '' must be a lowercase SHA-256 digest'')))"

definition canonical_record_sha256 :: "pydict \<Rightarrow> string" where
  "canonical_record_sha256 record = canonical_sha256 (PDict (dpop record ''record_sha256''))"

section \<open>Records\<close>

text \<open>The checks of one field that leave its value; the others replace it.\<close>

definition checked_texts :: "pydict \<Rightarrow> unit cres" where
  "checked_texts source =
     rbind (mapM (\<lambda>field. nullable_text (dget source field) field) IDENTITY_FIELDS) (\<lambda>_.
     ensure (dget source ''call_category'' = PNone \<or> in_strs (dget source ''call_category'') CALL_CATEGORIES)
       (ConvergenceValueError ''unsupported call_category''))"

definition check_record_seal :: "pydict \<Rightarrow> bool \<Rightarrow> unit cres" where
  "check_record_seal source require_hash =
     (if require_hash
      then rbind (convergence_sha256 (dget source ''record_sha256'') ''record_sha256'' False) (\<lambda>_.
        ensure (dget source ''record_sha256'' = PStr (canonical_record_sha256 source))
          (ConvergenceValueError ''record_sha256 does not match the canonical payload''))
      else ensure (dget source ''record_sha256'' = PNone)
        (ConvergenceValueError ''unsealed record must not contain record_sha256''))"

definition normalize_record :: "pyval \<Rightarrow> bool \<Rightarrow> bool \<Rightarrow> pydict cres" where
  "normalize_record record require_hash fill_nested_missing =
     (case record of
        PDict source \<Rightarrow>
          rbind (ensure (unknown_keys source RECORD_FIELDS = [])
            (ConvergenceValueError (''record has unknown fields: '' @ py_join '', '' (unknown_keys source RECORD_FIELDS)))) (\<lambda>_.
          rbind (ensure (missing_keys source RECORD_FIELDS = [])
            (ConvergenceValueError (''record is missing fields: '' @ py_join '', '' (missing_keys source RECORD_FIELDS)))) (\<lambda>_.
          rbind (ensure (dget source ''record_type'' = PStr RECORD_TYPE)
            (ConvergenceValueError (''record_type must be '' @ RECORD_TYPE))) (\<lambda>_.
          rbind (ensure (\<not> is_bool (dget source ''version'') \<and> py_eq (dget source ''version'') (PInt RECORD_VERSION))
            (ConvergenceValueError (''version must be '' @ str_of_int RECORD_VERSION))) (\<lambda>_.
          rbind (checked_texts source) (\<lambda>_.
          rbind (metrics (dget source ''usage'') ''usage'' USAGE_FIELDS USAGE_INTEGER_FIELDS fill_nested_missing) (\<lambda>usage.
          rbind (nullable_text (dget source ''artifact_disposition'') ''artifact_disposition'') (\<lambda>_.
          rbind (metrics (dget source ''graph_counters'') ''graph_counters'' GRAPH_COUNTER_FIELDS GRAPH_COUNTER_FIELDS fill_nested_missing)
            (\<lambda>counters.
          rbind (convergence_timestamp (dget source ''timestamp'')) (\<lambda>_.
          rbind (convergence_sha256 (dget source ''previous_record_sha256'') ''previous_record_sha256'' True) (\<lambda>_.
          let result = dset (dset source ''usage'' usage) ''graph_counters'' counters in
          rbind (check_record_seal result require_hash) (\<lambda>_.
          Inr result)))))))))))
      | _ \<Rightarrow> Inl (ConvergenceTypeError ''record must be an object''))"

definition validate_record :: "pyval \<Rightarrow> pydict cres" where
  "validate_record record = normalize_record record True False"

definition setdefault :: "pydict \<Rightarrow> string \<Rightarrow> pyval \<Rightarrow> pydict" where
  "setdefault d k v = (if k \<in> set (dkeys d) then d else dset d k v)"

definition BUILT_FIELDS :: "string list" where
  "BUILT_FIELDS = [''record_type'', ''version'', ''previous_record_sha256'', ''record_sha256'']"

definition build_record :: "pydict \<Rightarrow> pydict cres" where
  "build_record record =
     (let source = setdefault (setdefault (setdefault (setdefault record ''record_type'' (PStr RECORD_TYPE))
            ''version'' (PInt RECORD_VERSION)) ''previous_record_sha256'' PNone) ''record_sha256'' PNone;
          missing = missing_keys source (filter (\<lambda>f. f \<notin> set BUILT_FIELDS) RECORD_FIELDS)
      in rbind (ensure (missing = []) (ConvergenceValueError (''builder input is missing fields: '' @ py_join '', '' missing))) (\<lambda>_.
         rbind (normalize_record (PDict source) False True) (\<lambda>normalized.
         validate_record (PDict (dset normalized ''record_sha256'' (PStr (canonical_record_sha256 normalized)))))))"

section \<open>The chain\<close>

definition chain_step :: "nat \<times> pyval \<Rightarrow> pyval \<Rightarrow> (nat \<times> pyval) cres" where
  "chain_step state record =
     (let (index, previous) = state in
      rbind (validate_record record) (\<lambda>validated.
      rbind (ensure (dget validated ''previous_record_sha256'' = previous)
        (ConvergenceValueError (''ledger chain breaks at record '' @ str_of_nat index))) (\<lambda>_.
      Inr (Suc index, dget validated ''record_sha256''))))"

definition validate_chain :: "pyval list \<Rightarrow> bool cres" where
  "validate_chain records = rbind (foldM chain_step (0, PNone) records) (\<lambda>_. Inr True)"

section \<open>The file\<close>

datatype ledger_line = BlankLine | BadLine | JsonLine pyval

text \<open>A file, with whether its last line has a newline.\<close>

datatype convergence_file = NoLedger | Ledger (ledger_lines: "ledger_line list") (terminated: bool)

definition line_error :: "nat \<Rightarrow> convergence_error \<Rightarrow> convergence_error" where
  "line_error line_number e =
     (case e of
        ConvergenceTypeError message \<Rightarrow> ConvergenceValueError (''invalid ledger record at line '' @ str_of_nat line_number @ '': '' @ message)
      | ConvergenceValueError message \<Rightarrow> ConvergenceValueError (''invalid ledger record at line '' @ str_of_nat line_number @ '': '' @ message)
      | _ \<Rightarrow> e)"

definition read_line :: "nat \<times> pydict list \<Rightarrow> ledger_line \<Rightarrow> (nat \<times> pydict list) cres" where
  "read_line state line =
     (let (line_number, records) = state in
      case line of
        BlankLine \<Rightarrow> Inr (Suc line_number, records)
      | BadLine \<Rightarrow> Inl (ConvergenceValueError (''invalid ledger JSON at line '' @ str_of_nat line_number))
      | JsonLine payload \<Rightarrow>
          (case validate_record payload of
             Inl e \<Rightarrow> Inl (line_error line_number e)
           | Inr record \<Rightarrow> Inr (Suc line_number, records @ [record])))"

definition load_records :: "convergence_file \<Rightarrow> pydict list cres" where
  "load_records file =
     (case file of
        NoLedger \<Rightarrow> Inr []
      | Ledger lines _ \<Rightarrow>
          rbind (foldM read_line (1, []) lines) (\<lambda>(_, records).
          rbind (validate_chain (map PDict records)) (\<lambda>_.
          Inr records)))"

datatype line_write = Written | WrittenUnsynced | NotWritten | CutInLine | CutBeforeNewline

record append_env =
  append_refused :: "convergence_error option"
  line_write_result :: line_write

text \<open>Text after a last line without a newline joins that line.\<close>

definition put_line :: "convergence_file \<Rightarrow> ledger_line \<Rightarrow> bool \<Rightarrow> convergence_file" where
  "put_line file line newline =
     (case file of
        NoLedger \<Rightarrow> Ledger [line] newline
      | Ledger lines term \<Rightarrow>
          if term \<or> lines = [] then Ledger (lines @ [line]) newline
          else Ledger (butlast lines @ [if last lines = BlankLine then line else BadLine]) newline)"

definition next_record :: "pydict \<Rightarrow> convergence_file \<Rightarrow> pydict cres" where
  "next_record record file =
     rbind (load_records file) (\<lambda>existing.
     let predecessor = (if existing = [] then PNone else dget (last existing) ''record_sha256'') in
     rbind (ensure (dget record ''previous_record_sha256'' \<in> {PNone, predecessor})
       (ConvergenceValueError ''supplied predecessor does not match the live ledger tail'')) (\<lambda>_.
     build_record (dset (dset record ''previous_record_sha256'' predecessor) ''record_sha256'' PNone)))"

definition append_record :: "append_env \<Rightarrow> pydict \<Rightarrow> convergence_file \<Rightarrow> pydict cres \<times> convergence_file" where
  "append_record env record file =
     (case append_refused env of
        Some e \<Rightarrow> (Inl e, file)
      | None \<Rightarrow>
          (case next_record record file of
             Inl e \<Rightarrow> (Inl e, file)
           | Inr sealed \<Rightarrow>
               (let line = JsonLine (sort_keys (PDict sealed)) in
                case line_write_result env of
                  Written \<Rightarrow> (Inr sealed, put_line file line True)
                | WrittenUnsynced \<Rightarrow> (Inl ConvergenceOSError, put_line file line True)
                | NotWritten \<Rightarrow> (Inl ConvergenceOSError, file)
                | CutInLine \<Rightarrow> (Inl ConvergenceOSError, put_line file BadLine False)
                | CutBeforeNewline \<Rightarrow> (Inl ConvergenceOSError, put_line file line False))))"

section \<open>Closure pressure\<close>

definition closure_decision :: "bool \<Rightarrow> string \<Rightarrow> string option \<Rightarrow> bool \<times> string" where
  "closure_decision active action disposition =
     (if \<not> active then (True, ''closure-pressure-inactive'')
      else if disposition = None then (False, ''explicit-closure-disposition-required'')
      else if action = ''create-routine-repair-child'' then (False, ''routine-repair-child-rejected'')
      else (True, ''closure-disposition-recorded''))"

definition evaluate_closure_pressure :: "pyval \<Rightarrow> pyval \<Rightarrow> pyval \<Rightarrow> pydict cres" where
  "evaluate_closure_pressure active action disposition =
     rbind (ensure (is_bool active) (ConvergenceTypeError ''active must be boolean'')) (\<lambda>_.
     rbind (ensure (is_str action \<and> the_str action \<noteq> []) (ConvergenceTypeError ''action must be a non-empty string'')) (\<lambda>_.
     rbind (ensure (disposition = PNone \<or> in_strs disposition CLOSURE_DISPOSITIONS)
       (ConvergenceValueError ''unsupported closure disposition'')) (\<lambda>_.
     let (allowed, reason) = closure_decision (active = PBool True) (the_str action)
           (if disposition = PNone then None else Some (the_str disposition))
     in Inr [(''active'', active), (''action'', action), (''disposition'', disposition), (''allowed'', PBool allowed),
          (''reason'', PStr reason), (''allowed_dispositions'', PList (map PStr CLOSURE_DISPOSITIONS))])))"

end
