(* ===== verification/EpicConvergenceProperties.thy ===== *)
theory EpicConvergenceProperties
  imports EpicConvergence
begin

text \<open>
  The convergence ledger only grows under appends whose writes are whole lines, every stored line stays
  readable, and the digest of the last record fixes the whole history up to a collision of SHA-256.
\<close>

section \<open>What the validator accepts\<close>

lemma key_checks: "unknown_keys d allowed = [] \<longleftrightarrow> set (dkeys d) \<subseteq> set allowed" "missing_keys d required = [] \<longleftrightarrow> set required \<subseteq> set (dkeys d)"
  by (auto simp: unknown_keys_def missing_keys_def filter_empty_conv)

definition number_ok :: "bool \<Rightarrow> pyval \<Rightarrow> bool" where
  "number_ok integer v \<longleftrightarrow>
     v = PNone \<or> (\<exists>i. v = PInt i \<and> float_of_int i \<noteq> None \<and> 0 \<le> i)
     \<or> (\<exists>x. v = PFloat x \<and> \<not> integer \<and> float_is_finite x \<and> 0 \<le> finite_value x)"

lemma nonnegative_number_Inr: "nonnegative_number v path integer = Inr w \<longleftrightarrow> number_ok integer v \<and> w = v"
  by (cases v) (auto simp: nonnegative_number_def number_ok_def)

lemma sorted_number: "number_ok b v \<Longrightarrow> sort_keys v = v"
  by (auto simp: number_ok_def)

definition metrics_of :: "pydict \<Rightarrow> string list \<Rightarrow> pyval" where
  "metrics_of d names = PDict (map (\<lambda>f. (f, dget d f)) names)"

definition metrics_ok :: "pydict \<Rightarrow> string list \<Rightarrow> string list \<Rightarrow> bool \<Rightarrow> bool" where
  "metrics_ok d names ints fill \<longleftrightarrow>
     set (dkeys d) \<subseteq> set names \<and> (fill \<or> set names \<subseteq> set (dkeys d)) \<and> (\<forall>f\<in>set names. number_ok (f \<in> set ints) (dget d f))"

lemma mapM_numbers:
  "mapM (\<lambda>f. rbind (nonnegative_number (dget d f) (p f) (b f)) (\<lambda>v. Inr (f, v))) names = Inr items \<longleftrightarrow>
     (\<forall>f\<in>set names. number_ok (b f) (dget d f)) \<and> items = map (\<lambda>f. (f, dget d f)) names"
  by (induction names arbitrary: items) (auto simp: rbind_eq_Inr nonnegative_number_Inr)

lemma metrics_Inr:
  "metrics v path names ints fill = Inr u \<longleftrightarrow>
     (v = PNone \<and> u = PNone) \<or> (\<exists>d. v = PDict d \<and> metrics_ok d names ints fill \<and> u = metrics_of d names)"
  by (cases v) (auto simp: metrics_def rbind_eq_Inr key_checks mapM_numbers metrics_of_def metrics_ok_def)

text \<open>The fields that normalisation leaves as they are.\<close>

definition fields_ok :: "pydict \<Rightarrow> bool" where
  "fields_ok s \<longleftrightarrow>
     dget s ''record_type'' = PStr RECORD_TYPE \<and> \<not> is_bool (dget s ''version'') \<and> py_eq (dget s ''version'') (PInt RECORD_VERSION)
     \<and> (\<forall>f\<in>set IDENTITY_FIELDS. dget s f = PNone \<or> is_str (dget s f))
     \<and> (dget s ''call_category'' = PNone \<or> in_strs (dget s ''call_category'') CALL_CATEGORIES)
     \<and> (dget s ''artifact_disposition'' = PNone \<or> is_str (dget s ''artifact_disposition''))
     \<and> (\<exists>t. convergence_timestamp (dget s ''timestamp'') = Inr t)
     \<and> (dget s ''previous_record_sha256'' = PNone \<or> is_sha256 (dget s ''previous_record_sha256''))"

lemma mapM_nullable:
  "(\<exists>vs. mapM (\<lambda>f. nullable_text (dget s f) f) fs = Inr vs) \<longleftrightarrow> (\<forall>f\<in>set fs. dget s f = PNone \<or> is_str (dget s f))"
  by (induction fs) (auto simp: rbind_eq_Inr nullable_text_def)

lemma convergence_sha256_Inr:
  "convergence_sha256 v path nullable = Inr w \<longleftrightarrow> w = v \<and> ((v = PNone \<and> nullable) \<or> is_sha256 v)"
  by (cases v) (auto simp: convergence_sha256_def is_sha256_def hex64_def)

lemma normalize_record_Inr:
  "normalize_record v seal fill = Inr r \<longleftrightarrow>
     (\<exists>s u c. v = PDict s \<and> set (dkeys s) = set RECORD_FIELDS \<and> fields_ok s
        \<and> metrics (dget s ''usage'') ''usage'' USAGE_FIELDS USAGE_INTEGER_FIELDS fill = Inr u
        \<and> metrics (dget s ''graph_counters'') ''graph_counters'' GRAPH_COUNTER_FIELDS GRAPH_COUNTER_FIELDS fill = Inr c
        \<and> r = dset (dset s ''usage'' u) ''graph_counters'' c \<and> check_record_seal r seal = Inr ())"
proof (cases v)
  case (PDict s)
  have texts: "checked_texts s = Inr () \<longleftrightarrow> (\<forall>f\<in>set IDENTITY_FIELDS. dget s f = PNone \<or> is_str (dget s f))
      \<and> (dget s ''call_category'' = PNone \<or> in_strs (dget s ''call_category'') CALL_CATEGORIES)"
    using mapM_nullable [of s IDENTITY_FIELDS] by (auto simp: checked_texts_def rbind_eq_Inr)
  show ?thesis
    unfolding PDict normalize_record_def pyval.case rbind_eq_Inr Let_def ensure_eq_Inr key_checks fields_ok_def convergence_sha256_Inr
    using texts by (auto simp: nullable_text_def split: if_splits)
qed (simp_all add: normalize_record_def)

section \<open>Records that differ in the order of keys\<close>

lemma sort_keys_plain: "sort_keys v = w \<Longrightarrow> \<not> is_list w \<Longrightarrow> \<not> is_dict w \<Longrightarrow> v = w"
  by (cases v) auto

lemma canonical_record_sorted:
  "sort_keys (PDict d) = sort_keys (PDict e) \<Longrightarrow> wf_dict d \<Longrightarrow> wf_dict e \<Longrightarrow> canonical_record_sha256 d = canonical_record_sha256 e"
  unfolding canonical_record_sha256_def using sort_keys_dpop canonical_sha256_sorted by blast

lemma metrics_reordered:
  assumes "metrics v path names ints fill = Inr u" and "sort_keys w = sort_keys u"
  shows "metrics w path names ints False = Inr u"
proof (cases v)
  case (PDict d)
  then have ok: "metrics_ok d names ints fill" and u: "u = metrics_of d names" using assms(1) by (auto simp: metrics_Inr)
  let ?t = "map (\<lambda>f. (f, dget d f)) names"
  obtain e where w: "w = PDict e" using assms(2) by (cases w) (auto simp: u metrics_of_def)
  have same: "sort_keys (PDict e) = sort_keys (PDict ?t)" using assms(2) by (simp only: w u metrics_of_def)
  have tab: "dget ?t f = dget d f" if "f \<in> set names" for f
    using that by (induction names) (auto simp: dget_def dget_or_def)
  have "dget e f = dget d f" if "f \<in> set names" for f
  proof -
    have number: "number_ok (f \<in> set ints) (dget d f)" using ok that by (auto simp: metrics_ok_def)
    have "sort_keys (dget e f) = dget d f"
      using sort_keys_dget [OF same, of f] tab [OF that] sorted_number [OF number] by simp
    then show ?thesis by (rule sort_keys_plain) (use number in \<open>auto simp: number_ok_def\<close>)
  qed
  moreover have "set (dkeys e) = set names" using sort_keys_set [OF same] by (simp add: dkeys_def comp_def)
  ultimately show ?thesis using ok by (auto simp: w u metrics_Inr metrics_ok_def metrics_of_def)
qed (use assms in \<open>auto simp: metrics_Inr dest: sort_keys_plain\<close>)

section \<open>Reading a record again\<close>

lemma validate_record_Inr:
  "validate_record v = Inr r \<longleftrightarrow>
     (\<exists>s u c. v = PDict s \<and> set (dkeys s) = set RECORD_FIELDS \<and> fields_ok s
        \<and> metrics (dget s ''usage'') ''usage'' USAGE_FIELDS USAGE_INTEGER_FIELDS False = Inr u
        \<and> metrics (dget s ''graph_counters'') ''graph_counters'' GRAPH_COUNTER_FIELDS GRAPH_COUNTER_FIELDS False = Inr c
        \<and> r = dset (dset s ''usage'' u) ''graph_counters'' c \<and> dget r ''record_sha256'' = PStr (canonical_record_sha256 r))"
proof -
  have "check_record_seal r True = Inr () \<longleftrightarrow> dget r ''record_sha256'' = PStr (canonical_record_sha256 r)" for r
    by (auto simp: check_record_seal_def rbind_eq_Inr convergence_sha256_Inr canonical_record_sha256_def)
  then show ?thesis unfolding validate_record_def normalize_record_Inr by simp
qed

definition SCALAR_FIELDS :: "string list" where
  "SCALAR_FIELDS = [''record_type'', ''version''] @ IDENTITY_FIELDS
     @ [''call_category'', ''artifact_disposition'', ''timestamp'', ''previous_record_sha256'']"

definition finite_scalar :: "pyval \<Rightarrow> bool" where
  "finite_scalar v \<longleftrightarrow> \<not> is_list v \<and> \<not> is_dict v \<and> finite_json v"

lemma fields_scalar: "fields_ok s \<Longrightarrow> f \<in> set SCALAR_FIELDS \<Longrightarrow> finite_scalar (dget s f)"
proof -
  have rest: "x = PNone \<or> is_str x \<Longrightarrow> finite_scalar x" "x = PNone \<or> in_strs x xs \<Longrightarrow> finite_scalar x"
    "x = PNone \<or> is_sha256 x \<Longrightarrow> finite_scalar x" "convergence_timestamp x = Inr t \<Longrightarrow> finite_scalar x"
    "py_eq x (PInt n) \<Longrightarrow> finite_scalar x" for x xs t n
    by (cases x; auto simp: finite_scalar_def convergence_timestamp_def is_sha256_def in_strs_def py_eq_def norm_float_def split: pyfloat.splits)+
  assume ok: "fields_ok s" and f: "f \<in> set SCALAR_FIELDS"
  note parts = ok [unfolded fields_ok_def]
  have fixed: "finite_scalar (dget s ''record_type'')" using parts by (simp add: finite_scalar_def)
  have version: "finite_scalar (dget s ''version'')" using parts rest(5) by blast
  have identity: "\<forall>f\<in>set IDENTITY_FIELDS. finite_scalar (dget s f)" using parts rest(1) by blast
  have category: "finite_scalar (dget s ''call_category'')" using parts rest(2) by blast
  have disposition: "finite_scalar (dget s ''artifact_disposition'')" using parts rest(1) by blast
  have time: "finite_scalar (dget s ''timestamp'')" using parts rest(4) by blast
  have previous: "finite_scalar (dget s ''previous_record_sha256'')" using parts rest(3) by blast
  have "\<forall>f\<in>set SCALAR_FIELDS. finite_scalar (dget s f)"
    using fixed version identity category disposition time previous by (simp add: SCALAR_FIELDS_def ball_Un)
  then show ?thesis using f by blast
qed

lemma fields_ok_cong: "\<forall>f\<in>set SCALAR_FIELDS. dget s f = dget t f \<Longrightarrow> fields_ok s = fields_ok t"
  by (simp add: fields_ok_def SCALAR_FIELDS_def)

lemma scalar_not_metrics: "f \<in> set SCALAR_FIELDS \<Longrightarrow> f \<noteq> ''usage'' \<and> f \<noteq> ''graph_counters'' \<and> f \<noteq> ''record_sha256''"
  by (auto simp: SCALAR_FIELDS_def IDENTITY_FIELDS_def)

text \<open>What a normalised record looks like, and that any value with the same canonical form is accepted.\<close>

lemma normalized_again:
  assumes norm: "normalize_record (PDict s) seal fill = Inr r" and wf: "wf_dict s"
    and e: "sort_keys (PDict e) = sort_keys (PDict (dset r ''record_sha256'' h))" "wf_dict e"
    and h: "h = PStr (canonical_record_sha256 r)"
  shows "\<exists>r'. validate_record (PDict e) = Inr r' \<and> sort_keys (PDict r') = sort_keys (PDict e) \<and> wf_dict r'"
proof -
  let ?t = "dset r ''record_sha256'' h"
  obtain u c where s: "set (dkeys s) = set RECORD_FIELDS" "fields_ok s"
    and u: "metrics (dget s ''usage'') ''usage'' USAGE_FIELDS USAGE_INTEGER_FIELDS fill = Inr u"
    and c: "metrics (dget s ''graph_counters'') ''graph_counters'' GRAPH_COUNTER_FIELDS GRAPH_COUNTER_FIELDS fill = Inr c"
    and r: "r = dset (dset s ''usage'' u) ''graph_counters'' c"
    using norm unfolding normalize_record_Inr pyval.inject by blast
  have each: "sort_keys (dget e k) = sort_keys (dget ?t k)" for k using sort_keys_dget [OF e(1)] .
  have scalar: "dget e f = dget s f" if "f \<in> set SCALAR_FIELDS" for f
  proof -
    have "dget ?t f = dget s f" using scalar_not_metrics [OF that] by (simp add: r)
    moreover have "sort_keys (dget s f) = dget s f" using fields_scalar [OF s(2) that] by (cases "dget s f") (auto simp: finite_scalar_def)
    ultimately have "sort_keys (dget e f) = dget s f" using each by simp
    then show ?thesis using fields_scalar [OF s(2) that] sort_keys_plain unfolding finite_scalar_def by blast
  qed
  then have ok: "fields_ok e" using s(2) fields_ok_cong by metis
  have keys: "set (dkeys e) = set RECORD_FIELDS"
    using sort_keys_set [OF e(1)] s(1) by (auto simp: r RECORD_FIELDS_def)
  have u': "metrics (dget e ''usage'') ''usage'' USAGE_FIELDS USAGE_INTEGER_FIELDS False = Inr u"
    by (rule metrics_reordered [OF u]) (simp add: each r)
  have c': "metrics (dget e ''graph_counters'') ''graph_counters'' GRAPH_COUNTER_FIELDS GRAPH_COUNTER_FIELDS False = Inr c"
    by (rule metrics_reordered [OF c]) (simp add: each r)
  let ?r = "dset (dset e ''usage'' u) ''graph_counters'' c"
  have same: "sort_keys (PDict ?r) = sort_keys (PDict e)"
    unfolding sort_keys_dict_eq [OF wf_dict_dset [OF wf_dict_dset [OF e(2)]] e(2)]
    using keys each [of "''usage''"] each [of "''graph_counters''"] by (auto simp: r RECORD_FIELDS_def)
  have "canonical_record_sha256 ?r = canonical_record_sha256 ?t"
    using canonical_record_sorted [OF trans [OF same e(1)]] wf e(2) by (simp add: r)
  also have "\<dots> = canonical_record_sha256 r" by (simp add: canonical_record_sha256_def)
  finally have sha: "canonical_record_sha256 ?r = canonical_record_sha256 r" .
  have "sort_keys (dget e ''record_sha256'') = h" using each [of "''record_sha256''"] by (simp add: h)
  then have "dget e ''record_sha256'' = h" by (rule sort_keys_plain) (simp_all add: h)
  then have "validate_record (PDict e) = Inr ?r"
    unfolding validate_record_Inr using keys ok u' c' sha by (intro exI [of _ e] exI [of _ u] exI [of _ c]) (simp add: h)
  then show ?thesis using same e(2) by (intro exI [of _ ?r]) simp
qed

section \<open>Appending\<close>

definition predecessor_of :: "pydict list \<Rightarrow> pyval" where
  "predecessor_of records = (if records = [] then PNone else dget (last records) ''record_sha256'')"

lemma dget_setdefault: "dget (setdefault d k v) k' = (if k' = k \<and> k \<notin> set (dkeys d) then v else dget d k')"
  by (simp add: setdefault_def)

lemma set_dkeys_setdefault: "set (dkeys (setdefault d k v)) = insert k (set (dkeys d))"
  by (auto simp: setdefault_def)

lemma dget_absent_key: "k \<notin> set (dkeys d) \<Longrightarrow> dget d k = PNone"
  by (simp add: dget_def dget_or_def in_dkeys_iff_map_of split: option.splits)

lemma wf_setdefault: "wf_dict d \<Longrightarrow> wf_dict (setdefault d k v)"
  by (simp add: setdefault_def)

lemma built_record:
  assumes "build_record record = Inr sealed" and "wf_dict record"
  shows "\<exists>v. sort_keys (PDict sealed) = PDict v \<and> wf_dict v \<and> dget sealed ''previous_record_sha256'' = dget record ''previous_record_sha256''
     \<and> (\<forall>e. sort_keys (PDict e) = sort_keys (PDict sealed) \<and> wf_dict e \<longrightarrow>
          (\<exists>r. validate_record (PDict e) = Inr r \<and> sort_keys (PDict r) = sort_keys (PDict sealed) \<and> wf_dict r))"
proof -
  let ?s = "setdefault (setdefault (setdefault (setdefault record ''record_type'' (PStr RECORD_TYPE))
      ''version'' (PInt RECORD_VERSION)) ''previous_record_sha256'' PNone) ''record_sha256'' PNone"
  obtain n where n: "normalize_record (PDict ?s) False True = Inr n"
    and v: "validate_record (PDict (dset n ''record_sha256'' (PStr (canonical_record_sha256 n)))) = Inr sealed"
    using assms(1) unfolding build_record_def Let_def rbind_eq_Inr by blast
  let ?t = "dset n ''record_sha256'' (PStr (canonical_record_sha256 n))"
  have wf: "wf_dict ?s" using assms(2) by (intro wf_setdefault)
  obtain u c where parts: "n = dset (dset ?s ''usage'' u) ''graph_counters'' c"
    using n unfolding normalize_record_Inr pyval.inject by blast
  have wft: "wf_dict ?t" using wf by (simp add: parts)
  note again = normalized_again [OF n wf]
  have sealed: "sort_keys (PDict sealed) = sort_keys (PDict ?t)" "wf_dict sealed"
    using again [OF refl wft refl] v by auto
  have "dget sealed ''previous_record_sha256'' = dget ?t ''previous_record_sha256''"
    using v unfolding validate_record_Inr by auto
  also have "\<dots> = dget record ''previous_record_sha256''"
    by (simp add: parts dget_setdefault set_dkeys_setdefault dget_absent_key)
  finally have previous: "dget sealed ''previous_record_sha256'' = dget record ''previous_record_sha256''" .
  obtain v where "sort_keys (PDict sealed) = PDict v" by simp
  moreover have "wf_dict v" using calculation wf_sorted [OF sealed(2)] by (simp del: sort_keys.simps)
  ultimately show ?thesis
    using previous again [OF _ _ refl] sealed by (intro exI [of _ v]) (auto simp del: sort_keys.simps)
qed

lemma chain_step_Inr:
  "chain_step (i, p) v = Inr st \<longleftrightarrow> (\<exists>w. validate_record v = Inr w \<and> dget w ''previous_record_sha256'' = p \<and> st = (Suc i, dget w ''record_sha256''))"
  by (auto simp: chain_step_def rbind_eq_Inr)

lemma validated_field: "validate_record (PDict s) = Inr r \<Longrightarrow> f \<noteq> ''usage'' \<Longrightarrow> f \<noteq> ''graph_counters'' \<Longrightarrow> dget r f = dget s f"
  by (auto simp: validate_record_Inr)

lemma chain_state:
  "foldM chain_step (i, p) (map PDict records) = Inr (j, q) \<Longrightarrow> j = i + length records \<and> q = (if records = [] then p else dget (last records) ''record_sha256'')"
proof (induction records arbitrary: i p)
  case (Cons r records)
  then obtain w where w: "validate_record (PDict r) = Inr w" "foldM chain_step (Suc i, dget w ''record_sha256'') (map PDict records) = Inr (j, q)"
    by (auto simp: rbind_eq_Inr chain_step_Inr)
  then show ?case using Cons.IH [OF w(2)] validated_field [OF w(1)] by auto
qed simp

definition lines_of :: "convergence_file \<Rightarrow> ledger_line list" where
  "lines_of file = (case file of NoLedger \<Rightarrow> [] | Ledger lines _ \<Rightarrow> lines)"

definition whole_lines :: "convergence_file \<Rightarrow> bool" where
  "whole_lines file = (case file of NoLedger \<Rightarrow> True | Ledger _ newline \<Rightarrow> newline)"

lemma load_records_lines:
  "load_records file = Inr records \<longleftrightarrow>
     (\<exists>n. foldM read_line (1, []) (lines_of file) = Inr (n, records)) \<and> (\<exists>x. foldM chain_step (0, PNone) (map PDict records) = Inr x)"
  by (cases "file") (auto simp: load_records_def lines_of_def validate_chain_def rbind_eq_Inr)

lemma put_whole_line: "whole_lines file \<Longrightarrow> lines_of (put_line file line newline) = lines_of file @ [line] \<and> whole_lines (put_line file line True)"
  by (cases "file") (auto simp: put_line_def lines_of_def whole_lines_def)

lemma sort_keys_sha: "v = PNone \<or> is_sha256 v \<Longrightarrow> sort_keys v = sort_keys w \<Longrightarrow> w = v"
  using sort_keys_plain [of w v] by (auto simp: is_sha256_iff)

text \<open>A new record is read back behind the old ones.\<close>

lemma appended_line:
  assumes load: "load_records file = Inr records" and whole: "whole_lines file"
    and built: "build_record record = Inr sealed" and wf: "wf_dict record"
    and previous: "dget record ''previous_record_sha256'' = predecessor_of records"
  shows "\<exists>r. load_records (put_line file (JsonLine (sort_keys (PDict sealed))) True) = Inr (records @ [r]) \<and> sort_keys (PDict r) = sort_keys (PDict sealed)"
proof -
  obtain v where v: "sort_keys (PDict sealed) = PDict v" "wf_dict v"
    and prev: "dget sealed ''previous_record_sha256'' = dget record ''previous_record_sha256''"
    and again: "\<And>e. sort_keys (PDict e) = sort_keys (PDict sealed) \<Longrightarrow> wf_dict e \<Longrightarrow>
        \<exists>r. validate_record (PDict e) = Inr r \<and> sort_keys (PDict r) = sort_keys (PDict sealed) \<and> wf_dict r"
    using built_record [OF built wf] by blast
  have "sort_keys (PDict v) = sort_keys (PDict sealed)" using sort_keys_idem [of "PDict sealed"] unfolding v(1) .
  then obtain r where r: "validate_record (PDict v) = Inr r" "sort_keys (PDict r) = sort_keys (PDict sealed)" "wf_dict r"
    using again v(2) by blast
  obtain r' where r': "validate_record (PDict r) = Inr r'" "sort_keys (PDict r') = sort_keys (PDict sealed)"
    using again [OF r(2,3)] by blast
  let ?prev = "''previous_record_sha256''"
  have "dget v ?prev = PNone \<or> is_sha256 (dget v ?prev)" using r(1) by (auto simp: validate_record_Inr fields_ok_def)
  moreover have "sort_keys (dget v ?prev) = sort_keys (dget sealed ?prev)"
    using sort_keys_dget [OF \<open>sort_keys (PDict v) = sort_keys (PDict sealed)\<close>] .
  ultimately have "dget sealed ?prev = dget v ?prev" by (rule sort_keys_sha)
  then have at_end: "dget r' ?prev = predecessor_of records"
    using validated_field [OF r(1), of ?prev] validated_field [OF r'(1), of ?prev] prev previous by simp
  obtain n j q where lines: "foldM read_line (1, []) (lines_of file) = Inr (n, records)"
    and chain: "foldM chain_step (0, PNone) (map PDict records) = Inr (j, q)"
    using load unfolding load_records_lines by auto
  have "foldM read_line (1, []) (lines_of file @ [JsonLine (PDict v)]) = Inr (Suc n, records @ [r])"
    using lines r(1) by (simp add: foldM_append read_line_def)
  moreover have "q = predecessor_of records" using chain_state [OF chain] by (simp add: predecessor_of_def)
  then have "foldM chain_step (0, PNone) (map PDict (records @ [r])) = Inr (Suc j, dget r' ''record_sha256'')"
    using chain r'(1) at_end by (simp add: foldM_append chain_step_def)
  ultimately have "load_records (put_line file (JsonLine (PDict v)) True) = Inr (records @ [r])"
    unfolding load_records_lines using put_whole_line [OF whole] by auto
  then show ?thesis using r(2) v(1) by (intro exI [of _ r]) simp
qed

text \<open>Appends whose writes put a whole line into the file or nothing.\<close>

inductive appends :: "convergence_file \<Rightarrow> convergence_file \<Rightarrow> bool" where
  no_append: "appends f f"
| one_append: "appends f g \<Longrightarrow> append_record env record g = (r, h) \<Longrightarrow> line_write_result env \<in> {Written, WrittenUnsynced, NotWritten}
    \<Longrightarrow> wf_dict record \<Longrightarrow> appends f h"

lemma append_record_cases:
  assumes "append_record env record f = (r, g)" and "line_write_result env \<in> {Written, WrittenUnsynced, NotWritten}"
  shows "g = f \<or> (\<exists>existing sealed. load_records f = Inr existing
    \<and> build_record (dset (dset record ''previous_record_sha256'' (predecessor_of existing)) ''record_sha256'' PNone) = Inr sealed
    \<and> g = put_line f (JsonLine (sort_keys (PDict sealed))) True)"
proof (cases "append_refused env")
  case None
  show ?thesis
  proof (cases "next_record record f")
    case (Inl e)
    then show ?thesis using assms(1) by (simp add: append_record_def None)
  next
    case (Inr sealed)
    have "g = f \<or> g = put_line f (JsonLine (sort_keys (PDict sealed))) True"
      using assms by (cases "line_write_result env") (simp_all add: append_record_def None Inr del: sort_keys.simps)
    then show ?thesis
      using Inr unfolding next_record_def Let_def rbind_eq_Inr predecessor_of_def by blast
  qed
qed (use assms in \<open>simp add: append_record_def\<close>)

lemma append_grows:
  assumes "append_record env record f = (r, g)" and "line_write_result env \<in> {Written, WrittenUnsynced, NotWritten}"
    and "wf_dict record" and "load_records f = Inr records" and "whole_lines f"
  shows "\<exists>new. load_records g = Inr (records @ new) \<and> whole_lines g \<and> (\<exists>ls. lines_of g = lines_of f @ ls)"
  using append_record_cases [OF assms(1,2)]
proof (elim disjE exE conjE)
  fix existing sealed
  assume load: "load_records f = Inr existing" and g: "g = put_line f (JsonLine (sort_keys (PDict sealed))) True"
    and built: "build_record (dset (dset record ''previous_record_sha256'' (predecessor_of existing)) ''record_sha256'' PNone) = Inr sealed"
  have same: "existing = records" using load assms(4) by simp
  obtain x where "load_records g = Inr (records @ [x])"
    using appended_line [OF assms(4,5) built] assms(3) unfolding g same by auto
  then show ?thesis using put_whole_line [OF assms(5)] unfolding g by blast
qed (use assms in auto)


text \<open>A line that was cut before its newline takes the next record with it.\<close>

lemma bad_line_unreadable: "BadLine \<in> set lines \<Longrightarrow> foldM read_line st lines \<noteq> Inr x"
proof (induction lines arbitrary: st)
  case (Cons l lines)
  then show ?case by (cases st) (auto simp: rbind_eq_Inr read_line_def split: sum.splits)
qed simp

theorem cut_newline_loses_ledger:
  assumes "append_record env record (Ledger (lines @ [JsonLine v]) False) = (Inr sealed, g)"
  shows "\<exists>e. load_records g = Inl e"
proof -
  have "g = Ledger (lines @ [BadLine]) True"
    using assms by (auto simp: append_record_def Let_def put_line_def split: option.splits sum.splits line_write.splits)
  then have "load_records g \<noteq> Inr x" for x
    using bad_line_unreadable [of "lines @ [BadLine]"] by (auto simp: load_records_lines lines_of_def)
  then show ?thesis by (cases "load_records g") auto
qed

section \<open>The history behind a digest\<close>

lemma wf_dict_entry: "wf_dict d \<Longrightarrow> (k, v) \<in> set d \<Longrightarrow> v = dget d k"
  by (simp add: wf_dict_def dkeys_def dget_def dget_or_def map_of_is_SomeI)

lemma number_finite: "number_ok b v \<Longrightarrow> finite_json v"
  by (cases v) (auto simp: number_ok_def float_is_finite_def split: pyfloat.splits)

lemma metrics_finite: "metrics v path names ints fill = Inr u \<Longrightarrow> finite_json u"
  unfolding metrics_Inr metrics_ok_def metrics_of_def using number_finite by fastforce

lemma record_fields: "k \<in> set RECORD_FIELDS \<Longrightarrow> k \<in> set SCALAR_FIELDS \<or> k = ''usage'' \<or> k = ''graph_counters'' \<or> k = ''record_sha256''"
proof -
  have "list_all (\<lambda>k. k \<in> set SCALAR_FIELDS \<or> k = ''usage'' \<or> k = ''graph_counters'' \<or> k = ''record_sha256'') RECORD_FIELDS"
    by code_simp
  then show "k \<in> set RECORD_FIELDS \<Longrightarrow> ?thesis" by (simp add: list_all_iff)
qed

lemma nested_fields: "''usage'' \<in> set RECORD_FIELDS" "''graph_counters'' \<in> set RECORD_FIELDS" "''record_sha256'' \<in> set RECORD_FIELDS"
  by (simp_all add: RECORD_FIELDS_def)

lemma validated_finite:
  assumes "validate_record (PDict s) = Inr r" and "wf_dict s"
  shows "wf_dict r \<and> finite_json (PDict r)"
proof -
  obtain u c where s: "set (dkeys s) = set RECORD_FIELDS" "fields_ok s"
    and u: "metrics (dget s ''usage'') ''usage'' USAGE_FIELDS USAGE_INTEGER_FIELDS False = Inr u"
    and c: "metrics (dget s ''graph_counters'') ''graph_counters'' GRAPH_COUNTER_FIELDS GRAPH_COUNTER_FIELDS False = Inr c"
    and r: "r = dset (dset s ''usage'' u) ''graph_counters'' c" and sha: "dget r ''record_sha256'' = PStr (canonical_record_sha256 r)"
    using assms(1) unfolding validate_record_Inr pyval.inject by blast
  have wf: "wf_dict r" using assms(2) by (simp add: r)
  have "finite_json (dget r k)" if "k \<in> set RECORD_FIELDS" for k
  proof (cases "k \<in> set SCALAR_FIELDS")
    case True
    then show ?thesis using fields_scalar [OF s(2) True] scalar_not_metrics [OF True] by (simp add: r finite_scalar_def)
  next
    case False
    have "k = ''usage'' \<or> k = ''graph_counters'' \<or> k = ''record_sha256''" using record_fields [OF that] False by blast
    moreover have "finite_json (dget r ''usage'')" "finite_json (dget r ''graph_counters'')"
      using metrics_finite [OF u] metrics_finite [OF c] by (simp_all add: r)
    moreover have "finite_json (dget r ''record_sha256'')" by (simp add: sha)
    ultimately show ?thesis by blast
  qed
  moreover have "set (dkeys r) = set RECORD_FIELDS" using s(1) nested_fields by (auto simp: r)
  moreover have "k \<in> set (dkeys r)" if "(k, v) \<in> set r" for k v using that by (force simp: dkeys_def)
  ultimately have "finite_json v" if "(k, v) \<in> set r" for k v
    using wf_dict_entry [OF wf that] that by blast
  then show ?thesis using wf by auto
qed

definition json_lines :: "convergence_file \<Rightarrow> bool" where
  "json_lines f \<longleftrightarrow> (\<forall>v. JsonLine v \<in> set (lines_of f) \<longrightarrow> wf_value v)"

definition sealed_record :: "pydict \<Rightarrow> bool" where
  "sealed_record r \<longleftrightarrow> wf_dict r \<and> finite_json (PDict r) \<and> dget r ''record_sha256'' = PStr (canonical_record_sha256 r)
     \<and> (dget r ''previous_record_sha256'' = PNone \<or> is_sha256 (dget r ''previous_record_sha256''))"

fun chained :: "pyval \<Rightarrow> pydict list \<Rightarrow> bool" where
  "chained p [] = True"
| "chained p (r # rs) = (sealed_record r \<and> dget r ''previous_record_sha256'' = p \<and> chained (dget r ''record_sha256'') rs)"

lemma validated_sealed: "validate_record v = Inr r \<Longrightarrow> wf_value v \<Longrightarrow> sealed_record r"
proof -
  assume v: "validate_record v = Inr r" "wf_value v"
  then obtain s where s: "v = PDict s" "fields_ok s" and sha: "dget r ''record_sha256'' = PStr (canonical_record_sha256 r)"
    unfolding validate_record_Inr by blast
  have "wf_dict s" using v(2) by (simp add: s(1))
  moreover have "dget r ''previous_record_sha256'' = dget s ''previous_record_sha256''"
    using v(1) unfolding s(1) by (rule validated_field) simp_all
  ultimately show ?thesis
    using validated_finite [of s r] v(1) s(2) sha unfolding sealed_record_def fields_ok_def s(1) by simp
qed

lemma read_lines_sealed:
  "foldM read_line (n, acc) lines = Inr (m, all) \<Longrightarrow> \<forall>v. JsonLine v \<in> set lines \<longrightarrow> wf_value v
     \<Longrightarrow> \<forall>r\<in>set acc. sealed_record r \<Longrightarrow> \<forall>r\<in>set all. sealed_record r"
proof (induction lines arbitrary: n acc)
  case (Cons l lines)
  then obtain k acc' where mid: "read_line (n, acc) l = Inr (k, acc')" "foldM read_line (k, acc') lines = Inr (m, all)"
    by (auto simp: rbind_eq_Inr)
  have "\<forall>r\<in>set acc'. sealed_record r"
    using mid(1) Cons.prems(2,3) validated_sealed by (auto simp: read_line_def split: ledger_line.splits sum.splits)
  then show ?case using Cons.IH [OF mid(2)] Cons.prems(2) by simp
qed simp

lemma chain_steps: "foldM chain_step (i, p) (map PDict rs) = Inr x \<Longrightarrow> \<forall>r\<in>set rs. sealed_record r \<Longrightarrow> chained p rs"
proof (induction rs arbitrary: i p)
  case (Cons r rs)
  then obtain w where w: "validate_record (PDict r) = Inr w" "dget w ''previous_record_sha256'' = p"
      "foldM chain_step (Suc i, dget w ''record_sha256'') (map PDict rs) = Inr x"
    by (auto simp: rbind_eq_Inr chain_step_Inr)
  then show ?case using Cons.IH [OF w(3)] Cons.prems(2) validated_field [OF w(1)] by simp
qed simp

lemma load_chained: "load_records f = Inr rs \<Longrightarrow> json_lines f \<Longrightarrow> chained PNone rs"
proof -
  assume "load_records f = Inr rs" and json: "json_lines f"
  then obtain n x where lines: "foldM read_line (1, []) (lines_of f) = Inr (n, rs)" and chain: "foldM chain_step (0, PNone) (map PDict rs) = Inr x"
    unfolding load_records_lines by blast
  have "\<forall>r\<in>set rs. sealed_record r" using read_lines_sealed [OF lines] json by (simp add: json_lines_def)
  then show ?thesis using chain_steps [OF chain] by blast
qed

definition same_record :: "pydict \<Rightarrow> pydict \<Rightarrow> bool" where
  "same_record r r' \<longleftrightarrow> sort_keys (PDict r) = sort_keys (PDict r')"

text \<open>The text that the digest of a record is taken of, and two records of two histories that show a collision.\<close>

definition hashed_text :: "pydict \<Rightarrow> string" where
  "hashed_text r = json_text True (PDict (dpop r ''record_sha256''))"

definition shows_collision :: "pydict list \<Rightarrow> pydict list \<Rightarrow> bool" where
  "shows_collision rs rs' \<longleftrightarrow>
     (\<exists>r\<in>set rs. \<exists>r'\<in>set rs'. hashed_text r \<noteq> hashed_text r' \<and> text_sha256 (hashed_text r) = text_sha256 (hashed_text r'))"

lemma same_digest:
  assumes "sealed_record r" "sealed_record r'" and "float_free (PDict r)"
    and "dget r ''record_sha256'' = dget r' ''record_sha256''"
    and "text_sha256 (hashed_text r) = text_sha256 (hashed_text r') \<Longrightarrow> hashed_text r = hashed_text r'"
  shows "same_record r r'"
proof -
  let ?body = "\<lambda>r. PDict (dpop r ''record_sha256'')"
  have digests: "text_sha256 (hashed_text r) = text_sha256 (hashed_text r')"
    using assms(1,2,4) by (simp add: sealed_record_def canonical_record_sha256_def canonical_sha256_def text_sha256_def hashed_text_def)
  have "json_text True (?body r) = json_text True (?body r')" using assms(5) [OF digests] by (simp add: hashed_text_def)
  moreover have "float_free (?body r)" "finite_json (?body r')" using assms(2,3) by (auto simp: sealed_record_def dpop_def)
  ultimately have body: "sort_keys (?body r) = sort_keys (?body r')" using text_eq_sorted by blast
  have wf: "wf_dict r" "wf_dict r'" using assms(1,2) by (simp_all add: sealed_record_def)
  have "dget r ''record_sha256'' \<noteq> PNone" "dget r' ''record_sha256'' \<noteq> PNone" using assms(1,2) by (simp_all add: sealed_record_def)
  then have "''record_sha256'' \<in> set (dkeys r)" "''record_sha256'' \<in> set (dkeys r')" using dget_absent_key by blast+
  moreover note parts = body [unfolded sort_keys_dict_eq [OF wf_dict_dpop [OF wf(1)] wf_dict_dpop [OF wf(2)]]]
  moreover have "sort_keys (dget r k) = sort_keys (dget r' k)" if "k \<in> set (dkeys r)" for k
    using parts assms(4) that by (cases "k = ''record_sha256''") auto
  ultimately show ?thesis
    unfolding same_record_def sort_keys_dict_eq [OF wf] by (intro conjI ballI) (simp_all, blast)
qed

lemma chained_append: "chained p (rs @ [r]) \<longleftrightarrow> chained p rs \<and> sealed_record r
    \<and> dget r ''previous_record_sha256'' = (if rs = [] then p else dget (last rs) ''record_sha256'')"
  by (induction rs arbitrary: p) auto

lemma same_history:
  "\<not> shows_collision rs rs' \<Longrightarrow> chained PNone rs \<Longrightarrow> chained PNone rs' \<Longrightarrow> \<forall>r\<in>set rs. float_free (PDict r)
    \<Longrightarrow> predecessor_of rs = predecessor_of rs' \<Longrightarrow> list_all2 same_record rs rs'"
proof (induction rs arbitrary: rs' rule: rev_induct)
  case Nil
  then show ?case by (cases rs' rule: rev_cases) (auto simp: predecessor_of_def chained_append sealed_record_def)
next
  case (snoc r rs)
  obtain xs r' where rs': "rs' = xs @ [r']"
    using snoc.prems by (cases rs' rule: rev_cases) (auto simp: predecessor_of_def chained_append sealed_record_def)
  have sealed: "sealed_record r" "sealed_record r'" using snoc.prems(2,3) unfolding rs' chained_append by blast+
  have same: "same_record r r'"
    using same_digest [OF sealed] snoc.prems(1,4,5) by (auto simp: predecessor_of_def rs' shows_collision_def)
  then have "sort_keys (dget r ''previous_record_sha256'') = sort_keys (dget r' ''previous_record_sha256'')"
    unfolding same_record_def by (rule sort_keys_dget)
  then have "dget r' ''previous_record_sha256'' = dget r ''previous_record_sha256''"
    using sealed(1) sort_keys_sha unfolding sealed_record_def by blast
  then have "predecessor_of rs = predecessor_of xs"
    using snoc.prems(2,3) unfolding rs' chained_append predecessor_of_def by simp
  then have "list_all2 same_record rs xs"
    using snoc.IH snoc.prems(1-4) unfolding rs' chained_append shows_collision_def by auto
  then show ?case using same by (simp add: rs' list_all2_appendI)
qed


section \<open>Examples\<close>

text \<open>A record whose fields are all absent, with a digest.\<close>

definition demo_entry :: pydict where
  "demo_entry = map (\<lambda>f. (f, PNone)) (filter (\<lambda>f. f \<notin> set BUILT_FIELDS) RECORD_FIELDS)"

definition demo_record :: "pyval \<Rightarrow> pydict" where
  "demo_record h =
     [(''record_type'', PStr RECORD_TYPE), (''version'', PInt 1)] @ map (\<lambda>f. (f, PNone)) IDENTITY_FIELDS
     @ [(''call_category'', PNone), (''usage'', PNone), (''artifact_disposition'', PNone), (''graph_counters'', PNone),
        (''timestamp'', PNone), (''previous_record_sha256'', PNone), (''record_sha256'', h)]"

definition demo_digest :: pyval where
  "demo_digest = PStr (canonical_record_sha256 (demo_record PNone))"

lemma demo_record_simps:
  "wf_dict (demo_record h)" "wf_dict (rev (demo_record h))" "set (dkeys (demo_record h)) = set RECORD_FIELDS"
  "dpop (demo_record h) ''record_sha256'' = dpop (demo_record PNone) ''record_sha256''" "fields_ok (demo_record h)"
  "dget (demo_record h) ''record_sha256'' = h" "dget (demo_record h) ''usage'' = PNone" "dget (demo_record h) ''graph_counters'' = PNone"
  by (simp_all add: demo_record_def IDENTITY_FIELDS_def RECORD_FIELDS_def wf_dict_def dkeys_def dpop_def fields_ok_def is_bool_def
      RECORD_VERSION_def convergence_timestamp_def insert_commute)

lemma dget_rev: "wf_dict d \<Longrightarrow> dget (rev d) k = dget d k"
proof -
  assume "wf_dict d"
  then have "map_of (rev d) = map_of d"
    by (subst map_of_inject_set) (simp_all add: wf_dict_def dkeys_def rev_map [symmetric])
  then show ?thesis by (simp add: dget_def dget_or_def)
qed

lemma sort_keys_rev: "wf_dict d \<Longrightarrow> sort_keys (PDict (rev d)) = sort_keys (PDict d)"
proof -
  assume wf: "wf_dict d"
  then have "wf_dict (rev d)" by (simp add: wf_dict_def dkeys_def rev_map [symmetric])
  then show ?thesis using wf by (simp add: sort_keys_dict_eq dget_rev dkeys_def del: sort_keys.simps)
qed

lemma dset_same: "k \<in> set (dkeys d) \<Longrightarrow> wf_dict d \<Longrightarrow> dset d k (dget d k) = d"
proof (induction d)
  case (Cons p d)
  obtain k' v where "p = (k', v)" by (cases p)
  then show ?case using Cons by (auto simp: wf_dict_def dkeys_def)
qed simp

lemma demo_valid_any:
  assumes wf: "wf_dict d" and gets: "\<And>k. dget d k = dget (demo_record demo_digest) k" and keys: "set (dkeys d) = set RECORD_FIELDS"
  shows "validate_record (PDict d) = Inr d"
proof -
  have ok: "fields_ok d" using demo_record_simps(5) fields_ok_cong gets by metis
  have absent: "dget d ''usage'' = PNone" "dget d ''graph_counters'' = PNone" unfolding gets by (rule demo_record_simps)+
  have nested: "dset (dset d ''usage'' PNone) ''graph_counters'' PNone = d"
    using dset_same [of "''usage''" d] dset_same [of "''graph_counters''" d] keys nested_fields wf unfolding absent by simp
  have "sort_keys (PDict d) = sort_keys (PDict (demo_record demo_digest))"
    unfolding sort_keys_dict_eq [OF wf demo_record_simps(1)] keys demo_record_simps(3) gets by blast
  then have "canonical_record_sha256 d = canonical_record_sha256 (demo_record demo_digest)"
    using canonical_record_sorted wf demo_record_simps(1) by blast
  also have "\<dots> = canonical_record_sha256 (demo_record PNone)"
    by (simp only: canonical_record_sha256_def demo_record_simps(4) [of demo_digest])
  finally have sha: "dget d ''record_sha256'' = PStr (canonical_record_sha256 d)"
    unfolding gets demo_record_simps(6) by (simp add: demo_digest_def)
  have "metrics PNone path names ints False = Inr PNone" for path names ints unfolding metrics_Inr by blast
  then show ?thesis
    unfolding validate_record_Inr using keys ok nested sha absent by metis
qed

lemma demo_valid: "validate_record (PDict (demo_record demo_digest)) = Inr (demo_record demo_digest)"
  by (rule demo_valid_any) (rule demo_record_simps refl)+

lemma demo_valid_rev: "validate_record (PDict (rev (demo_record demo_digest))) = Inr (rev (demo_record demo_digest))"
proof (rule demo_valid_any)
  show "set (dkeys (rev (demo_record demo_digest))) = set RECORD_FIELDS"
    using demo_record_simps(3) [of demo_digest] by (simp only: dkeys_def rev_map [symmetric] set_rev)
qed (rule demo_record_simps dget_rev [OF demo_record_simps(1)])+

definition demo_ledger :: convergence_file where
  "demo_ledger = Ledger [JsonLine (PDict (demo_record demo_digest))] True"

definition demo_ledger_reordered :: convergence_file where
  "demo_ledger_reordered = Ledger [BlankLine, JsonLine (PDict (rev (demo_record demo_digest)))] True"

lemma demo_loads:
  "load_records demo_ledger = Inr [demo_record demo_digest]"
  "load_records demo_ledger_reordered = Inr [rev (demo_record demo_digest)]"
proof -
  have first: "dget (demo_record h) ''previous_record_sha256'' = PNone" for h by (simp add: demo_record_def IDENTITY_FIELDS_def)
  show "load_records demo_ledger = Inr [demo_record demo_digest]"
    using demo_valid first by (simp add: demo_ledger_def load_records_def read_line_def validate_chain_def chain_step_def)
  show "load_records demo_ledger_reordered = Inr [rev (demo_record demo_digest)]"
    using demo_valid_rev first dget_rev [OF demo_record_simps(1)]
    by (simp add: demo_ledger_reordered_def load_records_def read_line_def validate_chain_def chain_step_def)
qed

lemma demo_no_collision: "\<not> shows_collision [demo_record demo_digest] [rev (demo_record demo_digest)]"
proof -
  let ?d = "demo_record demo_digest"
  have keys: "set (dkeys (rev ?d)) = set (dkeys ?d)" by (simp add: dkeys_def)
  have float: "float_free (PDict (dpop ?d ''record_sha256''))" by (auto simp: demo_record_def dpop_def)
  have "finite_json (PDict (dpop (rev ?d) ''record_sha256''))" by (auto simp: demo_record_def dpop_def)
  moreover have "sort_keys (PDict (dpop ?d ''record_sha256'')) = sort_keys (PDict (dpop (rev ?d) ''record_sha256''))"
    using keys by (subst sort_keys_dict_eq) (auto simp: demo_record_simps(1,2) dget_rev [OF demo_record_simps(1)])
  ultimately show ?thesis using text_eq_sorted [OF float] by (simp add: shows_collision_def hashed_text_def del: json_text.simps sort_keys.simps finite_json.simps)
qed


lemma demo_normalized:
  assumes "h = PNone \<or> is_sha256 h"
  shows "\<exists>n. normalize_record (PDict ((demo_entry @ [(''previous_record_sha256'', h), (''record_sha256'', PNone),
      (''record_type'', PStr RECORD_TYPE), (''version'', PInt RECORD_VERSION)]))) False True = Inr n"
proof -
  let ?s = "demo_entry @ [(''previous_record_sha256'', h), (''record_sha256'', PNone),
      (''record_type'', PStr RECORD_TYPE), (''version'', PInt RECORD_VERSION)]"
  note entry = demo_entry_def RECORD_FIELDS_def IDENTITY_FIELDS_def BUILT_FIELDS_def
  have none: "metrics PNone path names ints True = Inr PNone" for path names ints unfolding metrics_Inr by blast
  have keys: "set (dkeys ?s) = set RECORD_FIELDS" by (simp add: entry dkeys_def insert_commute)
  have ok: "fields_ok ?s"
    using assms by (simp add: entry fields_ok_def RECORD_VERSION_def is_bool_def convergence_timestamp_def)
  have absent: "dget ?s ''usage'' = PNone" "dget ?s ''graph_counters'' = PNone" "dget ?s ''record_sha256'' = PNone" by (simp_all add: entry)
  then have "check_record_seal (dset (dset ?s ''usage'' PNone) ''graph_counters'' PNone) False = Inr ()"
    by (simp add: check_record_seal_def)
  then show ?thesis
    unfolding normalize_record_Inr using keys ok none [of "''usage''"] none [of "''graph_counters''"] absent(1,2)
    by - (rule exI [of _ "dset (dset ?s ''usage'' PNone) ''graph_counters'' PNone"], rule exI [of _ ?s], rule exI [of _ PNone], rule exI [of _ PNone], simp)
qed

lemma demo_next: "\<exists>sealed. next_record demo_entry demo_ledger = Inr sealed"
proof -
  let ?source = "demo_entry @ [(''previous_record_sha256'', demo_digest), (''record_sha256'', PNone),
      (''record_type'', PStr RECORD_TYPE), (''version'', PInt RECORD_VERSION)]"
  obtain n where n: "normalize_record (PDict ?source) False True = Inr n"
    using demo_normalized [of demo_digest] by (auto simp: demo_digest_def canonical_record_sha256_def)
  have wf: "wf_dict ?source"
    by (simp add: wf_dict_def dkeys_def demo_entry_def RECORD_FIELDS_def IDENTITY_FIELDS_def BUILT_FIELDS_def)
  have "wf_dict n" using n wf unfolding normalize_record_Inr by auto
  then have "\<exists>r. validate_record (PDict (dset n ''record_sha256'' (PStr (canonical_record_sha256 n)))) = Inr r"
    using normalized_again [OF n wf refl _ refl] by auto
  then obtain r where r: "validate_record (PDict (dset n ''record_sha256'' (PStr (canonical_record_sha256 n)))) = Inr r" by blast
  have source: "setdefault (setdefault (setdefault (setdefault (dset (dset demo_entry ''previous_record_sha256'' demo_digest) ''record_sha256'' PNone)
      ''record_type'' (PStr RECORD_TYPE)) ''version'' (PInt RECORD_VERSION)) ''previous_record_sha256'' PNone) ''record_sha256'' PNone = ?source"
    by (simp add: setdefault_def demo_entry_def RECORD_FIELDS_def IDENTITY_FIELDS_def BUILT_FIELDS_def dkeys_def)
  have "missing_keys ?source (filter (\<lambda>f. f \<notin> set BUILT_FIELDS) RECORD_FIELDS) = []"
    unfolding key_checks by (auto simp: demo_entry_def dkeys_def)
  then have "build_record (dset (dset demo_entry ''previous_record_sha256'' demo_digest) ''record_sha256'' PNone) = Inr r"
    unfolding build_record_def source Let_def by (simp add: n r)
  moreover have "dget demo_entry ''previous_record_sha256'' = PNone"
    by (simp add: demo_entry_def RECORD_FIELDS_def IDENTITY_FIELDS_def BUILT_FIELDS_def)
  ultimately show ?thesis
    by (simp add: next_record_def demo_loads(1) demo_record_simps(6))
qed


end
