(* ===== verification/RetryEvidence.thy ===== *)
theory RetryEvidence
  imports Authority
begin

text \<open>
  \<^verbatim>\<open>scripts/cwo_core/native_retry.py\<close>: whether a worker that was interrupted may be tried once more,
  and the receipt that records the answer.  Receipts of version 3 are audit evidence; versions 1 and 2, which
  once authorised a dispatch, are read as history.  An untrusted receipt is first written as canonical JSON
  and read back, which leaves the value with its keys sorted; what is not an object is refused there.
\<close>

datatype retry_error =
  RetryValueError string | RetryNumberError string | RetryKeyError string | RetryAuthorityError authority_error

type_synonym 'a retry_res = "(retry_error, 'a) res"

section \<open>Constants\<close>

definition RETRY_EVIDENCE_TYPE :: string where
  "RETRY_EVIDENCE_TYPE = ''cwo-native-retry-evidence''"

definition RETRY_EVIDENCE_VERSION :: int where
  "RETRY_EVIDENCE_VERSION = 3"

definition RETRY_EVIDENCE_SCHEMA :: string where
  "RETRY_EVIDENCE_SCHEMA = ''schemas/native-retry-evidence.schema.json''"

definition RETRY_AUTHORIZATION_TYPE_V2 :: string where
  "RETRY_AUTHORIZATION_TYPE_V2 = ''cwo-native-retry-authorization''"

definition RETRY_V2_EVIDENCE_SOURCE_ID :: string where
  "RETRY_V2_EVIDENCE_SOURCE_ID = ''native-retry-supervisor-policy-v2''"

definition RETRY_EVIDENCE_IDENTITY_SOURCE :: string where
  "RETRY_EVIDENCE_IDENTITY_SOURCE = ''native-retry-policy''"

definition RETRY_ELIGIBILITY_TYPE :: string where
  "RETRY_ELIGIBILITY_TYPE = ''cwo-native-retry-eligibility''"

definition RETRY_EVIDENCE_SOURCE_ID :: string where
  "RETRY_EVIDENCE_SOURCE_ID = ''native-retry-audit-evidence-v3''"

definition RETRY_RECEIPT_AUTHORITY :: string where
  "RETRY_RECEIPT_AUTHORITY = ''audit-only''"

definition RETRY_REQUIRED_DISPATCH_AUTHORITY :: string where
  "RETRY_REQUIRED_DISPATCH_AUTHORITY = ''opaque-verified-recovery-action''"

definition RETRY_ELIGIBLE_NEXT_ACTION :: string where
  "RETRY_ELIGIBLE_NEXT_ACTION = ''await-verified-recovery-action''"

definition RETRY_EVIDENCE_BINDING_FIELDS :: "string list" where
  "RETRY_EVIDENCE_BINDING_FIELDS =
     [''parent_packet_sha256'', ''retry_packet_sha256'', ''supervision_state_sha256'', ''workspace_report_sha256'',
      ''semantic_result_sha256'', ''recovery_policy_sha256'', ''fresh_attestation_sha256'', ''eligibility_sha256'']"

definition RETRY_EVIDENCE_PROVENANCE_FIELDS :: "string list" where
  "RETRY_EVIDENCE_PROVENANCE_FIELDS =
     [''version'', ''provenance_type'', ''source_id'', ''source_sha256'', ''identity_source'', ''verification'',
      ''provenance_sha256'']"

definition IMMUTABLE_WORK_FIELDS :: "string list" where
  "IMMUTABLE_WORK_FIELDS =
     [''bead_id'', ''lane'', ''requested_model'', ''tool_policy'', ''scope'', ''acceptance_checks'', ''budget'',
      ''return_contract'', ''work_plan'']"

section \<open>The work\<close>

definition retry_mapping :: "pyval \<Rightarrow> string \<Rightarrow> pydict retry_res" where
  "retry_mapping value label =
     (case value of PDict d \<Rightarrow> Inr d | _ \<Rightarrow> Inl (RetryValueError (label @ '' must be an object'')))"

definition nonempty_list :: "pyval \<Rightarrow> bool" where
  "nonempty_list value = (case value of PList xs \<Rightarrow> xs \<noteq> [] \<and> list_all nonempty_text xs | _ \<Rightarrow> False)"

definition canonical_work_payload :: "pyval \<Rightarrow> pydict retry_res" where
  "canonical_work_payload packet =
     rbind (retry_mapping packet ''packet'') (\<lambda>source.
     let missing = filter (\<lambda>field. field \<notin> set (dkeys source)) IMMUTABLE_WORK_FIELDS;
         require = (\<lambda>b m. ensure b (RetryValueError m))
     in rbind (require (missing = []) (''packet missing immutable work field(s): '' @ py_join '', '' missing)) (\<lambda>_.
     rbind (require (nonempty_text (dget source ''bead_id'') \<and> nonempty_text (dget source ''lane'')
         \<and> nonempty_text (dget source ''requested_model'')) ''packet work identity fields must be non-empty strings'') (\<lambda>_.
     rbind (require (is_dict (dget source ''scope'')) ''packet.scope must be an object'') (\<lambda>_.
     rbind (require (nonempty_list (dget source ''acceptance_checks'')) ''packet.acceptance_checks must be non-empty strings'') (\<lambda>_.
     rbind (require (is_dict (dget source ''budget'')) ''packet.budget must be an object'') (\<lambda>_.
     rbind (require (is_dict (dget source ''return_contract'')) ''packet.return_contract must be an object'') (\<lambda>_.
     rbind (require (is_dict (dget source ''work_plan'')) ''packet.work_plan must be an object'') (\<lambda>_.
     Inr (map (\<lambda>field. (field, dget source field)) IMMUTABLE_WORK_FIELDS)))))))))"

definition canonical_work_sha256 :: "pyval \<Rightarrow> string retry_res" where
  "canonical_work_sha256 packet =
     rbind (canonical_work_payload packet) (\<lambda>payload. Inr (canonical_sha256 (PDict payload)))"

section \<open>Eligibility\<close>

record retry_usage =
  used_tool_calls :: int
  used_runtime :: int

text \<open>\<^verbatim>\<open>int\<close> of a NaN raises \<^verbatim>\<open>ValueError\<close> and of an infinity \<^verbatim>\<open>OverflowError\<close>.\<close>

definition usage_field :: "pydict \<Rightarrow> string \<Rightarrow> string \<Rightarrow> int retry_res" where
  "usage_field source label field =
     (let invalid = RetryValueError (label @ ''.'' @ field @ '' must be a non-negative number'') in
      case dget_or source field (PInt 0) of
        PInt i \<Rightarrow> if i < 0 then Inl invalid else Inr i
      | PFloat (FFin q) \<Rightarrow> if q < 0 then Inl invalid else Inr (PyFloat.truncate q)
      | PFloat (FInf neg) \<Rightarrow> if neg then Inl invalid else Inl (RetryNumberError ''cannot convert float infinity to integer'')
      | PFloat FNan \<Rightarrow> Inl (RetryNumberError ''cannot convert float NaN to integer'')
      | _ \<Rightarrow> Inl invalid)"

definition retry_usage_of :: "pydict \<Rightarrow> string \<Rightarrow> retry_usage retry_res" where
  "retry_usage_of source label =
     rbind (usage_field source label ''tool_calls'') (\<lambda>calls.
     rbind (usage_field source label ''runtime_seconds'') (\<lambda>runtime.
     Inr \<lparr>used_tool_calls = calls, used_runtime = runtime\<rparr>))"

definition usage_dict :: "retry_usage \<Rightarrow> pyval" where
  "usage_dict u = PDict [(''tool_calls'', PInt (used_tool_calls u)), (''runtime_seconds'', PInt (used_runtime u))]"

text \<open>The limits of the policy, as far as it is well formed, with the reasons that it is not.\<close>

definition text_items :: "pyval \<Rightarrow> pyval list option" where
  "text_items value = (case value of PList xs \<Rightarrow> if list_all nonempty_text xs then Some xs else None | _ \<Rightarrow> None)"

definition policy_retries :: "pydict \<Rightarrow> int" where
  "policy_retries policy = (if dget policy ''max_retries'' = PInt 1 then 1 else 0)"

definition policy_items :: "pydict \<Rightarrow> string \<Rightarrow> pyval list" where
  "policy_items policy field = (case text_items (dget policy field) of Some xs \<Rightarrow> xs | None \<Rightarrow> [])"

definition policy_reasons :: "pydict \<Rightarrow> string list" where
  "policy_reasons policy =
     err_if (dget policy ''enabled'' \<noteq> PBool True) ''recovery-disabled''
     @ err_if (dget policy ''max_retries'' \<noteq> PInt 1) ''invalid-retry-policy''
     @ err_if (text_items (dget policy ''eligible_semantic_statuses'') = None) ''invalid-retry-policy''
     @ err_if (text_items (dget policy ''eligible_interrupt_reasons'') = None) ''invalid-retry-policy''"

definition supervision_reasons :: "pydict \<Rightarrow> pydict \<Rightarrow> pyval list \<Rightarrow> string list" where
  "supervision_reasons packet state eligible_reasons =
     err_if (dget state ''decision'' \<noteq> PStr ''interrupt'') ''supervisor-not-interrupted''
     @ (case text_items (dget state ''reasons'') of
          Some (x # xs) \<Rightarrow> err_if (\<exists>item\<in>set (x # xs). item \<notin> set eligible_reasons) ''ineligible-interrupt-reason''
        | _ \<Rightarrow> [''invalid-supervisor-reasons''])
     @ err_if (\<not> py_eq (dget state ''requested_model'') (dget packet ''requested_model'')) ''model-mismatch''
     @ err_if (\<not> is_dict (dget state ''control_timing'')
         \<or> dget (the_dict (dget state ''control_timing'')) ''monitor_armed_before_dispatch'' \<noteq> PBool True
         \<or> \<not> py_eq (dget (the_dict (dget state ''control_timing'')) ''late_poll_count'') (PInt 0)) ''control-loss''"

definition observed_reasons :: "pydict \<Rightarrow> string list" where
  "observed_reasons observed =
     err_if (\<not> py_eq (dget observed ''context_compactions'') (PInt 0)) ''context-compaction''
     @ err_if (\<not> py_eq (dget observed ''full_suite_runs'') (PInt 0)) ''full-suite-run''"

definition evidence_reasons :: "pydict \<Rightarrow> pydict \<Rightarrow> pyval list \<Rightarrow> string list" where
  "evidence_reasons workspace semantic eligible_statuses =
     concat (map (\<lambda>field. err_if (dget workspace field \<noteq> PBool False)
         (''workspace-'' @ map (\<lambda>c. if c = CHR ''_'' then CHR ''-'' else c) field))
       [''mutation_detected'', ''unexpected_mutation_detected'', ''attribution_ambiguous'', ''incomplete''])
     @ err_if (dget semantic ''trusted'' \<noteq> PBool True) ''untrusted-semantic-evidence''
     @ err_if (dget semantic ''artifact_accepted'' \<noteq> PBool False) ''artifact-already-accepted''
     @ err_if (dget semantic ''contradiction'' \<noteq> PBool False) ''semantic-contradiction''
     @ err_if (dget semantic ''status'' \<notin> set eligible_statuses) ''ineligible-semantic-status''"

text \<open>The attempt of the recovery state, replaced by the limit when it is not a count.\<close>

definition recovery_attempt :: "pydict \<Rightarrow> int \<Rightarrow> int" where
  "recovery_attempt recovery max_retries =
     (case dget_or recovery ''attempt'' (PInt 0) of PInt i \<Rightarrow> if 0 \<le> i then i else max_retries | _ \<Rightarrow> max_retries)"

definition attempt_reasons :: "pyval \<Rightarrow> int \<Rightarrow> string list" where
  "attempt_reasons recovery max_retries =
     err_if (\<not> is_dict recovery) ''invalid-recovery-state''
     @ err_if (\<not> is_int_ge 0 (dget_or (the_dict recovery) ''attempt'' (PInt 0))) ''invalid-recovery-attempt''
     @ err_if (max_retries \<le> recovery_attempt (the_dict recovery) max_retries) ''retry-exhausted''"

definition allowance_of :: "pydict \<Rightarrow> string \<Rightarrow> int" where
  "allowance_of allowance field = (if is_int_ge 0 (dget allowance field) then the_int (dget allowance field) else 0)"

definition remaining_usage :: "pydict \<Rightarrow> retry_usage \<Rightarrow> retry_usage" where
  "remaining_usage allowance cumulative =
     \<lparr>used_tool_calls = allowance_of allowance ''tool_calls_hard'' - used_tool_calls cumulative,
      used_runtime = allowance_of allowance ''runtime_seconds_hard'' - used_runtime cumulative\<rparr>"

definition allowance_reasons :: "pydict \<Rightarrow> retry_usage \<Rightarrow> string list" where
  "allowance_reasons allowance remaining =
     concat (map (\<lambda>(field, left).
         err_if (\<not> is_int_ge 0 (dget allowance field)) ''invalid-aggregate-allowance''
         @ err_if (left < 0) ''aggregate-allowance-exhausted'')
       [(''tool_calls_hard'', used_tool_calls remaining), (''runtime_seconds_hard'', used_runtime remaining)])"

definition budget_reasons :: "pydict \<Rightarrow> retry_usage \<Rightarrow> string list" where
  "budget_reasons budget remaining =
     concat (map (\<lambda>(field, left).
         if \<not> is_int_ge 0 (dget budget field) then [''invalid-retry-budget'']
         else err_if (left < the_int (dget budget field)) ''insufficient-aggregate-retry-budget'')
       [(''tool_calls_hard'', used_tool_calls remaining), (''runtime_seconds_hard'', used_runtime remaining)])"

record retry_eligibility =
  eligibility_reasons :: "string list"
  eligibility_work_sha256 :: string
  eligibility_attempt :: int
  eligibility_cumulative :: retry_usage
  eligibility_remaining :: retry_usage
  eligibility_budget :: pydict

definition eligibility_dict :: "retry_eligibility \<Rightarrow> pydict" where
  "eligibility_dict e =
     [(''result_type'', PStr RETRY_ELIGIBILITY_TYPE), (''version'', PInt 1), (''eligible'', PBool (eligibility_reasons e = [])),
      (''receipt_authority'', PStr RETRY_RECEIPT_AUTHORITY), (''dispatch_authorized'', PBool False),
      (''required_dispatch_authority'', PStr RETRY_REQUIRED_DISPATCH_AUTHORITY),
      (''reasons'', PList (map PStr (eligibility_reasons e))), (''work_sha256'', PStr (eligibility_work_sha256 e)),
      (''attempt'', PInt (eligibility_attempt e)), (''next_attempt'', PInt (eligibility_attempt e + 1)),
      (''cumulative_usage'', usage_dict (eligibility_cumulative e)),
      (''remaining_before_retry'', usage_dict (eligibility_remaining e)), (''retry_budget'', PDict (eligibility_budget e)),
      (''next_action'', PStr (if eligibility_reasons e = [] then RETRY_ELIGIBLE_NEXT_ACTION else ''protected-stop''))]"

definition evaluate_retry_eligibility ::
  "pyval \<Rightarrow> pyval \<Rightarrow> pyval \<Rightarrow> pyval \<Rightarrow> pyval \<Rightarrow> retry_eligibility retry_res" where
  "evaluate_retry_eligibility packet supervision_state workspace_report semantic_result recovery_policy =
     rbind (retry_mapping packet ''packet'') (\<lambda>work.
     rbind (retry_mapping supervision_state ''supervision_state'') (\<lambda>state.
     rbind (retry_mapping workspace_report ''workspace_report'') (\<lambda>workspace.
     rbind (retry_mapping semantic_result ''semantic_result'') (\<lambda>semantic.
     rbind (retry_mapping recovery_policy ''recovery_policy'') (\<lambda>policy.
     rbind (retry_mapping (dget_or state ''observed'' (PDict [])) ''supervision_state.observed'') (\<lambda>observed.
     rbind (retry_usage_of observed ''supervision_state.observed'') (\<lambda>current.
     let recovery = dget_or state ''recovery'' (PDict []); max_retries = policy_retries policy in
     rbind (retry_usage_of (the_dict (dget_or (the_dict recovery) ''cumulative_usage'' (PDict [])))
       ''supervision_state.recovery.cumulative_usage'') (\<lambda>before.
     let cumulative = \<lparr>used_tool_calls = used_tool_calls before + used_tool_calls current,
           used_runtime = used_runtime before + used_runtime current\<rparr> in
     rbind (retry_mapping (dget work ''work_plan'') ''packet.work_plan'') (\<lambda>work_plan.
     rbind (retry_mapping (dget work_plan ''aggregate_allowance'') ''packet.work_plan.aggregate_allowance'') (\<lambda>allowance.
     let remaining = remaining_usage allowance cumulative in
     rbind (retry_mapping (dget work ''budget'') ''packet.budget'') (\<lambda>budget.
     rbind (canonical_work_sha256 packet) (\<lambda>work_sha256.
     Inr \<lparr>eligibility_reasons = sorted_set (policy_reasons policy
            @ supervision_reasons work state (policy_items policy ''eligible_interrupt_reasons'')
            @ observed_reasons observed @ evidence_reasons workspace semantic (policy_items policy ''eligible_semantic_statuses'')
            @ attempt_reasons recovery max_retries @ allowance_reasons allowance remaining @ budget_reasons budget remaining),
          eligibility_work_sha256 = work_sha256, eligibility_attempt = recovery_attempt (the_dict recovery) max_retries,
          eligibility_cumulative = cumulative, eligibility_remaining = remaining,
          eligibility_budget = [(''tool_calls'', dget budget ''tool_calls_hard''),
            (''runtime_seconds'', dget budget ''runtime_seconds_hard'')]\<rparr>))))))))))))"

section \<open>Validation of receipts\<close>

definition V1_FIELDS :: "string list" where
  "V1_FIELDS =
     [''parent_packet_id'', ''retry_packet_id'', ''bead_id'', ''requested_model'', ''attested_model'', ''parent_session_id'',
      ''retry_session_id'', ''tool_surface_id'', ''attestation_source'', ''work_sha256'', ''attempt_from'', ''attempt_to'',
      ''cumulative_usage'', ''remaining_before_retry'', ''retry_budget'']"

definition V1_TEXT_FIELDS :: "string list" where
  "V1_TEXT_FIELDS =
     [''parent_packet_id'', ''retry_packet_id'', ''bead_id'', ''requested_model'', ''attested_model'', ''parent_session_id'',
      ''retry_session_id'', ''tool_surface_id'', ''attestation_source'', ''work_sha256'', ''authority'', ''decision'', ''receipt_sha256'']"

definition usage_errors :: "pydict \<Rightarrow> string \<Rightarrow> string list" where
  "usage_errors receipt field =
     (case dget receipt field of
        PDict d \<Rightarrow>
          if set (dkeys d) \<noteq> {''tool_calls'', ''runtime_seconds''} then [field @ '' must contain tool_calls and runtime_seconds'']
          else err_if (\<exists>item\<in>set (map snd d). \<not> is_int_ge 0 item) (field @ '' values must be non-negative integers'')
      | _ \<Rightarrow> [field @ '' must contain tool_calls and runtime_seconds''])"

definition v1_errors :: "pydict \<Rightarrow> string list" where
  "v1_errors receipt =
     err_if (dget receipt ''receipt_type'' \<noteq> PStr RETRY_AUTHORIZATION_TYPE_V2) ''receipt_type mismatch''
     @ err_if (dget receipt ''version'' \<noteq> PInt 1) ''version mismatch''
     @ concat (map (\<lambda>field. err_if (\<not> nonempty_text (dget receipt field)) (field @ '' must be a non-empty string'')) V1_TEXT_FIELDS)
     @ err_if (py_eq (dget receipt ''parent_packet_id'') (dget receipt ''retry_packet_id''))
         ''retry_packet_id must differ from parent_packet_id''
     @ err_if (py_eq (dget receipt ''parent_session_id'') (dget receipt ''retry_session_id''))
         ''retry_session_id must differ from parent_session_id''
     @ err_if (\<not> py_eq (dget receipt ''requested_model'') (dget receipt ''attested_model'')) ''attested_model mismatch''
     @ err_if (dget receipt ''attestation_source'' \<noteq> PStr ''trusted-session-jsonl'') ''attestation_source mismatch''
     @ err_if (dget receipt ''attempt_from'' \<noteq> PInt 0 \<or> dget receipt ''attempt_to'' \<noteq> PInt 1) ''retry attempt lineage must be 0 to 1''
     @ err_if (dget receipt ''authority'' \<noteq> PStr ''cwo-native-supervisor-evidence'') ''authority mismatch''
     @ err_if (dget receipt ''decision'' \<noteq> PStr ''authorize-one-fresh-retry'') ''decision mismatch''
     @ concat (map (usage_errors receipt) [''cumulative_usage'', ''remaining_before_retry'', ''retry_budget''])
     @ concat (map (\<lambda>field. err_if (\<not> is_sha256 (dget receipt field)) (field @ '' must be lowercase SHA-256''))
         [''work_sha256'', ''receipt_sha256''])"

definition validate_v1_retry_authorization :: "pydict \<Rightarrow> string list" where
  "validate_v1_retry_authorization receipt =
     (if set (dkeys receipt) \<noteq> set (V1_FIELDS @ [''receipt_type'', ''version'', ''authority'', ''decision'', ''receipt_sha256''])
      then [''receipt fields do not match the strict contract'']
      else if v1_errors receipt \<noteq> [] then v1_errors receipt
      else err_if (dget receipt ''receipt_sha256'' \<noteq> PStr (canonical_sha256 (PDict (dpop receipt ''receipt_sha256''))))
        ''receipt_sha256 mismatch'')"

definition validate_evidence_bindings :: "pydict \<Rightarrow> string list" where
  "validate_evidence_bindings receipt =
     (case dget receipt ''evidence_bindings'' of
        PDict bindings \<Rightarrow>
          if set (dkeys bindings) \<noteq> set RETRY_EVIDENCE_BINDING_FIELDS
          then [''evidence_bindings fields do not match the strict contract'']
          else concat (map (\<lambda>(field, v). err_if (\<not> is_sha256 v) (''evidence_bindings.'' @ field @ '' must be lowercase SHA-256'')) bindings)
            @ err_if (dget receipt ''retry_evidence_sha256'' \<noteq> PStr (canonical_sha256 (PDict bindings))) ''retry_evidence_sha256 mismatch''
      | _ \<Rightarrow> [''evidence_bindings fields do not match the strict contract''])
     @ err_if (\<not> is_sha256 (dget receipt ''retry_evidence_sha256'')) ''retry_evidence_sha256 must be lowercase SHA-256''"

definition validate_receipt_sha256 :: "pydict \<Rightarrow> string list" where
  "validate_receipt_sha256 receipt =
     (if \<not> is_sha256 (dget receipt ''receipt_sha256'') then [''receipt_sha256 must be lowercase SHA-256'']
      else err_if (dget receipt ''receipt_sha256'' \<noteq> PStr (canonical_sha256 (PDict (dpop receipt ''receipt_sha256''))))
        ''receipt_sha256 mismatch'')"

definition historical_v1_shadow :: "pydict \<Rightarrow> pydict" where
  "historical_v1_shadow receipt =
     (let shadow = map (\<lambda>field. (field, dget receipt field)) V1_FIELDS
        @ [(''receipt_type'', PStr RETRY_AUTHORIZATION_TYPE_V2), (''version'', PInt 1),
           (''authority'', PStr ''cwo-native-supervisor-evidence''), (''decision'', PStr ''authorize-one-fresh-retry'')]
      in shadow @ [(''receipt_sha256'', PStr (canonical_sha256 (PDict shadow)))])"

definition v2_authority_errors :: "pydict \<Rightarrow> pydict \<Rightarrow> string list" where
  "v2_authority_errors receipt authority =
     (let evidence = dget receipt ''retry_evidence_sha256''; verification = dget authority ''verification'';
          field = (\<lambda>name expected message. err_if (dget authority name \<noteq> PStr expected) (''authority_provenance '' @ message))
      in field ''source_type'' ''policy-enforcement'' ''source_type mismatch''
         @ field ''source_id'' RETRY_V2_EVIDENCE_SOURCE_ID ''source_id mismatch''
         @ err_if (\<not> py_eq (dget authority ''source_sha256'') evidence) ''authority_provenance evidence binding mismatch''
         @ field ''actor_id'' ''native-supervisor-policy'' ''actor_id mismatch''
         @ field ''actor_role'' ''supervisor-policy'' ''actor_role mismatch''
         @ field ''identity_source'' RETRY_EVIDENCE_IDENTITY_SOURCE ''identity_source mismatch''
         @ field ''authorized_scope'' ''execution-path'' ''scope mismatch''
         @ err_if (dget authority ''parent_receipt_sha256'' \<noteq> PNone) ''authority_provenance parent receipt forbidden''
         @ err_if (\<not> is_dict verification \<or> dget (the_dict verification) ''method'' \<noteq> PStr ''repository-policy-v1''
             \<or> \<not> py_eq (dget (the_dict verification) ''evidence_sha256'') evidence) ''authority_provenance verification mismatch'')"

definition validate_v2_retry_authorization :: "pydict \<Rightarrow> string list retry_res" where
  "validate_v2_retry_authorization receipt =
     (let authority = dget receipt ''authority_provenance'' in
      if set (dkeys receipt) \<noteq> set (V1_FIELDS @ [''receipt_type'', ''version'', ''evidence_bindings'', ''retry_evidence_sha256'',
          ''authority_provenance'', ''decision'', ''receipt_sha256'']) then Inr [''receipt fields do not match the strict contract'']
      else rbind (map_sum RetryAuthorityError id (validate_authority_provenance authority)) (\<lambda>authority_errors.
        Inr (err_if (dget receipt ''receipt_type'' \<noteq> PStr RETRY_AUTHORIZATION_TYPE_V2) ''receipt_type mismatch''
          @ err_if (dget receipt ''version'' \<noteq> PInt 2) ''version mismatch''
          @ err_if (dget receipt ''decision'' \<noteq> PStr ''authorize-one-fresh-retry'') ''decision mismatch''
          @ validate_v1_retry_authorization (historical_v1_shadow receipt) @ validate_evidence_bindings receipt
          @ map (\<lambda>error. ''authority_provenance invalid: '' @ error) authority_errors
          @ err_if (is_dict authority \<and> dget (the_dict authority) ''version'' \<noteq> PInt 1) ''authority_provenance version mismatch''
          @ (if is_dict authority \<and> authority_errors = [] then v2_authority_errors receipt (the_dict authority) else [])
          @ validate_receipt_sha256 receipt)))"

definition V3_FIELDS :: "string list" where
  "V3_FIELDS =
     V1_FIELDS @ [''receipt_type'', ''version'', ''schema'', ''evidence_bindings'', ''retry_evidence_sha256'', ''evidence_provenance'',
       ''receipt_authority'', ''dispatch_authorized'', ''required_dispatch_authority'', ''next_action'', ''receipt_sha256'']"

definition provenance_v3_errors :: "pydict \<Rightarrow> pyval \<Rightarrow> string list" where
  "provenance_v3_errors provenance evidence =
     (let verification = dget provenance ''verification'';
          require = (\<lambda>b m. err_if (\<not> b) (''evidence_provenance '' @ m))
      in require (dget provenance ''version'' = PInt 1) ''version mismatch''
         @ require (dget provenance ''provenance_type'' = PStr ''audit-evidence'') ''type mismatch''
         @ require (dget provenance ''source_id'' = PStr RETRY_EVIDENCE_SOURCE_ID) ''source_id mismatch''
         @ require (py_eq (dget provenance ''source_sha256'') evidence) ''source binding mismatch''
         @ require (dget provenance ''identity_source'' = PStr RETRY_EVIDENCE_IDENTITY_SOURCE) ''identity_source mismatch''
         @ (if \<not> is_dict verification \<or> set (dkeys (the_dict verification)) \<noteq> {''method'', ''evidence_sha256''}
            then [''evidence_provenance verification fields mismatch'']
            else require (dget (the_dict verification) ''method'' = PStr ''repository-policy-v1''
              \<and> py_eq (dget (the_dict verification) ''evidence_sha256'') evidence) ''verification mismatch'')
         @ require (dget provenance ''provenance_sha256'' = PStr (canonical_sha256 (PDict (dpop provenance ''provenance_sha256''))))
             ''sha256 mismatch'')"

definition validate_v3_retry_evidence :: "pydict \<Rightarrow> string list" where
  "validate_v3_retry_evidence receipt =
     (let provenance = dget receipt ''evidence_provenance'' in
      if set (dkeys receipt) \<noteq> set V3_FIELDS then [''receipt fields do not match the strict contract'']
      else err_if (dget receipt ''receipt_type'' \<noteq> PStr RETRY_EVIDENCE_TYPE) ''receipt_type mismatch''
        @ err_if (dget receipt ''version'' \<noteq> PInt RETRY_EVIDENCE_VERSION) ''version mismatch''
        @ err_if (dget receipt ''schema'' \<noteq> PStr RETRY_EVIDENCE_SCHEMA) ''schema mismatch''
        @ validate_v1_retry_authorization (historical_v1_shadow receipt) @ validate_evidence_bindings receipt
        @ err_if (dget receipt ''receipt_authority'' \<noteq> PStr RETRY_RECEIPT_AUTHORITY) ''receipt_authority mismatch''
        @ err_if (dget receipt ''dispatch_authorized'' \<noteq> PBool False) ''dispatch_authorized must be false''
        @ err_if (dget receipt ''required_dispatch_authority'' \<noteq> PStr RETRY_REQUIRED_DISPATCH_AUTHORITY)
            ''required_dispatch_authority mismatch''
        @ err_if (dget receipt ''next_action'' \<noteq> PStr RETRY_ELIGIBLE_NEXT_ACTION) ''next_action mismatch''
        @ (if \<not> is_dict provenance \<or> set (dkeys (the_dict provenance)) \<noteq> set RETRY_EVIDENCE_PROVENANCE_FIELDS
           then [''evidence_provenance fields do not match the strict contract'']
           else provenance_v3_errors (the_dict provenance) (dget receipt ''retry_evidence_sha256''))
        @ validate_receipt_sha256 receipt)"

definition plain_retry_receipt_snapshot :: "pyval \<Rightarrow> pydict option" where
  "plain_retry_receipt_snapshot value = (case sort_keys value of PDict snapshot \<Rightarrow> Some snapshot | _ \<Rightarrow> None)"

definition historical_only :: "string \<Rightarrow> string list \<Rightarrow> string list" where
  "historical_only version errors =
     (if errors = [] then [''retry authorization version '' @ version @ '' is historical-only''] else errors)"

definition validate_retry_authorization :: "pyval \<Rightarrow> string list retry_res" where
  "validate_retry_authorization receipt =
     (case plain_retry_receipt_snapshot receipt of
        None \<Rightarrow> Inr [''receipt must be a canonical JSON object'']
      | Some snapshot \<Rightarrow>
          (case dget snapshot ''version'' of
             PInt version \<Rightarrow>
               if version = 1 then Inr (historical_only ''1'' (validate_v1_retry_authorization snapshot))
               else if version = 2 then map_sum id (historical_only ''2'') (validate_v2_retry_authorization snapshot)
               else Inr (validate_v3_retry_evidence snapshot)
           | _ \<Rightarrow> Inr [''version must be an exact integer'']))"

definition read_retry_authorization :: "pyval \<Rightarrow> pydict retry_res" where
  "read_retry_authorization receipt =
     (case plain_retry_receipt_snapshot receipt of
        None \<Rightarrow> Inl (RetryValueError ''invalid retry evidence: receipt must be a canonical JSON object'')
      | Some snapshot \<Rightarrow>
          rbind (case dget snapshot ''version'' of
             PInt version \<Rightarrow>
               if version = 1 then Inr (validate_v1_retry_authorization snapshot)
               else if version = 2 then validate_v2_retry_authorization snapshot
               else Inr (validate_v3_retry_evidence snapshot)
           | _ \<Rightarrow> Inr [''version must be an exact integer'']) (\<lambda>errors.
          rbind (ensure (errors = []) (RetryValueError (''invalid retry evidence: '' @ py_join ''; '' errors))) (\<lambda>_.
          Inr snapshot)))"

section \<open>Building the evidence\<close>

definition ATTESTATION_FIELDS :: "string list" where
  "ATTESTATION_FIELDS =
     [''session_id'', ''requested_model'', ''attested_model'', ''attestation_source'', ''tool_calls'', ''context_compactions'',
      ''closure_receipt'', ''tool_surface_id'']"

definition check_attestation :: "pydict \<Rightarrow> pydict \<Rightarrow> pydict \<Rightarrow> unit retry_res" where
  "check_attestation attestation state parent =
     (let require = (\<lambda>b m. ensure b (RetryValueError m)); model = dget parent ''requested_model'' in
      rbind (require (set (dkeys attestation) = set ATTESTATION_FIELDS) ''fresh_attestation fields do not match the strict contract'') (\<lambda>_.
      rbind (mapM (\<lambda>field. require (nonempty_text (dget attestation field))
          (''fresh_attestation.'' @ field @ '' must be a non-empty string''))
        [''session_id'', ''requested_model'', ''attested_model'', ''attestation_source'', ''tool_surface_id'']) (\<lambda>_.
      rbind (require (\<not> py_eq (dget attestation ''session_id'') (dget state ''session_id'')) ''retry requires a fresh session'') (\<lambda>_.
      rbind (require (py_eq (dget attestation ''requested_model'') model \<and> py_eq (dget attestation ''attested_model'') model)
        ''fresh retry model attestation mismatch'') (\<lambda>_.
      rbind (require (dget attestation ''attestation_source'' = PStr ''trusted-session-jsonl'')
        ''fresh retry attestation source is not trusted'') (\<lambda>_.
      rbind (require (dget attestation ''tool_calls'' = PInt 0) ''fresh retry attestation must use zero tools'') (\<lambda>_.
      rbind (require (dget attestation ''context_compactions'' = PInt 0) ''fresh retry attestation must have zero compactions'') (\<lambda>_.
      require (dget attestation ''closure_receipt'' = PBool True) ''fresh retry attestation requires closure receipt''))))))))"

definition retry_evidence_provenance :: "string \<Rightarrow> pydict" where
  "retry_evidence_provenance source_sha256 =
     (let body = [(''version'', PInt 1), (''provenance_type'', PStr ''audit-evidence''), (''source_id'', PStr RETRY_EVIDENCE_SOURCE_ID),
        (''source_sha256'', PStr source_sha256), (''identity_source'', PStr RETRY_EVIDENCE_IDENTITY_SOURCE),
        (''verification'', PDict [(''method'', PStr ''repository-policy-v1''), (''evidence_sha256'', PStr source_sha256)])]
      in body @ [(''provenance_sha256'', PStr (canonical_sha256 (PDict body)))])"

definition evidence_bindings ::
  "pydict \<Rightarrow> pydict \<Rightarrow> pydict \<Rightarrow> pyval \<Rightarrow> pyval \<Rightarrow> pyval \<Rightarrow> pydict \<Rightarrow> retry_eligibility \<Rightarrow> pydict" where
  "evidence_bindings parent retry state workspace semantic policy attestation eligibility =
     [(''parent_packet_sha256'', PStr (canonical_sha256 (PDict parent))), (''retry_packet_sha256'', PStr (canonical_sha256 (PDict retry))),
      (''supervision_state_sha256'', PStr (canonical_sha256 (PDict state))),
      (''workspace_report_sha256'', PStr (canonical_sha256 workspace)), (''semantic_result_sha256'', PStr (canonical_sha256 semantic)),
      (''recovery_policy_sha256'', PStr (canonical_sha256 policy)), (''fresh_attestation_sha256'', PStr (canonical_sha256 (PDict attestation))),
      (''eligibility_sha256'', PStr (canonical_sha256 (PDict (eligibility_dict eligibility))))]"

definition evidence_body :: "pydict \<Rightarrow> pydict \<Rightarrow> pydict \<Rightarrow> pydict \<Rightarrow> retry_eligibility \<Rightarrow> pydict \<Rightarrow> pydict" where
  "evidence_body parent retry state attestation eligibility bindings =
     (let evidence = canonical_sha256 (PDict bindings);
          body = [(''receipt_type'', PStr RETRY_EVIDENCE_TYPE), (''version'', PInt RETRY_EVIDENCE_VERSION), (''schema'', PStr RETRY_EVIDENCE_SCHEMA),
            (''parent_packet_id'', dget parent ''packet_id''), (''retry_packet_id'', dget retry ''packet_id''),
            (''bead_id'', dget parent ''bead_id''), (''requested_model'', dget parent ''requested_model''),
            (''attested_model'', dget attestation ''attested_model''), (''parent_session_id'', dget state ''session_id''),
            (''retry_session_id'', dget attestation ''session_id''), (''tool_surface_id'', dget attestation ''tool_surface_id''),
            (''attestation_source'', dget attestation ''attestation_source''), (''work_sha256'', PStr (eligibility_work_sha256 eligibility)),
            (''attempt_from'', PInt (eligibility_attempt eligibility)), (''attempt_to'', PInt (eligibility_attempt eligibility + 1)),
            (''cumulative_usage'', usage_dict (eligibility_cumulative eligibility)),
            (''remaining_before_retry'', usage_dict (eligibility_remaining eligibility)),
            (''retry_budget'', PDict (eligibility_budget eligibility)), (''evidence_bindings'', PDict bindings),
            (''retry_evidence_sha256'', PStr evidence), (''evidence_provenance'', PDict (retry_evidence_provenance evidence)),
            (''receipt_authority'', PStr RETRY_RECEIPT_AUTHORITY), (''dispatch_authorized'', PBool False),
            (''required_dispatch_authority'', PStr RETRY_REQUIRED_DISPATCH_AUTHORITY), (''next_action'', PStr RETRY_ELIGIBLE_NEXT_ACTION)]
      in body @ [(''receipt_sha256'', PStr (canonical_sha256 (PDict body)))])"

definition build_retry_authorization ::
  "pyval \<Rightarrow> pyval \<Rightarrow> pyval \<Rightarrow> pyval \<Rightarrow> pyval \<Rightarrow> pyval \<Rightarrow> pyval \<Rightarrow> pydict retry_res" where
  "build_retry_authorization parent_packet retry_packet supervision_state workspace_report semantic_result recovery_policy fresh_attestation =
     (let require = (\<lambda>b m. ensure b (RetryValueError m)) in
      rbind (evaluate_retry_eligibility parent_packet supervision_state workspace_report semantic_result recovery_policy) (\<lambda>eligibility.
      rbind (require (eligibility_reasons eligibility = [])
        (''retry is ineligible: '' @ py_join '', '' (eligibility_reasons eligibility))) (\<lambda>_.
      rbind (canonical_work_sha256 retry_packet) (\<lambda>work_sha256.
      rbind (require (work_sha256 = eligibility_work_sha256 eligibility) ''retry packet immutable work hash mismatch'') (\<lambda>_.
      rbind (retry_mapping supervision_state ''supervision_state'') (\<lambda>state.
      rbind (retry_mapping parent_packet ''parent_packet'') (\<lambda>parent.
      rbind (retry_mapping retry_packet ''retry_packet'') (\<lambda>retry.
      rbind (retry_mapping fresh_attestation ''fresh_attestation'') (\<lambda>attestation.
      rbind (check_attestation attestation state parent) (\<lambda>_.
      rbind (require (nonempty_text (dget parent ''packet_id'') \<and> nonempty_text (dget retry ''packet_id'')
          \<and> \<not> py_eq (dget parent ''packet_id'') (dget retry ''packet_id'')) ''retry packet requires a distinct packet_id'') (\<lambda>_.
      let bindings = evidence_bindings parent retry state workspace_report semantic_result recovery_policy attestation eligibility in
      rbind (ensure (''session_id'' \<in> set (dkeys state)) (RetryKeyError ''session_id'')) (\<lambda>_.
      let body = evidence_body parent retry state attestation eligibility bindings in
      rbind (validate_retry_authorization (PDict body)) (\<lambda>errors.
      rbind (require (errors = []) (''retry evidence validation failed: '' @ py_join '', '' errors)) (\<lambda>_.
      Inr body))))))))))))))"

end
