(* ===== verification/RetryEvidenceProperties.thy ===== *)
theory RetryEvidenceProperties
  imports RetryEvidence
begin

text \<open>
  What accepted retry evidence says: it is of version 3, authorises no dispatch, and records the one step
  from the first attempt to the second on fresh identities; a retry that is eligible fits into the aggregate
  allowance; and the builder succeeds exactly when its conditions hold, so its own validation of the finished
  receipt never refuses one.
\<close>

section \<open>The validators\<close>

lemma concat_map_Nil: "concat (map f xs) = [] \<longleftrightarrow> (\<forall>x\<in>set xs. f x = [])"
  by auto

definition v1_core :: "pydict \<Rightarrow> bool" where
  "v1_core r \<longleftrightarrow>
     (\<forall>field\<in>{''parent_packet_id'', ''retry_packet_id'', ''bead_id'', ''requested_model'', ''attested_model'', ''parent_session_id'',
        ''retry_session_id'', ''tool_surface_id''}. nonempty_text (dget r field))
     \<and> is_sha256 (dget r ''work_sha256'')
     \<and> dget r ''parent_packet_id'' \<noteq> dget r ''retry_packet_id'' \<and> dget r ''parent_session_id'' \<noteq> dget r ''retry_session_id''
     \<and> dget r ''requested_model'' = dget r ''attested_model'' \<and> dget r ''attestation_source'' = PStr ''trusted-session-jsonl''
     \<and> dget r ''attempt_from'' = PInt 0 \<and> dget r ''attempt_to'' = PInt 1
     \<and> (\<forall>field\<in>{''cumulative_usage'', ''remaining_before_retry'', ''retry_budget''}. usage_errors r field = [])"

lemma nonempty_texts_eq: "nonempty_text v \<Longrightarrow> nonempty_text w \<Longrightarrow> py_eq v w \<longleftrightarrow> v = w"
  by (auto simp: nonempty_text_iff)

lemma nonempty_sha256: "is_sha256 v \<Longrightarrow> nonempty_text v"
  using nonempty_hex64 by (auto simp: is_sha256_iff)

lemma v1_errors_Nil:
  "v1_errors r = [] \<longleftrightarrow> v1_core r \<and> dget r ''receipt_type'' = PStr RETRY_AUTHORIZATION_TYPE_V2 \<and> dget r ''version'' = PInt 1
     \<and> dget r ''authority'' = PStr ''cwo-native-supervisor-evidence'' \<and> dget r ''decision'' = PStr ''authorize-one-fresh-retry''
     \<and> is_sha256 (dget r ''receipt_sha256'')"
proof -
  have texts: "nonempty_text (PStr ''cwo-native-supervisor-evidence'')" "nonempty_text (PStr ''authorize-one-fresh-retry'')"
      "nonempty_text (PStr ''trusted-session-jsonl'')"
    by code_simp+
  show ?thesis
    unfolding v1_errors_def v1_core_def append_is_Nil_conv concat_map_Nil err_if_Nil V1_TEXT_FIELDS_def
    using texts nonempty_sha256 nonempty_texts_eq
    by (auto simp del: nonempty_text_iff)
qed

lemma V1_FIELDS_keys: "dkeys (map (\<lambda>field. (field, f field)) names) = names"
  by (simp add: dkeys_def comp_def)

lemma dget_mapped: "k \<in> set names \<Longrightarrow> dget (map (\<lambda>field. (field, f field)) names @ d) k = f k"
  by (induction names) auto

lemma dget_mapped_absent: "k \<notin> set names \<Longrightarrow> dget (map (\<lambda>field. (field, f field)) names @ d) k = dget d k"
  by (induction names) auto

text \<open>The shadow of version 1 has the shared fields of the receipt and a digest of its own.\<close>

lemma shadow_errors_Nil: "validate_v1_retry_authorization (historical_v1_shadow r) = [] \<longleftrightarrow> v1_core r"
proof -
  let ?common = "map (\<lambda>field. (field, dget r field)) V1_FIELDS"
  let ?fixed = "[(''receipt_type'', PStr RETRY_AUTHORIZATION_TYPE_V2), (''version'', PInt 1),
      (''authority'', PStr ''cwo-native-supervisor-evidence''), (''decision'', PStr ''authorize-one-fresh-retry'')]"
  let ?hash = "PStr (canonical_sha256 (PDict (?common @ ?fixed)))"
  have shadow: "historical_v1_shadow r = ?common @ ?fixed @ [(''receipt_sha256'', ?hash)]"
    by (simp add: historical_v1_shadow_def Let_def)
  have absent: "''receipt_sha256'' \<notin> set V1_FIELDS" "''receipt_type'' \<notin> set V1_FIELDS" "''version'' \<notin> set V1_FIELDS"
      "''authority'' \<notin> set V1_FIELDS" "''decision'' \<notin> set V1_FIELDS"
    by (simp_all add: V1_FIELDS_def)
  have keys: "set (dkeys (historical_v1_shadow r)) = set (V1_FIELDS @ [''receipt_type'', ''version'', ''authority'', ''decision'', ''receipt_sha256''])"
    unfolding shadow by (simp add: dkeys_def comp_def image_def)
  have same: "dget (historical_v1_shadow r) k = dget r k" if "k \<in> set V1_FIELDS" for k
    unfolding shadow by (rule dget_mapped [OF that])
  have fixed: "dget (historical_v1_shadow r) ''receipt_type'' = PStr RETRY_AUTHORIZATION_TYPE_V2" "dget (historical_v1_shadow r) ''version'' = PInt 1"
      "dget (historical_v1_shadow r) ''authority'' = PStr ''cwo-native-supervisor-evidence''"
      "dget (historical_v1_shadow r) ''decision'' = PStr ''authorize-one-fresh-retry''" "dget (historical_v1_shadow r) ''receipt_sha256'' = ?hash"
    unfolding shadow using absent by (simp_all add: dget_mapped_absent)
  have pop: "dpop (historical_v1_shadow r) ''receipt_sha256'' = ?common @ ?fixed"
    unfolding shadow dpop_append using dpop_absent [of "''receipt_sha256''" ?common] absent(1) by (simp add: V1_FIELDS_keys dpop_def)
  have usage: "usage_errors (historical_v1_shadow r) k = usage_errors r k" if "k \<in> set V1_FIELDS" for k
    by (simp add: usage_errors_def same [OF that])
  have "v1_core (historical_v1_shadow r) = v1_core r"
    unfolding v1_core_def by (simp add: same usage V1_FIELDS_def)
  then show ?thesis
    by (simp add: validate_v1_retry_authorization_def keys v1_errors_Nil fixed pop)
qed

definition v3_ok :: "pydict \<Rightarrow> bool" where
  "v3_ok r \<longleftrightarrow> set (dkeys r) = set V3_FIELDS \<and> v1_core r \<and> validate_evidence_bindings r = []
     \<and> dget r ''receipt_type'' = PStr RETRY_EVIDENCE_TYPE \<and> dget r ''version'' = PInt 3 \<and> dget r ''schema'' = PStr RETRY_EVIDENCE_SCHEMA
     \<and> dget r ''receipt_authority'' = PStr RETRY_RECEIPT_AUTHORITY \<and> dget r ''dispatch_authorized'' = PBool False
     \<and> dget r ''required_dispatch_authority'' = PStr RETRY_REQUIRED_DISPATCH_AUTHORITY
     \<and> dget r ''next_action'' = PStr RETRY_ELIGIBLE_NEXT_ACTION
     \<and> (\<exists>p. dget r ''evidence_provenance'' = PDict p \<and> set (dkeys p) = set RETRY_EVIDENCE_PROVENANCE_FIELDS
          \<and> provenance_v3_errors p (dget r ''retry_evidence_sha256'') = [])
     \<and> dget r ''receipt_sha256'' = PStr (canonical_sha256 (PDict (dpop r ''receipt_sha256'')))"

lemma validate_receipt_Nil:
  "validate_receipt_sha256 r = [] \<longleftrightarrow> dget r ''receipt_sha256'' = PStr (canonical_sha256 (PDict (dpop r ''receipt_sha256'')))"
  by (auto simp: validate_receipt_sha256_def)

lemma v3_errors_Nil: "validate_v3_retry_evidence r = [] \<longleftrightarrow> v3_ok r"
  unfolding validate_v3_retry_evidence_def v3_ok_def Let_def RETRY_EVIDENCE_VERSION_def
  using validate_receipt_Nil [of r] shadow_errors_Nil [of r] by (auto simp: is_dict_iff)

section \<open>No receipt authorises a dispatch\<close>

lemma historical_not_Nil: "historical_only w errors \<noteq> []"
  by (simp add: historical_only_def)

lemma validate_retry_Nil:
  "validate_retry_authorization v = Inr [] \<longleftrightarrow> (\<exists>d. v = PDict d \<and> v3_ok (the_dict (sort_keys v)))" (is "?lhs \<longleftrightarrow> ?rhs")
proof
  assume ?lhs
  then obtain snapshot version where s: "sort_keys v = PDict snapshot" "dget snapshot ''version'' = PInt version"
      and errors: "validate_v3_retry_evidence snapshot = []"
    using historical_not_Nil
    by (auto simp: validate_retry_authorization_def plain_retry_receipt_snapshot_def map_sum_def split: pyval.splits if_splits sum.splits)
  then show ?rhs using v3_errors_Nil by (cases v) auto
next
  assume ?rhs
  then obtain d snapshot where s: "v = PDict d" "sort_keys v = PDict snapshot" "v3_ok snapshot" by auto
  then have "dget snapshot ''version'' = PInt 3" "validate_v3_retry_evidence snapshot = []" by (simp_all add: v3_errors_Nil v3_ok_def)
  then show ?lhs using s(2) by (simp add: validate_retry_authorization_def plain_retry_receipt_snapshot_def)
qed

text \<open>
  C16: Retry evidence never authorises a dispatch.  When the validator has no objection to a value, the reader
  returns it with its keys sorted, and what it returns is of version 3, says that no dispatch is authorised and
  that another authority is required, records the step from attempt 0 to attempt 1 with a packet and a session
  that differ from those of the parent and the model that was requested, and carries the digest of its own
  bindings and of itself.  No receipt of another version passes.
\<close>

theorem retry_evidence_never_authorizes:
  assumes "validate_retry_authorization v = Inr []"
  shows "\<exists>r. read_retry_authorization v = Inr r \<and> PDict r = sort_keys v \<and> dget r ''version'' = PInt 3
     \<and> dget r ''dispatch_authorized'' = PBool False \<and> dget r ''receipt_authority'' = PStr ''audit-only''
     \<and> dget r ''required_dispatch_authority'' = PStr ''opaque-verified-recovery-action''
     \<and> dget r ''next_action'' = PStr ''await-verified-recovery-action''
     \<and> dget r ''attempt_from'' = PInt 0 \<and> dget r ''attempt_to'' = PInt 1
     \<and> dget r ''parent_packet_id'' \<noteq> dget r ''retry_packet_id'' \<and> dget r ''parent_session_id'' \<noteq> dget r ''retry_session_id''
     \<and> dget r ''requested_model'' = dget r ''attested_model'' \<and> dget r ''attestation_source'' = PStr ''trusted-session-jsonl''
     \<and> dget r ''retry_evidence_sha256'' = PStr (canonical_sha256 (dget r ''evidence_bindings''))
     \<and> dget r ''receipt_sha256'' = PStr (canonical_sha256 (PDict (dpop r ''receipt_sha256'')))"
proof -
  obtain r where r: "sort_keys v = PDict r" "v3_ok r" using assms unfolding validate_retry_Nil by auto
  have "dget r ''version'' = PInt 3" "validate_v3_retry_evidence r = []" using r(2) by (simp_all add: v3_errors_Nil v3_ok_def)
  then have "read_retry_authorization v = Inr r"
    using r(1) by (simp add: read_retry_authorization_def plain_retry_receipt_snapshot_def)
  moreover have "dget r ''retry_evidence_sha256'' = PStr (canonical_sha256 (dget r ''evidence_bindings''))"
    using r(2) by (auto simp: v3_ok_def validate_evidence_bindings_def split: pyval.splits if_splits)
  ultimately show ?thesis
    using r by (auto simp: v3_ok_def v1_core_def RETRY_RECEIPT_AUTHORITY_def RETRY_REQUIRED_DISPATCH_AUTHORITY_def RETRY_ELIGIBLE_NEXT_ACTION_def)
qed

section \<open>An eligible retry\<close>

lemma usage_field_nonneg: "usage_field source label field = Inr n \<Longrightarrow> 0 \<le> n"
  by (auto simp: usage_field_def Let_def PyFloat.truncate_def split: pyval.splits pyfloat.splits if_splits)

lemma retry_usage_nonneg: "retry_usage_of source label = Inr u \<Longrightarrow> 0 \<le> used_tool_calls u \<and> 0 \<le> used_runtime u"
  using usage_field_nonneg by (fastforce simp: retry_usage_of_def rbind_eq_Inr)

text \<open>The parts of an evaluation that ran to its end.\<close>

definition evaluated :: "pydict \<Rightarrow> pydict \<Rightarrow> pydict \<Rightarrow> pydict \<Rightarrow> pydict \<Rightarrow> pydict \<Rightarrow> pydict \<Rightarrow> pydict \<Rightarrow> retry_usage \<Rightarrow> retry_eligibility \<Rightarrow> bool" where
  "evaluated work state workspace semantic policy observed allowance budget cumulative e \<longleftrightarrow>
     eligibility_reasons e = sorted_set (policy_reasons policy
       @ supervision_reasons work state (policy_items policy ''eligible_interrupt_reasons'')
       @ observed_reasons observed @ evidence_reasons workspace semantic (policy_items policy ''eligible_semantic_statuses'')
       @ attempt_reasons (dget_or state ''recovery'' (PDict [])) (policy_retries policy)
       @ allowance_reasons allowance (remaining_usage allowance cumulative) @ budget_reasons budget (remaining_usage allowance cumulative))
     \<and> eligibility_attempt e = recovery_attempt (the_dict (dget_or state ''recovery'' (PDict []))) (policy_retries policy)
     \<and> eligibility_cumulative e = cumulative \<and> 0 \<le> used_tool_calls cumulative \<and> 0 \<le> used_runtime cumulative
     \<and> eligibility_remaining e = remaining_usage allowance cumulative
     \<and> eligibility_budget e = [(''tool_calls'', dget budget ''tool_calls_hard''), (''runtime_seconds'', dget budget ''runtime_seconds_hard'')]"

lemma retry_mapping_Inr: "retry_mapping v label = Inr d \<longleftrightarrow> v = PDict d"
  by (cases v) (auto simp: retry_mapping_def)

lemma evaluate_parts:
  assumes "evaluate_retry_eligibility packet supervision_state workspace_report semantic_result recovery_policy = Inr e"
  shows "\<exists>work state workspace semantic policy observed plan allowance budget cumulative.
     packet = PDict work \<and> supervision_state = PDict state \<and> workspace_report = PDict workspace \<and> semantic_result = PDict semantic
     \<and> recovery_policy = PDict policy \<and> dget_or state ''observed'' (PDict []) = PDict observed
     \<and> dget work ''work_plan'' = PDict plan \<and> dget plan ''aggregate_allowance'' = PDict allowance \<and> dget work ''budget'' = PDict budget
     \<and> canonical_work_sha256 packet = Inr (eligibility_work_sha256 e)
     \<and> evaluated work state workspace semantic policy observed allowance budget cumulative e"
proof -
  obtain work state workspace semantic policy observed current before plan allowance budget sha where
    parts: "packet = PDict work" "supervision_state = PDict state" "workspace_report = PDict workspace" "semantic_result = PDict semantic"
      "recovery_policy = PDict policy" "dget_or state ''observed'' (PDict []) = PDict observed"
      "dget work ''work_plan'' = PDict plan" "dget plan ''aggregate_allowance'' = PDict allowance" "dget work ''budget'' = PDict budget"
      "canonical_work_sha256 packet = Inr sha"
    and usage: "retry_usage_of observed ''supervision_state.observed'' = Inr current"
      "retry_usage_of (the_dict (dget_or (the_dict (dget_or state ''recovery'' (PDict []))) ''cumulative_usage'' (PDict [])))
         ''supervision_state.recovery.cumulative_usage'' = Inr before"
    and e: "e = \<lparr>eligibility_reasons = sorted_set (policy_reasons policy
            @ supervision_reasons work state (policy_items policy ''eligible_interrupt_reasons'')
            @ observed_reasons observed @ evidence_reasons workspace semantic (policy_items policy ''eligible_semantic_statuses'')
            @ attempt_reasons (dget_or state ''recovery'' (PDict [])) (policy_retries policy)
            @ allowance_reasons allowance (remaining_usage allowance \<lparr>used_tool_calls = used_tool_calls before + used_tool_calls current,
                used_runtime = used_runtime before + used_runtime current\<rparr>)
            @ budget_reasons budget (remaining_usage allowance \<lparr>used_tool_calls = used_tool_calls before + used_tool_calls current,
                used_runtime = used_runtime before + used_runtime current\<rparr>)),
          eligibility_work_sha256 = sha,
          eligibility_attempt = recovery_attempt (the_dict (dget_or state ''recovery'' (PDict []))) (policy_retries policy),
          eligibility_cumulative = \<lparr>used_tool_calls = used_tool_calls before + used_tool_calls current,
            used_runtime = used_runtime before + used_runtime current\<rparr>,
          eligibility_remaining = remaining_usage allowance \<lparr>used_tool_calls = used_tool_calls before + used_tool_calls current,
            used_runtime = used_runtime before + used_runtime current\<rparr>,
          eligibility_budget = [(''tool_calls'', dget budget ''tool_calls_hard''), (''runtime_seconds'', dget budget ''runtime_seconds_hard'')]\<rparr>"
    using assms unfolding evaluate_retry_eligibility_def Let_def rbind_eq_Inr retry_mapping_Inr by (elim exE conjE) (simp only: sum.inject)
  have "evaluated work state workspace semantic policy observed allowance budget (eligibility_cumulative e) e"
    using retry_usage_nonneg [OF usage(1)] retry_usage_nonneg [OF usage(2)] by (simp add: evaluated_def e)
  moreover have "sha = eligibility_work_sha256 e" by (simp add: e)
  ultimately show ?thesis using parts by blast
qed

lemma eligible_budget:
  assumes "allowance_reasons allowance (remaining_usage allowance u) = []" and "budget_reasons budget (remaining_usage allowance u) = []"
  shows "\<exists>a b. dget allowance ''tool_calls_hard'' = PInt a \<and> dget budget ''tool_calls_hard'' = PInt b \<and> 0 \<le> b \<and> used_tool_calls u + b \<le> a"
    and "\<exists>a b. dget allowance ''runtime_seconds_hard'' = PInt a \<and> dget budget ''runtime_seconds_hard'' = PInt b \<and> 0 \<le> b \<and> used_runtime u + b \<le> a"
  using assms by (auto simp: allowance_reasons_def budget_reasons_def remaining_usage_def allowance_of_def is_int_ge_iff split: if_splits)

lemma eligible_attempt: "attempt_reasons recovery (policy_retries policy) = [] \<Longrightarrow> recovery_attempt (the_dict recovery) (policy_retries policy) = 0"
  by (auto simp: attempt_reasons_def recovery_attempt_def policy_retries_def split: pyval.splits if_splits)


section \<open>The builder\<close>

lemma sorted_dict: "\<exists>s. sort_keys (PDict d) = PDict s \<and> set s = (\<lambda>(k, v). (k, sort_keys v)) ` set d"
  by simp

lemma sorted_keys: "sort_keys (PDict d) = PDict s \<Longrightarrow> set (dkeys s) = set (dkeys d)"
  using sorted_dict [of d] by (force simp: dkeys_def simp del: sort_keys.simps)

lemma sorted_get: "sort_keys (PDict d) = PDict s \<Longrightarrow> dget s k = sort_keys (dget d k)"
  using dget_sorted [of d k] by simp

lemma sorted_wf: "sort_keys (PDict d) = PDict s \<Longrightarrow> wf_dict d \<Longrightarrow> wf_dict s"
  using wf_sorted [of d] by simp

lemma sorted_again: "sort_keys (PDict d) = PDict s \<Longrightarrow> sort_keys (PDict s) = PDict s"
  using sort_keys_idem [of "PDict d"] by simp

text \<open>A digest over a dictionary without its own key is the same after sorting.\<close>

lemma digest_sorted:
  assumes "sort_keys (PDict d) = PDict s" and "wf_dict d"
  shows "canonical_sha256 (PDict (dpop s k)) = canonical_sha256 (PDict (dpop d k))"
proof (rule canonical_sha256_sorted, subst sort_keys_dict_eq)
  show "wf_dict (dpop s k)" "wf_dict (dpop d k)" using sorted_wf [OF assms] assms(2) by simp_all
  have "sort_keys (dget (dpop s k) k') = sort_keys (dget (dpop d k) k')" for k'
    using sorted_get [OF assms(1)] by simp
  then show "set (dkeys (dpop s k)) = set (dkeys (dpop d k))
      \<and> (\<forall>k'\<in>set (dkeys (dpop s k)). sort_keys (dget (dpop s k) k') = sort_keys (dget (dpop d k) k'))"
    using sorted_keys [OF assms(1)] by (simp del: dget_dpop)
qed

lemma usage_errors_sorted:
  assumes "dget r field = sort_keys (PDict [(''tool_calls'', PInt a), (''runtime_seconds'', PInt b)])" and "0 \<le> a" and "0 \<le> b"
  shows "usage_errors r field = []"
proof -
  obtain d where d: "dget r field = PDict d" "set d = {(''tool_calls'', PInt a), (''runtime_seconds'', PInt b)}"
    using sorted_dict [of "[(''tool_calls'', PInt a), (''runtime_seconds'', PInt b)]"] assms(1) by auto
  then show ?thesis using assms(2,3) by (auto simp: usage_errors_def dkeys_def)
qed

lemma bindings_sorted:
  assumes "dget r ''evidence_bindings'' = sort_keys (PDict b)" and "set (dkeys b) = set RETRY_EVIDENCE_BINDING_FIELDS"
    and "\<forall>(k, v)\<in>set b. is_sha256 v" and "dget r ''retry_evidence_sha256'' = PStr (canonical_sha256 (PDict b))"
  shows "validate_evidence_bindings r = []"
proof -
  obtain s where s: "sort_keys (PDict b) = PDict s" "set s = (\<lambda>(k, v). (k, sort_keys v)) ` set b" using sorted_dict by blast
  have "is_sha256 v" if "(k, v) \<in> set s" for k v
    using that assms(3) unfolding s(2) by (fastforce simp: is_sha256_iff)
  moreover have "canonical_sha256 (PDict s) = canonical_sha256 (PDict b)"
    using sorted_again [OF s(1)] s(1) by (intro canonical_sha256_sorted) simp
  ultimately show ?thesis
    using assms(1,2,4) sorted_keys [OF s(1)] unfolding s(1) by (auto simp: validate_evidence_bindings_def)
qed

lemma provenance_sorted:
  assumes "sort_keys (PDict (retry_evidence_provenance h)) = PDict s"
  shows "set (dkeys s) = set RETRY_EVIDENCE_PROVENANCE_FIELDS \<and> provenance_v3_errors s (PStr h) = []"
proof -
  let ?p = "retry_evidence_provenance h"
  have wf: "wf_dict ?p" by (simp add: retry_evidence_provenance_def Let_def wf_dict_def dkeys_def)
  have keys: "set (dkeys s) = set RETRY_EVIDENCE_PROVENANCE_FIELDS"
    using sorted_keys [OF assms] by (simp add: retry_evidence_provenance_def Let_def RETRY_EVIDENCE_PROVENANCE_FIELDS_def)
  obtain w where w: "sort_keys (dget ?p ''verification'') = PDict w" "set w = {(''method'', PStr ''repository-policy-v1''), (''evidence_sha256'', PStr h)}"
    using sorted_dict [of "[(''method'', PStr ''repository-policy-v1''), (''evidence_sha256'', PStr h)]"]
    by (auto simp: retry_evidence_provenance_def Let_def)
  have verification: "dget w k = sort_keys (dget [(''method'', PStr ''repository-policy-v1''), (''evidence_sha256'', PStr h)] k)" for k
    using w(1) by (intro sorted_get) (simp add: retry_evidence_provenance_def Let_def)
  have "dpop ?p ''provenance_sha256'' = butlast ?p" by (simp add: retry_evidence_provenance_def Let_def dpop_def)
  then have "dget s ''provenance_sha256'' = PStr (canonical_sha256 (PDict (dpop s ''provenance_sha256'')))"
    using digest_sorted [OF assms wf] by (simp add: sorted_get [OF assms] retry_evidence_provenance_def Let_def)
  moreover have "dget s k = sort_keys (dget ?p k)" for k by (rule sorted_get [OF assms])
  ultimately show ?thesis
    using keys w(2) w(1) verification
    by (auto simp: provenance_v3_errors_def retry_evidence_provenance_def Let_def dkeys_def)
qed

lemma check_attestation_Inr:
  "check_attestation attestation state parent = Inr u \<longleftrightarrow>
     set (dkeys attestation) = set ATTESTATION_FIELDS
     \<and> (\<forall>field\<in>{''session_id'', ''requested_model'', ''attested_model'', ''attestation_source'', ''tool_surface_id''}.
          nonempty_text (dget attestation field))
     \<and> \<not> py_eq (dget attestation ''session_id'') (dget state ''session_id'')
     \<and> py_eq (dget attestation ''requested_model'') (dget parent ''requested_model'')
     \<and> py_eq (dget attestation ''attested_model'') (dget parent ''requested_model'')
     \<and> dget attestation ''attestation_source'' = PStr ''trusted-session-jsonl'' \<and> dget attestation ''tool_calls'' = PInt 0
     \<and> dget attestation ''context_compactions'' = PInt 0 \<and> dget attestation ''closure_receipt'' = PBool True"
  by (auto simp: check_attestation_def Let_def rbind_eq_Inr)

lemma work_payload_identity:
  "canonical_work_sha256 (PDict work) = Inr h \<Longrightarrow> hex64 h \<and> nonempty_text (dget work ''bead_id'') \<and> nonempty_text (dget work ''requested_model'')"
  by (auto simp: canonical_work_sha256_def canonical_work_payload_def retry_mapping_def Let_def rbind_eq_Inr)

text \<open>What the builder has checked, apart from the session of the parent, when it puts the receipt together.\<close>

definition builder_ready :: "pydict \<Rightarrow> pydict \<Rightarrow> pydict \<Rightarrow> pydict \<Rightarrow> retry_eligibility \<Rightarrow> bool" where
  "builder_ready parent retry state attestation e \<longleftrightarrow>
     eligibility_reasons e = [] \<and> canonical_work_sha256 (PDict retry) = Inr (eligibility_work_sha256 e)
     \<and> check_attestation attestation state parent = Inr ()
     \<and> nonempty_text (dget parent ''packet_id'') \<and> nonempty_text (dget retry ''packet_id'')
     \<and> dget parent ''packet_id'' \<noteq> dget retry ''packet_id''"

lemma text_sorted: "nonempty_text v \<Longrightarrow> sort_keys v = v"
  by (auto simp: nonempty_text_iff)

lemma nonempty_sorted: "nonempty_text (sort_keys v) \<longleftrightarrow> nonempty_text v"
  by (cases v) (auto simp: nonempty_text_def)

text \<open>The numbers of an eligible retry.\<close>

definition usage_ready :: "retry_eligibility \<Rightarrow> bool" where
  "usage_ready e \<longleftrightarrow> eligibility_attempt e = 0 \<and> hex64 (eligibility_work_sha256 e)
     \<and> (\<forall>u\<in>{eligibility_cumulative e, eligibility_remaining e}. 0 \<le> used_tool_calls u \<and> 0 \<le> used_runtime u)
     \<and> (\<exists>b d. eligibility_budget e = [(''tool_calls'', PInt b), (''runtime_seconds'', PInt d)] \<and> 0 \<le> b \<and> 0 \<le> d)"

lemma eligible_usage_ready:
  assumes "evaluate_retry_eligibility packet supervision_state workspace_report semantic_result recovery_policy = Inr e"
    and "eligibility_reasons e = []"
  shows "usage_ready e"
proof -
  obtain work state workspace semantic policy observed allowance budget cumulative where
    parts: "packet = PDict work" "canonical_work_sha256 packet = Inr (eligibility_work_sha256 e)"
    and ev: "evaluated work state workspace semantic policy observed allowance budget cumulative e"
    using evaluate_parts [OF assms(1)] by blast
  have none: "attempt_reasons (dget_or state ''recovery'' (PDict [])) (policy_retries policy) = []"
      "allowance_reasons allowance (remaining_usage allowance cumulative) = []" "budget_reasons budget (remaining_usage allowance cumulative) = []"
    using ev [unfolded evaluated_def assms(2), THEN conjunct1, symmetric] by simp_all
  have "0 \<le> used_tool_calls (remaining_usage allowance cumulative)" "0 \<le> used_runtime (remaining_usage allowance cumulative)"
    using none(2) by (simp_all add: allowance_reasons_def)
  moreover have "hex64 (eligibility_work_sha256 e)" using work_payload_identity parts by blast
  ultimately show ?thesis
    using ev eligible_attempt [OF none(1)] eligible_budget [OF none(2,3)] by (auto simp: evaluated_def usage_ready_def)
qed

lemma evidence_body_ok:
  assumes ready: "builder_ready parent retry state attestation e" and usage: "usage_ready e"
    and work: "nonempty_text (dget parent ''bead_id'')" "nonempty_text (dget parent ''requested_model'')"
    and keys: "set (dkeys bindings) = set RETRY_EVIDENCE_BINDING_FIELDS" "\<forall>(k, v)\<in>set bindings. is_sha256 v"
    and sorted: "sort_keys (PDict (evidence_body parent retry state attestation e bindings)) = PDict s"
  shows "v3_ok s \<longleftrightarrow> nonempty_text (dget state ''session_id'')"
proof -
  let ?b = "evidence_body parent retry state attestation e bindings"
  note body = evidence_body_def Let_def
  have wf: "wf_dict ?b" by (simp add: body wf_dict_def dkeys_def)
  have get: "dget s k = sort_keys (dget ?b k)" for k by (rule sorted_get [OF sorted])
  have "set (dkeys s) = set V3_FIELDS"
    using sorted_keys [OF sorted] by (simp add: body V3_FIELDS_def V1_FIELDS_def insert_commute)
  moreover have seal: "dget s ''receipt_sha256'' = PStr (canonical_sha256 (PDict (dpop s ''receipt_sha256'')))"
    unfolding digest_sorted [OF sorted wf] get by (simp add: body dpop_def)
  moreover have bindings: "validate_evidence_bindings s = []"
    by (rule bindings_sorted [OF _ keys]) (simp_all add: get body del: sort_keys.simps(2))
  moreover obtain p where p: "dget s ''evidence_provenance'' = PDict p" "set (dkeys p) = set RETRY_EVIDENCE_PROVENANCE_FIELDS"
      "provenance_v3_errors p (dget s ''retry_evidence_sha256'') = []"
    using provenance_sorted sorted_dict [of "retry_evidence_provenance (canonical_sha256 (PDict bindings))"]
    by (auto simp: get body simp del: sort_keys.simps(2)) 
  moreover obtain b d where budget: "eligibility_budget e = [(''tool_calls'', PInt b), (''runtime_seconds'', PInt d)]" "0 \<le> b" "0 \<le> d"
    using usage by (auto simp: usage_ready_def)
  moreover have usages: "usage_errors s ''cumulative_usage'' = []" "usage_errors s ''remaining_before_retry'' = []" "usage_errors s ''retry_budget'' = []"
    using usage budget by (auto intro!: usage_errors_sorted simp: get body usage_dict_def usage_ready_def simp del: sort_keys.simps(2))
  moreover have "v1_core s \<longleftrightarrow> nonempty_text (dget state ''session_id'')"
  proof -
    have att: "nonempty_text (dget attestation ''session_id'')" "nonempty_text (dget attestation ''attested_model'')"
        "nonempty_text (dget attestation ''tool_surface_id'')" "dget attestation ''attestation_source'' = PStr ''trusted-session-jsonl''"
        "dget attestation ''attested_model'' = dget parent ''requested_model''" "dget attestation ''session_id'' \<noteq> dget state ''session_id''"
      using ready work(2) nonempty_texts_eq unfolding builder_ready_def check_attestation_Inr by auto
    have ids: "nonempty_text (dget parent ''packet_id'')" "nonempty_text (dget retry ''packet_id'')" "dget parent ''packet_id'' \<noteq> dget retry ''packet_id''"
      using ready by (simp_all add: builder_ready_def)
    have entries: "dget s ''parent_packet_id'' = dget parent ''packet_id''" "dget s ''retry_packet_id'' = dget retry ''packet_id''"
        "dget s ''bead_id'' = dget parent ''bead_id''" "dget s ''requested_model'' = dget parent ''requested_model''"
        "dget s ''attested_model'' = dget parent ''requested_model''" "dget s ''retry_session_id'' = dget attestation ''session_id''"
        "dget s ''tool_surface_id'' = dget attestation ''tool_surface_id''" "dget s ''parent_session_id'' = sort_keys (dget state ''session_id'')"
        "dget s ''attestation_source'' = PStr ''trusted-session-jsonl''" "dget s ''work_sha256'' = PStr (eligibility_work_sha256 e)"
        "dget s ''attempt_from'' = PInt 0" "dget s ''attempt_to'' = PInt 1"
      using att ids work usage by (simp_all add: get body text_sorted usage_ready_def del: sort_keys.simps(2))
    show ?thesis
      using att ids work usage usages by (auto simp: v1_core_def entries nonempty_sorted usage_ready_def text_sorted)
  qed
  moreover have "dget s ''receipt_type'' = PStr RETRY_EVIDENCE_TYPE" "dget s ''version'' = PInt 3" "dget s ''schema'' = PStr RETRY_EVIDENCE_SCHEMA"
      "dget s ''receipt_authority'' = PStr RETRY_RECEIPT_AUTHORITY" "dget s ''dispatch_authorized'' = PBool False"
      "dget s ''required_dispatch_authority'' = PStr RETRY_REQUIRED_DISPATCH_AUTHORITY" "dget s ''next_action'' = PStr RETRY_ELIGIBLE_NEXT_ACTION"
    by (simp_all add: get body RETRY_EVIDENCE_VERSION_def del: sort_keys.simps(2))
  ultimately show ?thesis unfolding v3_ok_def by blast
qed

lemma bindings_ok:
  "set (dkeys (evidence_bindings parent retry state workspace semantic policy attestation e)) = set RETRY_EVIDENCE_BINDING_FIELDS
     \<and> (\<forall>(k, v)\<in>set (evidence_bindings parent retry state workspace semantic policy attestation e). is_sha256 v)"
  by (simp add: evidence_bindings_def RETRY_EVIDENCE_BINDING_FIELDS_def)

lemma built_valid:
  assumes "builder_ready parent retry state attestation e" and "usage_ready e"
    and "nonempty_text (dget parent ''bead_id'')" "nonempty_text (dget parent ''requested_model'')"
  shows "validate_retry_authorization (PDict (evidence_body parent retry state attestation e
       (evidence_bindings parent retry state workspace semantic policy attestation e))) = Inr [] \<longleftrightarrow> nonempty_text (dget state ''session_id'')"
  using evidence_body_ok [OF assms conjunct1 [OF bindings_ok] conjunct2 [OF bindings_ok]] sorted_dict
  unfolding validate_retry_Nil by (metis the_simps(7))

text \<open>
  C18: The builder of retry evidence succeeds exactly when its conditions hold: the retry is eligible, the retry
  packet carries the same work under another packet id, the attestation is a fresh, unused and closed session of
  the requested model, and the parent's state names its session.  What it returns is the evidence body over the
  digests of all its inputs, and the public validator accepts it: the check of the finished receipt never refuses
  one for any other reason.
\<close>

theorem retry_builder_exact:
  assumes "evaluate_retry_eligibility (PDict parent) (PDict state) workspace semantic policy = Inr e"
  shows "((\<exists>body. build_retry_authorization (PDict parent) (PDict retry) (PDict state) workspace semantic policy (PDict attestation) = Inr body)
       \<longleftrightarrow> builder_ready parent retry state attestation e \<and> nonempty_text (dget state ''session_id''))
     \<and> (\<forall>body. build_retry_authorization (PDict parent) (PDict retry) (PDict state) workspace semantic policy (PDict attestation) = Inr body
       \<longrightarrow> body = evidence_body parent retry state attestation e (evidence_bindings parent retry state workspace semantic policy attestation e)
         \<and> validate_retry_authorization (PDict body) = Inr [])"
proof -
  let ?body = "evidence_body parent retry state attestation e (evidence_bindings parent retry state workspace semantic policy attestation e)"
  have build: "build_retry_authorization (PDict parent) (PDict retry) (PDict state) workspace semantic policy (PDict attestation) = Inr body
      \<longleftrightarrow> builder_ready parent retry state attestation e \<and> ''session_id'' \<in> set (dkeys state)
        \<and> validate_retry_authorization (PDict ?body) = Inr [] \<and> body = ?body" for body
    unfolding build_retry_authorization_def builder_ready_def assms Let_def retry_mapping_def
    using nonempty_texts_eq by (auto simp: rbind_eq_Inr)
  have identity: "nonempty_text (dget parent ''bead_id'')" "nonempty_text (dget parent ''requested_model'')"
    using evaluate_parts [OF assms] work_payload_identity [of parent] by auto
  have present: "nonempty_text (dget state ''session_id'') \<Longrightarrow> ''session_id'' \<in> set (dkeys state)"
    by (rule dget_not_None_has_key) (auto simp: nonempty_text_iff)
  have "validate_retry_authorization (PDict ?body) = Inr [] \<longleftrightarrow> nonempty_text (dget state ''session_id'')"
    if "builder_ready parent retry state attestation e"
    using built_valid [OF that _ identity] eligible_usage_ready [OF assms] that by (simp add: builder_ready_def)
  then have "(\<exists>body. build_retry_authorization (PDict parent) (PDict retry) (PDict state) workspace semantic policy (PDict attestation) = Inr body)
       \<longleftrightarrow> builder_ready parent retry state attestation e \<and> nonempty_text (dget state ''session_id'')"
    unfolding build using present by blast
  then show ?thesis unfolding build by simp
qed

section \<open>Examples\<close>

definition demo_work :: pydict where
  "demo_work =
     [(''packet_id'', PStr ''p1''), (''bead_id'', PStr ''b''), (''lane'', PStr ''l''), (''requested_model'', PStr ''m''), (''tool_policy'', PNone),
      (''scope'', PDict []), (''acceptance_checks'', PList [PStr ''c'']),
      (''budget'', PDict [(''tool_calls_hard'', PInt 5), (''runtime_seconds_hard'', PInt 60)]), (''return_contract'', PDict []),
      (''work_plan'', PDict [(''aggregate_allowance'', PDict [(''tool_calls_hard'', PInt 10), (''runtime_seconds_hard'', PInt 100)])])]"

definition demo_state :: pydict where
  "demo_state =
     [(''session_id'', PStr ''s1''), (''decision'', PStr ''interrupt''), (''reasons'', PList [PStr ''stall'']), (''requested_model'', PStr ''m''),
      (''control_timing'', PDict [(''monitor_armed_before_dispatch'', PBool True), (''late_poll_count'', PInt 0)]),
      (''observed'', PDict [(''tool_calls'', PInt 3), (''runtime_seconds'', PFloat (FFin (41/2))), (''context_compactions'', PInt 0),
         (''full_suite_runs'', PInt 0)])]"

definition demo_workspace :: pyval where
  "demo_workspace = PDict [(''mutation_detected'', PBool False), (''unexpected_mutation_detected'', PBool False),
     (''attribution_ambiguous'', PBool False), (''incomplete'', PBool False)]"

definition demo_semantic :: pyval where
  "demo_semantic = PDict [(''trusted'', PBool True), (''artifact_accepted'', PBool False), (''contradiction'', PBool False),
     (''status'', PStr ''no-op'')]"

definition demo_policy :: pyval where
  "demo_policy = PDict [(''enabled'', PBool True), (''max_retries'', PInt 1), (''eligible_semantic_statuses'', PList [PStr ''no-op'']),
     (''eligible_interrupt_reasons'', PList [PStr ''stall''])]"

definition demo_attestation :: pydict where
  "demo_attestation =
     [(''session_id'', PStr ''s2''), (''requested_model'', PStr ''m''), (''attested_model'', PStr ''m''),
      (''attestation_source'', PStr ''trusted-session-jsonl''), (''tool_calls'', PInt 0), (''context_compactions'', PInt 0),
      (''closure_receipt'', PBool True), (''tool_surface_id'', PStr ''t'')]"

definition demo_eligibility :: retry_eligibility where
  "demo_eligibility =
     \<lparr>eligibility_reasons = [],
      eligibility_work_sha256 = canonical_sha256 (PDict (map (\<lambda>field. (field, dget demo_work field)) IMMUTABLE_WORK_FIELDS)),
      eligibility_attempt = 0, eligibility_cumulative = \<lparr>used_tool_calls = 3, used_runtime = 20\<rparr>,
      eligibility_remaining = \<lparr>used_tool_calls = 7, used_runtime = 80\<rparr>,
      eligibility_budget = [(''tool_calls'', PInt 5), (''runtime_seconds'', PInt 60)]\<rparr>"

lemma demo_texts: "nonempty_text (PStr ''p1'')" "nonempty_text (PStr ''p2'')" "nonempty_text (PStr ''b'')" "nonempty_text (PStr ''l'')"
    "nonempty_text (PStr ''m'')" "nonempty_text (PStr ''c'')" "nonempty_text (PStr ''s1'')" "nonempty_text (PStr ''s2'')"
    "nonempty_text (PStr ''stall'')" "nonempty_text (PStr ''no-op'')" "nonempty_text (PStr ''t'')" "nonempty_text (PStr ''trusted-session-jsonl'')"
  by code_simp+

lemma demo_payload:
  "canonical_work_sha256 (PDict (dset demo_work ''packet_id'' v)) = Inr (eligibility_work_sha256 demo_eligibility)"
  by (simp add: canonical_work_sha256_def canonical_work_payload_def retry_mapping_def Let_def demo_work_def demo_eligibility_def
      IMMUTABLE_WORK_FIELDS_def nonempty_list_def demo_texts del: sort_keys.simps)

lemma demo_evaluated: "evaluate_retry_eligibility (PDict demo_work) (PDict demo_state) demo_workspace demo_semantic demo_policy = Inr demo_eligibility"
proof -
  have sha: "canonical_work_sha256 (PDict demo_work) = Inr (eligibility_work_sha256 demo_eligibility)"
    using demo_payload [of "PStr ''p1''"] by (simp add: demo_work_def)
  have "PyFloat.truncate (41/2) = 20" by code_simp
  then have usage: "retry_usage_of (the_dict (dget demo_state ''observed'')) label = Inr \<lparr>used_tool_calls = 3, used_runtime = 20\<rparr>"
      "retry_usage_of [] label = Inr \<lparr>used_tool_calls = 0, used_runtime = 0\<rparr>" for label
    by (simp_all add: retry_usage_of_def usage_field_def demo_state_def)
  have reasons: "policy_reasons (the_dict demo_policy) = []" "observed_reasons (the_dict (dget demo_state ''observed'')) = []"
      "supervision_reasons demo_work demo_state (policy_items (the_dict demo_policy) ''eligible_interrupt_reasons'') = []"
      "evidence_reasons (the_dict demo_workspace) (the_dict demo_semantic) (policy_items (the_dict demo_policy) ''eligible_semantic_statuses'') = []"
      "attempt_reasons (PDict []) (policy_retries (the_dict demo_policy)) = []" "recovery_attempt [] (policy_retries (the_dict demo_policy)) = 0"
    by (simp_all add: policy_reasons_def observed_reasons_def supervision_reasons_def evidence_reasons_def attempt_reasons_def recovery_attempt_def
        policy_items_def policy_retries_def text_items_def demo_policy_def demo_state_def demo_work_def demo_workspace_def demo_semantic_def demo_texts)
  have dicts: "demo_workspace = PDict (the_dict demo_workspace)" "demo_semantic = PDict (the_dict demo_semantic)" "demo_policy = PDict (the_dict demo_policy)"
      "dget_or demo_state ''observed'' (PDict []) = PDict (the_dict (dget demo_state ''observed''))" "dget_or demo_state ''recovery'' (PDict []) = PDict []"
    by (simp_all add: demo_workspace_def demo_semantic_def demo_policy_def demo_state_def)
  show ?thesis
    unfolding evaluate_retry_eligibility_def
    apply (subst dicts(1), subst dicts(2), subst dicts(3))
    apply (simp add: retry_mapping_def dicts(4,5) usage reasons sha Let_def)
    apply (simp add: demo_work_def demo_eligibility_def remaining_usage_def allowance_of_def allowance_reasons_def budget_reasons_def)
    done
qed


lemma demo_ready: "builder_ready demo_work (dset demo_work ''packet_id'' (PStr ''p2'')) demo_state demo_attestation demo_eligibility"
  unfolding builder_ready_def check_attestation_Inr
  using demo_payload [of "PStr ''p2''"]
  by (simp add: demo_attestation_def ATTESTATION_FIELDS_def demo_texts demo_state_def insert_commute)
    (simp add: demo_work_def demo_eligibility_def demo_texts)

lemma demo_session: "nonempty_text (dget demo_state ''session_id'')"
  by (simp add: demo_state_def demo_texts)

theorem retry_builder_exact_witness:
  "\<exists>body. build_retry_authorization (PDict demo_work) (PDict (dset demo_work ''packet_id'' (PStr ''p2''))) (PDict demo_state)
      demo_workspace demo_semantic demo_policy (PDict demo_attestation) = Inr body"
  using retry_builder_exact [OF demo_evaluated, of "dset demo_work ''packet_id'' (PStr ''p2'')" demo_attestation] demo_ready demo_session by blast

definition demo_evidence :: pydict where
  "demo_evidence = evidence_body demo_work (dset demo_work ''packet_id'' (PStr ''p2'')) demo_state demo_attestation demo_eligibility
     (evidence_bindings demo_work (dset demo_work ''packet_id'' (PStr ''p2'')) demo_state demo_workspace demo_semantic demo_policy
       demo_attestation demo_eligibility)"

lemma demo_evidence_valid: "validate_retry_authorization (PDict demo_evidence) = Inr []"
proof -
  have "usage_ready demo_eligibility" using eligible_usage_ready [OF demo_evaluated] by (simp add: demo_eligibility_def)
  moreover have "nonempty_text (dget demo_work ''bead_id'')" "nonempty_text (dget demo_work ''requested_model'')" by (simp_all add: demo_work_def demo_texts)
  ultimately show ?thesis unfolding demo_evidence_def using built_valid [OF demo_ready] demo_session by blast
qed

theorem retry_evidence_never_authorizes_witness:
  "\<exists>r. read_retry_authorization (PDict demo_evidence) = Inr r \<and> dget r ''dispatch_authorized'' = PBool False
     \<and> dget r ''attempt_to'' = PInt 1"
  using retry_evidence_never_authorizes [OF demo_evidence_valid] by blast

end
