(* ===== verification/TurnDispatch.thy ===== *)
theory TurnDispatch
  imports CanonJsonUnique PoolContracts "HOL-Library.Sublist"
begin

text \<open>
  \<^verbatim>\<open>scripts/cwo_core/native_turn_dispatch.py\<close>: the record of one \<^verbatim>\<open>turn/start\<close> request that must
  not be sent twice, from its reservation before the write to the proof of what became of it, and the proof
  that a refused request left no turn behind.  The validators collect error codes; on a malformed value they
  raise \<^verbatim>\<open>TypeError\<close> where the code hashes, iterates or compares it.
\<close>

datatype dispatch_error = NativeTurnDispatchError string | DispatchTypeError

type_synonym 'a dispatch_res = "(dispatch_error, 'a) res"

section \<open>Constants\<close>

definition TURN_DISPATCH_ARTIFACT_TYPE :: string where
  "TURN_DISPATCH_ARTIFACT_TYPE = ''cwo-native-turn-dispatch:v1''"

definition TURN_ABSENCE_PROOF_ARTIFACT_TYPE :: string where
  "TURN_ABSENCE_PROOF_ARTIFACT_TYPE = ''cwo-native-turn-absence-proof:v1''"

definition TURN_DISPATCH_STATUSES :: "string list" where
  "TURN_DISPATCH_STATUSES = [''prepared'', ''dispatching'', ''acknowledged'', ''failed-contained'', ''failed-ambiguous'']"

definition TURN_DISPATCH_LEDGER_RESOLUTIONS :: "string list" where
  "TURN_DISPATCH_LEDGER_RESOLUTIONS = [''pending'', ''turn-bound'', ''verified-absent'']"

definition TURN_DISPATCH_FIELDS :: "string list" where
  "TURN_DISPATCH_FIELDS =
     [''artifact_type'', ''version'', ''thread_id'', ''turn_intent_id'', ''client_user_message_id'', ''request_id'',
      ''connection_epoch_sha256'', ''notification_cursor'', ''notification_connection_epoch_sha256'', ''preexisting_turn_ids'',
      ''ledger_id'', ''ledger_head_entry_sha256'', ''turn_intent_entry_sha256'', ''wire_request_sha256'',
      ''wire_write_attempt_count'', ''status'', ''ambiguity_reason'', ''exact_response_turn_id'', ''notification_sequences'',
      ''discovered_turn_ids'', ''interrupt_attempted_turn_ids'', ''interrupt_failed_turn_ids'', ''terminal_status_by_turn'',
      ''active_turn_ids_at_final_check'', ''query_count'', ''absence_verified'', ''absence_proof_sha256'', ''archived'',
      ''ledger_resolution'', ''record_sha256'']"

definition TURN_ABSENCE_PROOF_FIELDS :: "string list" where
  "TURN_ABSENCE_PROOF_FIELDS =
     [''artifact_type'', ''version'', ''thread_id'', ''turn_intent_id'', ''ledger_id'', ''turn_intent_entry_sha256'',
      ''dispatch_record'', ''negative_response'', ''proof_sha256'']"

definition TURN_NEGATIVE_RESPONSE_FIELDS :: "string list" where
  "TURN_NEGATIVE_RESPONSE_FIELDS =
     [''request_id'', ''connection_epoch_sha256'', ''wire_request_sha256'', ''code'', ''response_sha256'']"

definition RESERVED_FIELDS :: "string list" where
  "RESERVED_FIELDS =
     [''artifact_type'', ''version'', ''thread_id'', ''turn_intent_id'', ''client_user_message_id'', ''request_id'',
      ''connection_epoch_sha256'', ''notification_cursor'', ''preexisting_turn_ids'', ''ledger_id'',
      ''ledger_head_entry_sha256'', ''turn_intent_entry_sha256'', ''wire_request_sha256'', ''record_sha256'']"

section \<open>Digests and field tests\<close>

definition prefixed_sha256 :: "string \<Rightarrow> pydict \<Rightarrow> string" where
  "prefixed_sha256 label d = text_sha256 (label @ [CHR 0x00] @ json_text False (PDict d))"

definition turn_record_sha256 :: "pydict \<Rightarrow> string" where
  "turn_record_sha256 value = prefixed_sha256 ''cwo-native-turn-dispatch-record'' (dpop value ''record_sha256'')"

definition absence_proof_sha256 :: "pydict \<Rightarrow> string" where
  "absence_proof_sha256 value = prefixed_sha256 ''cwo-native-turn-absence-proof'' (dpop value ''proof_sha256'')"

text \<open>The pattern of a version 1 to 5 UUID in lower case.\<close>

definition turn_uuid :: "pyval \<Rightarrow> bool" where
  "turn_uuid value =
     (case value of
        PStr s \<Rightarrow>
          (let parts = split_on (CHR ''-'') s in
           map length parts = [8, 4, 4, 4, 12] \<and> list_all (list_all is_hex_char) parts
           \<and> hd (parts ! 2) \<in> set ''12345'' \<and> hd (parts ! 3) \<in> set ''89ab'')
      | _ \<Rightarrow> False)"

definition nonempty_str :: "pyval \<Rightarrow> bool" where
  "nonempty_str value \<longleftrightarrow> is_str value \<and> the_str value \<noteq> []"

definition sorted_unique_strings :: "pyval \<Rightarrow> bool" where
  "sorted_unique_strings value =
     (case value of PList xs \<Rightarrow> list_all nonempty_str xs \<and> map the_str xs = sorted_set (map the_str xs) | _ \<Rightarrow> False)"

definition sorted_unique_ints :: "pyval \<Rightarrow> bool" where
  "sorted_unique_ints value =
     (case value of PList xs \<Rightarrow> list_all (is_int_ge 1) xs \<and> map the_int xs = sorted_set (map the_int xs) | _ \<Rightarrow> False)"

section \<open>Sets, membership and comparison of arbitrary values\<close>

definition unhashable :: "pyval \<Rightarrow> bool" where
  "unhashable value \<longleftrightarrow> is_list value \<or> is_dict value"

definition turn_member :: "pyval \<Rightarrow> pyval list \<Rightarrow> bool dispatch_res" where
  "turn_member value items = (if unhashable value then Inl DispatchTypeError else Inr (\<exists>x\<in>set items. py_eq value x))"

text \<open>\<^verbatim>\<open>iter(value)\<close> and \<^verbatim>\<open>set(value)\<close>; the elements of a set are brought to the form that equality compares.\<close>

definition turn_elements :: "pyval \<Rightarrow> pyval list dispatch_res" where
  "turn_elements value =
     (case value of
        PList xs \<Rightarrow> Inr xs
      | PStr s \<Rightarrow> Inr (map (\<lambda>c. PStr [c]) s)
      | PDict d \<Rightarrow> Inr (map PStr (dkeys d))
      | _ \<Rightarrow> Inl DispatchTypeError)"

definition turn_set :: "pyval \<Rightarrow> pyval set dispatch_res" where
  "turn_set value =
     rbind (turn_elements value) (\<lambda>xs. if list_ex unhashable xs then Inl DispatchTypeError else Inr (set (map py_norm xs)))"

text \<open>\<^verbatim>\<open>item in container\<close>, a test for a substring when the container is a text.\<close>

definition turn_in :: "pyval \<Rightarrow> pyval \<Rightarrow> bool dispatch_res" where
  "turn_in item container =
     (case container of
        PList xs \<Rightarrow> Inr (\<exists>x\<in>set xs. py_eq item x)
      | PStr s \<Rightarrow> (case item of PStr t \<Rightarrow> Inr (sublist t s) | _ \<Rightarrow> Inl DispatchTypeError)
      | PDict d \<Rightarrow> if unhashable item then Inl DispatchTypeError else Inr (\<exists>k\<in>set (dkeys d). item = PStr k)
      | _ \<Rightarrow> Inl DispatchTypeError)"

definition number_of :: "pyval \<Rightarrow> pyfloat option" where
  "number_of value =
     (case value of PBool b \<Rightarrow> Some (FFin (if b then 1 else 0)) | PInt i \<Rightarrow> Some (FFin (of_int i)) | PFloat x \<Rightarrow> Some x | _ \<Rightarrow> None)"

text \<open>\<^verbatim>\<open>x <= y\<close>: numbers, texts and, element by element, lists.\<close>

fun turn_le :: "pyval \<Rightarrow> pyval \<Rightarrow> bool dispatch_res" where
  "turn_le (PStr s) (PStr t) = Inr (s \<le> t)"
| "turn_le (PList []) (PList ys) = Inr True"
| "turn_le (PList (x # xs)) (PList []) = Inr False"
| "turn_le (PList (x # xs)) (PList (y # ys)) = (if py_eq x y then turn_le (PList xs) (PList ys) else turn_le x y)"
| "turn_le x y = (case (number_of x, number_of y) of (Some p, Some q) \<Rightarrow> Inr (float_le p q) | _ \<Rightarrow> Inl DispatchTypeError)"

fun any_le :: "pyval list \<Rightarrow> pyval \<Rightarrow> bool dispatch_res" where
  "any_le [] bound = Inr False"
| "any_le (x # xs) bound = rbind (turn_le x bound) (\<lambda>b. if b then Inr True else any_le xs bound)"

definition below_one :: "pyval \<Rightarrow> bool dispatch_res" where
  "below_one value = (case number_of value of Some x \<Rightarrow> Inr (x \<noteq> FNan \<and> \<not> float_le (FFin 1) x) | None \<Rightarrow> Inl DispatchTypeError)"

fun bad_terminal :: "pydict \<Rightarrow> bool dispatch_res" where
  "bad_terminal [] = Inr False"
| "bad_terminal ((key, item) # d) =
     (if key = [] then Inr True
      else rbind (turn_member item [PStr ''completed'', PStr ''failed'', PStr ''interrupted'']) (\<lambda>known.
        if \<not> known then Inr True else bad_terminal d))"

section \<open>The dispatch record\<close>

definition turn_field_errors :: "string list \<Rightarrow> string \<Rightarrow> pydict \<Rightarrow> string list" where
  "turn_field_errors names label d =
     (let missing = missing_fields names d; unknown = unknown_fields names d in
      err_if (missing \<noteq> []) (label @ ''-missing-fields:'' @ py_join '','' missing)
      @ err_if (unknown \<noteq> []) (label @ ''-unknown-fields:'' @ py_join '','' unknown))"

definition identity_errors :: "pydict \<Rightarrow> string list" where
  "identity_errors v =
     (let epoch = dget v ''notification_connection_epoch_sha256'' in
      err_if (dget v ''artifact_type'' \<noteq> PStr TURN_DISPATCH_ARTIFACT_TYPE) ''turn-dispatch-artifact-type-invalid''
      @ err_if (\<not> py_eq (dget v ''version'') (PInt 1)) ''turn-dispatch-version-invalid''
      @ err_if (\<not> nonempty_str (dget v ''thread_id'')) ''turn-dispatch-thread-id-invalid''
      @ err_if (\<not> turn_uuid (dget v ''turn_intent_id'')) ''turn-dispatch-intent-id-invalid''
      @ err_if (\<not> py_eq (dget v ''client_user_message_id'') (dget v ''turn_intent_id'')) ''turn-dispatch-client-message-binding-invalid''
      @ err_if (\<not> is_int_ge 1 (dget v ''request_id'')) ''turn-dispatch-request-id-invalid''
      @ err_if (\<not> is_sha256 (dget v ''connection_epoch_sha256'')) ''turn-dispatch-connection-epoch-invalid''
      @ err_if (\<not> is_int_ge 0 (dget v ''notification_cursor'')) ''turn-dispatch-notification-cursor-invalid''
      @ err_if (epoch \<noteq> PNone \<and> \<not> is_sha256 epoch) ''turn-dispatch-notification-connection-epoch-invalid''
      @ concat (map (\<lambda>field. err_if (\<not> sorted_unique_strings (dget v field)) (''turn-dispatch-'' @ dashed field @ ''-invalid''))
          [''preexisting_turn_ids'', ''discovered_turn_ids'', ''interrupt_attempted_turn_ids'', ''interrupt_failed_turn_ids'',
           ''active_turn_ids_at_final_check''])
      @ (if \<not> sorted_unique_ints (dget v ''notification_sequences'') then [''turn-dispatch-notification-sequences-invalid'']
         else err_if (py_truth (dget v ''notification_sequences'') \<and> epoch = PNone) ''turn-dispatch-notification-connection-epoch-missing'')
      @ concat (map (\<lambda>field. err_if (dget v field \<noteq> PNone
            \<and> \<not> (if field = ''ledger_id'' then turn_uuid (dget v field) else is_sha256 (dget v field))) (''turn-dispatch-'' @ dashed field @ ''-invalid''))
          [''ledger_id'', ''ledger_head_entry_sha256'', ''turn_intent_entry_sha256''])
      @ err_if (\<not> ((dget v ''ledger_id'' = PNone) = (dget v ''ledger_head_entry_sha256'' = PNone)
            \<and> (dget v ''ledger_id'' = PNone) = (dget v ''turn_intent_entry_sha256'' = PNone))) ''turn-dispatch-ledger-link-incomplete''
      @ err_if (\<not> is_sha256 (dget v ''wire_request_sha256'')) ''turn-dispatch-wire-request-sha256-invalid'')"

definition progress_field_errors :: "pydict \<Rightarrow> bool \<Rightarrow> bool \<Rightarrow> bool \<Rightarrow> bool \<Rightarrow> string list" where
  "progress_field_errors v write_ok status_ok terminal_bad resolution_ok =
     (let optional_text = (\<lambda>x. x \<noteq> PNone \<and> \<not> nonempty_str x); proof_hash = dget v ''absence_proof_sha256'' in
      err_if (\<not> write_ok) ''turn-dispatch-wire-write-count-invalid''
      @ err_if (\<not> status_ok) ''turn-dispatch-status-invalid''
      @ err_if (optional_text (dget v ''ambiguity_reason'')) ''turn-dispatch-ambiguity-reason-invalid''
      @ err_if (optional_text (dget v ''exact_response_turn_id'')) ''turn-dispatch-exact-response-turn-id-invalid''
      @ err_if terminal_bad ''turn-dispatch-terminal-statuses-invalid''
      @ err_if (\<not> is_int_ge 0 (dget v ''query_count'')) ''turn-dispatch-query-count-invalid''
      @ concat (map (\<lambda>field. err_if (\<not> is_bool (dget v field)) (''turn-dispatch-'' @ dashed field @ ''-invalid''))
          [''absence_verified'', ''archived''])
      @ err_if (proof_hash \<noteq> PNone \<and> \<not> is_sha256 proof_hash) ''turn-dispatch-absence-proof-sha256-invalid''
      @ err_if (\<not> resolution_ok) ''turn-dispatch-ledger-resolution-invalid'')"

definition any_truth :: "pydict \<Rightarrow> string list \<Rightarrow> bool" where
  "any_truth v names \<longleftrightarrow> (\<exists>field\<in>set names. py_truth (dget v field))"

definition empty_progress :: "pydict \<Rightarrow> bool" where
  "empty_progress v \<longleftrightarrow>
     dget v ''exact_response_turn_id'' = PNone \<and> dget v ''notification_connection_epoch_sha256'' = PNone
     \<and> \<not> any_truth v [''notification_sequences'', ''discovered_turn_ids'', ''interrupt_attempted_turn_ids'', ''interrupt_failed_turn_ids'',
          ''terminal_status_by_turn'', ''active_turn_ids_at_final_check'']
     \<and> py_eq (dget v ''query_count'') (PInt 0) \<and> dget v ''absence_verified'' = PBool False
     \<and> dget v ''absence_proof_sha256'' = PNone \<and> dget v ''archived'' = PBool False"

definition fresh_state_bad :: "pydict \<Rightarrow> int \<Rightarrow> bool" where
  "fresh_state_bad v writes \<longleftrightarrow> \<not> py_eq (dget v ''wire_write_attempt_count'') (PInt writes) \<or> dget v ''ambiguity_reason'' \<noteq> PNone
     \<or> dget v ''ledger_resolution'' \<noteq> PStr ''pending'' \<or> \<not> empty_progress v"

definition acknowledged_bad :: "pydict \<Rightarrow> bool" where
  "acknowledged_bad v \<longleftrightarrow> \<not> py_eq (dget v ''wire_write_attempt_count'') (PInt 1) \<or> dget v ''exact_response_turn_id'' = PNone
     \<or> \<not> py_eq (dget v ''discovered_turn_ids'') (PList [dget v ''exact_response_turn_id''])
     \<or> dget v ''ledger_resolution'' \<noteq> PStr ''turn-bound'' \<or> dget v ''ambiguity_reason'' \<noteq> PNone
     \<or> dget v ''notification_connection_epoch_sha256'' \<noteq> PNone
     \<or> any_truth v [''notification_sequences'', ''interrupt_attempted_turn_ids'', ''interrupt_failed_turn_ids'', ''terminal_status_by_turn'',
          ''active_turn_ids_at_final_check'']
     \<or> \<not> py_eq (dget v ''query_count'') (PInt 0) \<or> dget v ''absence_verified'' \<noteq> PBool False
     \<or> dget v ''absence_proof_sha256'' \<noteq> PNone \<or> dget v ''archived'' \<noteq> PBool False"

definition unaccounted :: "pydict \<Rightarrow> pyval set \<Rightarrow> pyval set \<Rightarrow> bool" where
  "unaccounted v discovered terminal \<longleftrightarrow> \<not> py_truth (dget v ''absence_verified'')
     \<or> any_truth v [''active_turn_ids_at_final_check'', ''interrupt_failed_turn_ids''] \<or> discovered \<noteq> terminal"

definition contained_bad :: "pydict \<Rightarrow> pyval set \<Rightarrow> pyval set \<Rightarrow> bool" where
  "contained_bad v discovered terminal \<longleftrightarrow> unaccounted v discovered terminal
     \<or> dget v ''ledger_resolution'' \<notin> {PStr ''turn-bound'', PStr ''verified-absent''}
     \<or> py_truth (dget v ''discovered_turn_ids'') \<noteq> (dget v ''ledger_resolution'' = PStr ''turn-bound'')
     \<or> dget v ''archived'' \<noteq> PBool True"

definition phase_errors :: "pydict \<Rightarrow> pyval set \<Rightarrow> pyval set \<Rightarrow> string list" where
  "phase_errors v discovered terminal =
     (let status = dget v ''status'';
          failed = (status = PStr ''failed-contained'' \<or> status = PStr ''failed-ambiguous'')
      in err_if (status = PStr ''prepared'' \<and> fresh_state_bad v 0) ''turn-dispatch-prepared-state-invalid''
         @ err_if (status = PStr ''dispatching'' \<and> fresh_state_bad v 1) ''turn-dispatch-dispatching-state-invalid''
         @ err_if (status = PStr ''acknowledged'' \<and> acknowledged_bad v) ''turn-dispatch-acknowledged-state-invalid''
         @ err_if (failed \<and> (\<not> py_eq (dget v ''wire_write_attempt_count'') (PInt 1) \<or> dget v ''ambiguity_reason'' = PNone))
             ''turn-dispatch-ambiguous-state-invalid''
         @ err_if (status = PStr ''failed-contained'' \<and> contained_bad v discovered terminal) ''turn-dispatch-contained-proof-invalid''
         @ err_if (status = PStr ''failed-ambiguous'' \<and> py_truth (dget v ''archived'')
              \<and> (unaccounted v discovered terminal \<or> dget v ''ledger_resolution'' = PStr ''pending'')) ''turn-dispatch-ambiguous-archive-invalid'')"

definition turn_set_errors ::
  "pydict \<Rightarrow> bool \<Rightarrow> pyval set \<Rightarrow> pyval set \<Rightarrow> pyval set \<Rightarrow> pyval set \<Rightarrow> pyval set \<Rightarrow> pyval set \<Rightarrow> string list" where
  "turn_set_errors v exact_found failed attempted discovered terminal active preexisting =
     err_if (\<not> failed \<subseteq> attempted) ''turn-dispatch-interrupt-failure-without-attempt''
     @ err_if (\<not> attempted \<subseteq> discovered) ''turn-dispatch-interrupt-attempt-without-discovery''
     @ err_if (\<not> terminal \<subseteq> discovered) ''turn-dispatch-terminal-status-without-discovery''
     @ err_if (dget v ''exact_response_turn_id'' \<noteq> PNone \<and> \<not> exact_found) ''turn-dispatch-exact-response-without-discovery''
     @ err_if (\<not> active \<subseteq> discovered \<or> active \<inter> terminal \<noteq> {}) ''turn-dispatch-active-turn-phase-invalid''
     @ err_if (preexisting \<inter> discovered \<noteq> {}) ''turn-dispatch-preexisting-turn-rediscovered''"

definition resolution_errors :: "pydict \<Rightarrow> bool \<Rightarrow> bool \<Rightarrow> pyval set \<Rightarrow> string list" where
  "resolution_errors v early absence_bad discovered =
     (let resolution = dget v ''ledger_resolution''; proof_hash = dget v ''absence_proof_sha256''; verified = py_truth (dget v ''absence_verified'');
          status = dget v ''status''; failed = (status = PStr ''failed-contained'' \<or> status = PStr ''failed-ambiguous'')
      in err_if early ''turn-dispatch-notification-sequence-before-cursor''
         @ err_if absence_bad ''turn-dispatch-absence-phase-invalid''
         @ err_if (resolution = PStr ''verified-absent'' \<and> (discovered \<noteq> {} \<or> dget v ''exact_response_turn_id'' \<noteq> PNone \<or> \<not> verified
              \<or> \<not> is_sha256 proof_hash)) ''turn-dispatch-verified-absent-resolution-invalid''
         @ err_if (resolution = PStr ''turn-bound'' \<and> (discovered = {} \<or> proof_hash \<noteq> PNone)) ''turn-dispatch-bound-resolution-invalid''
         @ err_if (proof_hash \<noteq> PNone \<and> (discovered \<noteq> {} \<or> \<not> verified)) ''turn-dispatch-absence-proof-phase-invalid''
         @ err_if (py_truth (dget v ''archived'') \<and> \<not> failed) ''turn-dispatch-archive-phase-invalid''
         @ err_if (\<not> failed \<and> (dget v ''notification_connection_epoch_sha256'' \<noteq> PNone
              \<or> any_truth v [''notification_sequences'', ''interrupt_attempted_turn_ids'', ''terminal_status_by_turn'',
                   ''active_turn_ids_at_final_check'', ''query_count''])) ''turn-dispatch-noncontainment-progress-invalid''
         @ err_if (dget v ''record_sha256'' \<noteq> PStr (turn_record_sha256 v)) ''turn-dispatch-record-sha256-invalid'')"

definition notification_floor :: "pydict \<Rightarrow> pyval" where
  "notification_floor v =
     (if py_eq (dget v ''notification_connection_epoch_sha256'') (dget v ''connection_epoch_sha256'')
      then dget v ''notification_cursor'' else PInt 0)"

definition absence_phase_bad :: "pydict \<Rightarrow> pyval set \<Rightarrow> pyval set \<Rightarrow> bool dispatch_res" where
  "absence_phase_bad v active discovered =
     (if \<not> py_truth (dget v ''absence_verified'') then Inr False
      else if active \<noteq> {} then Inr True
      else if discovered = {} then Inr False
      else below_one (dget v ''query_count''))"

definition turn_dispatch_errors :: "pydict \<Rightarrow> string list dispatch_res" where
  "turn_dispatch_errors v =
     rbind (turn_member (dget v ''wire_write_attempt_count'') [PInt 0, PInt 1]) (\<lambda>write_ok.
     rbind (turn_member (dget v ''status'') (map PStr TURN_DISPATCH_STATUSES)) (\<lambda>status_ok.
     rbind (case dget v ''terminal_status_by_turn'' of PDict d \<Rightarrow> bad_terminal d | _ \<Rightarrow> Inr True) (\<lambda>terminal_bad.
     rbind (turn_member (dget v ''ledger_resolution'') (map PStr TURN_DISPATCH_LEDGER_RESOLUTIONS)) (\<lambda>resolution_ok.
     rbind (turn_set (dget v ''interrupt_failed_turn_ids'')) (\<lambda>failed.
     rbind (turn_set (dget v ''interrupt_attempted_turn_ids'')) (\<lambda>attempted.
     rbind (turn_set (dget v ''discovered_turn_ids'')) (\<lambda>discovered.
     rbind (turn_set (dget v ''terminal_status_by_turn'')) (\<lambda>terminal.
     rbind (if dget v ''exact_response_turn_id'' = PNone then Inr True
        else turn_in (dget v ''exact_response_turn_id'') (dget v ''discovered_turn_ids'')) (\<lambda>exact_found.
     rbind (turn_set (dget v ''active_turn_ids_at_final_check'')) (\<lambda>active.
     rbind (turn_set (dget v ''preexisting_turn_ids'')) (\<lambda>preexisting.
     rbind (rbind (turn_elements (dget v ''notification_sequences'')) (\<lambda>xs. any_le xs (notification_floor v))) (\<lambda>early.
     rbind (absence_phase_bad v active discovered) (\<lambda>absence_bad.
     Inr (identity_errors v @ progress_field_errors v write_ok status_ok terminal_bad resolution_ok
        @ phase_errors v discovered terminal
        @ turn_set_errors v exact_found failed attempted discovered terminal active preexisting
        @ resolution_errors v early absence_bad discovered))))))))))))))"

definition validate_turn_dispatch_record :: "pyval \<Rightarrow> string list dispatch_res" where
  "validate_turn_dispatch_record value =
     (case value of
        PDict v \<Rightarrow>
          (let shape = turn_field_errors TURN_DISPATCH_FIELDS ''turn-dispatch-record'' v in
           if shape \<noteq> [] then Inr shape else turn_dispatch_errors v)
      | _ \<Rightarrow> Inr [''turn-dispatch-record-must-be-object''])"

definition seal_turn_dispatch_record :: "pydict \<Rightarrow> pydict dispatch_res" where
  "seal_turn_dispatch_record value =
     (let sealed = dset value ''record_sha256'' (PStr (turn_record_sha256 value)) in
      rbind (validate_turn_dispatch_record (PDict sealed)) (\<lambda>errors.
      rbind (ensure (errors = []) (NativeTurnDispatchError (py_join '';'' errors))) (\<lambda>_.
      Inr sealed)))"

section \<open>Reservation and evolution\<close>

record turn_dispatch_reservation =
  reserved_thread_id :: string
  reserved_intent_id :: string
  reserved_request_id :: int
  reserved_epoch_sha256 :: string
  reserved_cursor :: int
  reserved_preexisting :: "string list"
  reserved_ledger_id :: "string option"
  reserved_ledger_head :: "string option"
  reserved_intent_entry :: "string option"
  reserved_wire_sha256 :: string

definition optional_str :: "string option \<Rightarrow> pyval" where
  "optional_str x = (case x of None \<Rightarrow> PNone | Some s \<Rightarrow> PStr s)"

definition reservation_fields :: "turn_dispatch_reservation \<Rightarrow> pydict" where
  "reservation_fields r =
     [(''artifact_type'', PStr TURN_DISPATCH_ARTIFACT_TYPE), (''version'', PInt 1), (''thread_id'', PStr (reserved_thread_id r)),
      (''turn_intent_id'', PStr (reserved_intent_id r)), (''client_user_message_id'', PStr (reserved_intent_id r)),
      (''request_id'', PInt (reserved_request_id r)), (''connection_epoch_sha256'', PStr (reserved_epoch_sha256 r)),
      (''notification_cursor'', PInt (reserved_cursor r)), (''notification_connection_epoch_sha256'', PNone),
      (''preexisting_turn_ids'', PList (map PStr (sorted_set (reserved_preexisting r)))), (''ledger_id'', optional_str (reserved_ledger_id r)),
      (''ledger_head_entry_sha256'', optional_str (reserved_ledger_head r)),
      (''turn_intent_entry_sha256'', optional_str (reserved_intent_entry r)), (''wire_request_sha256'', PStr (reserved_wire_sha256 r)),
      (''wire_write_attempt_count'', PInt 0), (''status'', PStr ''prepared''), (''ambiguity_reason'', PNone), (''exact_response_turn_id'', PNone),
      (''notification_sequences'', PList []), (''discovered_turn_ids'', PList []), (''interrupt_attempted_turn_ids'', PList []),
      (''interrupt_failed_turn_ids'', PList []), (''terminal_status_by_turn'', PDict []), (''active_turn_ids_at_final_check'', PList []),
      (''query_count'', PInt 0), (''absence_verified'', PBool False), (''absence_proof_sha256'', PNone), (''archived'', PBool False),
      (''ledger_resolution'', PStr ''pending''), (''record_sha256'', PStr '''')]"

definition prepared_record :: "turn_dispatch_reservation \<Rightarrow> pydict dispatch_res" where
  "prepared_record r = seal_turn_dispatch_record (reservation_fields r)"

definition evolve_turn_dispatch_record :: "pydict \<Rightarrow> pydict \<Rightarrow> pydict dispatch_res" where
  "evolve_turn_dispatch_record record updates =
     (let changed_forbidden = sorted_set (filter (\<lambda>k. k \<in> set RESERVED_FIELDS) (dkeys updates)) in
      rbind (validate_turn_dispatch_record (PDict record)) (\<lambda>errors.
      rbind (ensure (errors = []) (NativeTurnDispatchError (py_join '';'' errors))) (\<lambda>_.
      rbind (ensure (changed_forbidden = [])
        (NativeTurnDispatchError (''turn-dispatch-reservation-mutation:'' @ py_join '','' changed_forbidden))) (\<lambda>_.
      seal_turn_dispatch_record (dmerge record updates)))))"

section \<open>The absence proof\<close>

definition proof_identity_errors :: "pydict \<Rightarrow> string list" where
  "proof_identity_errors v =
     err_if (dget v ''artifact_type'' \<noteq> PStr TURN_ABSENCE_PROOF_ARTIFACT_TYPE) ''turn-absence-proof-artifact-type-invalid''
     @ err_if (\<not> py_eq (dget v ''version'') (PInt 1)) ''turn-absence-proof-version-invalid''
     @ err_if (\<not> nonempty_str (dget v ''thread_id'')) ''turn-absence-proof-thread-id-invalid''
     @ err_if (\<not> turn_uuid (dget v ''turn_intent_id'')) ''turn-absence-proof-intent-id-invalid''
     @ err_if (\<not> turn_uuid (dget v ''ledger_id'')) ''turn-absence-proof-ledger-id-invalid''
     @ err_if (\<not> is_sha256 (dget v ''turn_intent_entry_sha256'')) ''turn-absence-proof-intent-entry-invalid''"

definition proof_dispatch_bad :: "pydict \<Rightarrow> pydict \<Rightarrow> bool" where
  "proof_dispatch_bad v dispatch \<longleftrightarrow>
     (\<exists>field\<in>set [''thread_id'', ''turn_intent_id'', ''ledger_id'', ''turn_intent_entry_sha256'']. \<not> py_eq (dget dispatch field) (dget v field))
     \<or> dget dispatch ''status'' \<noteq> PStr ''failed-ambiguous'' \<or> dget dispatch ''ambiguity_reason'' \<noteq> PStr ''rpc-error-response''
     \<or> dget dispatch ''ledger_resolution'' \<noteq> PStr ''pending'' \<or> dget dispatch ''absence_verified'' \<noteq> PBool False
     \<or> dget dispatch ''absence_proof_sha256'' \<noteq> PNone \<or> dget dispatch ''archived'' \<noteq> PBool False
     \<or> any_truth dispatch [''discovered_turn_ids'', ''active_turn_ids_at_final_check'', ''notification_sequences'']"

definition negative_response_errors :: "pyval \<Rightarrow> pyval \<Rightarrow> string list" where
  "negative_response_errors negative dispatch =
     (if \<not> is_dict negative \<or> set (dkeys (the_dict negative)) \<noteq> set TURN_NEGATIVE_RESPONSE_FIELDS
      then [''turn-absence-proof-negative-response-fields-invalid'']
      else let n = the_dict negative in
        err_if (\<not> is_int_ge 1 (dget n ''request_id'')) ''turn-absence-proof-negative-response-request-invalid''
        @ err_if (\<not> is_sha256 (dget n ''connection_epoch_sha256'')) ''turn-absence-proof-negative-response-epoch-invalid''
        @ err_if (\<not> is_sha256 (dget n ''wire_request_sha256'')) ''turn-absence-proof-negative-response-wire-invalid''
        @ err_if (\<not> is_int (dget n ''code'')) ''turn-absence-proof-negative-response-code-invalid''
        @ err_if (\<not> is_sha256 (dget n ''response_sha256'')) ''turn-absence-proof-negative-response-sha256-invalid''
        @ err_if (is_dict dispatch \<and> (\<exists>field\<in>set [''request_id'', ''connection_epoch_sha256'', ''wire_request_sha256''].
            \<not> py_eq (dget n field) (dget (the_dict dispatch) field))) ''turn-absence-proof-negative-response-binding-invalid'')"

definition validate_turn_absence_proof :: "pyval \<Rightarrow> string list dispatch_res" where
  "validate_turn_absence_proof value =
     (case value of
        PDict v \<Rightarrow>
          (let shape = turn_field_errors TURN_ABSENCE_PROOF_FIELDS ''turn-absence-proof'' v; dispatch = dget v ''dispatch_record'' in
           if shape \<noteq> [] then Inr shape
           else rbind (validate_turn_dispatch_record dispatch) (\<lambda>dispatch_errors.
             Inr (proof_identity_errors v
               @ (if dispatch_errors \<noteq> [] then [''turn-absence-proof-dispatch-invalid:'' @ py_join '';'' dispatch_errors]
                  else err_if (proof_dispatch_bad v (the_dict dispatch)) ''turn-absence-proof-dispatch-binding-invalid'')
               @ negative_response_errors (dget v ''negative_response'') dispatch
               @ err_if (dget v ''proof_sha256'' \<noteq> PStr (absence_proof_sha256 v)) ''turn-absence-proof-sha256-invalid'')))
      | _ \<Rightarrow> Inr [''turn-absence-proof-must-be-object''])"

definition seal_turn_absence_proof :: "pydict \<Rightarrow> pydict dispatch_res" where
  "seal_turn_absence_proof value =
     (let sealed = dset value ''proof_sha256'' (PStr (absence_proof_sha256 value)) in
      rbind (validate_turn_absence_proof (PDict sealed)) (\<lambda>errors.
      rbind (ensure (errors = []) (NativeTurnDispatchError (py_join '';'' errors))) (\<lambda>_.
      Inr sealed)))"

end
