(* ===== verification/TurnDispatchProperties.thy ===== *)
theory TurnDispatchProperties
  imports TurnDispatch
begin

text \<open>
  What an accepted dispatch record says: the identities that were reserved before the write are those of every
  later record of the request, and a record that claims containment accounts for every turn that was found.
\<close>

section \<open>Accepted records\<close>

definition string_list :: "pyval \<Rightarrow> string list \<Rightarrow> bool" where
  "string_list v ids \<longleftrightarrow> v = PList (map PStr ids)"

lemma sorted_strings_list: "sorted_unique_strings v \<Longrightarrow> \<exists>ids. string_list v ids"
proof -
  assume "sorted_unique_strings v"
  then obtain xs where xs: "v = PList xs" "list_all nonempty_str xs" by (auto simp: sorted_unique_strings_def split: pyval.splits)
  then have "xs = map PStr (map the_str xs)" by (induction xs arbitrary: v) (auto simp: nonempty_str_def is_str_iff)
  then show ?thesis using xs(1) unfolding string_list_def by blast
qed

lemma string_list_set: "string_list v ids \<Longrightarrow> turn_set v = Inr (PStr ` set ids)"
proof -
  assume v: "string_list v ids"
  have "\<not> list_ex unhashable (map PStr ids)" by (auto simp: list_ex_iff unhashable_def)
  then show ?thesis using v by (simp add: string_list_def turn_set_def turn_elements_def image_comp comp_def)
qed

lemma dict_set: "turn_set (PDict d) = Inr (PStr ` set (dkeys d))"
proof -
  have "\<not> list_ex unhashable (map PStr (dkeys d))" by (auto simp: list_ex_iff unhashable_def)
  then show ?thesis by (simp add: turn_set_def turn_elements_def image_comp comp_def)
qed

lemma field_errors_keys: "turn_field_errors names label d = [] \<longleftrightarrow> set (dkeys d) = set names"
  by (auto simp: turn_field_errors_def Let_def missing_fields_def unknown_fields_def filter_empty_conv)

text \<open>The parts of an accepted record.\<close>

lemma accepted_parts:
  assumes "validate_turn_dispatch_record (PDict v) = Inr []"
  obtains write_ok status_ok terminal_bad resolution_ok failed attempted discovered terminal exact_found active preexisting early absence_bad where
    "set (dkeys v) = set TURN_DISPATCH_FIELDS"
    "turn_member (dget v ''wire_write_attempt_count'') [PInt 0, PInt 1] = Inr write_ok"
    "turn_member (dget v ''status'') (map PStr TURN_DISPATCH_STATUSES) = Inr status_ok"
    "(case dget v ''terminal_status_by_turn'' of PDict d \<Rightarrow> bad_terminal d | _ \<Rightarrow> Inr True) = Inr terminal_bad"
    "turn_member (dget v ''ledger_resolution'') (map PStr TURN_DISPATCH_LEDGER_RESOLUTIONS) = Inr resolution_ok"
    "turn_set (dget v ''interrupt_failed_turn_ids'') = Inr failed"
    "turn_set (dget v ''interrupt_attempted_turn_ids'') = Inr attempted"
    "turn_set (dget v ''discovered_turn_ids'') = Inr discovered"
    "turn_set (dget v ''terminal_status_by_turn'') = Inr terminal"
    "turn_set (dget v ''active_turn_ids_at_final_check'') = Inr active"
    "turn_set (dget v ''preexisting_turn_ids'') = Inr preexisting"
    "absence_phase_bad v active discovered = Inr absence_bad"
    "identity_errors v = []" "progress_field_errors v write_ok status_ok terminal_bad resolution_ok = []"
    "phase_errors v discovered terminal = []"
    "turn_set_errors v exact_found failed attempted discovered terminal active preexisting = []"
    "resolution_errors v early absence_bad discovered = []"
proof -
  have "turn_field_errors TURN_DISPATCH_FIELDS ''turn-dispatch-record'' v = []" and errors: "turn_dispatch_errors v = Inr []"
    using assms by (auto simp: validate_turn_dispatch_record_def Let_def split: if_splits)
  then have keys: "set (dkeys v) = set TURN_DISPATCH_FIELDS" by (simp add: field_errors_keys)
  from errors show thesis
    unfolding turn_dispatch_errors_def rbind_eq_Inr sum.inject append_is_Nil_conv using keys that by blast
qed

lemma bad_terminal_False:
  "bad_terminal d = Inr False \<Longrightarrow> (k, x) \<in> set d \<Longrightarrow> k \<noteq> [] \<and> (x = PStr ''completed'' \<or> x = PStr ''failed'' \<or> x = PStr ''interrupted'')"
proof (induction d)
  case (Cons p d)
  obtain k' x' where p: "p = (k', x')" by (cases p)
  have "k' \<noteq> []" "turn_member x' [PStr ''completed'', PStr ''failed'', PStr ''interrupted''] = Inr True" "bad_terminal d = Inr False"
    using Cons.prems(1) unfolding p by (auto simp: rbind_eq_Inr split: if_splits)
  then show ?case using Cons.IH Cons.prems(2) unfolding p by (auto simp: turn_member_def split: if_splits)
qed simp

section \<open>The reservation\<close>

lemma dget_dmerge_absent: "k \<notin> set (dkeys e) \<Longrightarrow> dget (dmerge d e) k = dget d k"
  by (induction e arbitrary: d) auto

lemma turn_record_sha256_dset: "turn_record_sha256 (dset v ''record_sha256'' x) = turn_record_sha256 v"
  by (simp add: turn_record_sha256_def)

lemma seal_Inr:
  "seal_turn_dispatch_record v = Inr r \<longleftrightarrow>
     r = dset v ''record_sha256'' (PStr (turn_record_sha256 v)) \<and> validate_turn_dispatch_record (PDict r) = Inr []"
  by (auto simp: seal_turn_dispatch_record_def Let_def rbind_eq_Inr)

lemma evolve_Inr:
  "evolve_turn_dispatch_record r updates = Inr s \<longleftrightarrow>
     validate_turn_dispatch_record (PDict r) = Inr [] \<and> set (dkeys updates) \<inter> set RESERVED_FIELDS = {}
     \<and> seal_turn_dispatch_record (dmerge r updates) = Inr s"
  unfolding evolve_turn_dispatch_record_def Let_def rbind_eq_Inr ensure_eq_Inr sorted_set_Nil_iff filter_empty_conv by auto

inductive evolves :: "pydict \<Rightarrow> pydict \<Rightarrow> bool" where
  start: "evolves r r"
| further: "evolves r s \<Longrightarrow> evolve_turn_dispatch_record s updates = Inr t \<Longrightarrow> evolves r t"

lemma evolve_reserved:
  assumes "evolve_turn_dispatch_record r updates = Inr s" and "k \<in> set RESERVED_FIELDS" and "k \<noteq> ''record_sha256''"
  shows "dget s k = dget r k"
proof -
  have "k \<notin> set (dkeys updates)" using assms(1,2) unfolding evolve_Inr by blast
  then show ?thesis using assms(1,3) unfolding evolve_Inr seal_Inr by (simp add: dget_dmerge_absent)
qed

lemma write_count: "validate_turn_dispatch_record (PDict v) = Inr [] \<Longrightarrow>
    py_eq (dget v ''wire_write_attempt_count'') (PInt 0) \<or> py_eq (dget v ''wire_write_attempt_count'') (PInt 1)"
  by (erule accepted_parts) (auto simp: turn_member_def progress_field_errors_def Let_def split: if_splits)

lemma accepted_digest: "validate_turn_dispatch_record (PDict v) = Inr [] \<Longrightarrow> dget v ''record_sha256'' = PStr (turn_record_sha256 v)"
  by (erule accepted_parts) (simp add: resolution_errors_def Let_def)


section \<open>Containment\<close>

text \<open>
  C20: A contained request is accounted for.  A valid record that says the failed request was contained was
  written once, names why it was ambiguous, is archived after a verified absence of running turns, has no turn
  active and no interrupt failed, and every turn that was found since the reservation has ended as completed,
  failed or interrupted; when no turn was found the ledger holds the digest of an absence proof instead.
\<close>

theorem contained_request_accounted:
  assumes "validate_turn_dispatch_record (PDict v) = Inr []" and "dget v ''status'' = PStr ''failed-contained''"
  shows "\<exists>ids old ends. dget v ''discovered_turn_ids'' = PList (map PStr ids) \<and> dget v ''preexisting_turn_ids'' = PList (map PStr old)
     \<and> set ids \<inter> set old = {} \<and> dget v ''terminal_status_by_turn'' = PDict ends \<and> set (dkeys ends) = set ids
     \<and> (\<forall>(k, x)\<in>set ends. x = PStr ''completed'' \<or> x = PStr ''failed'' \<or> x = PStr ''interrupted'')
     \<and> dget v ''active_turn_ids_at_final_check'' = PList [] \<and> dget v ''interrupt_failed_turn_ids'' = PList []
     \<and> dget v ''archived'' = PBool True \<and> dget v ''absence_verified'' = PBool True
     \<and> py_eq (dget v ''wire_write_attempt_count'') (PInt 1) \<and> dget v ''ambiguity_reason'' \<noteq> PNone
     \<and> (if ids = [] then dget v ''ledger_resolution'' = PStr ''verified-absent'' \<and> is_sha256 (dget v ''absence_proof_sha256'')
        else dget v ''ledger_resolution'' = PStr ''turn-bound'' \<and> is_int_ge 1 (dget v ''query_count''))"
proof (rule accepted_parts [OF assms(1)])
  fix write_ok status_ok terminal_bad resolution_ok failed attempted discovered terminal exact_found active preexisting early absence_bad
  assume parts: "(case dget v ''terminal_status_by_turn'' of PDict d \<Rightarrow> bad_terminal d | _ \<Rightarrow> Inr True) = Inr terminal_bad"
      "turn_set (dget v ''discovered_turn_ids'') = Inr discovered" "turn_set (dget v ''terminal_status_by_turn'') = Inr terminal"
      "turn_set (dget v ''preexisting_turn_ids'') = Inr preexisting" "turn_set (dget v ''active_turn_ids_at_final_check'') = Inr active"
      "absence_phase_bad v active discovered = Inr absence_bad"
    and errors: "identity_errors v = []" "progress_field_errors v write_ok status_ok terminal_bad resolution_ok = []"
      "phase_errors v discovered terminal = []"
      "turn_set_errors v exact_found failed attempted discovered terminal active preexisting = []"
      "resolution_errors v early absence_bad discovered = []"
  have contained: "\<not> contained_bad v discovered terminal" "py_eq (dget v ''wire_write_attempt_count'') (PInt 1)" "dget v ''ambiguity_reason'' \<noteq> PNone"
    using errors(3) assms(2) by (simp_all add: phase_errors_def Let_def)
  have strings: "sorted_unique_strings (dget v ''preexisting_turn_ids'')" "sorted_unique_strings (dget v ''discovered_turn_ids'')"
      "sorted_unique_strings (dget v ''interrupt_failed_turn_ids'')" "sorted_unique_strings (dget v ''active_turn_ids_at_final_check'')"
    using errors(1) by (simp_all add: identity_errors_def Let_def)
  obtain old ids broken running where lists: "string_list (dget v ''preexisting_turn_ids'') old" "string_list (dget v ''discovered_turn_ids'') ids"
      "string_list (dget v ''interrupt_failed_turn_ids'') broken" "string_list (dget v ''active_turn_ids_at_final_check'') running"
    using strings [THEN sorted_strings_list] by blast
  have progress: "\<not> terminal_bad" "is_int_ge 0 (dget v ''query_count'')" "is_bool (dget v ''absence_verified'')"
    using errors(2) by (simp_all add: progress_field_errors_def Let_def)
  obtain ends where ends: "dget v ''terminal_status_by_turn'' = PDict ends" "bad_terminal ends = Inr False"
    using parts(1) progress(1) by (auto split: pyval.splits)
  have sets: "discovered = PStr ` set ids" "terminal = PStr ` set (dkeys ends)" "preexisting = PStr ` set old" "active = PStr ` set running"
    using parts(2-5) lists [THEN string_list_set] dict_set by (simp_all add: ends(1))
  have facts: "py_truth (dget v ''absence_verified'')" "broken = []" "running = []" "discovered = terminal" "dget v ''archived'' = PBool True"
      "dget v ''ledger_resolution'' = PStr ''turn-bound'' \<or> dget v ''ledger_resolution'' = PStr ''verified-absent''"
      "ids \<noteq> [] \<longleftrightarrow> dget v ''ledger_resolution'' = PStr ''turn-bound''"
    using contained(1) lists by (auto simp: contained_bad_def unaccounted_def any_truth_def string_list_def)
  have keys: "set (dkeys ends) = set ids" using facts(4) sets by (auto simp: inj_image_eq_iff inj_def)
  have disjoint: "set ids \<inter> set old = {}" using errors(4) sets by (auto simp: turn_set_errors_def)
  have verified: "dget v ''absence_verified'' = PBool True" using progress(3) facts(1) by (auto simp: is_bool_iff)
  have resolved: "dget v ''ledger_resolution'' = PStr ''verified-absent'' \<longrightarrow> is_sha256 (dget v ''absence_proof_sha256'')"
    and phase: "\<not> absence_bad"
    using errors(5) by (auto simp: resolution_errors_def Let_def)
  have "is_int_ge 1 (dget v ''query_count'')" if "ids \<noteq> []"
  proof -
    obtain n where n: "dget v ''query_count'' = PInt n" "0 \<le> n" using progress(2) by (auto simp: is_int_ge_iff)
    have "below_one (PInt n) = Inr False" using parts(6) phase that facts(1,3) sets n by (simp add: absence_phase_bad_def)
    then show ?thesis using n by (auto simp: below_one_def number_of_def)
  qed
  then have "if ids = [] then dget v ''ledger_resolution'' = PStr ''verified-absent'' \<and> is_sha256 (dget v ''absence_proof_sha256'')
        else dget v ''ledger_resolution'' = PStr ''turn-bound'' \<and> is_int_ge 1 (dget v ''query_count'')"
    using facts(6,7) resolved by presburger
  moreover have "\<forall>(k, x)\<in>set ends. x = PStr ''completed'' \<or> x = PStr ''failed'' \<or> x = PStr ''interrupted''"
    using bad_terminal_False [OF ends(2)] by blast
  moreover have "dget v ''active_turn_ids_at_final_check'' = PList []" "dget v ''interrupt_failed_turn_ids'' = PList []"
    using lists(3,4) facts(2,3) by (simp_all add: string_list_def)
  ultimately show ?thesis
    using lists(1,2) [unfolded string_list_def] ends(1) keys disjoint contained(2,3) facts(5) verified by blast
qed

section \<open>The prepared record\<close>

definition reservation_ok :: "turn_dispatch_reservation \<Rightarrow> bool" where
  "reservation_ok r \<longleftrightarrow>
     reserved_thread_id r \<noteq> [] \<and> turn_uuid (PStr (reserved_intent_id r)) \<and> 1 \<le> reserved_request_id r \<and> hex64 (reserved_epoch_sha256 r)
     \<and> 0 \<le> reserved_cursor r \<and> [] \<notin> set (reserved_preexisting r) \<and> hex64 (reserved_wire_sha256 r)
     \<and> (reserved_ledger_id r = None \<longleftrightarrow> reserved_ledger_head r = None) \<and> (reserved_ledger_id r = None \<longleftrightarrow> reserved_intent_entry r = None)
     \<and> (\<forall>s. reserved_ledger_id r = Some s \<longrightarrow> turn_uuid (PStr s))
     \<and> (\<forall>s. reserved_ledger_head r = Some s \<or> reserved_intent_entry r = Some s \<longrightarrow> hex64 s)"

lemma sorted_set_strings: "sorted_unique_strings (PList (map PStr (sorted_set xs))) \<longleftrightarrow> [] \<notin> set xs"
proof -
  have the: "map the_str (map PStr ys) = ys" for ys by (simp add: comp_def)
  have again: "sorted_set (sorted_set xs) = sorted_set xs"
    by (simp add: sorted_set_def [of "sorted_set xs"] sorted_sort_id distinct_remdups_id)
  have "list_all nonempty_str (map PStr ys) \<longleftrightarrow> [] \<notin> set ys" for ys by (induction ys) (auto simp: nonempty_str_def)
  then show ?thesis by (simp add: sorted_unique_strings_def the again del: map_map)
qed

lemma empty_lists: "sorted_unique_strings (PList [])" "sorted_unique_ints (PList [])" "turn_set (PList []) = Inr {}" "turn_set (PDict []) = Inr {}"
  by (simp_all add: sorted_unique_strings_def sorted_unique_ints_def sorted_set_def turn_set_def turn_elements_def)

lemma prepared_fields:
  "dget (reservation_fields r) ''artifact_type'' = PStr TURN_DISPATCH_ARTIFACT_TYPE"
  "dget (reservation_fields r) ''version'' = PInt 1"
  "dget (reservation_fields r) ''thread_id'' = PStr (reserved_thread_id r)"
  "dget (reservation_fields r) ''turn_intent_id'' = PStr (reserved_intent_id r)"
  "dget (reservation_fields r) ''client_user_message_id'' = PStr (reserved_intent_id r)"
  "dget (reservation_fields r) ''request_id'' = PInt (reserved_request_id r)"
  "dget (reservation_fields r) ''connection_epoch_sha256'' = PStr (reserved_epoch_sha256 r)"
  "dget (reservation_fields r) ''notification_cursor'' = PInt (reserved_cursor r)"
  "dget (reservation_fields r) ''notification_connection_epoch_sha256'' = PNone"
  "dget (reservation_fields r) ''preexisting_turn_ids'' = PList (map PStr (sorted_set (reserved_preexisting r)))"
  "dget (reservation_fields r) ''ledger_id'' = optional_str (reserved_ledger_id r)"
  "dget (reservation_fields r) ''ledger_head_entry_sha256'' = optional_str (reserved_ledger_head r)"
  "dget (reservation_fields r) ''turn_intent_entry_sha256'' = optional_str (reserved_intent_entry r)"
  "dget (reservation_fields r) ''wire_request_sha256'' = PStr (reserved_wire_sha256 r)"
  "dget (reservation_fields r) ''wire_write_attempt_count'' = PInt 0"
  "dget (reservation_fields r) ''status'' = PStr ''prepared''"
  "dget (reservation_fields r) ''ambiguity_reason'' = PNone"
  "dget (reservation_fields r) ''exact_response_turn_id'' = PNone"
  "dget (reservation_fields r) ''notification_sequences'' = PList []"
  "dget (reservation_fields r) ''discovered_turn_ids'' = PList []"
  "dget (reservation_fields r) ''interrupt_attempted_turn_ids'' = PList []"
  "dget (reservation_fields r) ''interrupt_failed_turn_ids'' = PList []"
  "dget (reservation_fields r) ''terminal_status_by_turn'' = PDict []"
  "dget (reservation_fields r) ''active_turn_ids_at_final_check'' = PList []"
  "dget (reservation_fields r) ''query_count'' = PInt 0"
  "dget (reservation_fields r) ''absence_verified'' = PBool False"
  "dget (reservation_fields r) ''absence_proof_sha256'' = PNone"
  "dget (reservation_fields r) ''archived'' = PBool False"
  "dget (reservation_fields r) ''ledger_resolution'' = PStr ''pending''"
  by (simp_all add: reservation_fields_def)

text \<open>
  C21: A reservation can be prepared exactly when its fields have their declared shape: a named thread, a UUID as
  intent, a positive request id, digests of the connection and of the request, named earlier turns, and a ledger
  link that is complete or absent.
\<close>

theorem prepared_record_exact:
  "(\<exists>v. prepared_record r = Inr v) \<longleftrightarrow> reservation_ok r"
proof -
  define v where "v = dset (reservation_fields r) ''record_sha256'' (PStr (turn_record_sha256 (reservation_fields r)))"
  have digest: "dget v ''record_sha256'' = PStr (turn_record_sha256 v)" by (simp add: v_def turn_record_sha256_dset)
  have shape: "turn_field_errors TURN_DISPATCH_FIELDS ''turn-dispatch-record'' v = []"
  proof -
    have keys: "dkeys (reservation_fields r) = TURN_DISPATCH_FIELDS" by (simp add: reservation_fields_def TURN_DISPATCH_FIELDS_def)
    have "''record_sha256'' \<in> set TURN_DISPATCH_FIELDS" by (simp add: TURN_DISPATCH_FIELDS_def)
    then have "dkeys v = TURN_DISPATCH_FIELDS" unfolding v_def using keys by (simp add: dkeys_dset_in)
    then show ?thesis by (simp add: field_errors_keys)
  qed
  have get: "dget v k = dget (reservation_fields r) k" if "k \<noteq> ''record_sha256''" for k using that by (simp add: v_def)
  note gets = get prepared_fields
  have preexisting: "turn_set (dget v ''preexisting_turn_ids'') = Inr (PStr ` set (reserved_preexisting r))"
    by (simp add: gets string_list_set [unfolded string_list_def])
  have phases: "phase_errors v {} {} = []"
    by (simp add: phase_errors_def Let_def gets fresh_state_bad_def empty_progress_def any_truth_def)
  have sets: "turn_set_errors v True {} {} {} {} {} (PStr ` set (reserved_preexisting r)) = []"
    by (simp add: turn_set_errors_def gets)
  have resolution: "resolution_errors v False False {} = []"
    by (simp add: resolution_errors_def Let_def digest) (simp add: gets any_truth_def)
  have progress: "progress_field_errors v True True False True = []"
    by (simp add: progress_field_errors_def Let_def gets)
  have "identity_errors v = [] \<longleftrightarrow> reservation_ok r"
    by (auto simp: identity_errors_def Let_def gets sorted_set_strings empty_lists nonempty_str_def reservation_ok_def optional_str_def
        split: option.splits)
  moreover have "turn_dispatch_errors v = Inr (identity_errors v)"
    unfolding turn_dispatch_errors_def preexisting
    by (simp add: gets turn_member_def unhashable_def TURN_DISPATCH_STATUSES_def TURN_DISPATCH_LEDGER_RESOLUTIONS_def empty_lists turn_elements_def
        absence_phase_bad_def phases sets resolution progress)
  ultimately have "validate_turn_dispatch_record (PDict v) = Inr [] \<longleftrightarrow> reservation_ok r"
    by (simp add: validate_turn_dispatch_record_def shape)
  then show ?thesis unfolding prepared_record_def seal_Inr v_def [symmetric] by simp
qed

section \<open>Examples\<close>

definition demo_reservation :: turn_dispatch_reservation where
  "demo_reservation =
     \<lparr>reserved_thread_id = ''thread'', reserved_intent_id = ''00000000-0000-4000-8000-000000000000'', reserved_request_id = 1,
      reserved_epoch_sha256 = text_sha256 ''epoch'', reserved_cursor = 0, reserved_preexisting = [''old''], reserved_ledger_id = None,
      reserved_ledger_head = None, reserved_intent_entry = None, reserved_wire_sha256 = text_sha256 ''wire''\<rparr>"

lemma demo_intent: "turn_uuid (PStr ''00000000-0000-4000-8000-000000000000'')"
  by code_simp

lemma demo_reservation_ok: "reservation_ok demo_reservation"
  using demo_intent by (simp add: reservation_ok_def demo_reservation_def)

definition demo_containment :: pydict where
  "demo_containment =
     [(''wire_write_attempt_count'', PInt 1), (''status'', PStr ''failed-contained''), (''ambiguity_reason'', PStr ''timeout''), (''discovered_turn_ids'', PList [PStr ''t'']), (''terminal_status_by_turn'', PDict [(''t'', PStr ''completed'')]), (''query_count'', PInt 1), (''absence_verified'', PBool True), (''archived'', PBool True), (''ledger_resolution'', PStr ''turn-bound'')]"

lemma demo_contained_valid:
  assumes v: "v = dset (dmerge (dset (reservation_fields demo_reservation) ''record_sha256'' h) demo_containment) ''record_sha256'' h'"
    and digest: "h' = PStr (turn_record_sha256 v)"
  shows "validate_turn_dispatch_record (PDict v) = Inr []"
proof -
  have gets:
    "dget v ''artifact_type'' = PStr TURN_DISPATCH_ARTIFACT_TYPE"
    "dget v ''version'' = PInt 1"
    "dget v ''thread_id'' = PStr (reserved_thread_id demo_reservation)"
    "dget v ''turn_intent_id'' = PStr (reserved_intent_id demo_reservation)"
    "dget v ''client_user_message_id'' = PStr (reserved_intent_id demo_reservation)"
    "dget v ''request_id'' = PInt (reserved_request_id demo_reservation)"
    "dget v ''connection_epoch_sha256'' = PStr (reserved_epoch_sha256 demo_reservation)"
    "dget v ''notification_cursor'' = PInt (reserved_cursor demo_reservation)"
    "dget v ''notification_connection_epoch_sha256'' = PNone"
    "dget v ''preexisting_turn_ids'' = PList (map PStr (sorted_set (reserved_preexisting demo_reservation)))"
    "dget v ''ledger_id'' = optional_str (reserved_ledger_id demo_reservation)"
    "dget v ''ledger_head_entry_sha256'' = optional_str (reserved_ledger_head demo_reservation)"
    "dget v ''turn_intent_entry_sha256'' = optional_str (reserved_intent_entry demo_reservation)"
    "dget v ''wire_request_sha256'' = PStr (reserved_wire_sha256 demo_reservation)"
    "dget v ''wire_write_attempt_count'' = PInt 1"
    "dget v ''status'' = PStr ''failed-contained''"
    "dget v ''ambiguity_reason'' = PStr ''timeout''"
    "dget v ''exact_response_turn_id'' = PNone"
    "dget v ''notification_sequences'' = PList []"
    "dget v ''discovered_turn_ids'' = PList [PStr ''t'']"
    "dget v ''interrupt_attempted_turn_ids'' = PList []"
    "dget v ''interrupt_failed_turn_ids'' = PList []"
    "dget v ''terminal_status_by_turn'' = PDict [(''t'', PStr ''completed'')]"
    "dget v ''active_turn_ids_at_final_check'' = PList []"
    "dget v ''query_count'' = PInt 1"
    "dget v ''absence_verified'' = PBool True"
    "dget v ''absence_proof_sha256'' = PNone"
    "dget v ''archived'' = PBool True"
    "dget v ''ledger_resolution'' = PStr ''turn-bound''"
    unfolding v demo_containment_def by (simp_all add: prepared_fields)
  have keys: "set (dkeys v) = set TURN_DISPATCH_FIELDS"
    unfolding v demo_containment_def by (simp add: reservation_fields_def TURN_DISPATCH_FIELDS_def insert_commute)
  have record_hash: "dget v ''record_sha256'' = PStr (turn_record_sha256 v)" unfolding digest [symmetric] by (subst v) simp
  have lists: "sorted_unique_strings (PList [PStr ''t''])" "sorted_unique_strings (PList (map PStr (sorted_set [''old''])))"
    by (simp_all add: sorted_unique_strings_def sorted_set_def nonempty_str_def)
  have sets: "turn_set (PList [PStr ''t'']) = Inr {PStr ''t''}" "turn_set (PDict [(''t'', PStr ''completed'')]) = Inr {PStr ''t''}"
      "turn_set (PList (map PStr (sorted_set [''old'']))) = Inr {PStr ''old''}"
    by (simp_all add: turn_set_def turn_elements_def unhashable_def sorted_set_def)
  have "identity_errors v = []"
    using demo_intent by (simp add: identity_errors_def Let_def gets empty_lists lists nonempty_str_def demo_reservation_def optional_str_def)
  moreover have "progress_field_errors v True True False True = []"
    by (simp add: progress_field_errors_def Let_def gets nonempty_str_def)
  moreover have "phase_errors v {PStr ''t''} {PStr ''t''} = []"
    by (simp add: phase_errors_def Let_def gets contained_bad_def unaccounted_def any_truth_def)
  moreover have "turn_set_errors v True {} {} {PStr ''t''} {PStr ''t''} {} {PStr ''old''} = []"
    by (simp add: turn_set_errors_def gets)
  moreover have "resolution_errors v False False {PStr ''t''} = []"
    by (simp add: resolution_errors_def Let_def record_hash) (simp add: gets)
  ultimately have "turn_dispatch_errors v = Inr []"
    unfolding turn_dispatch_errors_def
    by (simp add: gets turn_member_def unhashable_def TURN_DISPATCH_STATUSES_def TURN_DISPATCH_LEDGER_RESOLUTIONS_def empty_lists sets turn_elements_def
        absence_phase_bad_def below_one_def number_of_def demo_reservation_def)
  then show ?thesis using keys by (simp add: validate_turn_dispatch_record_def field_errors_keys)
qed

lemma demo_evolved:
  "\<exists>r t. prepared_record demo_reservation = Inr r \<and> evolve_turn_dispatch_record r demo_containment = Inr t
     \<and> dget t ''status'' = PStr ''failed-contained''"
proof -
  obtain r where r: "prepared_record demo_reservation = Inr r" using prepared_record_exact demo_reservation_ok by blast
  then have sealed: "r = dset (reservation_fields demo_reservation) ''record_sha256'' (PStr (turn_record_sha256 (reservation_fields demo_reservation)))"
      "validate_turn_dispatch_record (PDict r) = Inr []"
    unfolding prepared_record_def seal_Inr by blast+
  define t where "t = dset (dmerge r demo_containment) ''record_sha256'' (PStr (turn_record_sha256 (dmerge r demo_containment)))"
  have "validate_turn_dispatch_record (PDict t) = Inr []"
    by (rule demo_contained_valid [of t]) (simp_all add: t_def sealed(1) turn_record_sha256_dset)
  then have "seal_turn_dispatch_record (dmerge r demo_containment) = Inr t" by (simp add: seal_Inr t_def)
  moreover have "set (dkeys demo_containment) \<inter> set RESERVED_FIELDS = {}" by (simp add: demo_containment_def RESERVED_FIELDS_def)
  ultimately have "evolve_turn_dispatch_record r demo_containment = Inr t" unfolding evolve_Inr using sealed(2) by blast
  moreover have "dget t ''status'' = PStr ''failed-contained''" by (simp add: t_def demo_containment_def)
  ultimately show ?thesis using r by blast
qed


theorem contained_request_accounted_witness:
  "\<exists>v. validate_turn_dispatch_record (PDict v) = Inr [] \<and> dget v ''status'' = PStr ''failed-contained'' \<and> dget v ''archived'' = PBool True"
proof -
  obtain r t where run: "evolve_turn_dispatch_record r demo_containment = Inr t" "dget t ''status'' = PStr ''failed-contained''"
    using demo_evolved by blast
  then have "validate_turn_dispatch_record (PDict t) = Inr []" unfolding evolve_Inr seal_Inr by blast
  then show ?thesis using contained_request_accounted [of t] run(2) by blast
qed

section \<open>What evolution does not keep\<close>

definition demo_write :: pydict where
  "demo_write = [(''wire_write_attempt_count'', PInt 1), (''status'', PStr ''dispatching'')]"

definition demo_unwrite :: pydict where
  "demo_unwrite = [(''wire_write_attempt_count'', PInt 0), (''status'', PStr ''prepared'')]"

lemma demo_written_valid:
  assumes v: "v = dset (dmerge (dset (reservation_fields demo_reservation) ''record_sha256'' h) demo_write) ''record_sha256'' h'"
    and digest: "h' = PStr (turn_record_sha256 v)"
  shows "validate_turn_dispatch_record (PDict v) = Inr []"
proof -
  have gets:
    "dget v ''artifact_type'' = PStr TURN_DISPATCH_ARTIFACT_TYPE"
    "dget v ''version'' = PInt 1"
    "dget v ''thread_id'' = PStr (reserved_thread_id demo_reservation)"
    "dget v ''turn_intent_id'' = PStr (reserved_intent_id demo_reservation)"
    "dget v ''client_user_message_id'' = PStr (reserved_intent_id demo_reservation)"
    "dget v ''request_id'' = PInt (reserved_request_id demo_reservation)"
    "dget v ''connection_epoch_sha256'' = PStr (reserved_epoch_sha256 demo_reservation)"
    "dget v ''notification_cursor'' = PInt (reserved_cursor demo_reservation)"
    "dget v ''notification_connection_epoch_sha256'' = PNone"
    "dget v ''preexisting_turn_ids'' = PList (map PStr (sorted_set (reserved_preexisting demo_reservation)))"
    "dget v ''ledger_id'' = optional_str (reserved_ledger_id demo_reservation)"
    "dget v ''ledger_head_entry_sha256'' = optional_str (reserved_ledger_head demo_reservation)"
    "dget v ''turn_intent_entry_sha256'' = optional_str (reserved_intent_entry demo_reservation)"
    "dget v ''wire_request_sha256'' = PStr (reserved_wire_sha256 demo_reservation)"
    "dget v ''wire_write_attempt_count'' = PInt 1"
    "dget v ''status'' = PStr ''dispatching''"
    "dget v ''ambiguity_reason'' = PNone"
    "dget v ''exact_response_turn_id'' = PNone"
    "dget v ''notification_sequences'' = PList []"
    "dget v ''discovered_turn_ids'' = PList []"
    "dget v ''interrupt_attempted_turn_ids'' = PList []"
    "dget v ''interrupt_failed_turn_ids'' = PList []"
    "dget v ''terminal_status_by_turn'' = PDict []"
    "dget v ''active_turn_ids_at_final_check'' = PList []"
    "dget v ''query_count'' = PInt 0"
    "dget v ''absence_verified'' = PBool False"
    "dget v ''absence_proof_sha256'' = PNone"
    "dget v ''archived'' = PBool False"
    "dget v ''ledger_resolution'' = PStr ''pending''"
    unfolding v demo_write_def by (simp_all add: prepared_fields)
  have keys: "set (dkeys v) = set TURN_DISPATCH_FIELDS"
    unfolding v demo_write_def by (simp add: reservation_fields_def TURN_DISPATCH_FIELDS_def insert_commute)
  have record_hash: "dget v ''record_sha256'' = PStr (turn_record_sha256 v)" unfolding digest [symmetric] by (subst v) simp
  have old: "sorted_unique_strings (PList (map PStr (sorted_set [''old''])))" "turn_set (PList (map PStr (sorted_set [''old'']))) = Inr {PStr ''old''}"
    by (simp_all add: sorted_unique_strings_def sorted_set_def nonempty_str_def turn_set_def turn_elements_def unhashable_def)
  have "identity_errors v = []"
    using demo_intent by (simp add: identity_errors_def Let_def gets empty_lists old nonempty_str_def demo_reservation_def optional_str_def)
  moreover have "progress_field_errors v True True False True = []"
    by (simp add: progress_field_errors_def Let_def gets)
  moreover have "phase_errors v {} {} = []"
    by (simp add: phase_errors_def Let_def gets fresh_state_bad_def empty_progress_def any_truth_def)
  moreover have "turn_set_errors v True {} {} {} {} {} {PStr ''old''} = []"
    by (simp add: turn_set_errors_def gets)
  moreover have "resolution_errors v False False {} = []"
    by (simp add: resolution_errors_def Let_def record_hash) (simp add: gets any_truth_def)
  ultimately have "turn_dispatch_errors v = Inr []"
    unfolding turn_dispatch_errors_def
    by (simp add: gets turn_member_def unhashable_def TURN_DISPATCH_STATUSES_def TURN_DISPATCH_LEDGER_RESOLUTIONS_def empty_lists old turn_elements_def
        absence_phase_bad_def demo_reservation_def)
  then show ?thesis using keys by (simp add: validate_turn_dispatch_record_def field_errors_keys)
qed

lemma dset_twice: "k \<noteq> k' \<Longrightarrow> k \<in> set (dkeys d) \<Longrightarrow> k' \<in> set (dkeys d) \<Longrightarrow> dset (dset d k v) k' w = dset (dset d k' w) k v"
  by (induction d) auto

lemma dset_over: "dset (dset d k v) k w = dset d k w"
  by (induction d) auto

lemma dset_self: "k \<in> set (dkeys d) \<Longrightarrow> dset d k (dget d k) = d"
  by (induction d) auto

text \<open>
  The write counter is not one of the reserved fields: a record that has counted its write can be evolved back
  into the prepared record of its reservation.
\<close>

theorem evolution_can_unwrite:
  "\<exists>r t. prepared_record demo_reservation = Inr r \<and> evolve_turn_dispatch_record r demo_write = Inr t
     \<and> dget t ''wire_write_attempt_count'' = PInt 1 \<and> evolve_turn_dispatch_record t demo_unwrite = Inr r"
proof -
  obtain r where r: "prepared_record demo_reservation = Inr r" using prepared_record_exact demo_reservation_ok by blast
  then have sealed: "r = dset (reservation_fields demo_reservation) ''record_sha256'' (PStr (turn_record_sha256 (reservation_fields demo_reservation)))"
      "validate_turn_dispatch_record (PDict r) = Inr []"
    unfolding prepared_record_def seal_Inr by blast+
  define t where "t = dset (dmerge r demo_write) ''record_sha256'' (PStr (turn_record_sha256 (dmerge r demo_write)))"
  have t: "validate_turn_dispatch_record (PDict t) = Inr []"
    by (rule demo_written_valid [of t]) (simp_all add: t_def sealed(1) turn_record_sha256_dset)
  then have "seal_turn_dispatch_record (dmerge r demo_write) = Inr t" by (simp add: seal_Inr t_def)
  moreover have "set (dkeys demo_write) \<inter> set RESERVED_FIELDS = {}" "set (dkeys demo_unwrite) \<inter> set RESERVED_FIELDS = {}"
    by (simp_all add: demo_write_def demo_unwrite_def RESERVED_FIELDS_def)
  ultimately have written: "evolve_turn_dispatch_record r demo_write = Inr t" unfolding evolve_Inr using sealed(2) by blast
  have keys: "''record_sha256'' \<in> set (dkeys r)" "''wire_write_attempt_count'' \<in> set (dkeys r)" "''status'' \<in> set (dkeys r)"
    unfolding sealed(1) by (simp_all add: reservation_fields_def)
  have here: "dget r ''wire_write_attempt_count'' = PInt 0" "dget r ''status'' = PStr ''prepared''"
    unfolding sealed(1) by (simp_all add: prepared_fields)
  let ?seal = "\<lambda>d. dset d ''record_sha256'' (PStr (turn_record_sha256 d))"
  have "dmerge t demo_unwrite = dset r ''record_sha256'' (PStr (turn_record_sha256 (dmerge r demo_write)))"
    using keys here dset_self [of "''wire_write_attempt_count''" r] dset_self [of "''status''" r]
    by (simp add: t_def demo_write_def demo_unwrite_def dset_over dset_twice [of "''record_sha256''"] dset_twice [of "''status''" "''wire_write_attempt_count''"])
  then have "?seal (dmerge t demo_unwrite) = r"
    unfolding sealed(1) by (simp add: dset_over turn_record_sha256_dset)
  then have "seal_turn_dispatch_record (dmerge t demo_unwrite) = Inr r" using sealed(2) by (simp add: seal_Inr)
  then have "evolve_turn_dispatch_record t demo_unwrite = Inr r"
    unfolding evolve_Inr using t \<open>set (dkeys demo_unwrite) \<inter> set RESERVED_FIELDS = {}\<close> by blast
  moreover have "dget t ''wire_write_attempt_count'' = PInt 1" by (simp add: t_def demo_write_def)
  ultimately show ?thesis using r written by blast
qed

end
