(* ===== verification/Instants.thy ===== *)
theory Instants
  imports PyText
begin

text \<open>
  Instants that are written with \<^verbatim>\<open>isoformat(timespec="milliseconds")\<close> are read back by
  \<^verbatim>\<open>fromisoformat\<close>, rounded down to the millisecond, in all years that \<^verbatim>\<open>datetime\<close> has.
\<close>

section \<open>The calendar\<close>

lemma month_day_spec:
  assumes "0 \<le> r" and "r < 365 \<or> (r = 365 \<and> is_leap y)" and "month_day 11 y 1 r = (m, d)"
  shows "1 \<le> m \<and> m \<le> 12 \<and> 1 \<le> d \<and> d \<le> days_in_month y m \<and> days_before_month y m + d = r + 1"
proof -
  have unroll: "month_day 11 y 1 r = month_day (Suc (Suc (Suc (Suc (Suc (Suc (Suc (Suc (Suc (Suc (Suc 0))))))))))) y 1 r" by (simp add: eval_nat_numeral)
  have before: "days_before_month y 1 = 0" "days_before_month y 2 = 31"
      "days_before_month y 3 = (if is_leap y then 60 else 59)" "days_before_month y 4 = (if is_leap y then 91 else 90)"
      "days_before_month y 5 = (if is_leap y then 121 else 120)" "days_before_month y 6 = (if is_leap y then 152 else 151)"
      "days_before_month y 7 = (if is_leap y then 182 else 181)" "days_before_month y 8 = (if is_leap y then 213 else 212)"
      "days_before_month y 9 = (if is_leap y then 244 else 243)" "days_before_month y 10 = (if is_leap y then 274 else 273)"
      "days_before_month y 11 = (if is_leap y then 305 else 304)" "days_before_month y 12 = (if is_leap y then 335 else 334)"
    by (simp_all add: days_before_month_def days_in_month_def upto.simps)
  show ?thesis
    using assms unfolding unroll
    by (cases "is_leap y") (auto simp: days_in_month_def before split: if_splits)
qed

lemma cycles:
  fixes Y a b c d :: int
  assumes "Y = 400 * a + 100 * b + 4 * c + d" and "0 \<le> b" "b \<le> 3" "0 \<le> c" "c \<le> 24" "0 \<le> d" "d \<le> 3"
  shows "Y div 4 = 100 * a + 25 * b + c" and "Y div 100 = 4 * a + b" and "Y div 400 = a"
    and "is_leap (Y + 1) \<longleftrightarrow> d = 3 \<and> (c \<noteq> 24 \<or> b = 3)"
proof -
  have divides: "x div k = q" if "x = k * q + r" "0 \<le> r" "r < k" for x k q r :: int
    using that by (simp add: int_div_pos_eq)
  have dvd: "k dvd x \<longleftrightarrow> r = k" if "x = k * q + r" "1 \<le> r" "r \<le> k" for x k q r :: int
  proof -
    have "k dvd x \<longleftrightarrow> k dvd r" unfolding that(1) by (rule dvd_add_right_iff) simp
    also have "\<dots> \<longleftrightarrow> r = k" using that(2,3) zdvd_imp_le [of k r] by auto
    finally show ?thesis .
  qed
  show "Y div 4 = 100 * a + 25 * b + c" by (rule divides [of _ _ _ d]) (use assms in simp_all)
  show "Y div 100 = 4 * a + b" by (rule divides [of _ _ _ "4 * c + d"]) (use assms in simp_all)
  show "Y div 400 = a" by (rule divides [of _ _ _ "100 * b + 4 * c + d"]) (use assms in simp_all)
  have four: "4 dvd Y + 1 \<longleftrightarrow> d + 1 = 4" by (rule dvd [of _ _ "100 * a + 25 * b + c"]) (use assms in simp_all)
  have hundred: "100 dvd Y + 1 \<longleftrightarrow> 4 * c + d + 1 = 100" by (rule dvd [of _ _ "4 * a + b"]) (use assms in simp_all)
  have cycle: "400 dvd Y + 1 \<longleftrightarrow> 100 * b + 4 * c + d + 1 = 400" by (rule dvd [of _ _ a]) (use assms in simp_all)
  show "is_leap (Y + 1) \<longleftrightarrow> d = 3 \<and> (c \<noteq> 24 \<or> b = 3)"
    unfolding is_leap_def four hundred cycle using assms(2-7) by auto
qed

lemma years:
  fixes a b c :: int
  assumes "9996 \<le> 400 * a + 100 * b + 4 * c" and "0 \<le> b" "b \<le> 3" "0 \<le> c" "c \<le> 24"
  shows "2424 \<le> 97 * a + 24 * b + c"
proof (cases "25 \<le> a")
  case False
  then have "99 \<le> 25 * b + c" "25 * b + c \<le> 99" "24 \<le> a" using assms by linarith+
  then have "b = 3" "c = 24" using assms by linarith+
  then show ?thesis using \<open>24 \<le> a\<close> by simp
qed (use assms in linarith)

lemma civil_of_day_spec:
  assumes "-719162 \<le> day" and "day < 2932897" and "civil_of_day day = (y, m, d)"
  shows "valid_date y m d \<and> epoch_day y m d = day"
proof -
  define n where "n = day + 719162"
  define a b c e r1 where parts: "a = n div 146097" "b = n mod 146097 div 36524" "c = n mod 146097 mod 36524 div 1461"
    "e = n mod 146097 mod 36524 mod 1461 div 365" "r1 = n mod 146097 mod 36524 mod 1461 mod 365"
  have n: "0 \<le> n" "n < 3652059" using assms(1,2) by (simp_all add: n_def)
  have total: "n = 146097 * a + 36524 * b + 1461 * c + 365 * e + r1" unfolding parts by presburger
  have range: "0 \<le> a" "0 \<le> b" "b \<le> 4" "0 \<le> c" "c \<le> 24" "0 \<le> e" "e \<le> 4" "0 \<le> r1" "r1 < 365"
    unfolding parts using n(1) by (simp_all add: pos_imp_zdiv_nonneg_iff)
  define r4 r100 where rest: "r4 = n mod 146097 mod 36524 mod 1461" "r100 = n mod 146097 mod 36524"
  have split4: "r4 = 365 * e + r1" "r4 < 1461" "0 \<le> r4" and split100: "r100 = 1461 * c + r4" "r100 < 36524"
    and split400: "36524 * b + r100 < 146097"
    unfolding parts rest by simp_all
  have top: "b = 4 \<Longrightarrow> c = 0 \<and> e = 0 \<and> r1 = 0" "e = 4 \<Longrightarrow> r1 = 0 \<and> c \<noteq> 24"
    using split4 split100 split400 range by linarith+
  define Y where "Y = 400 * a + 100 * b + 4 * c + e"
  have civil: "civil_of_day day = (if e = 4 \<or> b = 4 then (Y, 12, 31) else (case month_day 11 (Y + 1) 1 r1 of (m, d) \<Rightarrow> (Y + 1, m, d)))"
    by (simp add: civil_of_day_def Let_def n_def [symmetric] parts [symmetric] Y_def)
  show ?thesis
  proof (cases "e = 4 \<or> b = 4")
    case True
    then have date: "y = Y" "m = 12" "d = 31" using assms(3) civil by simp_all
    obtain b' c' where last: "Y - 1 = 400 * a + 100 * b' + 4 * c' + 3" "0 \<le> b'" "b' \<le> 3" "0 \<le> c'" "c' \<le> 24"
        "c' \<noteq> 24 \<or> b' = 3" "n = 146097 * a + 36524 * b' + 1461 * c' + 365 * 3 + 365"
    proof (cases "b = 4")
      case True
      then show ?thesis using top(1) total that [of 3 24] by (simp add: Y_def)
    next
      case False
      then have "e = 4" using \<open>e = 4 \<or> b = 4\<close> by simp
      then show ?thesis using False top(2) total range that [of b c] by (simp add: Y_def)
    qed
    note cyc = cycles [OF last(1-5), simplified]
    have leap: "is_leap Y" using cyc(4) last(6) by auto
    have before: "days_before_month Y 12 = 335"
      using leap by (simp add: days_before_month_def days_in_month_def upto.simps)
    have "days_before_year Y = 365 * (Y - 1) + (100 * a + 25 * b' + c') - (4 * a + b') + a" by (simp only: days_before_year_def cyc(1-3))
    then have "days_before_year Y + 366 = n + 1" using last(1,7) by presburger
    moreover have "1 \<le> Y" "Y \<le> 9999" using last(1-5,7) n range(1) years [OF _ last(2-5), of a] by linarith+
    ultimately show ?thesis by (simp add: date valid_date_def epoch_day_def before days_in_month_def n_def)
  next
    case False
    then have small: "b \<le> 3" "e \<le> 3" using range by simp_all
    obtain m' d' where md: "month_day 11 (Y + 1) 1 r1 = (m', d')" by (cases "month_day 11 (Y + 1) 1 r1") auto
    then have date: "y = Y + 1" "m = m'" "d = d'" using assms(3) civil False by simp_all
    note cyc = cycles [OF Y_def range(2) small(1) range(4,5,6) small(2)]
    have "r1 < 365 \<or> (r1 = 365 \<and> is_leap (Y + 1))" using range by simp
    from month_day_spec [OF range(8) this md]
    have month: "1 \<le> m'" "m' \<le> 12" "1 \<le> d'" "d' \<le> days_in_month (Y + 1) m'" "days_before_month (Y + 1) m' + d' = r1 + 1"
      by simp_all
    have "days_before_year (Y + 1) + r1 = n" unfolding days_before_year_def using cyc(1-3) total by (simp add: Y_def)
    moreover have "0 \<le> Y" "Y \<le> 9998" using range small total n years [OF _ range(2) small(1) range(4,5), of a] unfolding Y_def by linarith+
    ultimately show ?thesis using month by (simp add: date valid_date_def epoch_day_def n_def)
  qed
qed

section \<open>The text\<close>

lemma int_of_pad: "0 < k \<Longrightarrow> n < 10 ^ k \<Longrightarrow> int_of_digits (pad_digits k n) = Some (int n)"
proof -
  assume "0 < k" "n < 10 ^ k"
  then have "pad_digits k n \<noteq> []" using length_pad_digits [of k n] by force
  moreover have "list_all is_digit (pad_digits k n)" using pad_digits_digits by (auto simp: list_all_iff)
  ultimately show ?thesis using \<open>n < 10 ^ k\<close> by (simp add: int_of_digits_def nat_of_digits_pad)
qed

lemma digits_stop: "list_all is_digit s \<Longrightarrow> takeWhile is_digit (s @ ''Z'') = s"
  by (induction s) (auto simp: is_digit_def)

lemma short_lists:
  "length xs = 2 \<Longrightarrow> \<exists>a b. xs = [a, b]" "length xs = 3 \<Longrightarrow> \<exists>a b c. xs = [a, b, c]" "length xs = 4 \<Longrightarrow> \<exists>a b c d. xs = [a, b, c, d]"
  by (auto simp: eval_nat_numeral length_Suc_conv)

lemma pad_shapes: "\<exists>a b. pad_digits 2 n = [a, b]" "\<exists>a b c. pad_digits 3 n = [a, b, c]" "\<exists>a b c d. pad_digits 4 n = [a, b, c, d]"
  by (rule short_lists, rule length_pad_digits)+

definition in_calendar :: "int \<Rightarrow> bool" where
  "in_calendar t \<longleftrightarrow> -719162 \<le> t div 86400000000 \<and> t div 86400000000 < 2932897"

text \<open>
  What \<^verbatim>\<open>isoformat\<close> writes with milliseconds, \<^verbatim>\<open>fromisoformat\<close> reads as the same instant rounded
  down to the millisecond.
\<close>

theorem instant_roundtrip:
  assumes "in_calendar t"
  shows "parse_instant (format_instant t) = Some (1000 * (t div 1000))"
proof -
  define ms day r where parts: "ms = t div 1000" "day = ms div 86400000" "r = ms mod 86400000"
  obtain y m d where civil: "civil_of_day day = (y, m, d)" by (cases "civil_of_day day") auto
  have day: "day = t div 86400000000" by (simp add: parts zdiv_zmult2_eq [symmetric])
  have date: "valid_date y m d" "epoch_day y m d = day"
    using civil_of_day_spec [OF _ _ civil] assms by (simp_all add: in_calendar_def day)
  have sizes: "nat y < 10 ^ 4" "nat m < 10 ^ 2" "nat d < 10 ^ 2" "0 \<le> y" "0 \<le> m" "0 \<le> d"
    using date(1) by (auto simp: valid_date_def days_in_month_def split: if_splits)
  define hh mi ss f where time: "hh = r div 3600000" "mi = r div 60000 mod 60" "ss = r div 1000 mod 60" "f = r mod 1000"
  have r: "0 \<le> r" "r < 86400000" by (simp_all add: parts)
  have clock: "0 \<le> hh" "hh < 24" "0 \<le> mi" "mi < 60" "0 \<le> ss" "ss < 60" "0 \<le> f" "f < 1000"
    using r by (simp_all add: time pos_imp_zdiv_nonneg_iff)
  have sum: "r = 3600000 * hh + 60000 * mi + 1000 * ss + f"
  proof -
    have "r div 3600000 = r div 60000 div 60" "r div 60000 = r div 1000 div 60" by (simp_all add: zdiv_zmult2_eq [symmetric])
    then have "r div 60000 = 60 * hh + mi" "r div 1000 = 60 * (r div 60000) + ss" "r = 1000 * (r div 1000) + f"
      unfolding time by simp_all
    then show ?thesis by simp
  qed
  let ?s = "format_instant t"
  have written: "?s = pad_digits 4 (nat y) @ ''-'' @ pad_digits 2 (nat m) @ ''-'' @ pad_digits 2 (nat d) @ ''T'' @ pad_digits 2 (nat hh)
      @ '':'' @ pad_digits 2 (nat mi) @ '':'' @ pad_digits 2 (nat ss) @ ''.'' @ pad_digits 3 (nat f) @ ''Z''"
    unfolding format_instant_def Let_def parts [symmetric] civil time by simp
  obtain y1 y2 y3 y4 m1 m2 d1 d2 h1 h2 i1 i2 s1 s2 f1 f2 f3 where digits:
    "pad_digits 4 (nat y) = [y1, y2, y3, y4]" "pad_digits 2 (nat m) = [m1, m2]" "pad_digits 2 (nat d) = [d1, d2]"
    "pad_digits 2 (nat hh) = [h1, h2]" "pad_digits 2 (nat mi) = [i1, i2]" "pad_digits 2 (nat ss) = [s1, s2]" "pad_digits 3 (nat f) = [f1, f2, f3]"
    using pad_shapes by meson
  have reads: "int_of_digits [y1, y2, y3, y4] = Some y" "int_of_digits [m1, m2] = Some m" "int_of_digits [d1, d2] = Some d"
      "int_of_digits [h1, h2] = Some hh" "int_of_digits [i1, i2] = Some mi" "int_of_digits [s1, s2] = Some ss"
      "int (nat_of_digits [f1, f2, f3]) = f" "is_digit f1" "is_digit f2" "is_digit f3"
    using int_of_pad [of 4 "nat y"] int_of_pad [of 2 "nat m"] int_of_pad [of 2 "nat d"] int_of_pad [of 2 "nat hh"] int_of_pad [of 2 "nat mi"]
      int_of_pad [of 2 "nat ss"] nat_of_digits_pad [of "nat f" 3] pad_digits_digits [of _ 3 "nat f"] digits sizes clock by auto
  have "split_fraction (''.'' @ [f1, f2, f3] @ ''Z'') = Some (1000 * f, ''Z'')"
    using reads digits_stop [of "[f1, f2, f3]"] by (simp add: split_fraction_def Let_def)
  moreover have "parse_offset ''Z'' = Some 0" by (simp add: parse_offset_def)
  ultimately have "parse_instant ?s = Some (1000000 * (86400 * epoch_day y m d + 3600 * hh + 60 * mi + ss) + 1000 * f)"
    unfolding parse_instant_def written digits using reads date(1) clock by simp
  also have "\<dots> = Some (1000 * (86400000 * day + r))" unfolding date(2) sum by simp
  also have "86400000 * day + r = ms" by (simp add: parts)
  finally show ?thesis by (simp add: parts)
qed

end
