(* ===== verification/Spec2Isabelle.thy ===== *)
theory Spec2Isabelle
  imports PoolLeaseProperties PoolScheduler UsageContracts PoolSchedulability ControlTurnProperties ActivationLedgerProperties CanonJsonUnique RecoveryPolicyProperties StopScopeProperties ProtectedChangeProperties ReplayStoreProperties EpicConvergenceProperties RetryEvidenceProperties TurnDispatchProperties Instants
begin

text \<open>
  A verification library for the bounded native-supervision core of CWO.
\<close>

end
